(* ===== verification/Prelude.thy ===== *)
theory Prelude
  imports Main "HOL-Library.AList" "HOL-Library.Sublist" "HOL-Library.Multiset"
begin

text \<open>
  Shared vocabulary of the development: Go slices (nil kept apart from the empty slice,
  because \<open>reflect.DeepEqual\<close> tells them apart), Go maps, the zero value of a missing map
  entry, and the generic lemmas the component theories rest on.

  Go strings are byte sequences and so are Isabelle's: \<^typ>\<open>string\<close> is a list of 8-bit
  characters, and a non-ASCII character is the list of its UTF-8 bytes.
\<close>

named_theorems go_defs \<open>unfolding rules of the Go standard-library functions\<close>
named_theorems slice_simps \<open>rewriting rules for slices built by append loops\<close>
named_theorems store_simps \<open>what an operation of the state manager does to each field\<close>

section \<open>Slices\<close>

text \<open>A Go slice value: \<^term>\<open>None\<close> is the nil slice, \<^term>\<open>Some []\<close> the empty non-nil slice.\<close>

type_synonym 'a slice = "'a list option"

definition elems :: "'a slice \<Rightarrow> 'a list" where
  "elems s = (case s of None \<Rightarrow> [] | Some xs \<Rightarrow> xs)"

text \<open>\<open>append(s, x)\<close> and \<open>append(s, t...)\<close>: appending nothing to nil leaves nil.\<close>

definition append1 :: "'a slice \<Rightarrow> 'a \<Rightarrow> 'a slice" where
  "append1 s x = Some (elems s @ [x])"

definition append_slice :: "'a slice \<Rightarrow> 'a slice \<Rightarrow> 'a slice" where
  "append_slice s t = (if elems t = [] then s else Some (elems s @ elems t))"

text \<open>The slice an append loop leaves that started from nil and appended \<open>xs\<close>.\<close>

definition nil_if_empty :: "'a list \<Rightarrow> 'a slice" where
  "nil_if_empty xs = (if xs = [] then None else Some xs)"

lemma elems_simps [simp]: "elems None = []" "elems (Some xs) = xs"
  by (simp_all add: elems_def)

lemma elems_append1 [simp, slice_simps]: "elems (append1 s x) = elems s @ [x]"
  by (simp add: append1_def)

lemma elems_append_slice [simp, slice_simps]: "elems (append_slice s t) = elems s @ elems t"
  by (simp add: append_slice_def)

lemma elems_nil_if_empty [simp, slice_simps]: "elems (nil_if_empty xs) = xs"
  by (simp add: nil_if_empty_def)

lemma nil_if_empty_Nil [simp]: "nil_if_empty [] = None"
  by (simp add: nil_if_empty_def)

lemma nil_if_empty_None [simp]: "nil_if_empty xs = None \<longleftrightarrow> xs = []"
  by (simp add: nil_if_empty_def)

lemma append1_nil_if_empty [slice_simps]:
  "append1 (nil_if_empty xs) x = nil_if_empty (xs @ [x])"
  by (simp add: append1_def nil_if_empty_def)

lemma append_slice_nil_if_empty [slice_simps]:
  "append_slice (nil_if_empty xs) (nil_if_empty ys) = nil_if_empty (xs @ ys)"
  by (simp add: append_slice_def nil_if_empty_def)

section \<open>Maps\<close>

text \<open>
  Maps that are only looked up are HOL maps; \<open>idx m k\<close> is Go's \<open>m[k]\<close> on a
  \<open>map[string]string\<close>, the empty string for a missing key. A nil map reads like an empty
  one. Maps that the code measures or ranges over (the entries of one object, the data of one
  Secret) are association lists with distinct keys, read by \<^const>\<open>map_of\<close>.
\<close>

type_synonym strmap = "string \<rightharpoonup> string"
type_synonym 'v gomap = "(string \<times> 'v) list"

definition idx :: "strmap \<Rightarrow> string \<Rightarrow> string" where
  "idx m k = (case m k of None \<Rightarrow> [] | Some v \<Rightarrow> v)"

definition map_or_empty :: "('k \<rightharpoonup> 'v) option \<Rightarrow> ('k \<rightharpoonup> 'v)" where
  "map_or_empty m = (case m of None \<Rightarrow> Map.empty | Some a \<Rightarrow> a)"

definition keys :: "'v gomap \<Rightarrow> string list" where
  "keys es = map fst es"

definition wf_gomap :: "'v gomap \<Rightarrow> bool" where
  "wf_gomap es \<longleftrightarrow> distinct (keys es)"

lemma idx_None [simp]: "m k = None \<Longrightarrow> idx m k = []"
  by (simp add: idx_def)

lemma idx_Some [simp]: "m k = Some v \<Longrightarrow> idx m k = v"
  by (simp add: idx_def)

lemma map_or_empty_simps [simp]:
  "map_or_empty None = Map.empty" "map_or_empty (Some m) = m"
  by (simp_all add: map_or_empty_def)

lemma set_keys: "set (keys es) = dom (map_of es)"
  by (simp add: keys_def dom_map_of_conv_image_fst)

lemma map_of_in_keys: "k \<in> set (keys es) \<longleftrightarrow> (\<exists>v. map_of es k = Some v)"
  by (simp add: set_keys dom_def)

lemma keys_simps [simp]: "keys [] = []" "keys ((k, v) # es) = k # keys es"
  by (simp_all add: keys_def)

lemma wf_gomap_update: "wf_gomap es \<Longrightarrow> wf_gomap (AList.update k v es)"
  by (simp add: wf_gomap_def keys_def distinct_update)

lemma wf_gomap_Nil [simp]: "wf_gomap []"
  by (simp add: wf_gomap_def keys_def)

text \<open>A loop that keeps overwriting a key leaves the last writer's value.\<close>

lemma find_snoc:
  "find P (xs @ [x]) = (case find P xs of Some y \<Rightarrow> Some y | None \<Rightarrow> if P x then Some x else None)"
  by (induction xs) auto

lemma map_of_fold_update:
  "map_of (fold (\<lambda>x. AList.update (f x) (g x)) xs es) k =
     (case find (\<lambda>x. f x = k) (rev xs) of Some x \<Rightarrow> Some (g x) | None \<Rightarrow> map_of es k)"
  by (induction xs arbitrary: es) (auto simp: find_snoc update_conv split: option.splits)

lemma wf_fold_update: "wf_gomap es \<Longrightarrow> wf_gomap (fold (\<lambda>x. AList.update (f x) (g x)) xs es)"
  by (induction xs arbitrary: es) (simp_all add: wf_gomap_update)

lemma update_fresh: "k \<notin> set (keys es) \<Longrightarrow> AList.update k v es = es @ [(k, v)]"
  by (induction es) (auto simp: keys_def)

lemma keys_append [simp]: "keys (es @ fs) = keys es @ keys fs"
  by (simp add: keys_def)

lemma fold_update_distinct:
  "distinct (map f xs) \<Longrightarrow> set (keys es) \<inter> f ` set xs = {} \<Longrightarrow>
     fold (\<lambda>x. AList.update (f x) (g x)) xs es = es @ map (\<lambda>x. (f x, g x)) xs"
  by (induction xs arbitrary: es) (auto simp: update_fresh)

section \<open>Range order\<close>

text \<open>
  Go's \<open>range\<close> over a map visits every key once in an unspecified order. A loop over a map
  takes the visiting order as an argument; \<open>range_order\<close> says what the language promises
  about it.
\<close>

definition range_order :: "('k list \<Rightarrow> 'k list) \<Rightarrow> bool" where
  "range_order ord \<longleftrightarrow> (\<forall>ks. mset (ord ks) = mset ks)"

lemma range_order_set: "range_order ord \<Longrightarrow> set (ord ks) = set ks"
  unfolding range_order_def by (metis set_mset_mset)

lemma range_order_distinct: "range_order ord \<Longrightarrow> distinct (ord ks) = distinct ks"
  unfolding range_order_def by (metis mset_eq_imp_distinct_iff)

lemma range_order_id: "range_order id"
  by (simp add: range_order_def)

lemma range_order_rev: "range_order rev"
  by (simp add: range_order_def)

end
