(* ===== verification/GoStrings.thy ===== *)
theory GoStrings
  imports Prelude
begin

text \<open>
  The functions of Go's \<open>strings\<close> and \<open>strconv\<close> packages that the program calls:
  \<open>TrimSpace\<close>, \<open>SplitSeq\<close>, \<open>ReplaceAll\<close> (one byte for another), \<open>ToLower\<close>,
  \<open>Itoa\<close> and \<open>Atoi\<close>, with the laws the components use.
\<close>

section \<open>Trimming\<close>

text \<open>
  The UTF-8 encodings of the code points for which \<open>unicode.IsSpace\<close> holds: the ASCII
  spaces, U+0085, U+00A0, U+1680, U+2000 to U+200A, U+2028, U+2029, U+202F, U+205F, U+3000.
\<close>

definition space_seqs :: "string list" where
  "space_seqs =
     [[CHR 0x09], [CHR 0x0A], [CHR 0x0B], [CHR 0x0C], [CHR 0x0D], [CHR 0x20],
      [CHR 0xC2, CHR 0x85], [CHR 0xC2, CHR 0xA0], [CHR 0xE1, CHR 0x9A, CHR 0x80],
      [CHR 0xE2, CHR 0x80, CHR 0x80], [CHR 0xE2, CHR 0x80, CHR 0x81],
      [CHR 0xE2, CHR 0x80, CHR 0x82], [CHR 0xE2, CHR 0x80, CHR 0x83],
      [CHR 0xE2, CHR 0x80, CHR 0x84], [CHR 0xE2, CHR 0x80, CHR 0x85],
      [CHR 0xE2, CHR 0x80, CHR 0x86], [CHR 0xE2, CHR 0x80, CHR 0x87],
      [CHR 0xE2, CHR 0x80, CHR 0x88], [CHR 0xE2, CHR 0x80, CHR 0x89],
      [CHR 0xE2, CHR 0x80, CHR 0x8A], [CHR 0xE2, CHR 0x80, CHR 0xA8],
      [CHR 0xE2, CHR 0x80, CHR 0xA9], [CHR 0xE2, CHR 0x80, CHR 0xAF],
      [CHR 0xE2, CHR 0x81, CHR 0x9F], [CHR 0xE3, CHR 0x80, CHR 0x80]]"

fun strip_prefix :: "'a list \<Rightarrow> 'a list \<Rightarrow> 'a list option" where
  "strip_prefix [] s = Some s"
| "strip_prefix (p # ps) [] = None"
| "strip_prefix (p # ps) (c # cs) = (if p = c then strip_prefix ps cs else None)"

fun strip_any :: "'a list list \<Rightarrow> 'a list \<Rightarrow> 'a list option" where
  "strip_any [] s = None"
| "strip_any (p # ps) s =
     (case strip_prefix p s of Some r \<Rightarrow> Some r | None \<Rightarrow> strip_any ps s)"

text \<open>Removes leading members of \<open>seqs\<close> as long as there is one (and it is not empty).\<close>

function trim_with :: "'a list list \<Rightarrow> 'a list \<Rightarrow> 'a list" where
  "trim_with seqs s =
     (case strip_any seqs s of
        None \<Rightarrow> s
      | Some r \<Rightarrow> if length r < length s then trim_with seqs r else s)"
  by pat_completeness auto
termination
  by (relation "measure (\<lambda>(seqs, s). length s)") auto

declare trim_with.simps [simp del]

definition TrimSpace :: "string \<Rightarrow> string" where
  "TrimSpace s =
     rev (trim_with (map rev space_seqs) (rev (trim_with space_seqs s)))"

lemma strip_prefix_Some: "strip_prefix p s = Some r \<longleftrightarrow> s = p @ r"
  by (induction p s rule: strip_prefix.induct) auto

lemma strip_any_Some: "strip_any ps s = Some r \<Longrightarrow> \<exists>p \<in> set ps. s = p @ r"
  by (induction ps) (auto split: option.splits simp: strip_prefix_Some)

lemma strip_any_None: "strip_any ps s = None \<longleftrightarrow> (\<forall>p \<in> set ps. \<not> prefix p s)"
proof (induction ps)
  case (Cons p ps)
  have "strip_prefix p s = None \<longleftrightarrow> \<not> prefix p s"
    by (metis not_None_eq prefix_def strip_prefix_Some)
  then show ?case using Cons by (auto split: option.splits)
qed simp

lemma trim_with_suffix: "suffix (trim_with seqs s) s"
proof (induction seqs s rule: trim_with.induct)
  case (1 seqs s)
  show ?case
  proof (cases "strip_any seqs s")
    case None
    then show ?thesis by (simp add: trim_with.simps [of seqs s])
  next
    case (Some r)
    then have "suffix r s" using strip_any_Some [OF Some] by (auto simp: suffix_def)
    with 1 Some show ?thesis
      by (auto simp: trim_with.simps [of seqs s] dest: suffix_order.order_trans)
  qed
qed

lemma trim_with_stuck:
  assumes "[] \<notin> set seqs" and "p \<in> set seqs"
  shows "\<not> prefix p (trim_with seqs s)"
  using assms
proof (induction seqs s rule: trim_with.induct)
  case (1 seqs s)
  show ?case
  proof (cases "strip_any seqs s")
    case None
    then have "trim_with seqs s = s" by (simp add: trim_with.simps [of seqs s])
    with None 1(3) show ?thesis by (simp add: strip_any_None)
  next
    case (Some r)
    then obtain q where "q \<in> set seqs" "s = q @ r" using strip_any_Some by blast
    with 1(2) have "length r < length s" by (cases q) auto
    with 1 Some show ?thesis by (simp add: trim_with.simps [of seqs s])
  qed
qed

lemma trim_with_id: "(\<forall>p \<in> set seqs. \<not> prefix p s) \<Longrightarrow> trim_with seqs s = s"
  by (simp add: trim_with.simps strip_any_None [symmetric])

lemma space_seqs_not_Nil [simp]: "[] \<notin> set space_seqs" "[] \<notin> set (map rev space_seqs)"
  by (simp_all add: space_seqs_def)

lemma TrimSpace_prefix_free: "p \<in> set space_seqs \<Longrightarrow> \<not> prefix p (TrimSpace s)"
proof
  let ?t = "trim_with space_seqs s"
  assume p: "p \<in> set space_seqs" and "prefix p (TrimSpace s)"
  moreover have "prefix (TrimSpace s) ?t"
    using trim_with_suffix [of "map rev space_seqs" "rev ?t"]
    by (simp add: TrimSpace_def suffix_to_prefix)
  ultimately have "prefix p ?t" using prefix_order.order_trans by blast
  with p show False using trim_with_stuck [OF space_seqs_not_Nil(1)] by blast
qed

lemma TrimSpace_suffix_free: "p \<in> set space_seqs \<Longrightarrow> \<not> suffix p (TrimSpace s)"
  using trim_with_stuck [OF space_seqs_not_Nil(2), of "rev p"]
  by (auto simp: TrimSpace_def suffix_to_prefix)

lemma TrimSpace_idem: "TrimSpace (TrimSpace s) = TrimSpace s"
proof -
  have "trim_with space_seqs (TrimSpace s) = TrimSpace s"
    by (rule trim_with_id) (simp add: TrimSpace_prefix_free)
  moreover have "trim_with (map rev space_seqs) (rev (TrimSpace s)) = rev (TrimSpace s)"
    by (rule trim_with_id) (auto simp: suffix_to_prefix [symmetric] TrimSpace_suffix_free)
  ultimately show ?thesis by (simp add: TrimSpace_def [of "TrimSpace s"])
qed

lemma TrimSpace_Nil [simp]: "TrimSpace [] = []"
proof -
  have "trim_with seqs [] = ([] :: string)" for seqs
    using trim_with_suffix [of seqs "[]"] by simp
  then show ?thesis by (simp add: TrimSpace_def)
qed

lemma trim_with_set: "set (trim_with seqs s) \<subseteq> set s"
  by (rule set_mono_suffix) (rule trim_with_suffix)

lemma TrimSpace_set: "set (TrimSpace s) \<subseteq> set s"
proof -
  have "set (TrimSpace s) \<subseteq> set (rev (trim_with space_seqs s))"
    unfolding TrimSpace_def set_rev [of "trim_with (map rev space_seqs) _"] by (rule trim_with_set)
  also have "\<dots> \<subseteq> set s" unfolding set_rev by (rule trim_with_set)
  finally show ?thesis .
qed

section \<open>Splitting and replacing\<close>

text \<open>\<open>strings.SplitSeq(s, sep)\<close> for a separator of one byte: always at least one piece.\<close>

fun SplitSeq :: "string \<Rightarrow> char \<Rightarrow> string list" where
  "SplitSeq [] sep = [[]]"
| "SplitSeq (c # cs) sep =
     (if c = sep then [] # SplitSeq cs sep
      else (case SplitSeq cs sep of [] \<Rightarrow> [[c]] | p # ps \<Rightarrow> (c # p) # ps))"

fun join_with :: "char \<Rightarrow> string list \<Rightarrow> string" where
  "join_with sep [] = []"
| "join_with sep [p] = p"
| "join_with sep (p # q # ps) = p @ sep # join_with sep (q # ps)"

lemma SplitSeq_not_Nil [simp]: "SplitSeq s sep \<noteq> []"
  by (cases s) (auto split: list.splits)

lemma join_SplitSeq: "join_with sep (SplitSeq s sep) = s"
proof (induction s)
  case (Cons c cs)
  then show ?case
    by (cases "(sep, SplitSeq cs sep)" rule: join_with.cases) auto
qed simp

lemma SplitSeq_no_sep: "p \<in> set (SplitSeq s sep) \<Longrightarrow> sep \<notin> set p"
  by (induction s arbitrary: p) (auto split: list.splits if_splits)

lemma SplitSeq_append:
  "sep \<notin> set p \<Longrightarrow> SplitSeq (p @ sep # s) sep = p # SplitSeq s sep"
  by (induction p) auto

lemma SplitSeq_single: "sep \<notin> set p \<Longrightarrow> SplitSeq p sep = [p]"
  by (induction p) auto

lemma SplitSeq_join:
  assumes "ps \<noteq> []" and "\<forall>p \<in> set ps. sep \<notin> set p"
  shows "SplitSeq (join_with sep ps) sep = ps"
  using assms
  by (induction sep ps rule: join_with.induct) (auto simp: SplitSeq_append SplitSeq_single)

definition ReplaceAll1 :: "string \<Rightarrow> char \<Rightarrow> char \<Rightarrow> string" where
  "ReplaceAll1 s old new = map (\<lambda>c. if c = old then new else c) s"

section \<open>Lower case\<close>

text \<open>
  \<open>strings.ToLower\<close>. Bytes of the ASCII capitals get their small letters, and so do the two
  non-ASCII code points whose lower case is an ASCII letter (U+0130 to i, U+212A to k).
  Every other non-ASCII letter is left as it is; Go maps some of them to other non-ASCII
  letters. The program compares the result with ASCII literals only, and for that question
  the two agree: both results contain a non-ASCII byte or neither does.
\<close>

definition lower_byte :: "char \<Rightarrow> char" where
  "lower_byte c =
     (let n = of_char c :: int in if 65 \<le> n \<and> n \<le> 90 then char_of (n + 32) else c)"

fun ToLower :: "string \<Rightarrow> string" where
  "ToLower [] = []"
| "ToLower (a # s) =
     (case s of
        b # t \<Rightarrow>
          if a = CHR 0xC4 \<and> b = CHR 0xB0 then CHR ''i'' # ToLower t
          else (case t of
              c # u \<Rightarrow>
                if a = CHR 0xE2 \<and> b = CHR 0x84 \<and> c = CHR 0xAA then CHR ''k'' # ToLower u
                else lower_byte a # ToLower s
            | [] \<Rightarrow> lower_byte a # ToLower s)
      | [] \<Rightarrow> [lower_byte a])"

section \<open>Decimal numbers\<close>

definition is_digit :: "char \<Rightarrow> bool" where
  "is_digit c = (let n = of_char c :: int in 48 \<le> n \<and> n \<le> 57)"

definition digit_val :: "char \<Rightarrow> int" where
  "digit_val c = of_char c - 48"

definition digit_char :: "int \<Rightarrow> char" where
  "digit_char n = char_of (48 + n)"

definition digits_val :: "string \<Rightarrow> int" where
  "digits_val ds = foldl (\<lambda>v c. 10 * v + digit_val c) 0 ds"

text \<open>The decimal digits of a non-negative number.\<close>

function digits_of :: "int \<Rightarrow> string" where
  "digits_of n =
     (if n < 10 then [digit_char n] else digits_of (n div 10) @ [digit_char (n mod 10)])"
  by pat_completeness auto
termination
  by (relation "measure nat") auto

declare digits_of.simps [simp del]

definition Itoa :: "int \<Rightarrow> string" where
  "Itoa i = (if i < 0 then CHR ''-'' # digits_of (- i) else digits_of i)"

text \<open>
  \<open>strconv.Atoi\<close> on a 64-bit platform: an optional sign, at least one digit, nothing else,
  and a value that fits in 64 bits. \<^term>\<open>None\<close> is a non-nil error (syntax or range; the
  callers only test \<open>err == nil\<close>).
\<close>

definition int_fits :: "int \<Rightarrow> bool" where
  "int_fits i \<longleftrightarrow> - 9223372036854775808 \<le> i \<and> i \<le> 9223372036854775807"

definition Atoi :: "string \<Rightarrow> int option" where
  "Atoi s =
     (let (neg, ds) =
        (case s of
           [] \<Rightarrow> (False, [])
         | c # cs \<Rightarrow> if c = CHR ''-'' then (True, cs)
                    else if c = CHR ''+'' then (False, cs) else (False, s))
      in if ds = [] \<or> \<not> list_all is_digit ds then None
         else let v = (if neg then - digits_val ds else digits_val ds)
              in if int_fits v then Some v else None)"

lemma int_fits_eq: "int_fits i \<longleftrightarrow> - (2 ^ 63) \<le> i \<and> i < 2 ^ 63"
  by (auto simp: int_fits_def)

lemma digit_char_props:
  assumes "0 \<le> d" and "d < 10"
  shows "is_digit (digit_char d)" "digit_val (digit_char d) = d"
proof -
  have "of_char (digit_char d) = 48 + d"
    using assms by (simp add: digit_char_def)
  then show "is_digit (digit_char d)" "digit_val (digit_char d) = d"
    using assms by (simp_all add: is_digit_def digit_val_def)
qed

lemma digits_of_digits: "0 \<le> n \<Longrightarrow> list_all is_digit (digits_of n)"
proof (induction n rule: digits_of.induct)
  case (1 n)
  then show ?case
    by (cases "n < 10") (simp_all add: digits_of.simps [of n] digit_char_props)
qed

lemma digits_of_not_Nil [simp]: "digits_of n \<noteq> []"
  by (simp add: digits_of.simps [of n])

lemma digits_val_snoc: "digits_val (ds @ [c]) = 10 * digits_val ds + digit_val c"
  by (simp add: digits_val_def)

lemma digits_val_digits_of: "0 \<le> n \<Longrightarrow> digits_val (digits_of n) = n"
proof (induction n rule: digits_of.induct)
  case (1 n)
  show ?case
  proof (cases "n < 10")
    case True
    with 1 show ?thesis
      by (simp add: digits_of.simps [of n] digits_val_def digit_char_props)
  next
    case False
    with 1 show ?thesis
      by (simp add: digits_of.simps [of n] digits_val_snoc digit_char_props)
  qed
qed

lemma is_digit_not_sign: "is_digit c \<Longrightarrow> c \<noteq> CHR ''-'' \<and> c \<noteq> CHR ''+''"
  by (auto simp: is_digit_def)

lemma Atoi_Itoa:
  assumes "int_fits i"
  shows "Atoi (Itoa i) = Some i"
proof (cases "i < 0")
  case True
  then have "digits_val (digits_of (- i)) = - i" by (simp add: digits_val_digits_of)
  with True assms show ?thesis
    by (simp add: Atoi_def Itoa_def digits_of_digits)
next
  case False
  then have *: "list_all is_digit (digits_of i)" by (simp add: digits_of_digits)
  obtain c cs where c: "digits_of i = c # cs" by (cases "digits_of i") simp_all
  with * have "is_digit c" by simp
  moreover have "digits_val (c # cs) = i"
    using False by (simp flip: c add: digits_val_digits_of)
  ultimately show ?thesis
    using False assms * c is_digit_not_sign [of c] by (simp add: Atoi_def Itoa_def)
qed

lemma Atoi_fits: "Atoi s = Some i \<Longrightarrow> int_fits i"
  by (auto simp: Atoi_def Let_def split: prod.splits if_splits)

lemma Itoa_inject: "int_fits i \<Longrightarrow> int_fits j \<Longrightarrow> Itoa i = Itoa j \<longleftrightarrow> i = j"
  by (metis Atoi_Itoa option.inject)

lemma Atoi_Nil [simp]: "Atoi [] = None"
  by (simp add: Atoi_def)

end
