(* ===== verification/Config.thy ===== *)
theory Config
  imports GoStrings
begin

text \<open>
  Runtime configuration (\<open>internal/config/config.go\<close>): the \<open>Config\<close> struct, its defaults
  overridden by the environment (\<open>newConfig\<close>) and its validation. The package
  \<open>caarlos0/env\<close> that reads the environment is a parameter.
\<close>

record Config =
  cfg_GatewayName :: string
  cfg_GatewayNamespace :: string
  cfg_Namespace :: string
  cfg_Output :: string
  cfg_SiteID :: string
  cfg_TargetHostname :: string
  cfg_TargetPort :: int
  cfg_TargetMethod :: string
  cfg_DenyCountries :: string
  cfg_SSL :: bool
  cfg_AnnotationPrefix :: string
  cfg_EnableService :: bool
  cfg_AutoService :: bool
  cfg_AllPorts :: bool
  cfg_AuthSSORoles :: string
  cfg_AuthSSOUsers :: string
  cfg_AuthSSOIDP :: int
  cfg_AuthWhitelistUsers :: string
  cfg_HealthPort :: int

text \<open>The zero value with the hard-coded defaults on top.\<close>

definition default_config :: Config where
  "default_config =
     \<lparr>cfg_GatewayName = [], cfg_GatewayNamespace = [], cfg_Namespace = [],
      cfg_Output = ''/etc/newt/blueprint.yaml'', cfg_SiteID = [], cfg_TargetHostname = [],
      cfg_TargetPort = 443, cfg_TargetMethod = ''https'', cfg_DenyCountries = [],
      cfg_SSL = True, cfg_AnnotationPrefix = ''newt-sidecar'', cfg_EnableService = False,
      cfg_AutoService = False, cfg_AllPorts = False, cfg_AuthSSORoles = [],
      cfg_AuthSSOUsers = [], cfg_AuthSSOIDP = 0, cfg_AuthWhitelistUsers = [],
      cfg_HealthPort = 8080\<rparr>"

text \<open>\<open>env.Parse(cfg)\<close> gives the configuration with the set variables stored, or an error.\<close>

type_synonym env_parser = "Config \<Rightarrow> string + Config"

definition newConfig :: "env_parser \<Rightarrow> string + Config" where
  "newConfig env_Parse =
     (case env_Parse default_config of
        Inl err \<Rightarrow> Inl (''parsing environment variables: '' @ err)
      | Inr cfg \<Rightarrow> Inr cfg)"

datatype config_error = SiteIDRequired | TargetHostnameRequired | NoSourceEnabled

definition Validate :: "Config \<Rightarrow> config_error option" where
  "Validate c =
     (if cfg_SiteID c = [] then Some SiteIDRequired
      else if cfg_GatewayName c \<noteq> [] \<and> cfg_TargetHostname c = [] then Some TargetHostnameRequired
      else if cfg_GatewayName c = [] \<and> \<not> cfg_EnableService c \<and> \<not> cfg_AutoService c
        then Some NoSourceEnabled
      else None)"

lemma Validate_None:
  "Validate c = None \<longleftrightarrow>
     cfg_SiteID c \<noteq> [] \<and> (cfg_GatewayName c \<noteq> [] \<longrightarrow> cfg_TargetHostname c \<noteq> []) \<and>
     (cfg_GatewayName c \<noteq> [] \<or> cfg_EnableService c \<or> cfg_AutoService c)"
  by (auto simp: Validate_def)

end
