(* ===== verification/GoJson.thy ===== *)
theory GoJson
  imports GoStrings
begin

text \<open>
  Go's \<open>encoding/json\<close> as far as the program uses it: \<open>json.Unmarshal\<close> of a text into a
  struct or a slice of structs. The text is split into tokens, a stack machine over the tokens
  builds the value tree (both total by construction), and generic decoders store a tree into Go
  values: fields are matched by exact and then by case-folded name, unknown members are
  skipped, \<open>null\<close> leaves scalars and structs alone, a value of the wrong kind is an error.
  The callers only test \<open>err != nil\<close> and drop the result then, so an error is \<^term>\<open>None\<close>.
\<close>

section \<open>UTF-8\<close>

definition byte :: "char \<Rightarrow> int" where
  "byte c = of_char c"

definition in_range :: "int \<Rightarrow> int \<Rightarrow> char \<Rightarrow> bool" where
  "in_range lo hi c \<longleftrightarrow> lo \<le> byte c \<and> byte c \<le> hi"

abbreviation cont :: "char \<Rightarrow> bool" where
  "cont \<equiv> in_range 0x80 0xBF"

text \<open>The length of the well-formed UTF-8 sequence at the front of a text, 0 if there is none.\<close>

definition rune_len :: "string \<Rightarrow> nat" where
  "rune_len s =
     (case s of
        [] \<Rightarrow> 0
      | a # t \<Rightarrow>
        if byte a < 0x80 then 1
        else (case t of
            [] \<Rightarrow> 0
          | b # u \<Rightarrow>
            if in_range 0xC2 0xDF a \<and> cont b then 2
            else (case u of
                [] \<Rightarrow> 0
              | c # v \<Rightarrow>
                if cont c \<and> (byte a = 0xE0 \<and> in_range 0xA0 0xBF b
                   \<or> in_range 0xE1 0xEC a \<and> cont b
                   \<or> byte a = 0xED \<and> in_range 0x80 0x9F b
                   \<or> in_range 0xEE 0xEF a \<and> cont b) then 3
                else (case v of
                    [] \<Rightarrow> 0
                  | d # w \<Rightarrow>
                    if cont c \<and> cont d \<and> (byte a = 0xF0 \<and> in_range 0x90 0xBF b
                       \<or> in_range 0xF1 0xF3 a \<and> cont b
                       \<or> byte a = 0xF4 \<and> in_range 0x80 0x8F b) then 4
                    else 0))))"

definition rune_error :: string where
  "rune_error = [CHR 0xEF, CHR 0xBF, CHR 0xBD]"

text \<open>\<open>utf8.EncodeRune\<close>; surrogates and values beyond U+10FFFF encode the replacement character.\<close>

definition encode_rune :: "int \<Rightarrow> string" where
  "encode_rune r =
     (if r < 0x80 then [char_of r]
      else if r < 0x800 then [char_of (0xC0 + r div 64), char_of (0x80 + r mod 64)]
      else if 0xD800 \<le> r \<and> r \<le> 0xDFFF \<or> 0x10FFFF < r then rune_error
      else if r < 0x10000 then
        [char_of (0xE0 + r div 4096), char_of (0x80 + r div 64 mod 64), char_of (0x80 + r mod 64)]
      else
        [char_of (0xF0 + r div 262144), char_of (0x80 + r div 4096 mod 64),
         char_of (0x80 + r div 64 mod 64), char_of (0x80 + r mod 64)])"

section \<open>String literals\<close>

definition hex_val :: "char \<Rightarrow> int option" where
  "hex_val c =
     (if in_range 48 57 c then Some (byte c - 48)
      else if in_range 97 102 c then Some (byte c - 87)
      else if in_range 65 70 c then Some (byte c - 55) else None)"

definition hex4 :: "char \<Rightarrow> char \<Rightarrow> char \<Rightarrow> char \<Rightarrow> int option" where
  "hex4 a b c d =
     (case (hex_val a, hex_val b, hex_val c, hex_val d) of
        (Some w, Some x, Some y, Some z) \<Rightarrow> Some (((w * 16 + x) * 16 + y) * 16 + z)
      | _ \<Rightarrow> None)"

text \<open>
  The body of a string literal up to its closing quote, with the quote's rest: control
  characters and unknown escapes are refused, as the scanner refuses them.
\<close>

fun scan_string :: "string \<Rightarrow> (string \<times> string) option" where
  "scan_string [] = None"
| "scan_string (c # s) =
     (if c = CHR 0x22 then Some ([], s)
      else if byte c < 0x20 then None
      else if c = CHR 0x5C then
        (case s of
           [] \<Rightarrow> None
         | e # t \<Rightarrow>
           if e \<in> set [CHR 0x22, CHR 0x5C, CHR ''/'', CHR ''b'', CHR ''f'', CHR ''n'', CHR ''r'', CHR ''t'']
           then map_option (apfst (\<lambda>b. c # e # b)) (scan_string t)
           else if e = CHR ''u'' then
             (case t of
                h1 # h2 # h3 # h4 # u \<Rightarrow>
                  if hex4 h1 h2 h3 h4 \<noteq> None
                  then map_option (apfst (\<lambda>b. c # e # h1 # h2 # h3 # h4 # b)) (scan_string u)
                  else None
              | _ \<Rightarrow> None)
           else None)
      else map_option (apfst (\<lambda>b. c # b)) (scan_string s))"

text \<open>
  \<open>unquote\<close>: the value of a scanned body. A surrogate pair is one code point, a lone
  surrogate and every byte that is not part of well-formed UTF-8 become U+FFFD.
\<close>

definition unescape :: "char \<Rightarrow> char" where
  "unescape e =
     (if e = CHR ''b'' then CHR 0x08 else if e = CHR ''f'' then CHR 0x0C
      else if e = CHR ''n'' then CHR 0x0A else if e = CHR ''r'' then CHR 0x0D
      else if e = CHR ''t'' then CHR 0x09 else e)"

definition u_escape :: "string \<Rightarrow> (int \<times> string) option" where
  "u_escape s =
     (case s of
        b # u # h1 # h2 # h3 # h4 # t \<Rightarrow>
          if b = CHR 0x5C \<and> u = CHR ''u''
          then map_option (\<lambda>r. (r, t)) (hex4 h1 h2 h3 h4) else None
      | _ \<Rightarrow> None)"

lemma u_escape_length: "u_escape s = Some (r, t) \<Longrightarrow> length t < length s"
  by (auto simp: u_escape_def split: list.splits if_splits)

lemma rune_len_pos: "rune_len (a # t) = Suc n \<Longrightarrow> length (drop n t) < Suc (length t)"
  by (simp add: le_imp_less_Suc)

function unquote :: "string \<Rightarrow> string" where
  "unquote s =
     (case s of
        [] \<Rightarrow> []
      | c # t \<Rightarrow>
        (case u_escape s of
           Some (r, rest) \<Rightarrow>
             if 0xD800 \<le> r \<and> r \<le> 0xDFFF then
               (case u_escape rest of
                  Some (r2, rest2) \<Rightarrow>
                    if r \<le> 0xDBFF \<and> 0xDC00 \<le> r2 \<and> r2 \<le> 0xDFFF
                    then encode_rune ((r - 0xD800) * 0x400 + (r2 - 0xDC00) + 0x10000) @ unquote rest2
                    else rune_error @ unquote rest
                | None \<Rightarrow> rune_error @ unquote rest)
             else encode_rune r @ unquote rest
         | None \<Rightarrow>
             if c = CHR 0x5C then
               (case t of [] \<Rightarrow> [] | e # u \<Rightarrow> unescape e # unquote u)
             else (case rune_len s of
                 0 \<Rightarrow> rune_error @ unquote t
               | Suc n \<Rightarrow> c # take n t @ unquote (drop n t))))"
  by pat_completeness auto
termination
  by (relation "measure length") (auto dest!: u_escape_length)

declare unquote.simps [simp del]

section \<open>Tokens\<close>

datatype token =
  TLBrack | TRBrack | TLBrace | TRBrace | TColon | TComma
| TNull | TTrue | TFalse | TStr string | TNum string

definition ws :: "char \<Rightarrow> bool" where
  "ws c \<longleftrightarrow> c = CHR 0x20 \<or> c = CHR 0x09 \<or> c = CHR 0x0D \<or> c = CHR 0x0A"

text \<open>A number literal: optional minus, integer part without a leading zero, fraction, exponent.\<close>

definition span_digits :: "string \<Rightarrow> string \<times> string" where
  "span_digits s = (takeWhile is_digit s, dropWhile is_digit s)"

definition scan_int :: "string \<Rightarrow> (string \<times> string) option" where
  "scan_int s =
     (case s of
        [] \<Rightarrow> None
      | c # t \<Rightarrow> if c = CHR ''0'' then Some ([c], t)
                else if is_digit c then Some (span_digits s) else None)"

definition scan_frac :: "string \<Rightarrow> (string \<times> string) option" where
  "scan_frac s =
     (case s of
        c # t \<Rightarrow>
          if c = CHR ''.'' then
            (let (ds, r) = span_digits t in if ds = [] then None else Some (c # ds, r))
          else Some ([], s)
      | [] \<Rightarrow> Some ([], s))"

definition scan_exp :: "string \<Rightarrow> (string \<times> string) option" where
  "scan_exp s =
     (case s of
        c # t \<Rightarrow>
          if c = CHR ''e'' \<or> c = CHR ''E'' then
            (let (sg, t') = (case t of
                 x # u \<Rightarrow> if x = CHR ''+'' \<or> x = CHR ''-'' then ([x], u) else ([], t)
               | [] \<Rightarrow> ([], t));
               (ds, r) = span_digits t'
             in if ds = [] then None else Some (c # sg @ ds, r))
          else Some ([], s)
      | [] \<Rightarrow> Some ([], s))"

definition scan_number :: "string \<Rightarrow> (string \<times> string) option" where
  "scan_number s =
     (let (sg, s1) = (case s of
          c # t \<Rightarrow> if c = CHR ''-'' then ([c], t) else ([], s) | [] \<Rightarrow> ([], s))
      in case scan_int s1 of
           None \<Rightarrow> None
         | Some (i, s2) \<Rightarrow>
           (case scan_frac s2 of
              None \<Rightarrow> None
            | Some (f, s3) \<Rightarrow>
              (case scan_exp s3 of
                 None \<Rightarrow> None
               | Some (e, s4) \<Rightarrow> Some (sg @ i @ f @ e, s4))))"

text \<open>The first token of a text that does not start with white space.\<close>

definition next_token :: "string \<Rightarrow> (token \<times> string) option" where
  "next_token s =
     (case s of
        [] \<Rightarrow> None
      | c # t \<Rightarrow>
        if c = CHR ''['' then Some (TLBrack, t)
        else if c = CHR '']'' then Some (TRBrack, t)
        else if c = CHR ''{'' then Some (TLBrace, t)
        else if c = CHR ''}'' then Some (TRBrace, t)
        else if c = CHR '':'' then Some (TColon, t)
        else if c = CHR '','' then Some (TComma, t)
        else if c = CHR 0x22 then map_option (apfst TStr) (scan_string t)
        else if c = CHR ''n'' then map_option (\<lambda>r. (TNull, r)) (strip_prefix ''null'' s)
        else if c = CHR ''t'' then map_option (\<lambda>r. (TTrue, r)) (strip_prefix ''true'' s)
        else if c = CHR ''f'' then map_option (\<lambda>r. (TFalse, r)) (strip_prefix ''false'' s)
        else map_option (apfst TNum) (scan_number s))"

lemma scan_string_length: "scan_string s = Some (b, r) \<Longrightarrow> length r < length s"
proof (induction s arbitrary: b rule: scan_string.induct)
  case (2 c s)
  then show ?case
    by (fastforce split: if_splits list.splits)
qed simp

lemma span_digits_length: "span_digits s = (ds, r) \<Longrightarrow> length s = length ds + length r"
  unfolding span_digits_def by (metis length_append prod.inject takeWhile_dropWhile_id)

lemma scan_int_length: "scan_int s = Some (i, r) \<Longrightarrow> length r < length s"
  by (auto simp: scan_int_def span_digits_def le_imp_less_Suc length_dropWhile_le
      split: list.splits if_splits)

lemma scan_frac_length: "scan_frac s = Some (f, r) \<Longrightarrow> length r \<le> length s"
  by (auto simp: scan_frac_def dest!: span_digits_length split: list.splits if_splits prod.splits)

lemma scan_exp_length: "scan_exp s = Some (e, r) \<Longrightarrow> length r \<le> length s"
  by (auto simp: scan_exp_def dest!: span_digits_length split: list.splits if_splits prod.splits)

lemma scan_number_length: "scan_number s = Some (n, r) \<Longrightarrow> length r < length s"
  by (auto simp: scan_number_def dest!: scan_int_length scan_frac_length scan_exp_length
      split: list.splits if_splits prod.splits option.splits)

lemma next_token_length:
  assumes "next_token s = Some (tk, r)"
  shows "length r < length s"
proof (cases s)
  case Nil
  with assms show ?thesis by (simp add: next_token_def)
next
  case (Cons c t)
  with assms show ?thesis
    by (auto simp: next_token_def apfst_def map_prod_def strip_prefix_Some
        dest!: scan_string_length scan_number_length split: if_splits prod.splits)
qed

function tokens :: "string \<Rightarrow> token list option" where
  "tokens s =
     (case s of
        [] \<Rightarrow> Some []
      | c # t \<Rightarrow>
        if ws c then tokens t
        else (case next_token s of
            None \<Rightarrow> None
          | Some (tk, r) \<Rightarrow> map_option (\<lambda>ts. tk # ts) (tokens r)))"
  by pat_completeness auto
termination
  by (relation "measure length") (auto dest!: next_token_length)

declare tokens.simps [simp del]

section \<open>The value tree\<close>

datatype json =
  JNull | JBool bool | JNum string | JStr string
| JArr "json list" | JObj "(string \<times> json) list"

text \<open>
  The parser is a stack machine, as Go's scanner is: the open arrays and objects are frames
  (their finished elements, newest first), the mode says what may come next. More than 10000
  open frames are refused.
\<close>

datatype frame = InArr "json list" | InObj "(string \<times> json) list" | InMember "(string \<times> json) list" string

datatype mode =
  WantValue | WantValueOrEnd | WantKey | WantKeyOrEnd | WantColon | AfterElem | AfterMember
| Done json

definition maxNestingDepth :: int where
  "maxNestingDepth = 10000"

definition push_frame :: "frame \<Rightarrow> mode \<Rightarrow> frame list \<Rightarrow> (mode \<times> frame list) option" where
  "push_frame f m st = (if int (length st) < maxNestingDepth then Some (m, f # st) else None)"

text \<open>A finished value goes into the innermost open array or object member.\<close>

definition finish :: "json \<Rightarrow> frame list \<Rightarrow> (mode \<times> frame list) option" where
  "finish v st =
     (case st of
        [] \<Rightarrow> Some (Done v, [])
      | InArr vs # st' \<Rightarrow> Some (AfterElem, InArr (v # vs) # st')
      | InMember ms k # st' \<Rightarrow> Some (AfterMember, InObj ((k, v) # ms) # st')
      | InObj ms # st' \<Rightarrow> None)"

definition close_frame :: "frame list \<Rightarrow> (mode \<times> frame list) option" where
  "close_frame st =
     (case st of
        InArr vs # st' \<Rightarrow> finish (JArr (rev vs)) st'
      | InObj ms # st' \<Rightarrow> finish (JObj (rev ms)) st'
      | _ \<Rightarrow> None)"

definition begin_value :: "token \<Rightarrow> frame list \<Rightarrow> (mode \<times> frame list) option" where
  "begin_value tk st =
     (case tk of
        TLBrack \<Rightarrow> push_frame (InArr []) WantValueOrEnd st
      | TLBrace \<Rightarrow> push_frame (InObj []) WantKeyOrEnd st
      | TNull \<Rightarrow> finish JNull st
      | TTrue \<Rightarrow> finish (JBool True) st
      | TFalse \<Rightarrow> finish (JBool False) st
      | TStr b \<Rightarrow> finish (JStr (unquote b)) st
      | TNum n \<Rightarrow> finish (JNum n) st
      | _ \<Rightarrow> None)"

definition begin_key :: "token \<Rightarrow> frame list \<Rightarrow> (mode \<times> frame list) option" where
  "begin_key tk st =
     (case (tk, st) of
        (TStr b, InObj ms # st') \<Rightarrow> Some (WantColon, InMember ms (unquote b) # st')
      | _ \<Rightarrow> None)"

fun parse_step :: "mode \<Rightarrow> frame list \<Rightarrow> token \<Rightarrow> (mode \<times> frame list) option" where
  "parse_step WantValue st tk = begin_value tk st"
| "parse_step WantValueOrEnd st tk =
     (if tk = TRBrack then close_frame st else begin_value tk st)"
| "parse_step WantKey st tk = begin_key tk st"
| "parse_step WantKeyOrEnd st tk =
     (if tk = TRBrace then close_frame st else begin_key tk st)"
| "parse_step WantColon st tk = (if tk = TColon then Some (WantValue, st) else None)"
| "parse_step AfterElem st tk =
     (if tk = TComma then Some (WantValue, st)
      else if tk = TRBrack then close_frame st else None)"
| "parse_step AfterMember st tk =
     (if tk = TComma then Some (WantKey, st)
      else if tk = TRBrace then close_frame st else None)"
| "parse_step (Done v) st tk = None"

fun parse_run :: "mode \<Rightarrow> frame list \<Rightarrow> token list \<Rightarrow> json option" where
  "parse_run m st [] = (case m of Done v \<Rightarrow> Some v | _ \<Rightarrow> None)"
| "parse_run m st (tk # tks) =
     (case parse_step m st tk of None \<Rightarrow> None | Some (m', st') \<Rightarrow> parse_run m' st' tks)"

definition parse_json :: "string \<Rightarrow> json option" where
  "parse_json s = (case tokens s of None \<Rightarrow> None | Some tks \<Rightarrow> parse_run WantValue [] tks)"

section \<open>Storing a tree into Go values\<close>

text \<open>
  \<open>foldName\<close>: ASCII letters to upper case, and the two other code points that fold to an
  ASCII letter (U+017F to S, U+212A to K); every other non-ASCII character stays non-ASCII,
  so no ASCII field name matches it.
\<close>

definition upper_byte :: "char \<Rightarrow> char" where
  "upper_byte c = (if in_range 97 122 c then char_of (byte c - 32) else c)"

fun foldName :: "string \<Rightarrow> string" where
  "foldName [] = []"
| "foldName (a # s) =
     (case s of
        b # t \<Rightarrow>
          if a = CHR 0xC5 \<and> b = CHR 0xBF then CHR ''S'' # foldName t
          else (case t of
              c # u \<Rightarrow>
                if a = CHR 0xE2 \<and> b = CHR 0x84 \<and> c = CHR 0xAA then CHR ''K'' # foldName u
                else upper_byte a # foldName s
            | [] \<Rightarrow> upper_byte a # foldName s)
      | [] \<Rightarrow> [upper_byte a])"

text \<open>The struct field an object member goes to: exact name first, then the folded name.\<close>

definition field_for :: "string list \<Rightarrow> string \<Rightarrow> string option" where
  "field_for fields key =
     (if key \<in> set fields then Some key
      else find (\<lambda>f. foldName f = foldName key) fields)"

fun json_string :: "json \<Rightarrow> string \<Rightarrow> string option" where
  "json_string (JStr s) old = Some s"
| "json_string JNull old = Some old"
| "json_string _ old = None"

fun json_int :: "json \<Rightarrow> int \<Rightarrow> int option" where
  "json_int (JNum n) old = Atoi n"
| "json_int JNull old = Some old"
| "json_int _ old = None"

fun json_bool_ptr :: "json \<Rightarrow> bool option option" where
  "json_bool_ptr (JBool b) = Some (Some b)"
| "json_bool_ptr JNull = Some None"
| "json_bool_ptr _ = None"

text \<open>
  Decoding an object stores its members one after the other; \<open>set_field\<close> stores one member
  into the field with the given name. Decoding \<open>null\<close> leaves the struct as it is.
\<close>

fun json_members ::
  "string list \<Rightarrow> (string \<Rightarrow> json \<Rightarrow> 'r \<Rightarrow> 'r option) \<Rightarrow> (string \<times> json) list \<Rightarrow> 'r \<Rightarrow> 'r option" where
  "json_members fields set_field [] r = Some r"
| "json_members fields set_field ((k, v) # ms) r =
     (case field_for fields k of
        None \<Rightarrow> json_members fields set_field ms r
      | Some f \<Rightarrow>
        (case set_field f v r of
           None \<Rightarrow> None
         | Some r' \<Rightarrow> json_members fields set_field ms r'))"

definition json_struct ::
  "string list \<Rightarrow> (string \<Rightarrow> json \<Rightarrow> 'r \<Rightarrow> 'r option) \<Rightarrow> json \<Rightarrow> 'r \<Rightarrow> 'r option" where
  "json_struct fields set_field v r =
     (case v of JObj ms \<Rightarrow> json_members fields set_field ms r | JNull \<Rightarrow> Some r | _ \<Rightarrow> None)"

text \<open>
  Decoding an array into a slice. A slice variable is its length and the contents of its
  backing array: element \<open>i\<close> is decoded over what the backing array holds there (the zero
  value beyond it), which matters when one object names the same slice field twice.
\<close>

record 'a slice_var =
  sv_len :: "nat option" \<comment> \<open>\<open>None\<close> for a nil slice\<close>
  sv_back :: "'a list"

definition nil_slice_var :: "'a slice_var" where
  "nil_slice_var = \<lparr>sv_len = None, sv_back = []\<rparr>"

definition slice_of :: "'a slice_var \<Rightarrow> 'a slice" where
  "slice_of sv = map_option (\<lambda>n. take n (sv_back sv)) (sv_len sv)"

fun json_elems ::
  "(json \<Rightarrow> 'a \<Rightarrow> 'a option) \<Rightarrow> 'a \<Rightarrow> json list \<Rightarrow> 'a list \<Rightarrow> 'a list option" where
  "json_elems dec zero [] back = Some back"
| "json_elems dec zero (v # vs) back =
     (case dec v (case back of [] \<Rightarrow> zero | b # _ \<Rightarrow> b) of
        None \<Rightarrow> None
      | Some x \<Rightarrow> map_option (\<lambda>xs. x # xs) (json_elems dec zero vs (tl back)))"

definition json_slice ::
  "(json \<Rightarrow> 'a \<Rightarrow> 'a option) \<Rightarrow> 'a \<Rightarrow> json \<Rightarrow> 'a slice_var \<Rightarrow> 'a slice_var option" where
  "json_slice dec zero v sv =
     (case v of
        JArr [] \<Rightarrow> Some \<lparr>sv_len = Some 0, sv_back = []\<rparr>
      | JArr vs \<Rightarrow>
          map_option (\<lambda>b. \<lparr>sv_len = Some (length vs), sv_back = b\<rparr>) (json_elems dec zero vs (sv_back sv))
      | JNull \<Rightarrow> Some nil_slice_var
      | _ \<Rightarrow> None)"

text \<open>Decoding into a fresh nil slice: every element starts from the zero value.\<close>

lemma json_elems_Nil:
  "json_elems dec zero vs [] = those (map (\<lambda>v. dec v zero) vs)"
  by (induction vs) (auto split: option.splits)

lemma slice_of_json_slice_nil:
  "map_option slice_of (json_slice dec zero (JArr vs) nil_slice_var) =
     map_option Some (those (map (\<lambda>v. dec v zero) vs))"
proof (cases vs)
  case (Cons v vs')
  have "length xs = length vs" if "those (map (\<lambda>v. dec v zero) vs) = Some xs" for xs
    using that by (induction vs arbitrary: xs) (auto split: option.splits)
  with Cons show ?thesis
    by (cases "those (map (\<lambda>v. dec v zero) vs)")
      (auto simp: json_slice_def nil_slice_var_def json_elems_Nil slice_of_def)
qed (simp add: json_slice_def slice_of_def)

text \<open>
  An invariant of decoding an object: it holds of the result when it held before and every
  member that is stored keeps it.
\<close>

lemma json_members_invariant:
  assumes "json_members fs set_field ms r = Some r'" and "P r"
    and "\<And>k v f q q'. (k, v) \<in> set ms \<Longrightarrow> field_for fs k = Some f \<Longrightarrow>
           set_field f v q = Some q' \<Longrightarrow> P q \<Longrightarrow> P q'"
  shows "P r'"
  using assms
proof (induction ms arbitrary: r)
  case (Cons m ms)
  obtain k v where m: "m = (k, v)" by fastforce
  have IH: "P r'" if "json_members fs set_field ms q = Some r'" and "P q" for q
    by (rule Cons.IH [OF that], rule Cons.prems(3)) auto
  show ?case
  proof (cases "field_for fs k")
    case None
    with Cons.prems m show ?thesis by (intro IH) simp_all
  next
    case (Some f)
    with Cons.prems(1) m obtain q where
      q: "set_field f v r = Some q" "json_members fs set_field ms q = Some r'"
      by (auto split: option.splits)
    have "P q" by (rule Cons.prems(3) [OF _ Some q(1) Cons.prems(2)]) (simp add: m)
    with q show ?thesis by (intro IH)
  qed
qed simp

end
