(* ===== verification/Blueprint.thy ===== *)
theory Blueprint
  imports Config GoJson
begin

text \<open>
  The blueprint data model and its builders (\<open>internal/blueprint/blueprint.go\<close>): one record
  per struct, one definition per function, in the order of the file. Pointers to values are
  options, slices keep nil apart from empty. Annotations are a map from annotation names to
  values; \<open>prefix @ ''/name''\<close> is the annotation \<open>{prefix}/name\<close>.
\<close>

section \<open>Data\<close>

record Header =
  hdr_Name :: string
  hdr_Value :: string

record BasicAuth =
  ba_User :: string
  ba_Password :: string

record HealthCheck =
  hc_Hostname :: string
  hc_Port :: int
  hc_Enabled :: "bool option"
  hc_Path :: string
  hc_Scheme :: string
  hc_Mode :: string
  hc_Interval :: int
  hc_UnhealthyInterval :: int
  hc_Timeout :: int
  hc_Headers :: "Header slice"
  hc_FollowRedirects :: "bool option"
  hc_Method :: string
  hc_Status :: int

record Maintenance =
  mnt_Enabled :: bool
  mnt_Type :: string
  mnt_Title :: string
  mnt_Message :: string
  mnt_EstimatedTime :: string

record PrivateResource =
  priv_Name :: string
  priv_Mode :: string
  priv_Destination :: string
  priv_Site :: string
  priv_TCPPorts :: string
  priv_UDPPorts :: string
  priv_DisableICMP :: bool
  priv_Alias :: string
  priv_Roles :: "string slice"
  priv_Users :: "string slice"
  priv_Machines :: "string slice"

record Auth =
  auth_Pincode :: int
  auth_Password :: string
  auth_BasicAuth :: "BasicAuth option"
  auth_SSOEnabled :: bool
  auth_SSORoles :: "string slice"
  auth_SSOUsers :: "string slice"
  auth_WhitelistUsers :: "string slice"
  auth_AutoLoginIDP :: int

record Rule =
  rule_Action :: string
  rule_Match :: string
  rule_Value :: string
  rule_Priority :: int

record Target =
  tgt_Site :: string
  tgt_Hostname :: string
  tgt_Enabled :: "bool option"
  tgt_Method :: string
  tgt_Port :: int
  tgt_InternalPort :: int
  tgt_Path :: string
  tgt_PathMatch :: string
  tgt_RewritePath :: string
  tgt_RewriteMatch :: string
  tgt_Priority :: int
  tgt_HealthCheck :: "HealthCheck option"

record Resource =
  res_Name :: string
  res_Protocol :: string
  res_Enabled :: "bool option"
  res_SSL :: bool
  res_FullDomain :: string
  res_HostHeader :: string
  res_TLSServerName :: string
  res_ProxyPort :: int
  res_Headers :: "Header slice"
  res_Auth :: "Auth option"
  res_Maintenance :: "Maintenance option"
  res_Rules :: "Rule slice"
  res_Targets :: "Target slice"

record Blueprint =
  bp_PublicResources :: "string \<rightharpoonup> Resource"
  bp_PrivateResources :: "string \<rightharpoonup> PrivateResource"

text \<open>The zero values \<open>HealthCheck{}\<close>, \<open>Rule{}\<close>, \<open>Header{}\<close>, \<open>Target{}\<close>.\<close>

definition zero_Header :: Header where
  "zero_Header = \<lparr>hdr_Name = [], hdr_Value = []\<rparr>"

definition zero_Rule :: Rule where
  "zero_Rule = \<lparr>rule_Action = [], rule_Match = [], rule_Value = [], rule_Priority = 0\<rparr>"

definition zero_HealthCheck :: HealthCheck where
  "zero_HealthCheck =
     \<lparr>hc_Hostname = [], hc_Port = 0, hc_Enabled = None, hc_Path = [], hc_Scheme = [],
      hc_Mode = [], hc_Interval = 0, hc_UnhealthyInterval = 0, hc_Timeout = 0,
      hc_Headers = None, hc_FollowRedirects = None, hc_Method = [], hc_Status = 0\<rparr>"

definition zero_Target :: Target where
  "zero_Target =
     \<lparr>tgt_Site = [], tgt_Hostname = [], tgt_Enabled = None, tgt_Method = [], tgt_Port = 0,
      tgt_InternalPort = 0, tgt_Path = [], tgt_PathMatch = [], tgt_RewritePath = [],
      tgt_RewriteMatch = [], tgt_Priority = 0, tgt_HealthCheck = None\<rparr>"

section \<open>Resource keys\<close>

definition HostnameToKey :: "string \<Rightarrow> string" where
  "HostnameToKey hostname = ReplaceAll1 hostname (CHR ''.'') (CHR ''-'')"

definition ServiceToKey :: "string \<Rightarrow> string \<Rightarrow> string \<Rightarrow> string \<Rightarrow> string" where
  "ServiceToKey namespace name port protocol =
     namespace @ ''-'' @ name @ ''-'' @ port @ ''-'' @ protocol"

section \<open>Rules\<close>

fun deny_loop :: "string list \<Rightarrow> Rule slice \<Rightarrow> Rule slice" where
  "deny_loop [] rules = rules"
| "deny_loop (country # rest) rules =
     (let country = TrimSpace country
      in deny_loop rest
           (if country \<noteq> []
            then append1 rules
              \<lparr>rule_Action = ''deny'', rule_Match = ''country'', rule_Value = country, rule_Priority = 0\<rparr>
            else rules))"

definition buildDenyRules :: "Config \<Rightarrow> Rule slice" where
  "buildDenyRules cfg =
     (if cfg_DenyCountries cfg = [] then None
      else deny_loop (SplitSeq (cfg_DenyCountries cfg) (CHR '','')) None)"

definition isValidRule :: "Rule \<Rightarrow> bool" where
  "isValidRule r =
     (if rule_Action r \<notin> {''allow'', ''deny'', ''pass''} then False
      else if rule_Match r \<notin> {''cidr'', ''ip'', ''path'', ''country''} then False
      else if rule_Value r = [] then False
      else if rule_Priority r \<noteq> 0 \<and> (rule_Priority r < 1 \<or> rule_Priority r > 1000) then False
      else True)"

text \<open>
  \<open>json.Unmarshal\<close> into \<open>[]Rule\<close>: the struct has no \<open>json\<close> tags, so the member names are
  the Go field names, matched without regard to case.
\<close>

definition set_Rule_field :: "string \<Rightarrow> json \<Rightarrow> Rule \<Rightarrow> Rule option" where
  "set_Rule_field f v r =
     (if f = ''Action'' then map_option (\<lambda>x. r\<lparr>rule_Action := x\<rparr>) (json_string v (rule_Action r))
      else if f = ''Match'' then map_option (\<lambda>x. r\<lparr>rule_Match := x\<rparr>) (json_string v (rule_Match r))
      else if f = ''Value'' then map_option (\<lambda>x. r\<lparr>rule_Value := x\<rparr>) (json_string v (rule_Value r))
      else map_option (\<lambda>x. r\<lparr>rule_Priority := x\<rparr>) (json_int v (rule_Priority r)))"

definition json_Rule :: "json \<Rightarrow> Rule \<Rightarrow> Rule option" where
  "json_Rule = json_struct [''Action'', ''Match'', ''Value'', ''Priority''] set_Rule_field"

definition unmarshal_rules :: "string \<Rightarrow> Rule slice option" where
  "unmarshal_rules raw =
     (case parse_json raw of
        None \<Rightarrow> None
      | Some v \<Rightarrow> map_option slice_of (json_slice json_Rule zero_Rule v nil_slice_var))"

fun valid_loop :: "Rule list \<Rightarrow> Rule slice \<Rightarrow> Rule slice" where
  "valid_loop [] rules = rules"
| "valid_loop (r # rs) rules =
     valid_loop rs (if isValidRule r then append1 rules r else rules)"

definition BuildRules :: "strmap \<Rightarrow> string \<Rightarrow> Config \<Rightarrow> Rule slice" where
  "BuildRules annotations pre cfg =
     (let rules =
        (case annotations (pre @ ''/rules'') of
           None \<Rightarrow> None
         | Some raw \<Rightarrow>
           if raw \<noteq> [] then
             (case unmarshal_rules raw of
                None \<Rightarrow> None
              | Some annotationRules \<Rightarrow> valid_loop (elems annotationRules) None)
           else None);
        denyRules = buildDenyRules cfg;
        rules = append_slice rules denyRules
      in if elems rules = [] then None else rules)"

section \<open>Headers, maintenance, comma-separated lists\<close>

definition isTruthy :: "string \<Rightarrow> bool" where
  "isTruthy v \<longleftrightarrow> v = ''true'' \<or> v = ''1''"

fun csv_loop :: "string list \<Rightarrow> string slice \<Rightarrow> string slice" where
  "csv_loop [] out = out"
| "csv_loop (v # vs) out =
     (let v = TrimSpace v in csv_loop vs (if v \<noteq> [] then append1 out v else out))"

definition splitCSV :: "string \<Rightarrow> string slice" where
  "splitCSV s = (if s = [] then None else csv_loop (SplitSeq s (CHR '','')) None)"

definition set_Header_field :: "string \<Rightarrow> json \<Rightarrow> Header \<Rightarrow> Header option" where
  "set_Header_field f v h =
     (if f = ''Name'' then map_option (\<lambda>x. h\<lparr>hdr_Name := x\<rparr>) (json_string v (hdr_Name h))
      else map_option (\<lambda>x. h\<lparr>hdr_Value := x\<rparr>) (json_string v (hdr_Value h)))"

definition json_Header :: "json \<Rightarrow> Header \<Rightarrow> Header option" where
  "json_Header = json_struct [''Name'', ''Value''] set_Header_field"

definition unmarshal_headers :: "string \<Rightarrow> Header slice option" where
  "unmarshal_headers raw =
     (case parse_json raw of
        None \<Rightarrow> None
      | Some v \<Rightarrow> map_option slice_of (json_slice json_Header zero_Header v nil_slice_var))"

definition BuildHeaders :: "strmap \<Rightarrow> string \<Rightarrow> Header slice" where
  "BuildHeaders annotations pre =
     (case annotations (pre @ ''/headers'') of
        None \<Rightarrow> None
      | Some raw \<Rightarrow>
        if raw = [] then None
        else (case unmarshal_headers raw of None \<Rightarrow> None | Some headers \<Rightarrow> headers))"

definition BuildMaintenance :: "strmap \<Rightarrow> string \<Rightarrow> Maintenance option" where
  "BuildMaintenance annotations pre =
     (case annotations (pre @ ''/maintenance-enabled'') of
        None \<Rightarrow> None
      | Some v \<Rightarrow>
        if \<not> isTruthy v then None
        else Some
          \<lparr>mnt_Enabled = True,
           mnt_Type = idx annotations (pre @ ''/maintenance-type''),
           mnt_Title = idx annotations (pre @ ''/maintenance-title''),
           mnt_Message = idx annotations (pre @ ''/maintenance-message''),
           mnt_EstimatedTime = idx annotations (pre @ ''/maintenance-estimated-time'')\<rparr>)"

section \<open>Target extras\<close>

text \<open>
  \<open>json.Unmarshal\<close> into \<open>HealthCheck\<close>. While decoding, the \<open>Headers\<close> field is a slice
  variable with its backing array.
\<close>

definition set_HealthCheck_field ::
  "string \<Rightarrow> json \<Rightarrow> HealthCheck \<times> Header slice_var \<Rightarrow> (HealthCheck \<times> Header slice_var) option" where
  "set_HealthCheck_field f v st =
     (let (h, hs) = st;
        str = (\<lambda>get put. map_option (\<lambda>x. (put x, hs)) (json_string v get));
        num = (\<lambda>get put. map_option (\<lambda>x. (put x, hs)) (json_int v get))
      in if f = ''Hostname'' then str (hc_Hostname h) (\<lambda>x. h\<lparr>hc_Hostname := x\<rparr>)
         else if f = ''Port'' then num (hc_Port h) (\<lambda>x. h\<lparr>hc_Port := x\<rparr>)
         else if f = ''Enabled'' then map_option (\<lambda>x. (h\<lparr>hc_Enabled := x\<rparr>, hs)) (json_bool_ptr v)
         else if f = ''Path'' then str (hc_Path h) (\<lambda>x. h\<lparr>hc_Path := x\<rparr>)
         else if f = ''Scheme'' then str (hc_Scheme h) (\<lambda>x. h\<lparr>hc_Scheme := x\<rparr>)
         else if f = ''Mode'' then str (hc_Mode h) (\<lambda>x. h\<lparr>hc_Mode := x\<rparr>)
         else if f = ''Interval'' then num (hc_Interval h) (\<lambda>x. h\<lparr>hc_Interval := x\<rparr>)
         else if f = ''UnhealthyInterval'' then
           num (hc_UnhealthyInterval h) (\<lambda>x. h\<lparr>hc_UnhealthyInterval := x\<rparr>)
         else if f = ''Timeout'' then num (hc_Timeout h) (\<lambda>x. h\<lparr>hc_Timeout := x\<rparr>)
         else if f = ''Headers'' then
           map_option (\<lambda>hs'. (h, hs')) (json_slice json_Header zero_Header v hs)
         else if f = ''FollowRedirects'' then
           map_option (\<lambda>x. (h\<lparr>hc_FollowRedirects := x\<rparr>, hs)) (json_bool_ptr v)
         else if f = ''Method'' then str (hc_Method h) (\<lambda>x. h\<lparr>hc_Method := x\<rparr>)
         else num (hc_Status h) (\<lambda>x. h\<lparr>hc_Status := x\<rparr>))"

definition HealthCheck_fields :: "string list" where
  "HealthCheck_fields =
     [''Hostname'', ''Port'', ''Enabled'', ''Path'', ''Scheme'', ''Mode'', ''Interval'',
      ''UnhealthyInterval'', ''Timeout'', ''Headers'', ''FollowRedirects'', ''Method'', ''Status'']"

definition unmarshal_healthcheck :: "string \<Rightarrow> HealthCheck option" where
  "unmarshal_healthcheck raw =
     (case parse_json raw of
        None \<Rightarrow> None
      | Some v \<Rightarrow>
        map_option (\<lambda>(h, hs). h\<lparr>hc_Headers := slice_of hs\<rparr>)
          (json_struct HealthCheck_fields set_HealthCheck_field v (zero_HealthCheck, nil_slice_var)))"

text \<open>One definition per \<open>if\<close> statement of \<open>BuildTargetExtras\<close>; they run in this order.\<close>

definition extra_path :: "strmap \<Rightarrow> string \<Rightarrow> Target \<Rightarrow> Target" where
  "extra_path annotations pre t =
     (let v = TrimSpace (idx annotations (pre @ ''/target-path''))
      in if v \<noteq> [] then t\<lparr>tgt_Path := v\<rparr> else t)"

definition extra_path_match :: "strmap \<Rightarrow> string \<Rightarrow> Target \<Rightarrow> Target" where
  "extra_path_match annotations pre t =
     (let v = TrimSpace (idx annotations (pre @ ''/target-path-match''))
      in if v \<noteq> [] then
           (if v \<in> {''prefix'', ''exact'', ''regex''} then t\<lparr>tgt_PathMatch := v\<rparr> else t)
         else t)"

definition extra_rewrite_path :: "strmap \<Rightarrow> string \<Rightarrow> Target \<Rightarrow> Target" where
  "extra_rewrite_path annotations pre t =
     (let v = TrimSpace (idx annotations (pre @ ''/target-rewrite-path''))
      in if v \<noteq> [] then t\<lparr>tgt_RewritePath := v\<rparr> else t)"

definition extra_rewrite_match :: "strmap \<Rightarrow> string \<Rightarrow> Target \<Rightarrow> Target" where
  "extra_rewrite_match annotations pre t =
     (let v = TrimSpace (idx annotations (pre @ ''/target-rewrite-match''))
      in if v \<noteq> [] then
           (if v \<in> {''exact'', ''prefix'', ''regex'', ''stripPrefix''}
            then t\<lparr>tgt_RewriteMatch := v\<rparr> else t)
         else t)"

definition extra_priority :: "strmap \<Rightarrow> string \<Rightarrow> Target \<Rightarrow> Target" where
  "extra_priority annotations pre t =
     (let v = TrimSpace (idx annotations (pre @ ''/target-priority''))
      in if v \<noteq> [] then
           (case Atoi v of
              None \<Rightarrow> t
            | Some parsed \<Rightarrow>
              if parsed \<ge> 1 \<and> parsed \<le> 1000 then t\<lparr>tgt_Priority := parsed\<rparr> else t)
         else t)"

definition extra_internal_port :: "strmap \<Rightarrow> string \<Rightarrow> Target \<Rightarrow> Target" where
  "extra_internal_port annotations pre t =
     (let v = TrimSpace (idx annotations (pre @ ''/target-internal-port''))
      in if v \<noteq> [] then
           (case Atoi v of
              None \<Rightarrow> t
            | Some parsed \<Rightarrow>
              if parsed \<ge> 1 \<and> parsed \<le> 65535 then t\<lparr>tgt_InternalPort := parsed\<rparr> else t)
         else t)"

definition extra_healthcheck :: "strmap \<Rightarrow> string \<Rightarrow> Target \<Rightarrow> Target" where
  "extra_healthcheck annotations pre t =
     (let v = idx annotations (pre @ ''/target-healthcheck'')
      in if v \<noteq> [] then
           (case unmarshal_healthcheck v of
              None \<Rightarrow> t
            | Some hc \<Rightarrow> t\<lparr>tgt_HealthCheck := Some hc\<rparr>)
         else t)"

definition extra_enabled :: "strmap \<Rightarrow> string \<Rightarrow> Target \<Rightarrow> Target" where
  "extra_enabled annotations pre t =
     (let v = TrimSpace (idx annotations (pre @ ''/target-enabled''))
      in if v \<noteq> [] then t\<lparr>tgt_Enabled := Some (isTruthy v)\<rparr> else t)"

definition BuildTargetExtras :: "Target \<Rightarrow> strmap \<Rightarrow> string \<Rightarrow> Target" where
  "BuildTargetExtras base annotations pre =
     (let t = base;
        t = extra_path annotations pre t;
        t = extra_path_match annotations pre t;
        t = extra_rewrite_path annotations pre t;
        t = extra_rewrite_match annotations pre t;
        t = extra_priority annotations pre t;
        t = extra_internal_port annotations pre t;
        t = extra_healthcheck annotations pre t;
        t = extra_enabled annotations pre t
      in t)"

section \<open>Auth\<close>

text \<open>
  The data of the Secret is an association list, \<^term>\<open>None\<close> when no Secret was resolved.
  An annotation that is present overrides the global default even when it is empty.
\<close>

definition override :: "strmap \<Rightarrow> string \<Rightarrow> string \<Rightarrow> string" where
  "override annotations k def = (case annotations k of Some av \<Rightarrow> av | None \<Rightarrow> def)"

definition auth_idp :: "strmap \<Rightarrow> Config \<Rightarrow> int" where
  "auth_idp annotations cfg =
     (case annotations (cfg_AnnotationPrefix cfg @ ''/auth-sso-idp'') of
        None \<Rightarrow> cfg_AuthSSOIDP cfg
      | Some av \<Rightarrow>
        (case Atoi av of
           None \<Rightarrow> cfg_AuthSSOIDP cfg
         | Some parsed \<Rightarrow> if parsed > 0 then parsed else cfg_AuthSSOIDP cfg))"

definition secret_pincode :: "string gomap \<Rightarrow> int" where
  "secret_pincode secretData =
     (case map_of secretData ''pincode'' of
        None \<Rightarrow> 0
      | Some v \<Rightarrow> if v \<noteq> [] then (case Atoi v of None \<Rightarrow> 0 | Some parsed \<Rightarrow> parsed) else 0)"

definition secret_password :: "string gomap \<Rightarrow> string" where
  "secret_password secretData =
     (case map_of secretData ''password'' of None \<Rightarrow> [] | Some v \<Rightarrow> v)"

definition secret_basic_auth :: "string gomap \<Rightarrow> BasicAuth option" where
  "secret_basic_auth secretData =
     (let baUser = idx (map_of secretData) ''basic-auth-user'';
        baPass = idx (map_of secretData) ''basic-auth-password''
      in if baUser \<noteq> [] \<or> baPass \<noteq> [] then Some \<lparr>ba_User = baUser, ba_Password = baPass\<rparr> else None)"

definition BuildAuth :: "strmap \<Rightarrow> string gomap option \<Rightarrow> Config \<Rightarrow> Auth option" where
  "BuildAuth annotations secretData cfg =
     (let pre = cfg_AnnotationPrefix cfg;
        ssoEnabled = (case annotations (pre @ ''/auth-sso'') of None \<Rightarrow> False | Some v \<Rightarrow> isTruthy v);
        ssoRoles = (if ssoEnabled
          then splitCSV (override annotations (pre @ ''/auth-sso-roles'') (cfg_AuthSSORoles cfg)) else None);
        ssoUsers = (if ssoEnabled
          then splitCSV (override annotations (pre @ ''/auth-sso-users'') (cfg_AuthSSOUsers cfg)) else None);
        idp = (if ssoEnabled then auth_idp annotations cfg else 0);
        whitelistUsers =
          splitCSV (override annotations (pre @ ''/auth-whitelist-users'') (cfg_AuthWhitelistUsers cfg));
        pincode = (case secretData of None \<Rightarrow> 0 | Some sd \<Rightarrow> secret_pincode sd);
        password = (case secretData of None \<Rightarrow> [] | Some sd \<Rightarrow> secret_password sd);
        basicAuth = (case secretData of None \<Rightarrow> None | Some sd \<Rightarrow> secret_basic_auth sd)
      in if \<not> ssoEnabled \<and> elems whitelistUsers = [] \<and> pincode = 0 \<and> password = [] \<and> basicAuth = None
         then None
         else Some
           \<lparr>auth_Pincode = pincode, auth_Password = password, auth_BasicAuth = basicAuth,
            auth_SSOEnabled = ssoEnabled, auth_SSORoles = ssoRoles, auth_SSOUsers = ssoUsers,
            auth_WhitelistUsers = whitelistUsers, auth_AutoLoginIDP = idp\<rparr>)"

section \<open>Resources\<close>

definition BuildResource ::
  "string \<Rightarrow> string \<Rightarrow> strmap option \<Rightarrow> string gomap option \<Rightarrow> Config \<Rightarrow> Resource" where
  "BuildResource routeName hostname annotations secretData cfg =
     (let annotations = map_or_empty annotations;
        pre = cfg_AnnotationPrefix cfg;
        name = (case annotations (pre @ ''/name'') of
            None \<Rightarrow> routeName | Some v \<Rightarrow> if v \<noteq> [] then v else routeName);
        ssl = (case annotations (pre @ ''/ssl'') of None \<Rightarrow> cfg_SSL cfg | Some v \<Rightarrow> isTruthy v);
        enabled = (case annotations (pre @ ''/enabled'') of None \<Rightarrow> None | Some v \<Rightarrow> Some (isTruthy v));
        v = TrimSpace (idx annotations (pre @ ''/tls-server-name''));
        tlsServerName = (if v \<noteq> [] then v else hostname)
      in \<lparr>res_Name = name, res_Protocol = ''http'', res_Enabled = enabled, res_SSL = ssl,
          res_FullDomain = hostname,
          res_HostHeader = idx annotations (pre @ ''/host-header''),
          res_TLSServerName = tlsServerName, res_ProxyPort = 0,
          res_Headers = BuildHeaders annotations pre,
          res_Auth = BuildAuth annotations secretData cfg,
          res_Maintenance = BuildMaintenance annotations pre,
          res_Rules = BuildRules annotations pre cfg,
          res_Targets = Some
            [BuildTargetExtras
              (zero_Target\<lparr>tgt_Site := cfg_SiteID cfg, tgt_Hostname := cfg_TargetHostname cfg,
                 tgt_Method := cfg_TargetMethod cfg, tgt_Port := cfg_TargetPort cfg\<rparr>)
              annotations pre]\<rparr>)"

record ServicePort =
  sp_Name :: string
  sp_Protocol :: string
  sp_ProxyPort :: int
  sp_TargetPort :: int
  sp_TargetHostname :: string
  sp_FullDomain :: string
  sp_TLSServerName :: string
  sp_Method :: string
  sp_SSL :: bool
  sp_HostHeader :: string
  sp_Headers :: "Header slice"
  sp_Maintenance :: "Maintenance option"
  sp_Auth :: "Auth option"
  sp_Rules :: "Rule slice"
  sp_TargetEnabled :: "bool option"
  sp_TargetPath :: string
  sp_TargetPathMatch :: string
  sp_TargetRewritePath :: string
  sp_TargetRewriteMatch :: string
  sp_TargetPriority :: int
  sp_TargetInternalPort :: int
  sp_TargetHealthCheck :: "HealthCheck option"

definition zero_ServicePort :: ServicePort where
  "zero_ServicePort =
     \<lparr>sp_Name = [], sp_Protocol = [], sp_ProxyPort = 0, sp_TargetPort = 0, sp_TargetHostname = [],
      sp_FullDomain = [], sp_TLSServerName = [], sp_Method = [], sp_SSL = False, sp_HostHeader = [],
      sp_Headers = None, sp_Maintenance = None, sp_Auth = None, sp_Rules = None,
      sp_TargetEnabled = None, sp_TargetPath = [], sp_TargetPathMatch = [], sp_TargetRewritePath = [],
      sp_TargetRewriteMatch = [], sp_TargetPriority = 0, sp_TargetInternalPort = 0,
      sp_TargetHealthCheck = None\<rparr>"

definition zero_Resource :: Resource where
  "zero_Resource =
     \<lparr>res_Name = [], res_Protocol = [], res_Enabled = None, res_SSL = False, res_FullDomain = [],
      res_HostHeader = [], res_TLSServerName = [], res_ProxyPort = 0, res_Headers = None,
      res_Auth = None, res_Maintenance = None, res_Rules = None, res_Targets = None\<rparr>"

definition BuildServiceResource :: "ServicePort \<Rightarrow> Config \<Rightarrow> Resource" where
  "BuildServiceResource sp cfg =
     (if sp_FullDomain sp \<noteq> [] then
        let tlsServerName =
          (if sp_TLSServerName sp \<noteq> [] then sp_TLSServerName sp else sp_FullDomain sp)
        in \<lparr>res_Name = sp_Name sp, res_Protocol = ''http'', res_Enabled = None,
            res_SSL = sp_SSL sp, res_FullDomain = sp_FullDomain sp,
            res_HostHeader = sp_HostHeader sp, res_TLSServerName = tlsServerName,
            res_ProxyPort = 0, res_Headers = sp_Headers sp, res_Auth = sp_Auth sp,
            res_Maintenance = sp_Maintenance sp, res_Rules = sp_Rules sp,
            res_Targets = Some
              [\<lparr>tgt_Site = cfg_SiteID cfg, tgt_Hostname = sp_TargetHostname sp,
                tgt_Enabled = sp_TargetEnabled sp, tgt_Method = sp_Method sp,
                tgt_Port = sp_TargetPort sp, tgt_InternalPort = sp_TargetInternalPort sp,
                tgt_Path = sp_TargetPath sp, tgt_PathMatch = sp_TargetPathMatch sp,
                tgt_RewritePath = sp_TargetRewritePath sp,
                tgt_RewriteMatch = sp_TargetRewriteMatch sp,
                tgt_Priority = sp_TargetPriority sp,
                tgt_HealthCheck = sp_TargetHealthCheck sp\<rparr>]\<rparr>
      else zero_Resource\<lparr>res_Name := sp_Name sp, res_Protocol := sp_Protocol sp,
             res_ProxyPort := sp_ProxyPort sp,
             res_Targets := Some
               [zero_Target\<lparr>tgt_Site := cfg_SiteID cfg, tgt_Hostname := sp_TargetHostname sp,
                  tgt_Port := sp_TargetPort sp\<rparr>]\<rparr>)"

section \<open>Lists built by append loops\<close>

text \<open>The reference meaning of a comma-separated list: its trimmed non-empty items, in order.\<close>

definition csv_items :: "string \<Rightarrow> string list" where
  "csv_items s = filter (\<lambda>v. v \<noteq> []) (map TrimSpace (SplitSeq s (CHR '','')))"

definition deny_rule :: "string \<Rightarrow> Rule" where
  "deny_rule country =
     \<lparr>rule_Action = ''deny'', rule_Match = ''country'', rule_Value = country, rule_Priority = 0\<rparr>"

lemma csv_items_Nil [simp]: "csv_items [] = []"
  by (simp add: csv_items_def)

lemma csv_loop_eq:
  "csv_loop vs (nil_if_empty out) = nil_if_empty (out @ filter (\<lambda>v. v \<noteq> []) (map TrimSpace vs))"
  by (induction vs arbitrary: out) (simp_all add: append1_nil_if_empty)

lemma deny_loop_eq:
  "deny_loop cs (nil_if_empty out) =
     nil_if_empty (out @ map deny_rule (filter (\<lambda>v. v \<noteq> []) (map TrimSpace cs)))"
  by (induction cs arbitrary: out) (simp_all add: append1_nil_if_empty deny_rule_def)

lemma valid_loop_eq: "valid_loop rs (nil_if_empty out) = nil_if_empty (out @ filter isValidRule rs)"
  by (induction rs arbitrary: out) (simp_all add: append1_nil_if_empty)

lemmas append_loops =
  csv_loop_eq [of _ "[]", simplified] deny_loop_eq [of _ "[]", simplified]
  valid_loop_eq [of _ "[]", simplified]

lemma splitCSV_eq: "splitCSV s = nil_if_empty (csv_items s)"
  by (cases "s = []") (simp_all add: splitCSV_def append_loops csv_items_def)

lemma buildDenyRules_eq: "buildDenyRules cfg = nil_if_empty (map deny_rule (csv_items (cfg_DenyCountries cfg)))"
  by (cases "cfg_DenyCountries cfg = []")
    (simp_all add: buildDenyRules_def append_loops csv_items_def)

lemma csv_items_trimmed: "v \<in> set (csv_items s) \<Longrightarrow> TrimSpace v = v \<and> v \<noteq> [] \<and> CHR '','' \<notin> set v"
  using SplitSeq_no_sep TrimSpace_set by (fastforce simp: csv_items_def TrimSpace_idem)

text \<open>Items that a comma-separated list can carry: trimmed, not empty and without a comma.\<close>

definition csv_item :: "string \<Rightarrow> bool" where
  "csv_item v \<longleftrightarrow> TrimSpace v = v \<and> v \<noteq> [] \<and> CHR '','' \<notin> set v"

lemma csv_items_join: "list_all csv_item items \<Longrightarrow> csv_items (join_with (CHR '','') items) = items"
proof (cases "items = []")
  case False
  assume ok: "list_all csv_item items"
  with False have "SplitSeq (join_with (CHR '','') items) (CHR '','') = items"
    by (intro SplitSeq_join) (auto simp: list_all_iff csv_item_def)
  moreover have "map TrimSpace items = items" using ok by (simp add: list_all_iff csv_item_def map_idI)
  moreover have "filter (\<lambda>v. v \<noteq> []) items = items"
    using ok by (auto simp: list_all_iff csv_item_def intro!: filter_True)
  ultimately show ?thesis by (simp add: csv_items_def)
qed simp

text \<open>
  C16. Comma-separated settings (roles, users, white lists, countries) round trip: joining items by
  commas and splitting the text again gives the items back exactly when each is trimmed, not
  empty and free of commas; and joining the items of any text gives a text with the same items.
\<close>

theorem splitCSV_roundtrip:
  "(splitCSV (join_with (CHR '','') items) = nil_if_empty items \<longleftrightarrow> list_all csv_item items) \<and>
   splitCSV (join_with (CHR '','') (elems (splitCSV s))) = splitCSV s"
proof -
  have "list_all csv_item (csv_items s)" for s
    using csv_items_trimmed by (auto simp: list_all_iff csv_item_def)
  moreover have "csv_items s = items" if "nil_if_empty (csv_items s) = nil_if_empty items" for s items
    using that by (metis elems_nil_if_empty)
  ultimately show ?thesis by (metis csv_items_join splitCSV_eq elems_nil_if_empty)
qed

lemma isValidRule_iff:
  "isValidRule r \<longleftrightarrow>
     rule_Action r \<in> {''allow'', ''deny'', ''pass''} \<and>
     rule_Match r \<in> {''cidr'', ''ip'', ''path'', ''country''} \<and> rule_Value r \<noteq> [] \<and>
     (rule_Priority r = 0 \<or> 1 \<le> rule_Priority r \<and> rule_Priority r \<le> 1000)"
  by (auto simp: isValidRule_def)

lemma isValidRule_deny_rule: "isValidRule (deny_rule c) \<longleftrightarrow> c \<noteq> []"
  by (simp add: isValidRule_iff deny_rule_def)

text \<open>The rules an annotation asks for; none when it is absent, empty or not valid JSON.\<close>

definition annotation_rules :: "strmap \<Rightarrow> string \<Rightarrow> Rule list" where
  "annotation_rules annotations pre =
     (case annotations (pre @ ''/rules'') of
        None \<Rightarrow> []
      | Some raw \<Rightarrow>
        if raw = [] then []
        else (case unmarshal_rules raw of None \<Rightarrow> [] | Some rs \<Rightarrow> elems rs))"

lemma BuildRules_eq:
  "BuildRules annotations pre cfg =
     nil_if_empty (filter isValidRule (annotation_rules annotations pre) @
       map deny_rule (csv_items (cfg_DenyCountries cfg)))"
proof -
  have "(case annotations (pre @ ''/rules'') of
           None \<Rightarrow> None
         | Some raw \<Rightarrow>
           if raw \<noteq> [] then
             (case unmarshal_rules raw of
                None \<Rightarrow> None
              | Some annotationRules \<Rightarrow> valid_loop (elems annotationRules) None)
           else None) = nil_if_empty (filter isValidRule (annotation_rules annotations pre))"
    by (auto simp: annotation_rules_def append_loops split: option.splits)
  then show ?thesis
    by (auto simp: BuildRules_def Let_def buildDenyRules_eq append_slice_nil_if_empty)
qed

text \<open>
  C14. The rules of a resource are the valid rules of the annotation, in their order, followed by
  one deny rule per configured country; the slice is nil exactly when there is none, and every
  rule in it is valid.
\<close>

theorem BuildRules_spec:
  "BuildRules annotations pre cfg =
     nil_if_empty (filter isValidRule (annotation_rules annotations pre) @
       map deny_rule (csv_items (cfg_DenyCountries cfg)))
   \<and> list_all isValidRule (elems (BuildRules annotations pre cfg))"
  using csv_items_trimmed
  by (auto simp: BuildRules_eq list_all_iff isValidRule_deny_rule)

section \<open>Target extras\<close>

lemmas extras_defs =
  extra_path_def extra_path_match_def extra_rewrite_path_def extra_rewrite_match_def
  extra_priority_def extra_internal_port_def extra_healthcheck_def extra_enabled_def

text \<open>A number annotation counts only when it parses and lies in its range.\<close>

definition ranged :: "int \<Rightarrow> int \<Rightarrow> string \<Rightarrow> int option" where
  "ranged lo hi v =
     (case Atoi v of None \<Rightarrow> None | Some n \<Rightarrow> if lo \<le> n \<and> n \<le> hi then Some n else None)"

definition or_else :: "'a \<Rightarrow> 'a option \<Rightarrow> 'a" where
  "or_else d x = (case x of None \<Rightarrow> d | Some v \<Rightarrow> v)"

definition non_empty :: "string \<Rightarrow> string option" where
  "non_empty v = (if v = [] then None else Some v)"

definition one_of :: "string set \<Rightarrow> string \<Rightarrow> string option" where
  "one_of S v = (if v \<in> S then Some v else None)"

lemmas choice_defs = ranged_def or_else_def non_empty_def one_of_def

text \<open>Every field of the enriched target, as a function of the annotations and the base target.\<close>

lemma BuildTargetExtras_fields:
  fixes annotations :: strmap and pre :: string
  defines "val \<equiv> \<lambda>k. TrimSpace (idx annotations (pre @ k))"
  shows "BuildTargetExtras base annotations pre =
    base\<lparr>tgt_Path := or_else (tgt_Path base) (non_empty (val ''/target-path'')),
      tgt_PathMatch := or_else (tgt_PathMatch base)
        (one_of {''prefix'', ''exact'', ''regex''} (val ''/target-path-match'')),
      tgt_RewritePath := or_else (tgt_RewritePath base) (non_empty (val ''/target-rewrite-path'')),
      tgt_RewriteMatch := or_else (tgt_RewriteMatch base)
        (one_of {''exact'', ''prefix'', ''regex'', ''stripPrefix''} (val ''/target-rewrite-match'')),
      tgt_Priority := or_else (tgt_Priority base) (ranged 1 1000 (val ''/target-priority'')),
      tgt_InternalPort := or_else (tgt_InternalPort base) (ranged 1 65535 (val ''/target-internal-port'')),
      tgt_HealthCheck := or_else (tgt_HealthCheck base)
        (Option.bind (non_empty (idx annotations (pre @ ''/target-healthcheck'')))
          (\<lambda>v. map_option Some (unmarshal_healthcheck v))),
      tgt_Enabled := or_else (tgt_Enabled base)
        (map_option (\<lambda>v. Some (isTruthy v)) (non_empty (val ''/target-enabled'')))\<rparr>"
proof -
  have "extra_path annotations pre t = t\<lparr>tgt_Path := or_else (tgt_Path t) (non_empty (val ''/target-path''))\<rparr>" for t
    by (simp add: extras_defs choice_defs val_def Let_def)
  moreover have "extra_path_match annotations pre t = t\<lparr>tgt_PathMatch := or_else (tgt_PathMatch t)
        (one_of {''prefix'', ''exact'', ''regex''} (val ''/target-path-match''))\<rparr>" for t
    by (auto simp: extras_defs choice_defs val_def Let_def)
  moreover have "extra_rewrite_path annotations pre t =
      t\<lparr>tgt_RewritePath := or_else (tgt_RewritePath t) (non_empty (val ''/target-rewrite-path''))\<rparr>" for t
    by (simp add: extras_defs choice_defs val_def Let_def)
  moreover have "extra_rewrite_match annotations pre t = t\<lparr>tgt_RewriteMatch := or_else (tgt_RewriteMatch t)
        (one_of {''exact'', ''prefix'', ''regex'', ''stripPrefix''} (val ''/target-rewrite-match''))\<rparr>" for t
    by (auto simp: extras_defs choice_defs val_def Let_def)
  moreover have "extra_priority annotations pre t =
      t\<lparr>tgt_Priority := or_else (tgt_Priority t) (ranged 1 1000 (val ''/target-priority''))\<rparr>" for t
    by (auto simp: extras_defs choice_defs val_def Let_def split: option.splits)
  moreover have "extra_internal_port annotations pre t =
      t\<lparr>tgt_InternalPort := or_else (tgt_InternalPort t) (ranged 1 65535 (val ''/target-internal-port''))\<rparr>" for t
    by (auto simp: extras_defs choice_defs val_def Let_def split: option.splits)
  moreover have "extra_healthcheck annotations pre t =
      t\<lparr>tgt_HealthCheck := or_else (tgt_HealthCheck t)
        (Option.bind (non_empty (idx annotations (pre @ ''/target-healthcheck'')))
          (\<lambda>v. map_option Some (unmarshal_healthcheck v)))\<rparr>" for t
    by (simp add: extras_defs choice_defs Let_def split: option.splits)
  moreover have "extra_enabled annotations pre t = t\<lparr>tgt_Enabled := or_else (tgt_Enabled t)
        (map_option (\<lambda>v. Some (isTruthy v)) (non_empty (val ''/target-enabled'')))\<rparr>" for t
    by (simp add: extras_defs choice_defs val_def Let_def)
  ultimately show ?thesis by (simp add: BuildTargetExtras_def Let_def)
qed

lemma or_else_idem: "or_else (or_else d x) x = or_else d x"
  by (simp add: or_else_def split: option.splits)

lemma or_else_one_of: "or_else d (one_of S v) \<in> insert d S"
  by (simp add: choice_defs)

lemma or_else_ranged: "or_else d (ranged lo hi v) \<in> insert d {lo..hi}"
  by (simp add: choice_defs split: option.splits)

lemma BuildTargetExtras_sel:
  "tgt_Site (BuildTargetExtras base annotations pre) = tgt_Site base"
  "tgt_Hostname (BuildTargetExtras base annotations pre) = tgt_Hostname base"
  "tgt_Method (BuildTargetExtras base annotations pre) = tgt_Method base"
  "tgt_Port (BuildTargetExtras base annotations pre) = tgt_Port base"
  "tgt_PathMatch (BuildTargetExtras base annotations pre) = or_else (tgt_PathMatch base)
     (one_of {''prefix'', ''exact'', ''regex''} (TrimSpace (idx annotations (pre @ ''/target-path-match''))))"
  "tgt_RewriteMatch (BuildTargetExtras base annotations pre) = or_else (tgt_RewriteMatch base)
     (one_of {''exact'', ''prefix'', ''regex'', ''stripPrefix''}
       (TrimSpace (idx annotations (pre @ ''/target-rewrite-match''))))"
  "tgt_Priority (BuildTargetExtras base annotations pre) = or_else (tgt_Priority base)
     (ranged 1 1000 (TrimSpace (idx annotations (pre @ ''/target-priority''))))"
  "tgt_InternalPort (BuildTargetExtras base annotations pre) = or_else (tgt_InternalPort base)
     (ranged 1 65535 (TrimSpace (idx annotations (pre @ ''/target-internal-port''))))"
  by (simp_all add: BuildTargetExtras_fields)

lemma BuildTargetExtras_idem:
  "BuildTargetExtras (BuildTargetExtras base annotations pre) annotations pre =
     BuildTargetExtras base annotations pre"
  by (simp add: BuildTargetExtras_fields or_else_idem)

text \<open>
  C15. Annotations can only set the optional fields of a target, and only to values the blueprint
  schema allows: the site, host name, method and port are the ones given; path-match and
  rewrite-match keep their value or take one of the documented words; priority and internal port
  keep their value or lie in 1..1000 and 1..65535. Applying the annotations again changes nothing.
\<close>

theorem BuildTargetExtras_bounds:
  "let t = BuildTargetExtras base annotations pre in
    (tgt_Site t, tgt_Hostname t, tgt_Method t, tgt_Port t) =
      (tgt_Site base, tgt_Hostname base, tgt_Method base, tgt_Port base) \<and>
    tgt_PathMatch t \<in> {tgt_PathMatch base, ''prefix'', ''exact'', ''regex''} \<and>
    tgt_RewriteMatch t \<in> {tgt_RewriteMatch base, ''exact'', ''prefix'', ''regex'', ''stripPrefix''} \<and>
    tgt_Priority t \<in> insert (tgt_Priority base) {1..1000} \<and>
    tgt_InternalPort t \<in> insert (tgt_InternalPort base) {1..65535} \<and>
    BuildTargetExtras t annotations pre = t"
  unfolding Let_def BuildTargetExtras_idem
  by (simp only: BuildTargetExtras_sel or_else_one_of or_else_ranged simp_thms)

section \<open>Auth\<close>

lemmas BuildAuth_simps = BuildAuth_def Let_def

text \<open>
  C17. SSO is enabled by the annotation of the resource and by nothing else: whatever the global
  defaults and the Secret are, an auth block has SSO enabled exactly when the annotation
  \<open>auth-sso\<close> is true, and without SSO it carries no roles, no users and no identity provider.
\<close>

theorem BuildAuth_sso_opt_in:
  assumes "BuildAuth annotations secretData cfg = Some auth"
  shows "(auth_SSOEnabled auth \<longleftrightarrow>
      (\<exists>v. annotations (cfg_AnnotationPrefix cfg @ ''/auth-sso'') = Some v \<and> isTruthy v)) \<and>
    (auth_SSOEnabled auth \<or>
      auth_SSORoles auth = None \<and> auth_SSOUsers auth = None \<and> auth_AutoLoginIDP auth = 0)"
  using assms by (auto simp: BuildAuth_simps split: if_splits option.splits)

theorem BuildAuth_sso_opt_in_witness:
  "auth_SSOEnabled (the (BuildAuth [''newt-sidecar/auth-sso'' \<mapsto> ''true''] None default_config))"
proof -
  let ?a = "[''newt-sidecar/auth-sso'' \<mapsto> ''true'']"
  obtain auth where auth: "BuildAuth ?a None default_config = Some auth"
    by (simp add: BuildAuth_simps default_config_def isTruthy_def)
  show ?thesis
    using BuildAuth_sso_opt_in [OF auth] auth by (simp add: default_config_def isTruthy_def)
qed

text \<open>
  C18. Sensitive values come from the Secret only. Two resources with the same Secret get the same
  pincode, password and basic-auth whatever their annotations and configurations are, and with no
  Secret an auth block has none of them.
\<close>

theorem BuildAuth_secrets_from_secret:
  "map_option (\<lambda>a. (auth_Pincode a, auth_Password a, auth_BasicAuth a)) (BuildAuth annotations secretData cfg)
     \<in> {None, Some (case secretData of
          None \<Rightarrow> (0, [], None)
        | Some sd \<Rightarrow> (secret_pincode sd, secret_password sd, secret_basic_auth sd))}"
  by (auto simp: BuildAuth_simps split: option.splits)

section \<open>Resources\<close>

text \<open>
  In TCP/UDP mode a Service resource is a bare port: no SSL, domain, TLS server name, headers,
  auth, maintenance page or rules, and one target with only site, host name and port; in HTTP mode
  it speaks \<open>http\<close>, has no proxy port and always a TLS server name.
\<close>

lemma BuildServiceResource_modes:
  "let r = BuildServiceResource sp cfg in
    if sp_FullDomain sp = [] then
      r = zero_Resource\<lparr>res_Name := sp_Name sp, res_Protocol := sp_Protocol sp, res_ProxyPort := sp_ProxyPort sp,
        res_Targets := Some [zero_Target\<lparr>tgt_Site := cfg_SiteID cfg,
          tgt_Hostname := sp_TargetHostname sp, tgt_Port := sp_TargetPort sp\<rparr>]\<rparr> \<and>
      res_Auth r = None \<and> res_Rules r = None \<and> res_TLSServerName r = [] \<and> \<not> res_SSL r
    else
      res_Protocol r = ''http'' \<and> res_ProxyPort r = 0 \<and> res_TLSServerName r \<noteq> [] \<and>
      res_FullDomain r = sp_FullDomain sp \<and> res_Auth r = sp_Auth sp \<and> res_Rules r = sp_Rules sp"
  by (simp add: BuildServiceResource_def Let_def zero_Resource_def)

section \<open>Keys\<close>

lemma ReplaceAll1_eq_iff:
  "ReplaceAll1 s old new = ReplaceAll1 t old new \<longleftrightarrow>
     list_all2 (\<lambda>a b. a = b \<or> a \<in> {old, new} \<and> b \<in> {old, new}) s t"
proof -
  have "map f s = map f t \<longleftrightarrow> list_all2 (\<lambda>a b. f a = f b) s t" for f :: "char \<Rightarrow> char"
    by (simp add: list.rel_map flip: list.rel_eq)
  moreover have "(\<lambda>a b. (if a = old then new else a) = (if b = old then new else b)) =
      (\<lambda>a b. a = b \<or> a \<in> {old, new} \<and> b \<in> {old, new})"
    by (auto simp: fun_eq_iff)
  ultimately show ?thesis by (simp add: ReplaceAll1_def)
qed

text \<open>
  C39. Two host names get the same blueprint key exactly when they agree except that one has a dot
  where the other has a hyphen; a key never contains a dot.
\<close>

theorem HostnameToKey_collisions:
  "(HostnameToKey h = HostnameToKey h' \<longleftrightarrow>
     list_all2 (\<lambda>a b. a = b \<or> a \<in> {CHR ''.'', CHR ''-''} \<and> b \<in> {CHR ''.'', CHR ''-''}) h h') \<and>
   CHR ''.'' \<notin> set (HostnameToKey h)"
  unfolding HostnameToKey_def ReplaceAll1_eq_iff by (auto simp: ReplaceAll1_def)

text \<open>
  The key of a Service does not determine its namespace and name: a hyphen can belong to
  either. Distinct Services such as \<open>a-b/c\<close> and \<open>a/b-c\<close> with the same port share a key.
\<close>

lemma ServiceToKey_ambiguous:
  "ServiceToKey (a @ ''-'' @ b) c port protocol = ServiceToKey a (b @ ''-'' @ c) port protocol"
  by (simp add: ServiceToKey_def)

section \<open>The health check annotation\<close>

text \<open>The member names the README documents for the health check annotation.\<close>

definition documented_healthcheck_keys :: "string list" where
  "documented_healthcheck_keys =
     [''hostname'', ''port'', ''enabled'', ''path'', ''scheme'', ''mode'', ''interval'',
      ''unhealthy-interval'', ''timeout'', ''headers'', ''follow-redirects'', ''method'', ''status'']"

lemma documented_keys_fields:
  "list_all (\<lambda>k. field_for HealthCheck_fields k \<notin> {Some ''UnhealthyInterval'', Some ''FollowRedirects''})
     documented_healthcheck_keys"
  by code_simp

lemma set_HealthCheck_field_frame:
  assumes "set_HealthCheck_field f v (h, hs) = Some (h', hs')"
    and "f \<noteq> ''UnhealthyInterval''" and "f \<noteq> ''FollowRedirects''"
  shows "hc_UnhealthyInterval h' = hc_UnhealthyInterval h \<and> hc_FollowRedirects h' = hc_FollowRedirects h"
  using assms unfolding set_HealthCheck_field_def by (auto simp: Let_def split: if_splits)

text \<open>
  C40. A health check written with the documented member names never sets the unhealthy interval
  or the redirect policy: the hyphenated names match no field of the struct, so whatever the
  annotation says, both stay unset.
\<close>

theorem healthcheck_hyphenated_keys_ignored:
  assumes "parse_json raw = Some (JObj ms)"
    and "list_all (\<lambda>(k, v). k \<in> set documented_healthcheck_keys) ms"
    and "unmarshal_healthcheck raw = Some hc"
  shows "hc_UnhealthyInterval hc = 0 \<and> hc_FollowRedirects hc = None"
proof -
  let ?P = "\<lambda>(h, hs :: Header slice_var). hc_UnhealthyInterval h = 0 \<and> hc_FollowRedirects h = None"
  obtain h hs where dec: "json_members HealthCheck_fields set_HealthCheck_field ms
      (zero_HealthCheck, nil_slice_var) = Some (h, hs)" and hc: "hc = h\<lparr>hc_Headers := slice_of hs\<rparr>"
    using assms(1,3) by (auto simp: unmarshal_healthcheck_def json_struct_def)
  have "?P (h, hs)"
  proof (rule json_members_invariant [OF dec, where P = ?P])
    show "?P (zero_HealthCheck, nil_slice_var)" by (simp add: zero_HealthCheck_def)
  next
    fix k v f q q'
    assume "(k, v) \<in> set ms" and f: "field_for HealthCheck_fields k = Some f"
      and "set_HealthCheck_field f v q = Some q'" and "?P q"
    moreover from this assms(2) documented_keys_fields
    have "f \<noteq> ''UnhealthyInterval'' \<and> f \<noteq> ''FollowRedirects''"
      by (auto simp: list_all_iff)
    ultimately show "?P q'" by (cases q; cases q') (auto dest: set_HealthCheck_field_frame)
  qed
  then show ?thesis by (simp add: hc)
qed

text \<open>JSON texts below are written with a backquote for the double quote.\<close>

definition json_text :: "string \<Rightarrow> string" where
  "json_text s = map (\<lambda>c. if c = CHR ''`'' then CHR 0x22 else c) s"

theorem healthcheck_hyphenated_keys_ignored_witness:
  "let hc = the (unmarshal_healthcheck
      (json_text ''{`hostname`:`h`,`port`:80,`unhealthy-interval`:5,`follow-redirects`:false}''))
   in hc_Port hc = 80 \<and> hc_UnhealthyInterval hc = 0 \<and> hc_FollowRedirects hc = None"
proof -
  let ?raw = "json_text ''{`hostname`:`h`,`port`:80,`unhealthy-interval`:5,`follow-redirects`:false}''"
  let ?ms = "[(''hostname'', JStr ''h''), (''port'', JNum ''80''),
    (''unhealthy-interval'', JNum ''5''), (''follow-redirects'', JBool False)]"
  let ?hc = "zero_HealthCheck\<lparr>hc_Hostname := ''h'', hc_Port := 80\<rparr>"
  have parse: "parse_json ?raw = Some (JObj ?ms)" by code_simp
  have keys: "list_all (\<lambda>(k, v). k \<in> set documented_healthcheck_keys) ?ms" by code_simp
  have dec: "unmarshal_healthcheck ?raw = Some ?hc" by code_simp
  show ?thesis
    using healthcheck_hyphenated_keys_ignored [OF parse keys dec] dec by (simp add: Let_def)
qed

end
