(* ===== verification/StateManager.thy ===== *)
theory StateManager
  imports Blueprint
begin

text \<open>
  The state manager (\<open>internal/state/manager.go\<close>): the blueprint entries held in memory and
  the file they are written to. Every exported method takes the mutex for its whole body, so a
  method is one atomic operation on the manager and the world. The YAML package is a parameter
  (\<open>marshal\<close>); the operating system may fail every call in every way the code can see, and
  the world remembers every state of the file system that another process could have read.
\<close>

section \<open>The operating system\<close>

text \<open>
  \<open>os.WriteFile\<close> opens with truncation, writes and closes; each of the three may fail, a
  failed write after any number of bytes. One \<open>os_outcome\<close> answers the system calls of one
  run of \<open>writeState\<close>.
\<close>

datatype write_outcome = WriteOk | OpenFails string | WriteFails nat string | CloseFails string

record os_outcome =
  oo_write :: write_outcome
  oo_rename :: "string option"
  oo_remove_fails :: bool
  oo_now :: int

type_synonym files = "string \<rightharpoonup> string"

record World =
  w_files :: files
  w_seen :: "files list" \<comment> \<open>every file system state so far, newest first\<close>
  w_script :: "nat \<Rightarrow> os_outcome"
  w_tick :: nat

definition put_files :: "files \<Rightarrow> World \<Rightarrow> World" where
  "put_files f w = w\<lparr>w_files := f, w_seen := f # w_seen w\<rparr>"

definition os_WriteFile :: "os_outcome \<Rightarrow> string \<Rightarrow> string \<Rightarrow> World \<Rightarrow> string option \<times> World" where
  "os_WriteFile oo name data w =
     (let opened = put_files ((w_files w)(name \<mapsto> [])) w;
        wrote = (\<lambda>bytes. put_files ((w_files w)(name \<mapsto> bytes)) opened)
      in case oo_write oo of
           OpenFails e \<Rightarrow> (Some e, w)
         | WriteFails n e \<Rightarrow> (Some e, wrote (take n data))
         | CloseFails e \<Rightarrow> (Some e, wrote data)
         | WriteOk \<Rightarrow> (None, wrote data))"

definition os_Rename :: "os_outcome \<Rightarrow> string \<Rightarrow> string \<Rightarrow> World \<Rightarrow> string option \<times> World" where
  "os_Rename oo old new w =
     (case oo_rename oo of
        Some e \<Rightarrow> (Some e, w)
      | None \<Rightarrow> (None, put_files ((w_files w)(old := None, new := w_files w old)) w))"

definition os_Remove :: "os_outcome \<Rightarrow> string \<Rightarrow> World \<Rightarrow> World" where
  "os_Remove oo name w =
     (if oo_remove_fails oo then w else put_files ((w_files w)(name := None)) w)"

section \<open>The manager\<close>

record Manager =
  mgr_resources :: "string \<rightharpoonup> Resource"
  mgr_privateResources :: "string \<rightharpoonup> PrivateResource"
  mgr_outputFile :: string
  mgr_lastWriteErr :: "string option"
  mgr_lastWriteTime :: "int option" \<comment> \<open>\<open>None\<close> for the zero time\<close>

type_synonym marshaller = "Blueprint \<Rightarrow> string + string"
type_synonym mstate = "Manager \<times> World"

definition NewManager :: "string \<Rightarrow> Manager" where
  "NewManager outputFile =
     \<lparr>mgr_resources = Map.empty, mgr_privateResources = Map.empty, mgr_outputFile = outputFile,
      mgr_lastWriteErr = None, mgr_lastWriteTime = None\<rparr>"

definition blueprint_of :: "Manager \<Rightarrow> Blueprint" where
  "blueprint_of m =
     \<lparr>bp_PublicResources = mgr_resources m, bp_PrivateResources = mgr_privateResources m\<rparr>"

definition tmp_file :: "Manager \<Rightarrow> string" where
  "tmp_file m = mgr_outputFile m @ ''.tmp''"

definition writeState :: "marshaller \<Rightarrow> mstate \<Rightarrow> mstate" where
  "writeState marshal s =
     (let (m, w) = s;
        oo = w_script w (w_tick w);
        w = w\<lparr>w_tick := Suc (w_tick w)\<rparr>
      in case marshal (blueprint_of m) of
           Inl err \<Rightarrow> (m\<lparr>mgr_lastWriteErr := Some err\<rparr>, w)
         | Inr yamlData \<Rightarrow>
           (case os_WriteFile oo (tmp_file m) yamlData w of
              (Some err, w) \<Rightarrow> (m\<lparr>mgr_lastWriteErr := Some err\<rparr>, w)
            | (None, w) \<Rightarrow>
              (case os_Rename oo (tmp_file m) (mgr_outputFile m) w of
                 (Some err, w) \<Rightarrow> (m\<lparr>mgr_lastWriteErr := Some err\<rparr>, os_Remove oo (tmp_file m) w)
               | (None, w) \<Rightarrow>
                 (m\<lparr>mgr_lastWriteErr := None, mgr_lastWriteTime := Some (oo_now oo)\<rparr>, w))))"

definition AddOrUpdate :: "marshaller \<Rightarrow> string \<Rightarrow> Resource \<Rightarrow> bool \<Rightarrow> mstate \<Rightarrow> bool \<times> mstate" where
  "AddOrUpdate marshal key r write s =
     (let (m, w) = s
      in if mgr_resources m key = Some r then (False, s)
         else let s = (m\<lparr>mgr_resources := (mgr_resources m)(key \<mapsto> r)\<rparr>, w)
              in (True, if write then writeState marshal s else s))"

definition AddOrUpdatePrivate ::
  "marshaller \<Rightarrow> string \<Rightarrow> PrivateResource \<Rightarrow> bool \<Rightarrow> mstate \<Rightarrow> bool \<times> mstate" where
  "AddOrUpdatePrivate marshal key r write s =
     (let (m, w) = s
      in if mgr_privateResources m key = Some r then (False, s)
         else let s = (m\<lparr>mgr_privateResources := (mgr_privateResources m)(key \<mapsto> r)\<rparr>, w)
              in (True, if write then writeState marshal s else s))"

definition RemovePrivate :: "marshaller \<Rightarrow> string \<Rightarrow> mstate \<Rightarrow> bool \<times> mstate" where
  "RemovePrivate marshal key s =
     (let (m, w) = s
      in if mgr_privateResources m key = None then (False, s)
         else (True, writeState marshal
           (m\<lparr>mgr_privateResources := (mgr_privateResources m)(key := None)\<rparr>, w)))"

definition Remove :: "marshaller \<Rightarrow> string \<Rightarrow> mstate \<Rightarrow> bool \<times> mstate" where
  "Remove marshal key s =
     (let (m, w) = s
      in if mgr_resources m key = None then (False, s)
         else (True, writeState marshal (m\<lparr>mgr_resources := (mgr_resources m)(key := None)\<rparr>, w)))"

definition ForceWrite :: "marshaller \<Rightarrow> mstate \<Rightarrow> mstate" where
  "ForceWrite marshal s = writeState marshal s"

text \<open>\<open>now\<close> is the clock when the method runs; durations and times are in nanoseconds.\<close>

definition WriteHealthy :: "int \<Rightarrow> int \<Rightarrow> Manager \<Rightarrow> bool" where
  "WriteHealthy now threshold m =
     (if mgr_lastWriteErr m \<noteq> None then False
      else case mgr_lastWriteTime m of None \<Rightarrow> True | Some t \<Rightarrow> now - t \<le> threshold)"

section \<open>What one write does\<close>

text \<open>Every way a run of \<open>writeState\<close> can end, with its effect on the file system.\<close>

lemma writeState_manager [store_simps]:
  "mgr_resources (fst (writeState marshal s)) = mgr_resources (fst s)"
  "mgr_privateResources (fst (writeState marshal s)) = mgr_privateResources (fst s)"
  "mgr_outputFile (fst (writeState marshal s)) = mgr_outputFile (fst s)"
  by (simp_all add: writeState_def Let_def split: prod.splits sum.splits option.splits)

lemma writeState_blueprint [store_simps]:
  "blueprint_of (fst (writeState marshal s)) = blueprint_of (fst s)"
  by (simp add: blueprint_of_def store_simps)

lemma tmp_file_neq: "tmp_file m \<noteq> mgr_outputFile m"
  by (simp add: tmp_file_def)

lemma writeState_files:
  assumes "writeState marshal (m, w) = (m', w')"
  shows "w_files w' (mgr_outputFile m) \<in>
      {w_files w (mgr_outputFile m)} \<union> {Some y |y. marshal (blueprint_of m) = Inr y}"
    and "\<exists>new. w_seen w' = new @ w_seen w \<and>
      (\<lambda>f. f (mgr_outputFile m)) ` set new \<subseteq>
        {w_files w (mgr_outputFile m)} \<union> {Some y |y. marshal (blueprint_of m) = Inr y}"
  using assms tmp_file_neq [of m]
  by (auto simp: writeState_def os_WriteFile_def os_Rename_def os_Remove_def put_files_def Let_def
      split: sum.splits write_outcome.splits option.splits if_splits)

text \<open>After a write the file holds the current blueprint, or an error is recorded.\<close>

definition in_sync :: "marshaller \<Rightarrow> mstate \<Rightarrow> bool" where
  "in_sync marshal s =
     (mgr_lastWriteErr (fst s) = None \<and>
      (case marshal (blueprint_of (fst s)) of
         Inl e \<Rightarrow> False
       | Inr y \<Rightarrow> w_files (snd s) (mgr_outputFile (fst s)) = Some y))"

definition write_failed :: "mstate \<Rightarrow> bool" where
  "write_failed s \<longleftrightarrow> mgr_lastWriteErr (fst s) \<noteq> None"

lemma blueprint_of_err [simp]:
  "blueprint_of (m\<lparr>mgr_lastWriteErr := e\<rparr>) = blueprint_of m"
  "blueprint_of (m\<lparr>mgr_lastWriteErr := e, mgr_lastWriteTime := t\<rparr>) = blueprint_of m"
  by (simp_all add: blueprint_of_def)

lemma writeState_outcome: "in_sync marshal (writeState marshal s) \<or> write_failed (writeState marshal s)"
  using tmp_file_neq [of "fst s"]
  by (auto simp: in_sync_def write_failed_def writeState_def os_WriteFile_def os_Rename_def
      put_files_def Let_def split: prod.splits sum.splits write_outcome.splits option.splits)

section \<open>The store interface\<close>

text \<open>
  What the controllers rely on: adding and removing entries behaves like a map, the returned
  flag says whether the map changed, an operation that changes nothing does nothing at all, and
  an operation that writes leaves the store settled (the file is current or the failure is
  recorded).
\<close>

locale resource_store =
  fixes upd :: "string \<Rightarrow> 'r \<Rightarrow> bool \<Rightarrow> 's \<Rightarrow> bool \<times> 's"
    and del :: "string \<Rightarrow> 's \<Rightarrow> bool \<times> 's"
    and look :: "'s \<Rightarrow> string \<Rightarrow> 'r option"
    and settled :: "'s \<Rightarrow> bool"
  assumes look_upd: "look (snd (upd k r b s)) = (look s)(k \<mapsto> r)"
    and look_del: "look (snd (del k s)) = (look s)(k := None)"
    and upd_flag: "fst (upd k r b s) \<longleftrightarrow> look s k \<noteq> Some r"
    and del_flag: "fst (del k s) \<longleftrightarrow> look s k \<noteq> None"
    and upd_quiet: "\<not> fst (upd k r b s) \<Longrightarrow> snd (upd k r b s) = s"
    and del_quiet: "\<not> fst (del k s) \<Longrightarrow> snd (del k s) = s"
    and upd_settled: "fst (upd k r True s) \<Longrightarrow> settled (snd (upd k r True s))"
    and del_settled: "fst (del k s) \<Longrightarrow> settled (snd (del k s))"
begin

lemma look_dels: "look (fold (\<lambda>k s. snd (del k s)) ks s) = (look s) |` (- set ks)"
  by (induction ks arbitrary: s) (auto simp: look_del restrict_map_def fun_eq_iff)

lemma look_upds:
  "look (fold (\<lambda>(k, r) s. snd (upd k r b s)) es s) = look s ++ map_of (rev es)"
  by (induction es arbitrary: s) (auto simp: look_upd)

text \<open>No operation makes up an entry.\<close>

lemma ran_dels: "ran (look (fold (\<lambda>k s. snd (del k s)) ks s)) \<subseteq> ran (look s)"
  by (auto simp: look_dels ran_def restrict_map_def split: if_splits)

lemma ran_upds:
  "ran (look (fold (\<lambda>(k, r) s. snd (upd k r b s)) es s)) \<subseteq> ran (look s) \<union> snd ` set es"
proof -
  have "ran (map_of (rev es)) \<subseteq> snd ` set es"
    by (auto simp: ran_def dest!: map_of_SomeD intro!: rev_image_eqI)
  then show ?thesis by (auto simp: look_upds ran_def map_add_Some_iff)
qed

lemma upd_keeps_settled: "settled s \<Longrightarrow> settled (snd (upd k r True s))"
  by (metis upd_quiet upd_settled)

lemma del_keeps_settled: "settled s \<Longrightarrow> settled (snd (del k s))"
  by (metis del_quiet del_settled)

lemma dels_keep_settled: "settled s \<Longrightarrow> settled (fold (\<lambda>k s. snd (del k s)) ks s)"
  by (induction ks arbitrary: s) (simp_all add: del_keeps_settled)

lemma upds_keep_settled: "settled s \<Longrightarrow> settled (fold (\<lambda>(k, r) s. snd (upd k r True s)) es s)"
  by (induction es arbitrary: s) (auto simp: upd_keeps_settled)

lemma upd_again: "snd (upd k r b (snd (upd k r c s))) = snd (upd k r c s)"
  by (rule upd_quiet) (simp add: upd_flag look_upd)

lemma del_again: "snd (del k (snd (del k s))) = snd (del k s)"
  by (rule del_quiet) (simp add: del_flag look_del)

text \<open>A second pass over entries that are all present already changes nothing.\<close>

lemma upds_quiet:
  "list_all (\<lambda>(k, r). look s k = Some r) es \<Longrightarrow> fold (\<lambda>(k, r) s. snd (upd k r b s)) es s = s"
  by (induction es) (auto simp: upd_quiet upd_flag)

end

definition settled :: "marshaller \<Rightarrow> mstate \<Rightarrow> bool" where
  "settled marshal s \<longleftrightarrow> in_sync marshal s \<or> write_failed s"

lemmas op_defs = AddOrUpdate_def AddOrUpdatePrivate_def Remove_def RemovePrivate_def ForceWrite_def Let_def

lemma writeState_settled [simp]: "settled marshal (writeState marshal s)"
  by (simp add: settled_def writeState_outcome)

interpretation public_store: resource_store
  "AddOrUpdate marshal" "Remove marshal" "\<lambda>s. mgr_resources (fst s)" "settled marshal" for marshal
  by unfold_locales (auto simp: op_defs store_simps split: prod.splits)

interpretation private_store: resource_store
  "AddOrUpdatePrivate marshal" "RemovePrivate marshal" "\<lambda>s. mgr_privateResources (fst s)"
  "settled marshal" for marshal
  by unfold_locales (auto simp: op_defs store_simps split: prod.splits)

section \<open>Sequences of operations\<close>

text \<open>
  The controllers call the manager from several goroutines; the mutex makes every run an
  interleaving of whole operations, so a run is a list of them.
\<close>

datatype mgr_op =
  OpAddOrUpdate string Resource bool
| OpAddOrUpdatePrivate string PrivateResource bool
| OpRemove string
| OpRemovePrivate string
| OpForceWrite

fun run_op :: "marshaller \<Rightarrow> mgr_op \<Rightarrow> mstate \<Rightarrow> mstate" where
  "run_op marshal (OpAddOrUpdate k r b) s = snd (AddOrUpdate marshal k r b s)"
| "run_op marshal (OpAddOrUpdatePrivate k r b) s = snd (AddOrUpdatePrivate marshal k r b s)"
| "run_op marshal (OpRemove k) s = snd (Remove marshal k s)"
| "run_op marshal (OpRemovePrivate k) s = snd (RemovePrivate marshal k s)"
| "run_op marshal OpForceWrite s = ForceWrite marshal s"

definition run_ops :: "marshaller \<Rightarrow> mgr_op list \<Rightarrow> mstate \<Rightarrow> mstate" where
  "run_ops marshal ops s = fold (run_op marshal) ops s"

text \<open>The abstract manager: a pair of maps and nothing else.\<close>

fun abs_op :: "mgr_op \<Rightarrow> Blueprint \<Rightarrow> Blueprint" where
  "abs_op (OpAddOrUpdate k r b) bp = bp\<lparr>bp_PublicResources := (bp_PublicResources bp)(k \<mapsto> r)\<rparr>"
| "abs_op (OpAddOrUpdatePrivate k r b) bp = bp\<lparr>bp_PrivateResources := (bp_PrivateResources bp)(k \<mapsto> r)\<rparr>"
| "abs_op (OpRemove k) bp = bp\<lparr>bp_PublicResources := (bp_PublicResources bp)(k := None)\<rparr>"
| "abs_op (OpRemovePrivate k) bp = bp\<lparr>bp_PrivateResources := (bp_PrivateResources bp)(k := None)\<rparr>"
| "abs_op OpForceWrite bp = bp"

lemma run_op_blueprint: "blueprint_of (fst (run_op marshal op s)) = abs_op op (blueprint_of (fst s))"
  by (cases op)
    (auto simp: op_defs store_simps blueprint_of_def fun_upd_idem_iff split: prod.splits)

lemma run_op_outputFile: "mgr_outputFile (fst (run_op marshal op s)) = mgr_outputFile (fst s)"
  by (cases op) (auto simp: op_defs store_simps split: prod.splits)

lemma run_ops_Cons: "run_ops marshal (op # ops) s = run_ops marshal ops (run_op marshal op s)"
  by (simp add: run_ops_def)

lemma run_ops_Nil [simp]: "run_ops marshal [] s = s"
  by (simp add: run_ops_def)

lemma run_ops_append: "run_ops marshal (xs @ ys) s = run_ops marshal ys (run_ops marshal xs s)"
  by (simp add: run_ops_def)

text \<open>
  C6. The manager refines a pair of maps: after any sequence of operations, whatever the operating
  system does, the entries in memory are those the abstract operations give, and the output path
  never changes.
\<close>

theorem run_ops_refines:
  "blueprint_of (fst (run_ops marshal ops s)) = fold abs_op ops (blueprint_of (fst s)) \<and>
   mgr_outputFile (fst (run_ops marshal ops s)) = mgr_outputFile (fst s)"
  by (induction ops arbitrary: s) (simp_all add: run_ops_Cons run_op_blueprint run_op_outputFile)

text \<open>The blueprints the manager goes through during a run, and the complete files they make.\<close>

fun snapshots :: "mgr_op list \<Rightarrow> Blueprint \<Rightarrow> Blueprint list" where
  "snapshots [] bp = [bp]"
| "snapshots (op # ops) bp = bp # snapshots ops (abs_op op bp)"

definition complete_files :: "marshaller \<Rightarrow> Blueprint list \<Rightarrow> string option set" where
  "complete_files marshal bps = {Some y |y bp. bp \<in> set bps \<and> marshal bp = Inr y}"

lemma complete_files_Cons:
  "complete_files marshal (bp # bps) = complete_files marshal [bp] \<union> complete_files marshal bps"
  by (auto simp: complete_files_def)

lemma snapshots_first: "complete_files marshal [bp] \<subseteq> complete_files marshal (snapshots ops bp)"
  by (cases ops) (auto simp: complete_files_def)

text \<open>An operation either leaves the world alone or is a write of the updated entries.\<close>

lemma run_op_world:
  obtains "snd (run_op marshal op (m, w)) = w"
  | m' where "run_op marshal op (m, w) = writeState marshal (m', w)"
    "mgr_outputFile m' = mgr_outputFile m" "blueprint_of m' = abs_op op (blueprint_of m)"
proof (cases "snd (run_op marshal op (m, w)) = w")
  case False
  then have "\<exists>m'. run_op marshal op (m, w) = writeState marshal (m', w) \<and>
      mgr_outputFile m' = mgr_outputFile m \<and> blueprint_of m' = abs_op op (blueprint_of m)"
    by (cases op) (auto simp: op_defs blueprint_of_def split: if_splits)
  then show thesis using that(2) by blast
qed (rule that(1))

lemma run_op_seen:
  fixes m :: Manager and w :: World and marshal :: marshaller and op :: mgr_op
  defines "out \<equiv> mgr_outputFile m"
  defines "ok \<equiv> insert (w_files w out) (complete_files marshal [abs_op op (blueprint_of m)])"
  shows "w_files (snd (run_op marshal op (m, w))) out \<in> ok \<and>
    (\<exists>new. w_seen (snd (run_op marshal op (m, w))) = new @ w_seen w \<and> (\<lambda>f. f out) ` set new \<subseteq> ok)"
proof (cases rule: run_op_world [of marshal op m w])
  case 1
  then show ?thesis by (simp add: ok_def)
next
  case (2 m')
  obtain m1 w1 where mw: "writeState marshal (m', w) = (m1, w1)" by fastforce
  have "ok = {w_files w out} \<union> {Some y |y. marshal (blueprint_of m') = Inr y}"
    by (auto simp: ok_def complete_files_def 2)
  with writeState_files [OF mw] mw 2 show ?thesis by (simp add: out_def)
qed

lemma run_ops_seen:
  fixes s :: mstate
  defines "out \<equiv> mgr_outputFile (fst s)"
  shows "\<exists>new. w_seen (snd (run_ops marshal ops s)) = new @ w_seen (snd s) \<and>
    (\<lambda>f. f out) ` set new \<subseteq>
      insert (w_files (snd s) out) (complete_files marshal (snapshots ops (blueprint_of (fst s))))"
  unfolding out_def
proof (induction ops arbitrary: s)
  case (Cons op ops)
  obtain m w where s: "s = (m, w)" by fastforce
  let ?out = "mgr_outputFile m" and ?t = "run_op marshal op (m, w)"
  let ?bp = "abs_op op (blueprint_of m)"
  note one = run_op_seen [of marshal op m w]
  then obtain new1 where new1: "w_seen (snd ?t) = new1 @ w_seen w"
    "(\<lambda>f. f ?out) ` set new1 \<subseteq> insert (w_files w ?out) (complete_files marshal [?bp])" by blast
  from Cons.IH [of ?t] obtain new2 where new2:
    "w_seen (snd (run_ops marshal ops ?t)) = new2 @ w_seen (snd ?t)"
    "(\<lambda>f. f ?out) ` set new2 \<subseteq>
       insert (w_files (snd ?t) ?out) (complete_files marshal (snapshots ops ?bp))"
    by (auto simp: run_op_outputFile run_op_blueprint)
  let ?R = "insert (w_files w ?out) (complete_files marshal (snapshots ops ?bp))"
  have sub: "insert (w_files w ?out) (complete_files marshal [?bp]) \<subseteq> ?R"
    using snapshots_first by (rule insert_mono)
  have "w_files (snd ?t) ?out \<in> ?R" by (rule subsetD [OF sub one [THEN conjunct1]])
  then have "insert (w_files (snd ?t) ?out) (complete_files marshal (snapshots ops ?bp)) \<subseteq> ?R"
    by (simp add: subset_insertI)
  with new2(2) have "(\<lambda>f. f ?out) ` set new2 \<subseteq> ?R" by (rule order_trans)
  moreover from new1(2) sub have "(\<lambda>f. f ?out) ` set new1 \<subseteq> ?R" by (rule order_trans)
  ultimately have "(\<lambda>f. f ?out) ` set (new2 @ new1) \<subseteq> ?R"
    unfolding set_append image_Un by (rule Un_least)
  moreover have "?R \<subseteq>
      insert (w_files w ?out) (complete_files marshal (snapshots (op # ops) (blueprint_of m)))"
    unfolding snapshots.simps by (rule insert_mono, subst complete_files_Cons) (rule Un_upper2)
  ultimately have "(\<lambda>f. f ?out) ` set (new2 @ new1) \<subseteq>
      insert (w_files w ?out) (complete_files marshal (snapshots (op # ops) (blueprint_of m)))"
    by (rule order_trans)
  moreover have "w_seen (snd (run_ops marshal (op # ops) s)) = (new2 @ new1) @ w_seen (snd s)"
    using new1(1) new2(1) by (simp add: s run_ops_Cons)
  ultimately show ?case unfolding s fst_conv snd_conv by (intro exI conjI)
qed simp

text \<open>
  C5. A reader never sees a torn or partial blueprint. During any sequence of operations and under
  every behaviour of the operating system, each state of the file system that another process can
  observe holds at the output path either what was there before or the complete YAML text of one
  of the blueprints the manager went through.
\<close>

theorem output_never_torn:
  "\<exists>new. w_seen (snd (run_ops marshal ops (m, w))) = new @ w_seen w \<and>
    (\<lambda>f. f (mgr_outputFile m)) ` set new \<subseteq>
      insert (w_files w (mgr_outputFile m))
        (complete_files marshal (snapshots ops (blueprint_of m)))"
  using run_ops_seen [of marshal ops "(m, w)"] by simp

fun writes :: "mgr_op \<Rightarrow> bool" where
  "writes (OpAddOrUpdate k r b) = b"
| "writes (OpAddOrUpdatePrivate k r b) = b"
| "writes _ = True"

lemma run_op_settled: "writes op \<Longrightarrow> settled marshal s \<Longrightarrow> settled marshal (run_op marshal op s)"
  by (cases op)
    (auto simp: ForceWrite_def intro: public_store.upd_keeps_settled private_store.upd_keeps_settled
      public_store.del_keeps_settled private_store.del_keeps_settled)

lemma run_ops_settled: "list_all writes ops \<Longrightarrow> settled marshal s \<Longrightarrow> settled marshal (run_ops marshal ops s)"
  by (induction ops arbitrary: s) (simp_all add: run_ops_Cons run_op_settled)

text \<open>A world in which every system call succeeds, at time 0.\<close>

definition calm_world :: World where
  "calm_world =
     \<lparr>w_files = Map.empty, w_seen = [],
      w_script = (\<lambda>_. \<lparr>oo_write = WriteOk, oo_rename = None, oo_remove_fails = False, oo_now = 0\<rparr>),
      w_tick = 0\<rparr>"

text \<open>
  An operation that does not change the entries does nothing: no write, no system call, no change
  of the recorded error or time (a forced write excepted).
\<close>

lemma run_op_quiet:
  assumes "abs_op op (blueprint_of (fst s)) = blueprint_of (fst s)" and "op \<noteq> OpForceWrite"
  shows "run_op marshal op s = s"
proof -
  obtain m w where s: "s = (m, w)" by fastforce
  show ?thesis
    using assms unfolding s
    by (cases op) (simp_all add: op_defs blueprint_of_def fun_upd_idem_iff)
qed

end
