(* ===== verification/Health.thy ===== *)
theory Health
  imports StateManager
begin

text \<open>
  The health endpoints (\<open>internal/health/health.go\<close>): liveness, readiness and the dispatch
  between them. The HTTP server itself is the library's; a request is its path (in clean
  form: the multiplexer redirects other paths to it), a response its status code.
\<close>

text \<open>The interface \<open>WriteHealthChecker\<close>, at the moment of the request: a test of a threshold.\<close>

type_synonym write_health_test = "int \<Rightarrow> bool"

definition minute :: int where
  "minute = 60 * 1000000000"

definition handleLiveness :: int where
  "handleLiveness = 200"

definition handleReadiness :: "write_health_test \<Rightarrow> int" where
  "handleReadiness checker = (if checker (10 * minute) then 200 else 503)"

text \<open>
  \<open>Serve\<close> registers the two handlers with a multiplexer and hands it with the address to
  \<open>http.ListenAndServe\<close>, which only returns with an error that is logged. The server is what it
  is handed.
\<close>

record HealthServer =
  hs_Addr :: string
  hs_Handler :: "string \<Rightarrow> int" \<comment> \<open>path to status code\<close>

definition health_mux :: "write_health_test \<Rightarrow> string \<Rightarrow> int" where
  "health_mux checker path =
     (if path = ''/healthz'' then handleLiveness
      else if path = ''/readyz'' then handleReadiness checker else 404)"

definition Serve :: "int \<Rightarrow> write_health_test \<Rightarrow> HealthServer" where
  "Serve port checker = \<lparr>hs_Addr = '':'' @ Itoa port, hs_Handler = health_mux checker\<rparr>"

text \<open>
  What readiness relies on: a recorded failure is unhealthy, and without a new write health can
  only be lost as time passes.
\<close>

locale write_health =
  fixes healthy :: "int \<Rightarrow> int \<Rightarrow> 'm \<Rightarrow> bool" and failed :: "'m \<Rightarrow> bool"
  assumes failed_unhealthy: "failed m \<Longrightarrow> \<not> healthy now threshold m"
    and expires: "healthy now' threshold m \<Longrightarrow> now \<le> now' \<Longrightarrow> healthy now threshold m"
begin

lemma failed_not_ready: "failed m \<Longrightarrow> hs_Handler (Serve port (\<lambda>th. healthy now th m)) ''/readyz'' = 503"
  by (simp add: Serve_def health_mux_def handleReadiness_def failed_unhealthy)

lemma unready_stays:
  "now \<le> now' \<Longrightarrow> hs_Handler (Serve port (\<lambda>th. healthy now th m)) ''/readyz'' = 503 \<Longrightarrow>
     hs_Handler (Serve port (\<lambda>th. healthy now' th m)) ''/readyz'' = 503"
  by (auto simp: Serve_def health_mux_def handleReadiness_def dest: expires split: if_splits)

end

interpretation manager_health: write_health WriteHealthy "\<lambda>m. mgr_lastWriteErr m \<noteq> None"
  by unfold_locales (auto simp: WriteHealthy_def split: option.splits if_splits)

text \<open>
  The readiness endpoint answers 200 exactly when no write failure is recorded and there was
  either no successful write yet or one in the last ten minutes; liveness always answers 200.
\<close>

lemma readiness_spec:
  "(hs_Handler (Serve port (\<lambda>th. WriteHealthy now th m)) ''/readyz'' = 200 \<longleftrightarrow>
     mgr_lastWriteErr m = None \<and>
     (case mgr_lastWriteTime m of None \<Rightarrow> True | Some t \<Rightarrow> now \<le> t + 600 * 1000000000)) \<and>
   hs_Handler (Serve port (\<lambda>th. WriteHealthy now th m)) ''/healthz'' = 200"
  by (auto simp: Serve_def health_mux_def handleReadiness_def handleLiveness_def WriteHealthy_def minute_def
      split: option.splits)

text \<open>Operations that leave the entries as they are do not touch the manager or the file.\<close>

definition idle :: "mgr_op list \<Rightarrow> Blueprint \<Rightarrow> bool" where
  "idle ops bp \<longleftrightarrow> (\<forall>op \<in> set ops. op \<noteq> OpForceWrite \<and> abs_op op bp = bp)"

lemma idle_run: "idle ops (blueprint_of (fst s)) \<Longrightarrow> run_ops marshal ops s = s"
  by (induction ops) (simp_all add: idle_def run_ops_Cons run_op_quiet)

text \<open>
  C35. A quiet cluster becomes unready. Let the file be current and its last write be more than ten
  minutes ago, and let every operation since have found its entry unchanged (as every periodic
  resync does): nothing is written, the file is still current, and readiness answers 503.
\<close>

theorem readiness_lost_when_idle:
  assumes "in_sync marshal s" and "mgr_lastWriteTime (fst s) = Some t"
    and "idle ops (blueprint_of (fst s))" and "now > t + 600 * 1000000000"
  shows "let s' = run_ops marshal ops s in
    in_sync marshal s' \<and> hs_Handler (Serve port (\<lambda>th. WriteHealthy now th (fst s'))) ''/readyz'' = 503"
  using assms
  by (auto simp: idle_run Serve_def health_mux_def handleReadiness_def WriteHealthy_def minute_def Let_def)

theorem readiness_lost_when_idle_witness:
  "let s = run_ops (\<lambda>bp. Inr ''y'') [OpAddOrUpdate ''k'' zero_Resource True] (NewManager ''f'', calm_world)
   in hs_Handler (Serve 8080 (\<lambda>th. WriteHealthy 0 th (fst s))) ''/readyz'' = 200 \<and>
     hs_Handler (Serve 8080 (\<lambda>th. WriteHealthy (601 * 1000000000) th (fst (run_ops (\<lambda>bp. Inr ''y'')
       [OpAddOrUpdate ''k'' zero_Resource True] s)))) ''/readyz'' = 503"
proof -
  let ?op = "OpAddOrUpdate ''k'' zero_Resource True"
  let ?s = "run_ops (\<lambda>bp. Inr ''y'') [?op] (NewManager ''f'', calm_world)"
  note run = run_ops_def op_defs writeState_def os_WriteFile_def os_Rename_def put_files_def
    NewManager_def calm_world_def
  have sync: "in_sync (\<lambda>bp. Inr ''y'') ?s" and t: "mgr_lastWriteTime (fst ?s) = Some 0"
    and e: "mgr_lastWriteErr (fst ?s) = None"
    by (simp_all add: run in_sync_def)
  have idle: "idle [?op] (blueprint_of (fst ?s))"
    by (simp add: idle_def run blueprint_of_def)
  have now: "601 * 1000000000 > (0 :: int) + 600 * 1000000000" by simp
  have "hs_Handler (Serve 8080 (\<lambda>th. WriteHealthy 0 th (fst ?s))) ''/readyz'' = 200"
    using e t by (simp add: Serve_def health_mux_def handleReadiness_def WriteHealthy_def minute_def)
  with readiness_lost_when_idle [OF sync t idle now] show ?thesis by (simp add: Let_def)
qed

end
