(* ===== verification/Resources.thy ===== *)
theory Resources
  imports Blueprint "HOL-Library.Word"
begin

text \<open>
  Kubernetes objects as far as the program reads them, resource definitions
  (\<open>internal/resources/definition.go\<close>) and the generic handler
  (\<open>internal/resources/handler.go\<close>). Converting an unstructured object is the work of the
  Kubernetes library and a parameter; its result is one of the two object kinds.
\<close>

section \<open>Objects\<close>

record ObjectMeta =
  meta_Namespace :: string
  meta_Name :: string
  meta_Annotations :: "strmap option"

record ParentReference =
  pr_Name :: string
  pr_Namespace :: "string option"

record HTTPRoute =
  hr_Meta :: ObjectMeta
  hr_ParentRefs :: "ParentReference list"
  hr_Hostnames :: "string list"

text \<open>A port of a Service spec; the number is an \<open>int32\<close>.\<close>

record K8sServicePort =
  ksp_Name :: string
  ksp_Protocol :: string
  ksp_Port :: "32 word"

record K8sService =
  svc_Meta :: ObjectMeta
  svc_Ports :: "K8sServicePort list"

datatype k8s_object = HTTPRouteObj HTTPRoute | ServiceObj K8sService

fun obj_meta :: "k8s_object \<Rightarrow> ObjectMeta" where
  "obj_meta (HTTPRouteObj r) = hr_Meta r"
| "obj_meta (ServiceObj svc) = svc_Meta svc"

abbreviation GetAnnotations :: "k8s_object \<Rightarrow> strmap option" where
  "GetAnnotations obj \<equiv> meta_Annotations (obj_meta obj)"

abbreviation GetNamespace :: "k8s_object \<Rightarrow> string" where
  "GetNamespace obj \<equiv> meta_Namespace (obj_meta obj)"

abbreviation GetName :: "k8s_object \<Rightarrow> string" where
  "GetName obj \<equiv> meta_Name (obj_meta obj)"

section \<open>Definitions\<close>

record GroupVersionResource =
  gvr_Group :: string
  gvr_Version :: string
  gvr_Resource :: string

type_synonym entries = "Resource gomap"
type_synonym secret_data = "string gomap option"

record 'u ResourceDefinition =
  def_GVR :: GroupVersionResource
  def_ConvertFunc :: "'u \<Rightarrow> string + k8s_object"
  def_AutoConfigFunc :: "(Config \<Rightarrow> bool) option"
  def_FilterFunc :: "(k8s_object \<Rightarrow> Config \<Rightarrow> bool) option"
  def_BuildEntries :: "(k8s_object \<Rightarrow> secret_data \<Rightarrow> Config \<Rightarrow> entries) option"

datatype target_type = HTTPRouteType | ServiceType

fun type_name :: "target_type \<Rightarrow> string" where
  "type_name HTTPRouteType = ''HTTPRoute''"
| "type_name ServiceType = ''Service''"

text \<open>\<open>FromUnstructured\<close> fills an object of the given type from the unstructured one, or fails.\<close>

type_synonym 'u converter = "target_type \<Rightarrow> 'u \<Rightarrow> string + k8s_object"

definition CreateConvertFunc :: "'u converter \<Rightarrow> target_type \<Rightarrow> 'u \<Rightarrow> string + k8s_object" where
  "CreateConvertFunc FromUnstructured targetType u =
     (case FromUnstructured targetType u of
        Inl err \<Rightarrow> Inl (''failed to convert to '' @ type_name targetType @ '': '' @ err)
      | Inr obj \<Rightarrow> Inr obj)"

section \<open>The handler\<close>

definition isOptOut :: "k8s_object \<Rightarrow> Config \<Rightarrow> bool" where
  "isOptOut obj cfg =
     (case GetAnnotations obj of
        None \<Rightarrow> False
      | Some annotations \<Rightarrow>
        (case annotations (cfg_AnnotationPrefix cfg @ ''/enabled'') of
           None \<Rightarrow> False
         | Some val \<Rightarrow> val = ''false'' \<or> val = ''0''))"

definition HasRequiredAnnotations :: "k8s_object \<Rightarrow> Config \<Rightarrow> bool" where
  "HasRequiredAnnotations obj cfg =
     (case GetAnnotations obj of
        None \<Rightarrow> False
      | Some annotations \<Rightarrow>
        (case annotations (cfg_AnnotationPrefix cfg @ ''/enabled'') of
           None \<Rightarrow> False
         | Some val \<Rightarrow> val = ''true'' \<or> val = ''1''))"

definition ShouldProcess :: "'u ResourceDefinition \<Rightarrow> k8s_object \<Rightarrow> Config \<Rightarrow> bool" where
  "ShouldProcess d obj cfg =
     (if isOptOut obj cfg then False
      else if (case def_FilterFunc d of None \<Rightarrow> False | Some f \<Rightarrow> \<not> f obj cfg) then False
      else case def_AutoConfigFunc d of
        None \<Rightarrow> True
      | Some auto \<Rightarrow> if auto cfg then True else HasRequiredAnnotations obj cfg)"

definition BuildEntries :: "'u ResourceDefinition \<Rightarrow> k8s_object \<Rightarrow> secret_data \<Rightarrow> Config \<Rightarrow> entries" where
  "BuildEntries d obj secretData cfg =
     (case def_BuildEntries d of None \<Rightarrow> [] | Some f \<Rightarrow> f obj secretData cfg)"

lemma ShouldProcess_iff:
  "ShouldProcess d obj cfg \<longleftrightarrow>
     \<not> isOptOut obj cfg \<and>
     (case def_FilterFunc d of None \<Rightarrow> True | Some f \<Rightarrow> f obj cfg) \<and>
     (case def_AutoConfigFunc d of None \<Rightarrow> True | Some auto \<Rightarrow> auto cfg \<or> HasRequiredAnnotations obj cfg)"
  by (auto simp: ShouldProcess_def split: option.splits)

section \<open>The handler interface\<close>

text \<open>
  The interface \<open>ResourceHandler\<close> as the controller uses it: an object that opts out is never
  processed, and the entries of an object are a map (no key twice) of resources that have a
  target on the configured site.
\<close>

definition on_site :: "Config \<Rightarrow> Resource \<Rightarrow> bool" where
  "on_site cfg r \<longleftrightarrow> (\<exists>t. res_Targets r = Some [t] \<and> tgt_Site t = cfg_SiteID cfg)"

locale resource_handler =
  fixes should_process :: "k8s_object \<Rightarrow> Config \<Rightarrow> bool"
    and build_entries :: "k8s_object \<Rightarrow> secret_data \<Rightarrow> Config \<Rightarrow> entries"
  assumes opt_out: "isOptOut obj cfg \<Longrightarrow> \<not> should_process obj cfg"
    and entries_wf: "wf_gomap (build_entries obj secretData cfg)"
    and entries_on_site: "map_of (build_entries obj secretData cfg) k = Some r \<Longrightarrow> on_site cfg r"
begin

lemma entries_lookup: "(k, r) \<in> set (build_entries obj sd cfg) \<longleftrightarrow> map_of (build_entries obj sd cfg) k = Some r"
  using entries_wf [of obj sd cfg]
  by (auto simp: wf_gomap_def keys_def dest: map_of_SomeD intro: map_of_is_SomeI)

end

end
