(* ===== verification/HTTPRouteResource.thy ===== *)
theory HTTPRouteResource
  imports Resources
begin

text \<open>
  HTTPRoute discovery (\<open>internal/resources/httproute/httproute.go\<close>): which routes are taken
  and the entry built for each host name.
\<close>

fun referencesGateway :: "ParentReference list \<Rightarrow> string \<Rightarrow> string \<Rightarrow> bool" where
  "referencesGateway [] gatewayName gatewayNamespace = False"
| "referencesGateway (parent # parents) gatewayName gatewayNamespace =
     (if pr_Name parent \<noteq> gatewayName
      then referencesGateway parents gatewayName gatewayNamespace
      else if gatewayNamespace \<noteq> [] \<and>
        (case pr_Namespace parent of None \<Rightarrow> False | Some ns \<Rightarrow> ns \<noteq> gatewayNamespace)
      then referencesGateway parents gatewayName gatewayNamespace
      else True)"

definition filterByGateway :: "k8s_object \<Rightarrow> Config \<Rightarrow> bool" where
  "filterByGateway obj cfg =
     (case obj of
        HTTPRouteObj route \<Rightarrow>
          if cfg_GatewayName cfg = [] then True
          else referencesGateway (hr_ParentRefs route) (cfg_GatewayName cfg) (cfg_GatewayNamespace cfg)
      | _ \<Rightarrow> False)"

text \<open>The loop over the host names; a later host name with the same key overwrites the entry.\<close>

fun hostnames_loop ::
  "string \<Rightarrow> strmap \<Rightarrow> secret_data \<Rightarrow> Config \<Rightarrow> string list \<Rightarrow> entries \<Rightarrow> entries" where
  "hostnames_loop routeName annotations secretData cfg [] es = es"
| "hostnames_loop routeName annotations secretData cfg (hostname # hs) es =
     hostnames_loop routeName annotations secretData cfg hs
       (AList.update (HostnameToKey hostname)
         (BuildResource routeName hostname (Some annotations) secretData cfg) es)"

definition httproute_buildEntries :: "k8s_object \<Rightarrow> secret_data \<Rightarrow> Config \<Rightarrow> entries" where
  "httproute_buildEntries obj secretData cfg =
     (case obj of
        HTTPRouteObj route \<Rightarrow>
          hostnames_loop (meta_Name (hr_Meta route)) (map_or_empty (GetAnnotations obj)) secretData cfg
            (hr_Hostnames route) []
      | _ \<Rightarrow> [])"

definition httproute_Definition :: "'u converter \<Rightarrow> 'u ResourceDefinition" where
  "httproute_Definition FromUnstructured =
     \<lparr>def_GVR = \<lparr>gvr_Group = ''gateway.networking.k8s.io'', gvr_Version = ''v1'',
        gvr_Resource = ''httproutes''\<rparr>,
      def_ConvertFunc = CreateConvertFunc FromUnstructured HTTPRouteType,
      def_AutoConfigFunc = None,
      def_FilterFunc = Some filterByGateway,
      def_BuildEntries = Some httproute_buildEntries\<rparr>"

section \<open>Which routes are taken\<close>

lemma referencesGateway_iff:
  "referencesGateway parents gw ns \<longleftrightarrow>
     (\<exists>p \<in> set parents. pr_Name p = gw \<and> (ns = [] \<or> pr_Namespace p \<in> {None, Some ns}))"
  by (induction parents) (auto split: option.splits)

text \<open>
  C21. An HTTPRoute is processed exactly when it does not opt out and, with a gateway configured,
  one of its parent references names that gateway, in the configured namespace if both the
  configuration and the reference give one.
\<close>

theorem httproute_ShouldProcess:
  "ShouldProcess (httproute_Definition conv) (HTTPRouteObj route) cfg \<longleftrightarrow>
     \<not> isOptOut (HTTPRouteObj route) cfg \<and>
     (cfg_GatewayName cfg = [] \<or>
      (\<exists>p \<in> set (hr_ParentRefs route). pr_Name p = cfg_GatewayName cfg \<and>
        (cfg_GatewayNamespace cfg = [] \<or> pr_Namespace p \<in> {None, Some (cfg_GatewayNamespace cfg)})))"
  by (simp add: ShouldProcess_iff httproute_Definition_def filterByGateway_def referencesGateway_iff)

section \<open>The entries of a route\<close>

lemma hostnames_loop_fold:
  "hostnames_loop n a sd cfg hs es =
     fold (\<lambda>h. AList.update (HostnameToKey h) (BuildResource n h (Some a) sd cfg)) hs es"
  by (induction hs arbitrary: es) simp_all

lemma BuildResource_on_site: "on_site cfg (BuildResource n h a sd cfg)"
  by (simp add: on_site_def BuildResource_def Let_def BuildTargetExtras_sel)

interpretation httproute_handler: resource_handler
  "ShouldProcess (httproute_Definition conv)" "BuildEntries (httproute_Definition conv)" for conv
proof unfold_locales
  fix obj cfg sd k r
  show "isOptOut obj cfg \<Longrightarrow> \<not> ShouldProcess (httproute_Definition conv) obj cfg"
    by (simp add: ShouldProcess_iff)
  show "wf_gomap (BuildEntries (httproute_Definition conv) obj sd cfg)"
    by (simp add: BuildEntries_def httproute_Definition_def httproute_buildEntries_def
        hostnames_loop_fold wf_fold_update split: k8s_object.splits)
  show "map_of (BuildEntries (httproute_Definition conv) obj sd cfg) k = Some r \<Longrightarrow> on_site cfg r"
    by (auto simp: BuildEntries_def httproute_Definition_def httproute_buildEntries_def
        hostnames_loop_fold map_of_fold_update BuildResource_on_site split: k8s_object.splits option.splits)
qed

text \<open>
  C22. A route contributes one entry per key of its host names and nothing else: the entry of a key
  is the resource of the last host name with that key.
\<close>

theorem httproute_entries:
  "map_of (BuildEntries (httproute_Definition conv) (HTTPRouteObj route) sd cfg) k =
     map_option (\<lambda>h. BuildResource (meta_Name (hr_Meta route)) h
         (Some (map_or_empty (meta_Annotations (hr_Meta route)))) sd cfg)
       (find (\<lambda>h. HostnameToKey h = k) (rev (hr_Hostnames route)))"
  by (simp add: BuildEntries_def httproute_Definition_def httproute_buildEntries_def
      hostnames_loop_fold map_of_fold_update split: option.splits)

end
