(* ===== verification/ServiceResource.thy ===== *)
theory ServiceResource
  imports Resources
begin

text \<open>
  Service discovery (\<open>internal/resources/service/service.go\<close>): all-ports mode, port
  selection, HTTP and TCP/UDP mode. Log messages are left out.
\<close>

section \<open>Model\<close>

text \<open>\<open>int(p.Port)\<close> and its decimal form.\<close>

definition port_num :: "K8sServicePort \<Rightarrow> int" where
  "port_num p = sint (ksp_Port p)"

definition serviceProtocol :: "string \<Rightarrow> string" where
  "serviceProtocol p = (if p = ''UDP'' then ''udp'' else ''tcp'')"

definition resolveAllPorts :: "strmap \<Rightarrow> Config \<Rightarrow> bool" where
  "resolveAllPorts annotations cfg =
     (case annotations (cfg_AnnotationPrefix cfg @ ''/all-ports'') of
        Some v \<Rightarrow> v = ''true'' \<or> v = ''1''
      | None \<Rightarrow> cfg_AllPorts cfg)"

text \<open>The display name of a port: its name, or its number when it has none.\<close>

definition port_label :: "K8sServicePort \<Rightarrow> string" where
  "port_label p = (if ksp_Name p = [] then Itoa (port_num p) else ksp_Name p)"

definition port_key :: "K8sService \<Rightarrow> K8sServicePort \<Rightarrow> string" where
  "port_key svc p =
     ServiceToKey (meta_Namespace (svc_Meta svc)) (meta_Name (svc_Meta svc)) (Itoa (port_num p))
       (serviceProtocol (ksp_Protocol p))"

definition port_resource :: "K8sService \<Rightarrow> string \<Rightarrow> Config \<Rightarrow> K8sServicePort \<Rightarrow> Resource" where
  "port_resource svc clusterHostname cfg p =
     BuildServiceResource
       (zero_ServicePort\<lparr>sp_Name := meta_Name (svc_Meta svc) @ ''-'' @ port_label p,
          sp_Protocol := serviceProtocol (ksp_Protocol p), sp_ProxyPort := port_num p,
          sp_TargetPort := port_num p, sp_TargetHostname := clusterHostname\<rparr>) cfg"

fun ports_loop ::
  "K8sService \<Rightarrow> string \<Rightarrow> Config \<Rightarrow> K8sServicePort list \<Rightarrow> entries \<Rightarrow> entries" where
  "ports_loop svc clusterHostname cfg [] es = es"
| "ports_loop svc clusterHostname cfg (p # ps) es =
     ports_loop svc clusterHostname cfg ps
       (AList.update (port_key svc p) (port_resource svc clusterHostname cfg p) es)"

definition buildAllPortEntries :: "K8sService \<Rightarrow> string \<Rightarrow> Config \<Rightarrow> entries" where
  "buildAllPortEntries svc clusterHostname cfg =
     (if svc_Ports svc = [] then [] else ports_loop svc clusterHostname cfg (svc_Ports svc) [])"

text \<open>The two loops that look for a port and break at the first one they like.\<close>

fun annotated_port_loop :: "string \<Rightarrow> K8sServicePort list \<Rightarrow> K8sServicePort option" where
  "annotated_port_loop v [] = None"
| "annotated_port_loop v (p # ps) =
     (if Itoa (port_num p) = v \<or> ksp_Name p = v then Some p else annotated_port_loop v ps)"

fun http_port_loop :: "K8sServicePort list \<Rightarrow> K8sServicePort option" where
  "http_port_loop [] = None"
| "http_port_loop (p # ps) = (if ksp_Name p = ''http'' then Some p else http_port_loop ps)"

text \<open>The port to expose: the \<open>port\<close> annotation, else the only port, else the port named http.\<close>

definition select_port :: "K8sServicePort list \<Rightarrow> strmap \<Rightarrow> string \<Rightarrow> K8sServicePort option" where
  "select_port ports annotations pre =
     (case annotations (pre @ ''/port'') of
        Some v \<Rightarrow> let v = TrimSpace v in annotated_port_loop v ports
      | None \<Rightarrow> if length ports = 1 then Some (ports ! 0) else http_port_loop ports)"

definition service_method :: "strmap \<Rightarrow> string \<Rightarrow> string" where
  "service_method annotations pre =
     (case annotations (pre @ ''/method'') of
        None \<Rightarrow> ''http''
      | Some v \<Rightarrow>
        (let v = ToLower (TrimSpace v) in if v = ''https'' \<or> v = ''h2c'' then v else ''http''))"

definition service_tunnel_protocol :: "K8sServicePort \<Rightarrow> strmap \<Rightarrow> string \<Rightarrow> string" where
  "service_tunnel_protocol selected annotations pre =
     (case annotations (pre @ ''/protocol'') of
        None \<Rightarrow> serviceProtocol (ksp_Protocol selected)
      | Some v \<Rightarrow>
        (let v = ToLower (TrimSpace v)
         in if v = ''tcp'' \<or> v = ''udp'' then v else serviceProtocol (ksp_Protocol selected)))"

definition resolvePort ::
  "K8sService \<Rightarrow> strmap \<Rightarrow> secret_data \<Rightarrow> string \<Rightarrow> string \<Rightarrow> Config \<Rightarrow> ServicePort option" where
  "resolvePort svc annotations secretData pre clusterHostname cfg =
     (let fullDomain = TrimSpace (idx annotations (pre @ ''/full-domain'')) in
      case select_port (svc_Ports svc) annotations pre of
        None \<Rightarrow> None
      | Some selected \<Rightarrow>
        (let displayName =
           (case annotations (pre @ ''/name'') of
              Some v \<Rightarrow> if v \<noteq> [] then v else meta_Name (svc_Meta svc) @ ''-'' @ port_label selected
            | None \<Rightarrow> meta_Name (svc_Meta svc) @ ''-'' @ port_label selected)
         in if fullDomain \<noteq> [] then
              let ssl = (case annotations (pre @ ''/ssl'') of
                  Some v \<Rightarrow> v = ''true'' \<or> v = ''1'' | None \<Rightarrow> cfg_SSL cfg);
                extras = BuildTargetExtras zero_Target annotations pre
              in Some
                \<lparr>sp_Name = displayName, sp_Protocol = [], sp_ProxyPort = 0,
                 sp_TargetPort = port_num selected, sp_TargetHostname = clusterHostname,
                 sp_FullDomain = fullDomain,
                 sp_TLSServerName = TrimSpace (idx annotations (pre @ ''/tls-server-name'')),
                 sp_Method = service_method annotations pre, sp_SSL = ssl,
                 sp_HostHeader = idx annotations (pre @ ''/host-header''),
                 sp_Headers = BuildHeaders annotations pre,
                 sp_Maintenance = BuildMaintenance annotations pre,
                 sp_Auth = BuildAuth annotations secretData cfg,
                 sp_Rules = BuildRules annotations pre cfg,
                 sp_TargetEnabled = tgt_Enabled extras, sp_TargetPath = tgt_Path extras,
                 sp_TargetPathMatch = tgt_PathMatch extras,
                 sp_TargetRewritePath = tgt_RewritePath extras,
                 sp_TargetRewriteMatch = tgt_RewriteMatch extras,
                 sp_TargetPriority = tgt_Priority extras,
                 sp_TargetInternalPort = tgt_InternalPort extras,
                 sp_TargetHealthCheck = tgt_HealthCheck extras\<rparr>
            else Some
              (zero_ServicePort\<lparr>sp_Name := displayName,
                 sp_Protocol := service_tunnel_protocol selected annotations pre,
                 sp_ProxyPort := port_num selected, sp_TargetPort := port_num selected,
                 sp_TargetHostname := clusterHostname\<rparr>)))"

definition buildSinglePortEntry ::
  "K8sService \<Rightarrow> strmap \<Rightarrow> secret_data \<Rightarrow> Config \<Rightarrow> string \<Rightarrow> entries" where
  "buildSinglePortEntry svc annotations secretData cfg clusterHostname =
     (case resolvePort svc annotations secretData (cfg_AnnotationPrefix cfg) clusterHostname cfg of
        None \<Rightarrow> []
      | Some sp \<Rightarrow>
        (let key = (if sp_FullDomain sp \<noteq> [] then HostnameToKey (sp_FullDomain sp)
            else ServiceToKey (meta_Namespace (svc_Meta svc)) (meta_Name (svc_Meta svc))
              (Itoa (sp_ProxyPort sp)) (sp_Protocol sp))
         in [(key, BuildServiceResource sp cfg)]))"

definition cluster_hostname :: "K8sService \<Rightarrow> string" where
  "cluster_hostname svc =
     meta_Name (svc_Meta svc) @ ''.'' @ meta_Namespace (svc_Meta svc) @ ''.svc.cluster.local''"

definition service_buildEntries :: "k8s_object \<Rightarrow> secret_data \<Rightarrow> Config \<Rightarrow> entries" where
  "service_buildEntries obj secretData cfg =
     (case obj of
        ServiceObj svc \<Rightarrow>
          (let annotations = map_or_empty (GetAnnotations obj);
             hasFullDomain =
               TrimSpace (idx annotations (cfg_AnnotationPrefix cfg @ ''/full-domain'')) \<noteq> []
           in if \<not> hasFullDomain \<and> resolveAllPorts annotations cfg
              then buildAllPortEntries svc (cluster_hostname svc) cfg
              else buildSinglePortEntry svc annotations secretData cfg (cluster_hostname svc))
      | _ \<Rightarrow> [])"

definition service_Definition :: "'u converter \<Rightarrow> 'u ResourceDefinition" where
  "service_Definition FromUnstructured =
     \<lparr>def_GVR = \<lparr>gvr_Group = [], gvr_Version = ''v1'', gvr_Resource = ''services''\<rparr>,
      def_ConvertFunc = CreateConvertFunc FromUnstructured ServiceType,
      def_AutoConfigFunc = Some cfg_AutoService,
      def_FilterFunc = None,
      def_BuildEntries = Some service_buildEntries\<rparr>"

section \<open>Which Services are taken\<close>

text \<open>
  In annotation mode a Service is processed exactly when its \<open>enabled\<close> annotation is true;
  in auto mode exactly when that annotation is not false.
\<close>

lemma service_ShouldProcess:
  "ShouldProcess (service_Definition conv) obj cfg \<longleftrightarrow>
     (if cfg_AutoService cfg then \<not> isOptOut obj cfg else HasRequiredAnnotations obj cfg)"
  by (auto simp: ShouldProcess_iff service_Definition_def isOptOut_def HasRequiredAnnotations_def
      split: option.splits)

section \<open>The entries of a Service\<close>

lemma ports_loop_fold:
  "ports_loop svc h cfg ps es =
     fold (\<lambda>p. AList.update (port_key svc p) (port_resource svc h cfg p)) ps es"
  by (induction ps arbitrary: es) simp_all

lemma buildAllPortEntries_wf: "wf_gomap (buildAllPortEntries svc h cfg)"
  by (simp add: buildAllPortEntries_def ports_loop_fold wf_fold_update)

lemma buildAllPortEntries_map:
  "map_of (buildAllPortEntries svc h cfg) k =
     map_option (port_resource svc h cfg) (find (\<lambda>p. port_key svc p = k) (rev (svc_Ports svc)))"
  by (simp add: buildAllPortEntries_def ports_loop_fold map_of_fold_update split: option.splits)

lemma buildSinglePortEntry_wf: "wf_gomap (buildSinglePortEntry svc a sd cfg h)"
  by (simp add: buildSinglePortEntry_def wf_gomap_def Let_def split: option.splits)

lemma BuildServiceResource_on_site: "on_site cfg (BuildServiceResource sp cfg)"
  by (simp add: on_site_def BuildServiceResource_def Let_def)

interpretation service_handler: resource_handler
  "ShouldProcess (service_Definition conv)" "BuildEntries (service_Definition conv)" for conv
proof unfold_locales
  fix obj cfg sd k r
  show "isOptOut obj cfg \<Longrightarrow> \<not> ShouldProcess (service_Definition conv) obj cfg"
    by (simp add: ShouldProcess_iff)
  show "wf_gomap (BuildEntries (service_Definition conv) obj sd cfg)"
    by (simp add: BuildEntries_def service_Definition_def service_buildEntries_def Let_def
        buildAllPortEntries_wf buildSinglePortEntry_wf split: k8s_object.splits)
  show "map_of (BuildEntries (service_Definition conv) obj sd cfg) k = Some r \<Longrightarrow> on_site cfg r"
    by (auto simp: BuildEntries_def service_Definition_def service_buildEntries_def Let_def
        buildAllPortEntries_map port_resource_def buildSinglePortEntry_def
        BuildServiceResource_on_site split: k8s_object.splits option.splits if_splits)
qed

subsection \<open>All ports\<close>

lemma port_num_fits: "int_fits (port_num p)"
proof -
  have "- (2 ^ 31) \<le> sint w \<and> sint w < 2 ^ 31" for w :: "32 word"
    using sint_greater_eq [of w] sint_less [of w] by simp
  from this [of "ksp_Port p"] show ?thesis by (simp add: int_fits_def port_num_def)
qed

lemma serviceProtocol_cases: "serviceProtocol p \<in> {''tcp'', ''udp''}"
  by (simp add: serviceProtocol_def)

text \<open>Within a Service a key determines the port number and the protocol.\<close>

lemma port_key_inject:
  "port_key svc p = port_key svc q \<longleftrightarrow>
     ksp_Port p = ksp_Port q \<and> serviceProtocol (ksp_Protocol p) = serviceProtocol (ksp_Protocol q)"
proof -
  have len: "length (serviceProtocol r) = 3" for r
    by (simp add: serviceProtocol_def)
  have "port_key svc p = port_key svc q \<longleftrightarrow>
      Itoa (port_num p) = Itoa (port_num q) \<and>
      serviceProtocol (ksp_Protocol p) = serviceProtocol (ksp_Protocol q)"
    unfolding port_key_def ServiceToKey_def
    by (simp add: len append_eq_append_conv flip: append_assoc)
  moreover have "port_num p = port_num q \<longleftrightarrow> ksp_Port p = ksp_Port q"
    using word_eq_iff_signed [where 'a = int, of "ksp_Port p" "ksp_Port q"] by (simp add: port_num_def)
  ultimately show ?thesis by (simp add: Itoa_inject port_num_fits)
qed

text \<open>The annotations put the Service in all-ports mode.\<close>

definition all_ports_mode :: "K8sService \<Rightarrow> Config \<Rightarrow> bool" where
  "all_ports_mode svc cfg \<longleftrightarrow>
     (let a = map_or_empty (meta_Annotations (svc_Meta svc)) in
      TrimSpace (idx a (cfg_AnnotationPrefix cfg @ ''/full-domain'')) = [] \<and> resolveAllPorts a cfg)"

text \<open>The blueprint entry of a bare tunnel, field by field.\<close>

definition tunnel :: "string \<Rightarrow> string \<Rightarrow> int \<Rightarrow> string \<Rightarrow> string \<Rightarrow> Resource" where
  "tunnel name proto port host site =
     \<lparr>res_Name = name, res_Protocol = proto, res_Enabled = None, res_SSL = False, res_FullDomain = [],
      res_HostHeader = [], res_TLSServerName = [], res_ProxyPort = port, res_Headers = None,
      res_Auth = None, res_Maintenance = None, res_Rules = None,
      res_Targets = Some
        [\<lparr>tgt_Site = site, tgt_Hostname = host, tgt_Enabled = None, tgt_Method = [], tgt_Port = port,
          tgt_InternalPort = 0, tgt_Path = [], tgt_PathMatch = [], tgt_RewritePath = [],
          tgt_RewriteMatch = [], tgt_Priority = 0, tgt_HealthCheck = None\<rparr>]\<rparr>"

text \<open>The key and the entry that a port of a Service should get.\<close>

definition tunnel_key :: "K8sService \<Rightarrow> K8sServicePort \<Rightarrow> string" where
  "tunnel_key svc p =
     meta_Namespace (svc_Meta svc) @ ''-'' @ meta_Name (svc_Meta svc) @ ''-'' @ Itoa (sint (ksp_Port p)) @
     (if ksp_Protocol p = ''UDP'' then ''-udp'' else ''-tcp'')"

definition port_tunnel :: "K8sService \<Rightarrow> Config \<Rightarrow> K8sServicePort \<Rightarrow> Resource" where
  "port_tunnel svc cfg p =
     tunnel (meta_Name (svc_Meta svc) @ ''-'' @ (if ksp_Name p = [] then Itoa (sint (ksp_Port p)) else ksp_Name p))
       (if ksp_Protocol p = ''UDP'' then ''udp'' else ''tcp'') (sint (ksp_Port p))
       (meta_Name (svc_Meta svc) @ ''.'' @ meta_Namespace (svc_Meta svc) @ ''.svc.cluster.local'') (cfg_SiteID cfg)"

lemma port_key_tunnel: "port_key svc p = tunnel_key svc p"
  by (simp add: port_key_def ServiceToKey_def tunnel_key_def port_num_def serviceProtocol_def)

lemma port_resource_tunnel: "port_resource svc (cluster_hostname svc) cfg p = port_tunnel svc cfg p"
  by (simp add: port_resource_def port_tunnel_def tunnel_def BuildServiceResource_def zero_ServicePort_def
      zero_Resource_def zero_Target_def port_num_def port_label_def serviceProtocol_def cluster_hostname_def Let_def)

text \<open>
  C23. In all-ports mode a Service gets, for every port, an entry under the key of namespace, name,
  number and protocol that tunnels exactly that number over its protocol to the cluster address of
  the Service on this site, and no other entry. Two ports share a key exactly when they have the
  same number and are both UDP or both not UDP (SCTP counts as TCP); then the later one has the
  entry. So a Service whose ports differ in number or in being UDP has one entry per port.
\<close>

theorem service_all_ports:
  assumes "all_ports_mode svc cfg"
  shows "let es = BuildEntries (service_Definition conv) (ServiceObj svc) sd cfg in
    wf_gomap es \<and>
    (\<forall>k. map_of es k = map_option (port_tunnel svc cfg) (find (\<lambda>p. tunnel_key svc p = k) (rev (svc_Ports svc)))) \<and>
    (\<forall>p q. tunnel_key svc p = tunnel_key svc q \<longleftrightarrow>
      ksp_Port p = ksp_Port q \<and> (ksp_Protocol p = ''UDP'' \<longleftrightarrow> ksp_Protocol q = ''UDP'')) \<and>
    (length es = length (svc_Ports svc) \<longleftrightarrow>
      distinct (map (\<lambda>p. (ksp_Port p, ksp_Protocol p = ''UDP'')) (svc_Ports svc)))"
proof -
  let ?es = "BuildEntries (service_Definition conv) (ServiceObj svc) sd cfg" and ?ps = "svc_Ports svc"
  have es: "?es = buildAllPortEntries svc (cluster_hostname svc) cfg"
    using assms
    by (simp add: BuildEntries_def service_Definition_def service_buildEntries_def all_ports_mode_def Let_def)
  have wf: "wf_gomap ?es" unfolding es by (rule buildAllPortEntries_wf)
  have lookup: "map_of ?es k = map_option (port_tunnel svc cfg) (find (\<lambda>p. tunnel_key svc p = k) (rev ?ps))" for k
    unfolding es buildAllPortEntries_map port_resource_tunnel port_key_tunnel ..
  have key: "tunnel_key svc p = tunnel_key svc q \<longleftrightarrow>
      ksp_Port p = ksp_Port q \<and> (ksp_Protocol p = ''UDP'' \<longleftrightarrow> ksp_Protocol q = ''UDP'')" for p q
    using port_key_inject [of svc p q] by (simp add: port_key_tunnel serviceProtocol_def)
  have "set (keys ?es) = tunnel_key svc ` set ?ps"
    by (auto simp: set_keys dom_def lookup find_None_iff image_iff simp flip: not_None_eq)
  with wf have "length ?es = card (tunnel_key svc ` set ?ps)"
    by (metis distinct_card keys_def length_map wf_gomap_def)
  moreover have "distinct (map (tunnel_key svc) ?ps) \<longleftrightarrow> distinct (map (\<lambda>p. (ksp_Port p, ksp_Protocol p = ''UDP'')) ?ps)"
    by (simp add: distinct_map inj_on_def key)
  moreover have "card (tunnel_key svc ` set ?ps) = length ?ps \<longleftrightarrow> distinct (map (tunnel_key svc) ?ps)"
    by (metis card_distinct distinct_card length_map set_map)
  ultimately show ?thesis using wf lookup key by (simp add: Let_def)
qed

definition example_service :: K8sService where
  "example_service =
     \<lparr>svc_Meta = \<lparr>meta_Namespace = ''games'', meta_Name = ''mc'',
        meta_Annotations = Some [''newt-sidecar/all-ports'' \<mapsto> ''1'']\<rparr>,
      svc_Ports = [\<lparr>ksp_Name = ''game'', ksp_Protocol = ''TCP'', ksp_Port = 25565\<rparr>,
        \<lparr>ksp_Name = [], ksp_Protocol = ''UDP'', ksp_Port = 25565\<rparr>]\<rparr>"

theorem service_all_ports_witness:
  "let es = BuildEntries (service_Definition (\<lambda>t (u :: unit). Inl [])) (ServiceObj example_service) None default_config in
     map_of es ''games-mc-25565-udp'' =
       Some (tunnel ''mc-25565'' ''udp'' 25565 ''mc.games.svc.cluster.local'' []) \<and> length es = 2"
proof -
  have 1: "all_ports_mode example_service default_config" by code_simp
  have 2: "find (\<lambda>p. tunnel_key example_service p = ''games-mc-25565-udp'') (rev (svc_Ports example_service)) =
      Some (svc_Ports example_service ! 1)" by code_simp
  have 3: "port_tunnel example_service default_config (svc_Ports example_service ! 1) =
      tunnel ''mc-25565'' ''udp'' 25565 ''mc.games.svc.cluster.local'' []" by code_simp
  have 4: "distinct (map (\<lambda>p. (ksp_Port p, ksp_Protocol p = ''UDP'')) (svc_Ports example_service))"
    "length (svc_Ports example_service) = 2" by code_simp+
  from service_all_ports [OF 1, of "\<lambda>t (u :: unit). Inl []" None] 2 3 4 show ?thesis by (simp add: Let_def)
qed

subsection \<open>A single port\<close>

text \<open>Both loops find the first port that fits.\<close>

lemma annotated_port_loop_find: "annotated_port_loop v ps = find (\<lambda>p. Itoa (port_num p) = v \<or> ksp_Name p = v) ps"
  by (induction ps) simp_all

lemma http_port_loop_find: "http_port_loop ps = find (\<lambda>p. ksp_Name p = ''http'') ps"
  by (induction ps) simp_all

lemma find_first: "find P xs = Some x \<longleftrightarrow> (\<exists>i < length xs. xs ! i = x \<and> P x \<and> (\<forall>j < i. \<not> P (xs ! j)))"
  by (auto simp: find_Some_iff)

text \<open>
  C24. The port a Service exposes. With a \<open>port\<close> annotation it is the first port whose decimal number
  or whose name is the trimmed annotation, at whatever place; without one it is the only port of a
  Service with one port, and otherwise the first port named http. A port is exposed exactly when
  the Service has such a port.
\<close>

theorem select_port_spec:
  "let fits = (\<lambda>p. case annotations (pre @ ''/port'') of
       Some v \<Rightarrow> TrimSpace v = Itoa (sint (ksp_Port p)) \<or> TrimSpace v = ksp_Name p
     | None \<Rightarrow> length ports = 1 \<or> ksp_Name p = ''http'') in
   (select_port ports annotations pre = Some p \<longleftrightarrow>
      (\<exists>i < length ports. ports ! i = p \<and> fits p \<and> (\<forall>j < i. \<not> fits (ports ! j)))) \<and>
   (select_port ports annotations pre = None \<longleftrightarrow> \<not> (\<exists>p \<in> set ports. fits p))"
proof -
  define fits :: "K8sServicePort \<Rightarrow> bool" where "fits = (\<lambda>p. case annotations (pre @ ''/port'') of
       Some v \<Rightarrow> TrimSpace v = Itoa (sint (ksp_Port p)) \<or> TrimSpace v = ksp_Name p
     | None \<Rightarrow> length ports = 1 \<or> ksp_Name p = ''http'')"
  have "select_port ports annotations pre = find fits ports"
  proof (cases "annotations (pre @ ''/port'')")
    case None
    show ?thesis
    proof (cases "length ports = 1")
      case True
      then obtain q where "ports = [q]" by (auto simp: length_Suc_conv)
      with None show ?thesis by (simp add: select_port_def fits_def)
    qed (use None in \<open>simp add: select_port_def fits_def http_port_loop_find\<close>)
  next
    case (Some v)
    then show ?thesis
      by (simp add: select_port_def fits_def annotated_port_loop_find port_num_def Let_def eq_commute [of "TrimSpace v"])
  qed
  then show ?thesis unfolding fits_def [symmetric] Let_def by (auto simp: find_first find_None_iff)
qed

theorem select_port_spec_witness:
  "select_port [\<lparr>ksp_Name = ''web'', ksp_Protocol = ''TCP'', ksp_Port = 80\<rparr>, \<lparr>ksp_Name = ''80'', ksp_Protocol = ''TCP'', ksp_Port = 81\<rparr>]
     [''p/port'' \<mapsto> '' 80 ''] ''p'' = Some \<lparr>ksp_Name = ''web'', ksp_Protocol = ''TCP'', ksp_Port = 80\<rparr>"
proof -
  let ?ports = "[\<lparr>ksp_Name = ''web'', ksp_Protocol = ''TCP'', ksp_Port = 80\<rparr>, \<lparr>ksp_Name = ''80'', ksp_Protocol = ''TCP'', ksp_Port = 81\<rparr>]"
  have "TrimSpace '' 80 '' = ''80''" "Itoa (sint (80 :: 32 word)) = ''80''" by code_simp+
  then show ?thesis
    using select_port_spec [where annotations = "[''p/port'' \<mapsto> '' 80 '']" and pre = "''p''" and ports = ?ports and p = "?ports ! 0"]
    by (auto simp: Let_def intro: exI [of _ 0])
qed

lemma service_method_eq:
  "service_method a pre =
     (let v = ToLower (TrimSpace (idx a (pre @ ''/method''))) in if v \<in> {''https'', ''h2c''} then v else ''http'')"
proof -
  have "ToLower [] = []" by code_simp
  then show ?thesis by (auto simp: service_method_def idx_def Let_def split: option.splits)
qed

lemma service_tunnel_protocol_eq:
  "service_tunnel_protocol p a pre =
     (let v = ToLower (TrimSpace (idx a (pre @ ''/protocol'')))
      in if v \<in> {''tcp'', ''udp''} then v else if ksp_Protocol p = ''UDP'' then ''udp'' else ''tcp'')"
proof -
  have "ToLower [] = []" by code_simp
  then show ?thesis
    by (auto simp: service_tunnel_protocol_def serviceProtocol_def idx_def Let_def split: option.splits)
qed

lemma extras_of_base:
  fixes annotations :: strmap and pre :: string
  defines "x \<equiv> BuildTargetExtras zero_Target annotations pre"
  shows "BuildTargetExtras
      (zero_Target\<lparr>tgt_Site := site, tgt_Hostname := host, tgt_Method := mthd, tgt_Port := port\<rparr>) annotations pre =
    \<lparr>tgt_Site = site, tgt_Hostname = host, tgt_Enabled = tgt_Enabled x, tgt_Method = mthd, tgt_Port = port,
     tgt_InternalPort = tgt_InternalPort x, tgt_Path = tgt_Path x, tgt_PathMatch = tgt_PathMatch x,
     tgt_RewritePath = tgt_RewritePath x, tgt_RewriteMatch = tgt_RewriteMatch x,
     tgt_Priority = tgt_Priority x, tgt_HealthCheck = tgt_HealthCheck x\<rparr>"
  by (simp add: x_def BuildTargetExtras_fields zero_Target_def)

text \<open>The configuration under which a route would reach a port of the Service.\<close>

definition port_config :: "K8sService \<Rightarrow> K8sServicePort \<Rightarrow> Config \<Rightarrow> Config" where
  "port_config svc p cfg =
     (let a = map_or_empty (meta_Annotations (svc_Meta svc));
        v = ToLower (TrimSpace (idx a (cfg_AnnotationPrefix cfg @ ''/method'')))
      in cfg\<lparr>cfg_TargetHostname := meta_Name (svc_Meta svc) @ ''.'' @ meta_Namespace (svc_Meta svc) @ ''.svc.cluster.local'',
         cfg_TargetPort := sint (ksp_Port p), cfg_TargetMethod := (if v \<in> {''https'', ''h2c''} then v else ''http'')\<rparr>)"

text \<open>The entry of a Service for its selected port.\<close>

definition single_entry :: "K8sService \<Rightarrow> secret_data \<Rightarrow> Config \<Rightarrow> K8sServicePort \<Rightarrow> string \<times> Resource" where
  "single_entry svc sd cfg p =
     (let a = map_or_empty (meta_Annotations (svc_Meta svc)); pre = cfg_AnnotationPrefix cfg;
        fd = TrimSpace (idx a (pre @ ''/full-domain''));
        num = Itoa (sint (ksp_Port p));
        default = meta_Name (svc_Meta svc) @ ''-'' @ (if ksp_Name p = [] then num else ksp_Name p);
        name = (if idx a (pre @ ''/name'') = [] then default else idx a (pre @ ''/name''));
        v = ToLower (TrimSpace (idx a (pre @ ''/protocol'')));
        proto = (if v \<in> {''tcp'', ''udp''} then v else if ksp_Protocol p = ''UDP'' then ''udp'' else ''tcp'')
      in if fd = [] then
           (meta_Namespace (svc_Meta svc) @ ''-'' @ meta_Name (svc_Meta svc) @ ''-'' @ num @ ''-'' @ proto,
            tunnel name proto (sint (ksp_Port p))
              (meta_Name (svc_Meta svc) @ ''.'' @ meta_Namespace (svc_Meta svc) @ ''.svc.cluster.local'') (cfg_SiteID cfg))
         else
           (HostnameToKey fd,
            (BuildResource default fd (Some a) sd (port_config svc p cfg))\<lparr>res_Enabled := None\<rparr>))"

text \<open>What a builder makes of the configuration does not depend on where the target is.\<close>

lemma port_config_sel:
  "cfg_SSL (port_config svc p cfg) = cfg_SSL cfg" "cfg_SiteID (port_config svc p cfg) = cfg_SiteID cfg"
  "cfg_AnnotationPrefix (port_config svc p cfg) = cfg_AnnotationPrefix cfg"
  "cfg_DenyCountries (port_config svc p cfg) = cfg_DenyCountries cfg"
  "cfg_AuthSSORoles (port_config svc p cfg) = cfg_AuthSSORoles cfg"
  "cfg_AuthSSOUsers (port_config svc p cfg) = cfg_AuthSSOUsers cfg"
  "cfg_AuthSSOIDP (port_config svc p cfg) = cfg_AuthSSOIDP cfg"
  "cfg_AuthWhitelistUsers (port_config svc p cfg) = cfg_AuthWhitelistUsers cfg"
  by (simp_all add: port_config_def Let_def)

lemma port_config_builders:
  "BuildAuth a sd (port_config svc p cfg) = BuildAuth a sd cfg"
  "BuildRules a pre (port_config svc p cfg) = BuildRules a pre cfg"
  unfolding BuildAuth_def auth_idp_def BuildRules_def buildDenyRules_def port_config_sel by (rule refl)+

lemma resource_from_port:
  assumes "select_port (svc_Ports svc) (map_or_empty (meta_Annotations (svc_Meta svc))) (cfg_AnnotationPrefix cfg) = Some p"
  shows "buildSinglePortEntry svc (map_or_empty (meta_Annotations (svc_Meta svc))) sd cfg (cluster_hostname svc) =
    [single_entry svc sd cfg p]"
proof -
  let ?a = "map_or_empty (meta_Annotations (svc_Meta svc))" and ?pre = "cfg_AnnotationPrefix cfg"
  let ?fd = "TrimSpace (idx ?a (?pre @ ''/full-domain''))"
  have name: "(case ?a k of None \<Rightarrow> d | Some v \<Rightarrow> if v \<noteq> [] then v else d) = (if idx ?a k = [] then d else idx ?a k)" for k d
    by (simp add: idx_def split: option.splits)
  have sel: "cfg_TargetHostname (port_config svc p cfg) = cluster_hostname svc"
    "cfg_TargetPort (port_config svc p cfg) = port_num p" "cfg_TargetMethod (port_config svc p cfg) = service_method ?a ?pre"
    by (simp_all add: port_config_def cluster_hostname_def port_num_def service_method_eq Let_def)
  show ?thesis
  proof (cases "?fd = []")
    case True
    with assms show ?thesis
      by (simp add: buildSinglePortEntry_def resolvePort_def single_entry_def BuildServiceResource_def tunnel_def
          zero_ServicePort_def zero_Resource_def zero_Target_def ServiceToKey_def service_tunnel_protocol_eq
          port_label_def port_num_def cluster_hostname_def name Let_def split: option.splits)
  next
    case False
    with assms show ?thesis
      by (simp add: buildSinglePortEntry_def resolvePort_def single_entry_def BuildServiceResource_def
          BuildResource_def port_config_sel port_config_builders sel extras_of_base zero_Resource_def isTruthy_def
          port_label_def port_num_def name Let_def split: option.splits)
  qed
qed

text \<open>
  C25. Outside all-ports mode a Service gets exactly one entry, for the selected port, or none if no
  port is selected. Without a full domain it is a bare tunnel of that port, over the protocol of the
  annotation or of the port. With a full domain it is, under the key of the domain, field by field
  the resource that an HTTPRoute with this host name, these annotations and this Secret gets from
  the same configuration with the Service's address, port and method as the target (named
  <service>-<port> unless annotated), except that the \<open>enabled\<close> annotation is not copied.
\<close>

theorem service_single_port:
  assumes "\<not> all_ports_mode svc cfg"
  shows "BuildEntries (service_Definition conv) (ServiceObj svc) sd cfg =
    (case select_port (svc_Ports svc) (map_or_empty (meta_Annotations (svc_Meta svc))) (cfg_AnnotationPrefix cfg) of
       None \<Rightarrow> []
     | Some p \<Rightarrow> [single_entry svc sd cfg p])"
proof -
  let ?a = "map_or_empty (meta_Annotations (svc_Meta svc))" and ?pre = "cfg_AnnotationPrefix cfg"
  have es: "BuildEntries (service_Definition conv) (ServiceObj svc) sd cfg =
      buildSinglePortEntry svc ?a sd cfg (cluster_hostname svc)"
    using assms
    by (auto simp: BuildEntries_def service_Definition_def service_buildEntries_def all_ports_mode_def Let_def)
  show ?thesis
  proof (cases "select_port (svc_Ports svc) ?a ?pre")
    case None
    then show ?thesis by (simp add: es buildSinglePortEntry_def resolvePort_def Let_def)
  qed (simp add: es resource_from_port)
qed

definition web_service :: K8sService where
  "web_service =
     \<lparr>svc_Meta = \<lparr>meta_Namespace = ''web'', meta_Name = ''app'',
        meta_Annotations = Some [''newt-sidecar/full-domain'' \<mapsto> ''app.example.com'',
          ''newt-sidecar/all-ports'' \<mapsto> ''true'', ''newt-sidecar/host-header'' \<mapsto> ''inner'']\<rparr>,
      svc_Ports = [\<lparr>ksp_Name = ''metrics'', ksp_Protocol = ''TCP'', ksp_Port = 9090\<rparr>,
        \<lparr>ksp_Name = ''http'', ksp_Protocol = ''TCP'', ksp_Port = 8080\<rparr>]\<rparr>"

theorem service_single_port_witness:
  "\<exists>r. BuildEntries (service_Definition (\<lambda>t (u :: unit). Inl [])) (ServiceObj web_service) None default_config =
     [(''app-example-com'', r)] \<and> res_Name r = ''app-http'' \<and> res_HostHeader r = ''inner'' \<and>
     map tgt_Port (elems (res_Targets r)) = [8080]"
proof -
  have 1: "\<not> all_ports_mode web_service default_config" by code_simp
  have 2: "select_port (svc_Ports web_service) (map_or_empty (meta_Annotations (svc_Meta web_service)))
      (cfg_AnnotationPrefix default_config) = Some (svc_Ports web_service ! 1)" by code_simp
  have 3: "fst (single_entry web_service None default_config (svc_Ports web_service ! 1)) = ''app-example-com''"
    "res_Name (snd (single_entry web_service None default_config (svc_Ports web_service ! 1))) = ''app-http''"
    "res_HostHeader (snd (single_entry web_service None default_config (svc_Ports web_service ! 1))) = ''inner''"
    "map tgt_Port (elems (res_Targets (snd (single_entry web_service None default_config (svc_Ports web_service ! 1))))) = [8080]"
    by code_simp+
  show ?thesis
    using 3 unfolding service_single_port [OF 1, of "\<lambda>t (u :: unit). Inl []" None] 2
    by (cases "single_entry web_service None default_config (svc_Ports web_service ! 1)") simp
qed

end
