(* ===== verification/Controller.thy ===== *)
theory Controller
  imports StateManager HTTPRouteResource ServiceResource
begin

text \<open>
  The informer controller (\<open>internal/controller/controller.go\<close>), which keeps the public
  entries of the state manager in line with the HTTPRoutes or the Services of the cluster.

  The informer calls the handlers one at a time, in the order of the events; the state manager is
  shared and passed along. What is outside the program at the time of an event is the record
  \<open>Env\<close>: the YAML package, the Secrets the API server returns, and the order in which the two
  loops over the entries visit them. Contexts only cancel requests and are left out, as is logging.
\<close>

section \<open>Model\<close>

record Env =
  env_marshal :: marshaller
  env_GetSecret :: "string \<Rightarrow> string \<Rightarrow> string + string gomap" \<comment> \<open>namespace, name\<close>
  env_ord1 :: "string list \<Rightarrow> string list"
  env_ord2 :: "string list \<Rightarrow> string list"

record 'u Controller =
  ctl_resourceKeys :: "string \<rightharpoonup> string list" \<comment> \<open>"namespace/name" to blueprint keys\<close>
  ctl_gvr :: GroupVersionResource
  ctl_convert :: "'u \<Rightarrow> string + k8s_object"
  ctl_handler :: "'u ResourceDefinition"
  ctl_cfg :: Config
  ctl_synced :: bool

type_synonym 'u cstate = "'u Controller \<times> mstate"

definition New :: "'u ResourceDefinition \<Rightarrow> Config \<Rightarrow> 'u Controller" where
  "New definition cfg =
     \<lparr>ctl_resourceKeys = Map.empty, ctl_gvr = def_GVR definition,
      ctl_convert = def_ConvertFunc definition, ctl_handler = definition, ctl_cfg = cfg,
      ctl_synced = False\<rparr>"

text \<open>
  What an informer hands to a handler: an unstructured object, a tombstone around the last known
  state, or a value of some other type, given by its type name.
\<close>

datatype 'u event_obj =
  AnUnstructured 'u
| DeletedFinalStateUnknown "'u event_obj"
| OtherValue string

fun type_of_value :: "'u event_obj \<Rightarrow> string" where
  "type_of_value (AnUnstructured u) = ''*unstructured.Unstructured''"
| "type_of_value (DeletedFinalStateUnknown obj) = ''cache.DeletedFinalStateUnknown''"
| "type_of_value (OtherValue t) = t"

definition toMetaObj :: "'u Controller \<Rightarrow> 'u event_obj \<Rightarrow> string + k8s_object" where
  "toMetaObj c obj =
     (case obj of
        AnUnstructured u \<Rightarrow> ctl_convert c u
      | _ \<Rightarrow> Inl (''unexpected object type: '' @ type_of_value obj))"

definition resolveAuthSecret :: "Env \<Rightarrow> Config \<Rightarrow> k8s_object \<Rightarrow> secret_data" where
  "resolveAuthSecret env cfg obj =
     (let secretName =
        idx (map_or_empty (GetAnnotations obj)) (cfg_AnnotationPrefix cfg @ ''/auth-secret'')
      in if secretName = [] then None
         else case env_GetSecret env (GetNamespace obj) secretName of
           Inl err \<Rightarrow> None
         | Inr data \<Rightarrow> Some data)"

definition object_key :: "k8s_object \<Rightarrow> string" where
  "object_key obj = GetNamespace obj @ ''/'' @ GetName obj"

fun remove_loop :: "marshaller \<Rightarrow> string list \<Rightarrow> mstate \<Rightarrow> mstate" where
  "remove_loop marshal [] s = s"
| "remove_loop marshal (key # ks) s = remove_loop marshal ks (snd (Remove marshal key s))"

definition removeObject :: "Env \<Rightarrow> string \<Rightarrow> 'u cstate \<Rightarrow> 'u cstate" where
  "removeObject env objKey cs =
     (let (c, s) = cs;
        ks = (case ctl_resourceKeys c objKey of None \<Rightarrow> [] | Some ks \<Rightarrow> ks)
      in (c\<lparr>ctl_resourceKeys := (ctl_resourceKeys c)(objKey := None)\<rparr>,
          remove_loop (env_marshal env) ks s))"

fun stale_loop :: "marshaller \<Rightarrow> string list \<Rightarrow> string list \<Rightarrow> mstate \<Rightarrow> mstate" where
  "stale_loop marshal newKeys [] s = s"
| "stale_loop marshal newKeys (old # olds) s =
     stale_loop marshal newKeys olds
       (if old \<in> set newKeys then s else snd (Remove marshal old s))"

fun update_loop :: "marshaller \<Rightarrow> bool \<Rightarrow> entries \<Rightarrow> string list \<Rightarrow> mstate \<Rightarrow> mstate" where
  "update_loop marshal write es [] s = s"
| "update_loop marshal write es (key # ks) s =
     update_loop marshal write es ks
       (case map_of es key of
          None \<Rightarrow> s
        | Some resource \<Rightarrow> snd (AddOrUpdate marshal key resource write s))"

definition processObject :: "Env \<Rightarrow> k8s_object \<Rightarrow> bool \<Rightarrow> 'u cstate \<Rightarrow> 'u cstate" where
  "processObject env obj write cs =
     (let (c, s) = cs; objKey = object_key obj
      in if \<not> ShouldProcess (ctl_handler c) obj (ctl_cfg c) then removeObject env objKey cs
         else
           let secretData = resolveAuthSecret env (ctl_cfg c) obj;
             es = BuildEntries (ctl_handler c) obj secretData (ctl_cfg c)
           in if es = [] then removeObject env objKey cs
              else
                let newKeys = env_ord1 env (keys es);
                  oldKeys = (case ctl_resourceKeys c objKey of None \<Rightarrow> [] | Some ks \<Rightarrow> ks);
                  c = c\<lparr>ctl_resourceKeys := (ctl_resourceKeys c)(objKey \<mapsto> newKeys)\<rparr>;
                  s = stale_loop (env_marshal env) newKeys oldKeys s
                in (c, update_loop (env_marshal env) write es (env_ord2 env (keys es)) s))"

definition onAdd :: "Env \<Rightarrow> 'u event_obj \<Rightarrow> 'u cstate \<Rightarrow> 'u cstate" where
  "onAdd env obj cs =
     (case toMetaObj (fst cs) obj of
        Inl err \<Rightarrow> cs
      | Inr metaObj \<Rightarrow> processObject env metaObj (ctl_synced (fst cs)) cs)"

definition onUpdate :: "Env \<Rightarrow> 'u event_obj \<Rightarrow> 'u event_obj \<Rightarrow> 'u cstate \<Rightarrow> 'u cstate" where
  "onUpdate env oldObj newObj cs =
     (case toMetaObj (fst cs) newObj of
        Inl err \<Rightarrow> cs
      | Inr metaObj \<Rightarrow> processObject env metaObj (ctl_synced (fst cs)) cs)"

definition onDelete :: "Env \<Rightarrow> 'u event_obj \<Rightarrow> 'u cstate \<Rightarrow> 'u cstate" where
  "onDelete env obj cs =
     (let obj = (case obj of DeletedFinalStateUnknown inner \<Rightarrow> inner | _ \<Rightarrow> obj)
      in case toMetaObj (fst cs) obj of
           Inl err \<Rightarrow> cs
         | Inr metaObj \<Rightarrow> removeObject env (object_key metaObj) cs)"

text \<open>
  \<open>Run\<close> up to the wait for the end of the context; \<open>cacheSynced\<close> is what
  \<open>cache.WaitForCacheSync\<close> returned. The result is the error, if any.
\<close>

definition Run :: "Env \<Rightarrow> bool \<Rightarrow> 'u cstate \<Rightarrow> string option \<times> 'u cstate" where
  "Run env cacheSynced cs =
     (let (c, s) = cs
      in if \<not> cacheSynced
         then (Some (''cache sync timed out for '' @ gvr_Resource (ctl_gvr c)), cs)
         else (None, (c\<lparr>ctl_synced := True\<rparr>, ForceWrite (env_marshal env) s)))"

definition GVRString :: "'u Controller \<Rightarrow> string" where
  "GVRString c = gvr_Resource (ctl_gvr c)"

section \<open>The loops as sequences of operations\<close>

lemma remove_loop_fold: "remove_loop marshal ks s = fold (\<lambda>k s. snd (Remove marshal k s)) ks s"
  by (induction ks arbitrary: s) simp_all

lemma stale_loop_filter:
  "stale_loop marshal new olds s = remove_loop marshal (filter (\<lambda>k. k \<notin> set new) olds) s"
  by (induction olds arbitrary: s) simp_all

lemma update_loop_fold:
  "update_loop marshal write es ks s =
     fold (\<lambda>(k, r) s. snd (AddOrUpdate marshal k r write s))
       (List.map_filter (\<lambda>k. map_option (Pair k) (map_of es k)) ks) s"
  by (induction ks arbitrary: s) (auto simp: map_filter_simps split: option.splits)

lemma map_filter_entries:
  "set ks = set (keys es) \<Longrightarrow> map_of (List.map_filter (\<lambda>k. map_option (Pair k) (map_of es k)) ks) = map_of es"
proof -
  have *: "map_of (List.map_filter (\<lambda>k. map_option (Pair k) (map_of es k)) ks) =
      map_of es |` set ks" for ks
    by (induction ks) (auto simp: map_filter_simps fun_eq_iff restrict_map_def split: option.splits)
  show "set ks = set (keys es) \<Longrightarrow> ?thesis"
    by (simp add: * set_keys restrict_map_def fun_eq_iff domIff)
qed

lemma rev_map_filter: "rev (List.map_filter f xs) = List.map_filter f (rev xs)"
  by (simp add: map_filter_def rev_map rev_filter)

lemma remove_loop_look:
  "mgr_resources (fst (remove_loop marshal ks s)) = mgr_resources (fst s) |` (- set ks)"
  by (simp add: remove_loop_fold public_store.look_dels)

lemma update_loop_look:
  assumes "set ks = set (keys es)"
  shows "mgr_resources (fst (update_loop marshal write es ks s)) = mgr_resources (fst s) ++ map_of es"
  using map_filter_entries [of "rev ks" es] assms
  by (simp add: update_loop_fold public_store.look_upds rev_map_filter)

section \<open>What processing an object does\<close>

text \<open>The entries an object contributes to the blueprint: none if it is not to be processed.\<close>

definition contribution :: "'u ResourceDefinition \<Rightarrow> Config \<Rightarrow> Env \<Rightarrow> k8s_object \<Rightarrow> entries" where
  "contribution d cfg env obj =
     (if ShouldProcess d obj cfg then BuildEntries d obj (resolveAuthSecret env cfg obj) cfg else [])"

text \<open>The keys the controller holds for an object.\<close>

definition owned :: "'u Controller \<Rightarrow> string \<Rightarrow> string list" where
  "owned c oid = (case ctl_resourceKeys c oid of None \<Rightarrow> [] | Some ks \<Rightarrow> ks)"

definition good_env :: "Env \<Rightarrow> bool" where
  "good_env env \<longleftrightarrow> range_order (env_ord1 env) \<and> range_order (env_ord2 env)"

lemma removeObject_eq:
  "removeObject env oid (c, s) =
     (c\<lparr>ctl_resourceKeys := (ctl_resourceKeys c)(oid := None)\<rparr>, remove_loop (env_marshal env) (owned c oid) s)"
  by (simp add: removeObject_def owned_def)

lemma processObject_eq:
  "processObject env obj write (c, s) =
     (let es = contribution (ctl_handler c) (ctl_cfg c) env obj; oid = object_key obj;
        new = env_ord1 env (keys es)
      in if es = [] then removeObject env oid (c, s)
         else (c\<lparr>ctl_resourceKeys := (ctl_resourceKeys c)(oid \<mapsto> new)\<rparr>,
           update_loop (env_marshal env) write es (env_ord2 env (keys es))
             (remove_loop (env_marshal env) (filter (\<lambda>k. k \<notin> set new) (owned c oid)) s)))"
  by (simp add: processObject_def contribution_def owned_def Let_def stale_loop_filter)

lemma processObject_look:
  assumes "good_env env"
  shows "mgr_resources (fst (snd (processObject env obj write (c, s)))) =
    mgr_resources (fst s) |` (- set (owned c (object_key obj))) ++
      map_of (contribution (ctl_handler c) (ctl_cfg c) env obj)"
  using assms
  by (auto simp: processObject_eq removeObject_eq Let_def remove_loop_look update_loop_look good_env_def
      range_order_set set_keys fun_eq_iff map_add_def restrict_map_def split: option.splits)

lemma processObject_owned:
  assumes "good_env env"
  shows "set (owned (fst (processObject env obj write (c, s))) oid) =
    (if oid = object_key obj then set (keys (contribution (ctl_handler c) (ctl_cfg c) env obj))
     else set (owned c oid))"
  using assms
  by (auto simp: processObject_eq removeObject_eq Let_def owned_def good_env_def range_order_set)

text \<open>
  C7. Processing an object replaces, in one go, the entries the controller held for it by the
  entries it contributes now, and touches no other key: stale keys disappear, every contributed
  entry is present with its new value. The result does not depend on the order in which the loops
  visit the entries, on the Secret lookups of other objects, or on the operating system.
\<close>

theorem processObject_effect:
  assumes "range_order (env_ord1 env)" and "range_order (env_ord2 env)"
  shows "let (c', s') = processObject env obj write (c, s);
      es = contribution (ctl_handler c) (ctl_cfg c) env obj in
    (\<forall>k. mgr_resources (fst s') k =
      (case map_of es k of
         Some r \<Rightarrow> Some r
       | None \<Rightarrow> if k \<in> set (owned c (object_key obj)) then None else mgr_resources (fst s) k)) \<and>
    set (owned c' (object_key obj)) = set (keys es) \<and>
    (\<forall>oid. oid = object_key obj \<or> ctl_resourceKeys c' oid = ctl_resourceKeys c oid)"
proof -
  have g: "good_env env" using assms by (simp add: good_env_def)
  have "oid = object_key obj \<or>
      ctl_resourceKeys (fst (processObject env obj write (c, s))) oid = ctl_resourceKeys c oid" for oid
    by (simp add: processObject_eq removeObject_eq Let_def)
  with processObject_look [OF g, of obj _ c s] processObject_owned [OF g, of obj _ c s]
  show ?thesis
    by (auto simp: split_def Let_def map_add_def restrict_map_def split: option.splits)
qed

text \<open>A cluster for the examples: two routes whose only host name maps to the same key.\<close>

definition example_route :: "string \<Rightarrow> string \<Rightarrow> HTTPRoute" where
  "example_route name host =
     \<lparr>hr_Meta = \<lparr>meta_Namespace = ''web'', meta_Name = name, meta_Annotations = None\<rparr>,
      hr_ParentRefs = [], hr_Hostnames = [host]\<rparr>"

definition example_env :: Env where
  "example_env =
     \<lparr>env_marshal = (\<lambda>bp. Inr ''y''), env_GetSecret = (\<lambda>ns n. Inl ''not found''),
      env_ord1 = rev, env_ord2 = id\<rparr>"

definition example_definition :: "HTTPRoute ResourceDefinition" where
  "example_definition = httproute_Definition (\<lambda>t u. Inr (HTTPRouteObj u))"

lemma example_env_good: "range_order (env_ord1 example_env)" "range_order (env_ord2 example_env)"
  by (simp_all add: example_env_def range_order_id range_order_rev)

lemma example_contribution:
  "contribution example_definition default_config example_env (HTTPRouteObj (example_route n h)) =
     [(HostnameToKey h, BuildResource n h (Some Map.empty) None default_config)]"
  by (simp add: contribution_def example_definition_def ShouldProcess_iff httproute_Definition_def
      isOptOut_def example_route_def filterByGateway_def default_config_def BuildEntries_def
      httproute_buildEntries_def resolveAuthSecret_def Let_def)

lemma New_sel [simp]:
  "ctl_handler (New d cfg) = d" "ctl_cfg (New d cfg) = cfg" "owned (New d cfg) oid = []"
  "ctl_resourceKeys (New d cfg) = Map.empty" "ctl_convert (New d cfg) = def_ConvertFunc d"
  "ctl_synced (New d cfg) = False"
  by (simp_all add: New_def owned_def)

theorem processObject_effect_witness:
  "let s' = snd (processObject example_env (HTTPRouteObj (example_route ''r'' ''a.b'')) True
      (New example_definition default_config, (NewManager ''f'', calm_world)))
   in mgr_resources (fst s') ''a-b'' = Some (BuildResource ''r'' ''a.b'' (Some Map.empty) None default_config) \<and>
     mgr_resources (fst s') ''c'' = None"
proof -
  have "HostnameToKey ''a.b'' = ''a-b''" by code_simp
  with processObject_effect [OF example_env_good, of "HTTPRouteObj (example_route ''r'' ''a.b'')" True
      "New example_definition default_config" "(NewManager ''f'', calm_world)"]
  show ?thesis by (simp add: Let_def split_def example_contribution NewManager_def)
qed

section \<open>Sequences of events\<close>

datatype 'u event =
  Added "'u event_obj" | Updated "'u event_obj" "'u event_obj" | Deleted "'u event_obj"

fun handle :: "Env \<times> 'u event \<Rightarrow> 'u cstate \<Rightarrow> 'u cstate" where
  "handle (env, Added obj) cs = onAdd env obj cs"
| "handle (env, Updated old new) cs = onUpdate env old new cs"
| "handle (env, Deleted obj) cs = onDelete env obj cs"

text \<open>Whatever the event, a handler does one of three things.\<close>

lemma handle_cases:
  obtains (Ignored) "handle ev (c, s) = (c, s)"
  | (Processed) obj where "handle ev (c, s) = processObject (fst ev) obj (ctl_synced c) (c, s)"
  | (Removed) oid where "handle ev (c, s) = removeObject (fst ev) oid (c, s)"
proof -
  have "handle ev (c, s) = (c, s) \<or>
      (\<exists>obj. handle ev (c, s) = processObject (fst ev) obj (ctl_synced c) (c, s)) \<or>
      (\<exists>oid. handle ev (c, s) = removeObject (fst ev) oid (c, s))"
    by (cases "(ev, (c, s))" rule: handle.cases)
      (auto simp: onAdd_def onUpdate_def onDelete_def Let_def split: sum.splits)
  then show thesis using that by blast
qed

definition handle_events :: "(Env \<times> 'u event) list \<Rightarrow> 'u cstate \<Rightarrow> 'u cstate" where
  "handle_events evs cs = fold handle evs cs"

text \<open>
  The abstract controller: for each object of the cluster, the entries it contributed when it was
  last seen. An event that cannot be converted is ignored.
\<close>

type_synonym view = "string \<rightharpoonup> entries"

fun event_object :: "'u ResourceDefinition \<Rightarrow> 'u event_obj \<Rightarrow> k8s_object option" where
  "event_object d (AnUnstructured u) = (case def_ConvertFunc d u of Inl err \<Rightarrow> None | Inr obj \<Rightarrow> Some obj)"
| "event_object d _ = None"

fun untomb :: "'u event_obj \<Rightarrow> 'u event_obj" where
  "untomb (DeletedFinalStateUnknown obj) = obj"
| "untomb obj = obj"

definition non_empty_entries :: "entries \<Rightarrow> entries option" where
  "non_empty_entries es = (if es = [] then None else Some es)"

text \<open>What an event says: nothing, or which object contributes which entries from now on.\<close>

fun event_effect :: "'u ResourceDefinition \<Rightarrow> Config \<Rightarrow> Env \<times> 'u event \<Rightarrow> (string \<times> entries) option" where
  "event_effect d cfg (env, Added obj) =
     map_option (\<lambda>obj. (object_key obj, contribution d cfg env obj)) (event_object d obj)"
| "event_effect d cfg (env, Updated old new) =
     map_option (\<lambda>obj. (object_key obj, contribution d cfg env obj)) (event_object d new)"
| "event_effect d cfg (env, Deleted obj) =
     map_option (\<lambda>obj. (object_key obj, [])) (event_object d (untomb obj))"

definition abs_handle :: "'u ResourceDefinition \<Rightarrow> Config \<Rightarrow> Env \<times> 'u event \<Rightarrow> view \<Rightarrow> view" where
  "abs_handle d cfg ev v =
     (case event_effect d cfg ev of None \<Rightarrow> v | Some (oid, es) \<Rightarrow> v(oid := non_empty_entries es))"

text \<open>
  The entries of a view on top of entries that others own. Two objects collide when they
  contribute the same key, or one contributes a key that somebody else owns.
\<close>

definition separated :: "('o \<rightharpoonup> entries) \<Rightarrow> (string \<rightharpoonup> Resource) \<Rightarrow> bool" where
  "separated v base \<longleftrightarrow>
     (\<forall>oid es k. v oid = Some es \<and> k \<in> set (keys es) \<longrightarrow>
        base k = None \<and> (\<forall>oid' es'. v oid' = Some es' \<and> oid' \<noteq> oid \<longrightarrow> k \<notin> set (keys es')))"

fun collision_free ::
  "'u ResourceDefinition \<Rightarrow> Config \<Rightarrow> (string \<rightharpoonup> Resource) \<Rightarrow> (Env \<times> 'u event) list \<Rightarrow> view \<Rightarrow> bool" where
  "collision_free d cfg base [] v = separated v base"
| "collision_free d cfg base (ev # evs) v =
     (separated v base \<and> collision_free d cfg base evs (abs_handle d cfg ev v))"

definition represents :: "('o \<rightharpoonup> entries) \<Rightarrow> (string \<rightharpoonup> Resource) \<Rightarrow> (string \<rightharpoonup> Resource) \<Rightarrow> bool" where
  "represents v base rs \<longleftrightarrow>
     (\<forall>k r. rs k = Some r \<longleftrightarrow> base k = Some r \<or> (\<exists>oid es. v oid = Some es \<and> map_of es k = Some r))"

definition view_keys :: "('o \<rightharpoonup> entries) \<Rightarrow> 'o \<Rightarrow> string set" where
  "view_keys v oid = (case v oid of None \<Rightarrow> {} | Some es \<Rightarrow> set (keys es))"

definition records_view :: "'u ResourceDefinition \<Rightarrow> Config \<Rightarrow> view \<Rightarrow> 'u Controller \<Rightarrow> bool" where
  "records_view d cfg v c \<longleftrightarrow>
     ctl_handler c = d \<and> ctl_cfg c = cfg \<and> ctl_convert c = def_ConvertFunc d \<and>
     (\<forall>oid. set (owned c oid) = view_keys v oid)"

definition tracked :: "'u ResourceDefinition \<Rightarrow> Config \<Rightarrow> (string \<rightharpoonup> Resource) \<Rightarrow> view \<Rightarrow> 'u cstate \<Rightarrow> bool" where
  "tracked d cfg base v cs \<longleftrightarrow>
     records_view d cfg v (fst cs) \<and> represents v base (mgr_resources (fst (snd cs)))"

lemma separatedD:
  assumes "separated v base" and "v oid = Some es" and "k \<in> set (keys es)"
  shows "base k = None" and "v oid' = Some es' \<Longrightarrow> oid' \<noteq> oid \<Longrightarrow> k \<notin> set (keys es')"
  using assms unfolding separated_def by blast+

text \<open>Replacing the entries of one object keeps the map and the view in line.\<close>

lemma represents_replace:
  assumes rep: "represents v base rs"
    and sep: "separated v base" and sep': "separated (v(oid := non_empty_entries es)) base"
    and own: "own = view_keys v oid"
  shows "represents (v(oid := non_empty_entries es)) base (rs |` (- own) ++ map_of es)"
  unfolding represents_def
proof (intro allI)
  fix k r
  let ?v = "v(oid := non_empty_entries es)"
  let ?R = "base k = Some r \<or> (\<exists>oid es. ?v oid = Some es \<and> map_of es k = Some r)"
  show "(rs |` (- own) ++ map_of es) k = Some r \<longleftrightarrow> ?R"
  proof (cases "map_of es k")
    case (Some r')
    then have new: "?v oid = Some es" and k: "k \<in> set (keys es)"
      by (auto simp: non_empty_entries_def map_of_in_keys)
    have "base k = None" by (rule separatedD(1) [OF sep' new k])
    moreover have "map_of es' k = None" if "?v oid' = Some es'" "oid' \<noteq> oid" for oid' es'
      using separatedD(2) [OF sep' new k that] by (simp add: set_keys domIff)
    ultimately have "?R \<longleftrightarrow> r' = r"
      using Some new by (metis option.distinct(1) option.inject)
    with Some show ?thesis by simp
  next
    case None
    then have other: "?R \<longleftrightarrow> base k = Some r \<or> (\<exists>oid' es. oid' \<noteq> oid \<and> v oid' = Some es \<and> map_of es k = Some r)"
      by (auto simp: non_empty_entries_def)
    show ?thesis
    proof (cases "k \<in> own")
      case True
      then obtain es0 where old: "v oid = Some es0" "k \<in> set (keys es0)"
        using own by (auto simp: view_keys_def split: option.splits)
      have "base k = None" by (rule separatedD(1) [OF sep old])
      moreover have "map_of es' k = None" if "v oid' = Some es'" "oid' \<noteq> oid" for oid' es'
        using separatedD(2) [OF sep old that] by (simp add: set_keys domIff)
      ultimately have "\<not> ?R" unfolding other by force
      with None True show ?thesis by (simp add: map_add_def)
    next
      case False
      then have "map_of es0 k = None" if "v oid = Some es0" for es0
        using that own by (simp add: set_keys domIff view_keys_def)
      then have "?R \<longleftrightarrow> rs k = Some r"
        unfolding other using rep unfolding represents_def by (metis option.distinct(1))
      with None False show ?thesis by (simp add: map_add_def)
    qed
  qed
qed

lemma toMetaObj_event:
  "ctl_convert c = def_ConvertFunc d \<Longrightarrow>
     event_object d obj = (case toMetaObj c obj of Inl err \<Rightarrow> None | Inr m \<Rightarrow> Some m)"
  by (cases obj) (simp_all add: toMetaObj_def)

lemma config_unchanged [simp]:
  "ctl_handler (fst (removeObject env oid (c, s))) = ctl_handler c"
  "ctl_cfg (fst (removeObject env oid (c, s))) = ctl_cfg c"
  "ctl_convert (fst (removeObject env oid (c, s))) = ctl_convert c"
  "ctl_synced (fst (removeObject env oid (c, s))) = ctl_synced c"
  "ctl_handler (fst (processObject env obj b (c, s))) = ctl_handler c"
  "ctl_cfg (fst (processObject env obj b (c, s))) = ctl_cfg c"
  "ctl_convert (fst (processObject env obj b (c, s))) = ctl_convert c"
  "ctl_synced (fst (processObject env obj b (c, s))) = ctl_synced c"
  by (simp_all add: processObject_eq removeObject_eq Let_def)

lemma view_keys_upd [simp]:
  "view_keys (v(oid := non_empty_entries es)) oid' = (if oid' = oid then set (keys es) else view_keys v oid')"
  by (simp add: view_keys_def non_empty_entries_def)

lemma handle_config [simp]:
  "ctl_handler (fst (handle ev (c, s))) = ctl_handler c" "ctl_cfg (fst (handle ev (c, s))) = ctl_cfg c"
  "ctl_convert (fst (handle ev (c, s))) = ctl_convert c" "ctl_synced (fst (handle ev (c, s))) = ctl_synced c"
  by (cases rule: handle_cases [of ev c s]; simp)+

text \<open>A handler does what the event says: the entries of one object are replaced.\<close>

lemma handle_effect:
  assumes "good_env (fst ev)" and "ctl_convert c = def_ConvertFunc (ctl_handler c)"
  shows "case event_effect (ctl_handler c) (ctl_cfg c) ev of
      None \<Rightarrow> handle ev (c, s) = (c, s)
    | Some (oid, es) \<Rightarrow>
        mgr_resources (fst (snd (handle ev (c, s)))) = mgr_resources (fst s) |` (- set (owned c oid)) ++ map_of es \<and>
        (\<forall>oid'. set (owned (fst (handle ev (c, s))) oid') = (if oid' = oid then set (keys es) else set (owned c oid')))"
proof -
  note obj = toMetaObj_event [OF assms(2)]
  have untomb: "(case x of DeletedFinalStateUnknown inner \<Rightarrow> inner | _ \<Rightarrow> x) = untomb x"
    for x :: "'a event_obj" by (cases x) simp_all
  have rem: "owned (fst (removeObject env oid (c, s))) oid' = (if oid' = oid then [] else owned c oid')" for env oid oid'
    by (simp add: removeObject_eq owned_def)
  show ?thesis
    using assms(1)
    by (cases "(ev, c, s)" rule: handle.cases)
      (auto simp: onAdd_def onUpdate_def onDelete_def obj untomb processObject_look processObject_owned rem
        removeObject_eq [THEN arg_cong [where f = snd]] remove_loop_look split: sum.splits)
qed

lemma handle_records:
  assumes "good_env (fst ev)" and "records_view d cfg v c"
  shows "records_view d cfg (abs_handle d cfg ev v) (fst (handle ev (c, s)))"
  using handle_effect [OF assms(1), of c s] assms(2)
  by (auto simp: records_view_def abs_handle_def split: option.splits)

lemma handle_represents:
  assumes env: "good_env (fst ev)" and rec: "records_view d cfg (\<lambda>oid. V (own oid)) c"
    and eff: "event_effect d cfg ev = Some (oid, es)"
    and rep: "represents V base (mgr_resources (fst s))" and sep: "separated V base"
    and sep': "separated (V(own oid := non_empty_entries es)) base"
  shows "represents (V(own oid := non_empty_entries es)) base (mgr_resources (fst (snd (handle ev (c, s)))))"
proof -
  from rec have "set (owned c oid) = view_keys V (own oid)" by (simp add: records_view_def view_keys_def)
  from represents_replace [OF rep sep sep' this] handle_effect [OF env, of c s] rec eff
  show ?thesis by (simp add: records_view_def)
qed

lemma handle_tracked:
  assumes "good_env (fst ev)" and "tracked d cfg base v cs" and "separated v base"
    and "separated (abs_handle d cfg ev v) base"
  shows "tracked d cfg base (abs_handle d cfg ev v) (handle ev cs)"
proof -
  obtain c s where cs: "cs = (c, s)" by (cases cs)
  have rec: "records_view d cfg v c" and rep: "represents v base (mgr_resources (fst s))"
    using assms(2) by (simp_all add: tracked_def cs)
  have "represents (abs_handle d cfg ev v) base (mgr_resources (fst (snd (handle ev (c, s)))))"
  proof (cases "event_effect d cfg ev")
    case None
    with handle_effect [OF assms(1), of c s] rec rep show ?thesis
      by (simp add: abs_handle_def records_view_def)
  next
    case (Some p)
    with handle_represents [of ev d cfg v id c _ _ base s] assms rec rep show ?thesis
      by (cases p) (simp add: abs_handle_def)
  qed
  with handle_records [OF assms(1) rec, of s] show ?thesis by (simp add: tracked_def cs)
qed

lemma collision_free_now: "collision_free d cfg base evs v \<Longrightarrow> separated v base"
  by (cases evs) simp_all

lemma handle_events_tracked:
  "\<forall>(env, e) \<in> set evs. good_env env \<Longrightarrow> tracked d cfg base v cs \<Longrightarrow> collision_free d cfg base evs v \<Longrightarrow>
     tracked d cfg base (fold (abs_handle d cfg) evs v) (handle_events evs cs)"
proof (induction evs arbitrary: v cs)
  case (Cons ev evs)
  then have "tracked d cfg base (abs_handle d cfg ev v) (handle ev cs)"
    by (intro handle_tracked) (auto dest: collision_free_now)
  with Cons show ?case by (simp add: handle_events_def)
qed (simp add: handle_events_def)

lemma New_tracked: "tracked d cfg (mgr_resources (fst s)) Map.empty (New d cfg, s)"
  by (simp add: tracked_def represents_def records_view_def view_keys_def)

text \<open>
  C4. The controller implements the view of the cluster. Start it on a state manager that already
  holds entries of others and let it handle any sequence of additions, updates (resyncs included)
  and deletions, tombstones and unconvertible objects among them, in which no two objects ever
  claim the same key and none claims a key of others. Then the public entries are exactly the
  others' entries together with what each object contributed when it was last seen, and the keys
  recorded for an object are the keys of those entries.
\<close>

theorem controller_tracks_cluster:
  assumes "\<forall>(env, e) \<in> set evs. range_order (env_ord1 env) \<and> range_order (env_ord2 env)"
    and "collision_free d cfg (mgr_resources (fst s)) evs Map.empty"
  shows "let v = fold (abs_handle d cfg) evs Map.empty; (c', s') = handle_events evs (New d cfg, s) in
    (\<forall>k r. mgr_resources (fst s') k = Some r \<longleftrightarrow>
      mgr_resources (fst s) k = Some r \<or> (\<exists>oid es. v oid = Some es \<and> map_of es k = Some r)) \<and>
    (\<forall>oid. set (owned c' oid) = (case v oid of None \<Rightarrow> {} | Some es \<Rightarrow> set (keys es)))"
proof -
  have "\<forall>(env, e) \<in> set evs. good_env env" using assms(1) by (simp add: good_env_def)
  from handle_events_tracked [OF this New_tracked assms(2)] show ?thesis
    by (simp add: tracked_def represents_def records_view_def view_keys_def Let_def split_def)
qed

theorem controller_tracks_cluster_witness:
  "let u = (\<lambda>n h. AnUnstructured (example_route n h));
     evs = [(example_env, Added (u ''a'' ''x.org'')), (example_env, Added (u ''b'' ''y.org'')),
       (example_env, Updated (u ''a'' ''x.org'') (u ''a'' ''z.org'')),
       (example_env, Deleted (DeletedFinalStateUnknown (u ''b'' ''y.org'')))];
     s' = snd (handle_events evs (New example_definition default_config, (NewManager ''f'', calm_world)))
   in mgr_resources (fst s') ''z-org'' \<noteq> None \<and> mgr_resources (fst s') ''x-org'' = None \<and>
     mgr_resources (fst s') ''y-org'' = None"
proof -
  let ?u = "\<lambda>n h. AnUnstructured (example_route n h)"
  let ?evs = "[(example_env, Added (?u ''a'' ''x.org'')), (example_env, Added (?u ''b'' ''y.org'')),
       (example_env, Updated (?u ''a'' ''x.org'') (?u ''a'' ''z.org'')),
       (example_env, Deleted (DeletedFinalStateUnknown (?u ''b'' ''y.org'')))]"
  let ?d = example_definition and ?cfg = default_config
  have ev: "def_ConvertFunc ?d u = Inr (HTTPRouteObj u)" for u
    by (simp add: example_definition_def httproute_Definition_def CreateConvertFunc_def)
  have key: "object_key (HTTPRouteObj (example_route n h)) = ''web/'' @ n" for n h
    by (simp add: object_key_def example_route_def)
  have hk: "HostnameToKey ''x.org'' = ''x-org''" "HostnameToKey ''y.org'' = ''y-org''"
    "HostnameToKey ''z.org'' = ''z-org''" by code_simp+
  have 1: "\<forall>(env, e) \<in> set ?evs. range_order (env_ord1 env) \<and> range_order (env_ord2 env)"
    by (simp add: example_env_good)
  note view = abs_handle_def ev key hk example_contribution non_empty_entries_def
  have 2: "collision_free ?d ?cfg (mgr_resources (fst (NewManager ''f'', calm_world))) ?evs Map.empty"
    by (simp add: view separated_def NewManager_def)
  let ?R = "BuildResource ''a'' ''z.org'' (Some Map.empty) None default_config"
  have v: "fold (abs_handle ?d ?cfg) ?evs Map.empty = [''web/a'' \<mapsto> [(''z-org'', ?R)]]"
    by (simp add: view fun_eq_iff)
  define s' where "s' = snd (handle_events ?evs (New ?d ?cfg, (NewManager ''f'', calm_world)))"
  have "mgr_resources (fst s') k = Some r \<longleftrightarrow> k = ''z-org'' \<and> r = ?R" for k r
    using controller_tracks_cluster [OF 1 2] unfolding v Let_def
    by (auto simp: split_def NewManager_def s'_def)
  then have "mgr_resources (fst s') ''z-org'' = Some ?R" "mgr_resources (fst s') ''x-org'' = None"
    "mgr_resources (fst s') ''y-org'' = None"
    by (auto intro: option.exhaust [of "mgr_resources (fst s') _"])
  then show ?thesis by (simp add: Let_def s'_def)
qed

section \<open>Resyncs\<close>

lemma list_all_map_filter_entries:
  "(\<forall>k \<in> set (keys es). rs k = map_of es k) \<Longrightarrow>
     list_all (\<lambda>(k, r). rs k = Some r) (List.map_filter (\<lambda>k. map_option (Pair k) (map_of es k)) ks)"
  by (induction ks) (auto simp: map_filter_simps map_of_in_keys split: option.splits)

lemma processObject_present:
  assumes "good_env env" and "object_key obj = oid"
    and "set (owned c oid) = set (keys (contribution (ctl_handler c) (ctl_cfg c) env obj))"
    and "\<forall>k \<in> set (owned c oid).
      mgr_resources (fst s) k = map_of (contribution (ctl_handler c) (ctl_cfg c) env obj) k"
  shows "snd (processObject env obj b (c, s)) = s"
proof (cases "contribution (ctl_handler c) (ctl_cfg c) env obj = []")
  case True
  with assms show ?thesis by (simp add: processObject_eq removeObject_eq Let_def)
next
  case False
  let ?es = "contribution (ctl_handler c) (ctl_cfg c) env obj"
  have stale: "filter (\<lambda>k. k \<notin> set (env_ord1 env (keys ?es))) (owned c oid) = []"
    using assms by (simp add: good_env_def range_order_set)
  have "list_all (\<lambda>(k, r). mgr_resources (fst s) k = Some r)
      (List.map_filter (\<lambda>k. map_option (Pair k) (map_of ?es k)) (env_ord2 env (keys ?es)))"
    by (rule list_all_map_filter_entries) (use assms in simp)
  with False assms stale show ?thesis
    by (simp add: processObject_eq Let_def update_loop_fold public_store.upds_quiet)
qed

text \<open>
  C13. A resync is silent. Handling an object again that still contributes the same entries (its
  Secret included) leaves the state manager, the file and the recorded times exactly as they are,
  whatever orders the loops take and whether or not writes are enabled.
\<close>

theorem resync_quiet:
  assumes "range_order (env_ord1 env)" and "range_order (env_ord2 env)"
    and "range_order (env_ord1 env')" and "range_order (env_ord2 env')"
    and "contribution (ctl_handler c) (ctl_cfg c) env' obj = contribution (ctl_handler c) (ctl_cfg c) env obj"
  shows "snd (processObject env' obj b' (processObject env obj b (c, s))) = snd (processObject env obj b (c, s))"
proof -
  have g: "good_env env" "good_env env'" using assms by (simp_all add: good_env_def)
  obtain c' s' where cs: "processObject env obj b (c, s) = (c', s')" by (cases "processObject env obj b (c, s)")
  have cfg: "ctl_handler c' = ctl_handler c" "ctl_cfg c' = ctl_cfg c"
    using config_unchanged(5,6) [of env obj b c s] by (simp_all add: cs)
  have own: "set (owned c' (object_key obj)) = set (keys (contribution (ctl_handler c') (ctl_cfg c') env' obj))"
    using processObject_owned [OF g(1), of obj b c s "object_key obj"] by (simp add: cs cfg assms(5))
  have "mgr_resources (fst s') k = map_of (contribution (ctl_handler c) (ctl_cfg c) env obj) k"
    if "k \<in> set (owned c' (object_key obj))" for k
    using that processObject_look [OF g(1), of obj b c s] own
    by (auto simp: cs cfg assms(5) set_keys)
  then show ?thesis
    using processObject_present [OF g(2) refl own, of s' b'] by (simp add: cs cfg assms(5))
qed

theorem resync_quiet_witness:
  "let obj = HTTPRouteObj (example_route ''r'' ''a.b'');
     cs = processObject example_env obj True (New example_definition default_config, (NewManager ''f'', calm_world))
   in snd (processObject (example_env\<lparr>env_ord1 := id\<rparr>) obj True cs) = snd cs"
proof -
  have "contribution (ctl_handler (New example_definition default_config))
      (ctl_cfg (New example_definition default_config)) (example_env\<lparr>env_ord1 := id\<rparr>)
      (HTTPRouteObj (example_route n h)) =
    contribution (ctl_handler (New example_definition default_config))
      (ctl_cfg (New example_definition default_config)) example_env (HTTPRouteObj (example_route n h))" for n h
    by (simp add: contribution_def resolveAuthSecret_def Let_def)
  from resync_quiet [OF example_env_good _ _ this] example_env_good range_order_id
  show ?thesis by (simp add: Let_def)
qed

section \<open>Writes\<close>

lemma remove_loop_settled: "settled marshal s \<Longrightarrow> settled marshal (remove_loop marshal ks s)"
  by (simp add: remove_loop_fold public_store.dels_keep_settled)

lemma update_loop_settled: "settled marshal s \<Longrightarrow> settled marshal (update_loop marshal True es ks s)"
  by (simp add: update_loop_fold public_store.upds_keep_settled)

lemma processObject_settled:
  "settled (env_marshal env) s \<Longrightarrow> settled (env_marshal env) (snd (processObject env obj True (c, s)))"
  by (simp add: processObject_eq removeObject_eq Let_def remove_loop_settled update_loop_settled)

lemma handle_settled:
  assumes "ctl_synced (fst cs)" and "settled (env_marshal (fst ev)) (snd cs)"
  shows "ctl_synced (fst (handle ev cs)) \<and> settled (env_marshal (fst ev)) (snd (handle ev cs))"
proof -
  obtain c s where cs: "cs = (c, s)" by (cases cs)
  show ?thesis
    using assms unfolding cs
    by (cases rule: handle_cases [of ev c s])
      (simp_all add: processObject_settled removeObject_eq remove_loop_settled)
qed

section \<open>Shared keys\<close>

text \<open>
  C37. Two objects that claim one key do not survive each other: if two different objects contribute
  the same key, then deleting either of them removes the entry, although the other object is
  still there and still contributes it.
\<close>

theorem shared_key_lost:
  assumes "range_order (env_ord1 env)" and "range_order (env_ord2 env)"
    and "object_key a \<noteq> object_key b"
    and "k \<in> set (keys (contribution (ctl_handler c) (ctl_cfg c) env a))"
    and "k \<in> set (keys (contribution (ctl_handler c) (ctl_cfg c) env b))"
  shows "let both = processObject env b w (processObject env a w (c, s)) in
    mgr_resources (fst (snd both)) k \<noteq> None \<and>
    mgr_resources (fst (snd (removeObject env (object_key a) both))) k = None \<and>
    mgr_resources (fst (snd (removeObject env (object_key b) both))) k = None"
proof -
  have g: "good_env env" using assms by (simp add: good_env_def)
  obtain c1 s1 where 1: "processObject env a w (c, s) = (c1, s1)" by (cases "processObject env a w (c, s)")
  obtain c2 s2 where 2: "processObject env b w (c1, s1) = (c2, s2)" by (cases "processObject env b w (c1, s1)")
  have cfg: "ctl_handler c1 = ctl_handler c" "ctl_cfg c1 = ctl_cfg c"
    using config_unchanged(5,6) [of env a w c s] by (simp_all add: 1)
  have own: "k \<in> set (owned c2 (object_key a))" "k \<in> set (owned c2 (object_key b))"
    using processObject_owned [OF g, of a w c s] processObject_owned [OF g, of b w c1 s1] assms
    by (simp_all add: 1 2 cfg)
  have "mgr_resources (fst s2) k \<noteq> None"
    using processObject_look [OF g, of b w c1 s1] assms(5)
    by (auto simp: 2 cfg set_keys map_add_def split: option.splits)
  with own show ?thesis by (simp add: 1 2 Let_def removeObject_eq remove_loop_look)
qed

theorem shared_key_lost_witness:
  "let r = (\<lambda>n h. HTTPRouteObj (example_route n h));
     both = processObject example_env (r ''b'' ''x-y.org'') True
       (processObject example_env (r ''a'' ''x.y.org'') True
         (New example_definition default_config, (NewManager ''f'', calm_world)))
   in mgr_resources (fst (snd both)) ''x-y-org'' \<noteq> None \<and>
     mgr_resources (fst (snd (removeObject example_env ''web/a'' both))) ''x-y-org'' = None"
proof -
  let ?r = "\<lambda>n h. HTTPRouteObj (example_route n h)"
  have key: "object_key (?r n h) = ''web/'' @ n" for n h
    by (simp add: object_key_def example_route_def)
  have "HostnameToKey ''x-y.org'' = ''x-y-org''" "HostnameToKey ''x.y.org'' = ''x-y-org''"
    by code_simp+
  with shared_key_lost [OF example_env_good, of "?r ''a'' ''x.y.org''" "?r ''b'' ''x-y.org''" "''x-y-org''"
      "New example_definition default_config" True "(NewManager ''f'', calm_world)"]
  show ?thesis by (simp add: key example_contribution Let_def)
qed

section \<open>Secrets that cannot be read\<close>

lemma route_entry:
  assumes "ShouldProcess (httproute_Definition conv) (HTTPRouteObj route) cfg" and "h \<in> set (hr_Hostnames route)"
  shows "\<exists>h'. map_of (contribution (httproute_Definition conv) cfg env (HTTPRouteObj route)) (HostnameToKey h) =
    Some (BuildResource (meta_Name (hr_Meta route)) h' (Some (map_or_empty (meta_Annotations (hr_Meta route))))
      (resolveAuthSecret env cfg (HTTPRouteObj route)) cfg)"
proof -
  have "find (\<lambda>x. HostnameToKey x = HostnameToKey h) (rev (hr_Hostnames route)) \<noteq> None"
    using assms(2) by (auto simp: find_None_iff)
  with assms(1) show ?thesis
    by (auto simp: contribution_def BuildEntries_def httproute_Definition_def httproute_buildEntries_def
        hostnames_loop_fold map_of_fold_update split: option.splits)
qed

text \<open>
  C20. Protection by a Secret fails open: if the Secret a route names cannot be read (it does not
  exist, access is denied, or the API server does not answer) and neither SSO nor a white list is
  set, then the route is published all the same, without any auth block; an entry that was
  protected before is replaced.
\<close>

theorem auth_secret_fails_open:
  assumes "range_order (env_ord1 env)" and "range_order (env_ord2 env)"
    and "ctl_handler c = httproute_Definition conv" and "ctl_cfg c = cfg"
    and "ShouldProcess (httproute_Definition conv) (HTTPRouteObj route) cfg" and "h \<in> set (hr_Hostnames route)"
    and "meta_Annotations (hr_Meta route) = Some a"
    and "a (cfg_AnnotationPrefix cfg @ ''/auth-secret'') = Some secretName"
    and "env_GetSecret env (meta_Namespace (hr_Meta route)) secretName = Inl err"
    and "a (cfg_AnnotationPrefix cfg @ ''/auth-sso'') = None"
    and "csv_items (override a (cfg_AnnotationPrefix cfg @ ''/auth-whitelist-users'') (cfg_AuthWhitelistUsers cfg)) = []"
  shows "\<exists>r. mgr_resources (fst (snd (processObject env (HTTPRouteObj route) w (c, s)))) (HostnameToKey h) = Some r \<and>
    res_Auth r = None"
proof -
  have g: "good_env env" using assms(1,2) by (simp add: good_env_def)
  have none: "resolveAuthSecret env cfg (HTTPRouteObj route) = None"
    using assms(7-9) by (simp add: resolveAuthSecret_def Let_def)
  have "BuildAuth a None cfg = None"
    using assms(10,11) by (simp add: BuildAuth_simps splitCSV_eq)
  then have auth: "res_Auth (BuildResource n h' (Some a) None cfg) = None" for n h'
    by (simp add: BuildResource_def Let_def)
  from route_entry [OF assms(5,6), of env] none assms(7)
  obtain h' where "map_of (contribution (httproute_Definition conv) cfg env (HTTPRouteObj route)) (HostnameToKey h) =
      Some (BuildResource (meta_Name (hr_Meta route)) h' (Some a) None cfg)" by auto
  with auth assms(3,4) show ?thesis by (simp add: processObject_look [OF g])
qed

theorem auth_secret_fails_open_witness:
  "let a = [''newt-sidecar/auth-secret'' \<mapsto> ''pw''];
     route = \<lparr>hr_Meta = \<lparr>meta_Namespace = ''web'', meta_Name = ''r'', meta_Annotations = Some a\<rparr>,
       hr_ParentRefs = [], hr_Hostnames = [''a'']\<rparr>
   in \<exists>r. mgr_resources (fst (snd (processObject example_env (HTTPRouteObj route) True
       (New example_definition default_config, (NewManager ''f'', calm_world))))) (HostnameToKey ''a'') = Some r \<and>
     res_Auth r = None"
proof -
  let ?a = "[''newt-sidecar/auth-secret'' \<mapsto> ''pw'']" and ?conv = "\<lambda>t u. Inr (HTTPRouteObj u)"
  let ?route = "\<lparr>hr_Meta = \<lparr>meta_Namespace = ''web'', meta_Name = ''r'', meta_Annotations = Some ?a\<rparr>,
    hr_ParentRefs = [], hr_Hostnames = [''a'']\<rparr>"
  have 1: "ctl_handler (New example_definition default_config) = httproute_Definition ?conv"
    "ctl_cfg (New example_definition default_config) = default_config" by (simp_all add: example_definition_def)
  have 2: "ShouldProcess (httproute_Definition ?conv) (HTTPRouteObj ?route) default_config"
    by (simp add: ShouldProcess_iff httproute_Definition_def isOptOut_def filterByGateway_def default_config_def)
  have 3: "''a'' \<in> set (hr_Hostnames ?route)" "meta_Annotations (hr_Meta ?route) = Some ?a"
    "?a (cfg_AnnotationPrefix default_config @ ''/auth-secret'') = Some ''pw''"
    "env_GetSecret example_env (meta_Namespace (hr_Meta ?route)) ''pw'' = Inl ''not found''"
    "?a (cfg_AnnotationPrefix default_config @ ''/auth-sso'') = None"
    "csv_items (override ?a (cfg_AnnotationPrefix default_config @ ''/auth-whitelist-users'')
      (cfg_AuthWhitelistUsers default_config)) = []"
    by (simp_all add: default_config_def example_env_def override_def)
  show ?thesis
    using auth_secret_fails_open [OF example_env_good 1 2 3, of True "(NewManager ''f'', calm_world)"]
    by (simp add: Let_def)
qed

text \<open>
  C19. A route can stay open although its Secret was read and holds a pincode: when the pincode
  is zero or is not a number, the Secret holds neither a password nor basic-auth values and
  neither SSO nor a white list is set, the route is published without any auth block.
\<close>

theorem unusable_pincode_unprotected:
  assumes "range_order (env_ord1 env)" and "range_order (env_ord2 env)"
    and "ctl_handler c = httproute_Definition conv" and "ctl_cfg c = cfg"
    and "ShouldProcess (httproute_Definition conv) (HTTPRouteObj route) cfg" and "h \<in> set (hr_Hostnames route)"
    and "meta_Annotations (hr_Meta route) = Some a"
    and "a (cfg_AnnotationPrefix cfg @ ''/auth-secret'') = Some secretName" and "secretName \<noteq> []"
    and "env_GetSecret env (meta_Namespace (hr_Meta route)) secretName = Inr d"
    and "map_of d ''pincode'' = Some pincode" and "Atoi pincode \<in> {None, Some 0}"
    and "\<forall>k \<in> {''password'', ''basic-auth-user'', ''basic-auth-password''}. map_of d k \<in> {None, Some []}"
    and "a (cfg_AnnotationPrefix cfg @ ''/auth-sso'') = None"
    and "csv_items (override a (cfg_AnnotationPrefix cfg @ ''/auth-whitelist-users'') (cfg_AuthWhitelistUsers cfg)) = []"
  shows "\<exists>r. mgr_resources (fst (snd (processObject env (HTTPRouteObj route) w (c, s)))) (HostnameToKey h) = Some r \<and>
    res_Auth r = None"
proof -
  have g: "good_env env" using assms(1,2) by (simp add: good_env_def)
  have secret: "resolveAuthSecret env cfg (HTTPRouteObj route) = Some d"
    using assms(7-10) by (simp add: resolveAuthSecret_def Let_def)
  have "secret_pincode d = 0" using assms(11,12) by (auto simp: secret_pincode_def)
  moreover have "secret_password d = []" using assms(13) by (auto simp: secret_password_def)
  moreover have "secret_basic_auth d = None" using assms(13) by (auto simp: secret_basic_auth_def idx_def Let_def)
  ultimately have "BuildAuth a (Some d) cfg = None"
    using assms(14,15) by (simp add: BuildAuth_simps splitCSV_eq)
  then have auth: "res_Auth (BuildResource n h' (Some a) (Some d) cfg) = None" for n h'
    by (simp add: BuildResource_def Let_def)
  from route_entry [OF assms(5,6), of env] secret assms(7)
  obtain h' where "map_of (contribution (httproute_Definition conv) cfg env (HTTPRouteObj route)) (HostnameToKey h) =
      Some (BuildResource (meta_Name (hr_Meta route)) h' (Some a) (Some d) cfg)" by auto
  with auth assms(3,4) show ?thesis by (simp add: processObject_look [OF g])
qed

theorem unusable_pincode_unprotected_witness:
  "let a = [''newt-sidecar/auth-secret'' \<mapsto> ''pw''];
     route = \<lparr>hr_Meta = \<lparr>meta_Namespace = ''web'', meta_Name = ''r'', meta_Annotations = Some a\<rparr>,
       hr_ParentRefs = [], hr_Hostnames = [''a'']\<rparr>;
     env = example_env\<lparr>env_GetSecret := \<lambda>ns n. Inr [(''pincode'', ''0000'')]\<rparr>
   in \<exists>r. mgr_resources (fst (snd (processObject env (HTTPRouteObj route) True
       (New example_definition default_config, (NewManager ''f'', calm_world))))) (HostnameToKey ''a'') = Some r \<and>
     res_Auth r = None"
proof -
  let ?a = "[''newt-sidecar/auth-secret'' \<mapsto> ''pw'']" and ?conv = "\<lambda>t u. Inr (HTTPRouteObj u)"
  let ?route = "\<lparr>hr_Meta = \<lparr>meta_Namespace = ''web'', meta_Name = ''r'', meta_Annotations = Some ?a\<rparr>,
    hr_ParentRefs = [], hr_Hostnames = [''a'']\<rparr>"
  let ?env = "example_env\<lparr>env_GetSecret := \<lambda>ns n. Inr [(''pincode'', ''0000'')]\<rparr>"
  let ?d = "[(''pincode'', ''0000'')]"
  have 0: "range_order (env_ord1 ?env)" "range_order (env_ord2 ?env)" using example_env_good by simp_all
  have 1: "ctl_handler (New example_definition default_config) = httproute_Definition ?conv"
    "ctl_cfg (New example_definition default_config) = default_config" by (simp_all add: example_definition_def)
  have 2: "ShouldProcess (httproute_Definition ?conv) (HTTPRouteObj ?route) default_config"
    by (simp add: ShouldProcess_iff httproute_Definition_def isOptOut_def filterByGateway_def default_config_def)
  have 3: "''a'' \<in> set (hr_Hostnames ?route)" "meta_Annotations (hr_Meta ?route) = Some ?a"
    "?a (cfg_AnnotationPrefix default_config @ ''/auth-secret'') = Some ''pw''" "''pw'' \<noteq> []"
    "env_GetSecret ?env (meta_Namespace (hr_Meta ?route)) ''pw'' = Inr ?d"
    "map_of ?d ''pincode'' = Some ''0000''"
    by (simp_all add: default_config_def)
  have 4: "Atoi ''0000'' \<in> {None, Some 0}" by code_simp
  have 5: "\<forall>k \<in> {''password'', ''basic-auth-user'', ''basic-auth-password''}. map_of ?d k \<in> {None, Some []}"
    by simp
  have 6: "?a (cfg_AnnotationPrefix default_config @ ''/auth-sso'') = None"
    "csv_items (override ?a (cfg_AnnotationPrefix default_config @ ''/auth-whitelist-users'')
      (cfg_AuthWhitelistUsers default_config)) = []"
    by (simp_all add: default_config_def override_def)
  show ?thesis
    using unusable_pincode_unprotected [OF 0 1 2 3 4 5 6, of True "(NewManager ''f'', calm_world)"]
    by (simp add: Let_def)
qed

end
