(* ===== verification/ApiTypes.thy ===== *)
theory ApiTypes
  imports StateManager
begin

text \<open>
  The custom resource types (\<open>api/v1alpha1\<close>) and what the two reconcilers of custom resources
  have in common: the outcome of reading the object back, and the contract a reconciler has with
  the state manager. Go's \<open>int\<close> is \<^typ>\<open>int\<close>; the API server's schema checks are not part of the
  program and nothing is assumed about them.
\<close>

section \<open>Public resources\<close>

text \<open>
  The struct types take the representation of their pointer and slice fields as type parameters:
  the reconcilers see options and lists, the deep-copy functions see addresses.
\<close>

record PublicHeaderSpec =
  phs_Name :: string
  phs_Value :: string

record PublicRuleSpec =
  prs_Action :: string
  prs_Match :: string
  prs_Value :: string
  prs_Priority :: int

record 'strs auth_spec =
  pas_SsoEnabled :: bool
  pas_SsoRoles :: 'strs
  pas_SsoUsers :: 'strs
  pas_WhitelistUsers :: 'strs
  pas_AutoLoginIdp :: int
  pas_AuthSecretRef :: string

type_synonym PublicAuthSpec = "string slice auth_spec"

record PublicMaintenanceSpec =
  pms_Enabled :: bool
  pms_Type :: string
  pms_Title :: string
  pms_Message :: string
  pms_EstimatedTime :: string

record ('flag, 'headers) health_check_spec =
  phc_Hostname :: string
  phc_Port :: int
  phc_Enabled :: 'flag
  phc_Path :: string
  phc_Scheme :: string
  phc_Mode :: string
  phc_Interval :: int
  phc_UnhealthyInterval :: int
  phc_Timeout :: int
  phc_Headers :: 'headers
  phc_FollowRedirects :: 'flag
  phc_Method :: string
  phc_Status :: int

type_synonym PublicHealthCheckSpec = "(bool option, PublicHeaderSpec slice) health_check_spec"

record ('flag, 'check) target_spec =
  pts_Hostname :: string
  pts_Port :: int
  pts_Method :: string
  pts_Enabled :: 'flag
  pts_InternalPort :: int
  pts_Path :: string
  pts_PathMatch :: string
  pts_RewritePath :: string
  pts_RewriteMatch :: string
  pts_Priority :: int
  pts_Healthcheck :: 'check

type_synonym PublicTargetSpec = "(bool option, PublicHealthCheckSpec option) target_spec"

record ('flag, 'headers, 'auth, 'maint, 'rules, 'targets) public_spec =
  pub_Name :: string
  pub_Protocol :: string
  pub_FullDomain :: string
  pub_ProxyPort :: int
  pub_Enabled :: 'flag
  pub_Ssl :: bool
  pub_HostHeader :: string
  pub_TlsServerName :: string
  pub_Headers :: 'headers
  pub_Auth :: 'auth
  pub_Maintenance :: 'maint
  pub_Rules :: 'rules
  pub_Targets :: 'targets

type_synonym PublicResourceSpec =
  "(bool option, PublicHeaderSpec slice, PublicAuthSpec option, PublicMaintenanceSpec option,
    PublicRuleSpec slice, PublicTargetSpec slice) public_spec"

text \<open>The object: of its metadata the reconciler reads the namespace.\<close>

record PublicResourceObject =
  pro_Namespace :: string
  pro_Spec :: PublicResourceSpec

section \<open>Private resources\<close>

record 'strs private_spec =
  pvs_Name :: string
  pvs_Mode :: string
  pvs_Destination :: string
  pvs_TcpPorts :: string
  pvs_UdpPorts :: string
  pvs_DisableIcmp :: bool
  pvs_Alias :: string
  pvs_Roles :: 'strs
  pvs_Users :: 'strs
  pvs_Machines :: 'strs

type_synonym PrivateResourceSpec = "string slice private_spec"

section \<open>Registration\<close>

text \<open>
  The types of the group and the order in which their files register them with the scheme builder
  (Go initialises the files of a package in the order of their names).
\<close>

datatype api_type = PrivateResourceType | PrivateResourceListType | PublicResourceType | PublicResourceListType

definition GroupVersion :: string where
  "GroupVersion = ''newt-sidecar.home-operations.com/v1alpha1''"

definition Register :: "api_type list \<Rightarrow> api_type list \<Rightarrow> api_type list" where
  "Register objs builder = builder @ objs"

definition SchemeBuilder :: "api_type list" where
  "SchemeBuilder =
     Register [PublicResourceType, PublicResourceListType]
       (Register [PrivateResourceType, PrivateResourceListType] [])"

text \<open>
  What a reconciler hands to the controller builder of the library; \<open>Complete\<close> answers with an error
  or nil.
\<close>

record CtrlBuilder =
  cb_For :: api_type
  cb_Named :: string

type_synonym completer = "CtrlBuilder \<Rightarrow> string option"

section \<open>Reading objects\<close>

text \<open>
  \<open>client.Get\<close>: the object, an error for which \<open>apierrors.IsNotFound\<close> holds, or another error.
\<close>

datatype 'a get_result = Found 'a | NotFound | GetError string

text \<open>A request of the work queue: \<open>req.NamespacedName\<close>.\<close>

record Request =
  req_Namespace :: string
  req_Name :: string

section \<open>The reconciler contract\<close>

text \<open>
  What the cluster asks for at the time of a reconciliation: the object is gone, it could not be
  read, its spec is refused, or it stands for an entry.
\<close>

datatype 'r wanted = Gone | Unreadable string | Refused | Wanted 'r

fun apply_wanted :: "string \<Rightarrow> 'r wanted \<Rightarrow> (string \<rightharpoonup> 'r) \<Rightarrow> (string \<rightharpoonup> 'r)" where
  "apply_wanted k Gone m = m(k := None)"
| "apply_wanted k (Unreadable e) m = m"
| "apply_wanted k Refused m = m"
| "apply_wanted k (Wanted r) m = m(k \<mapsto> r)"

text \<open>
  A reconciler sits on a store: it deletes, stores with a write, or leaves the store alone, and it
  returns an error (so that the request is retried) exactly when the object could not be read.
\<close>

locale crd_reconciler = resource_store upd del look settled
  for upd :: "string \<Rightarrow> 'r \<Rightarrow> bool \<Rightarrow> 's \<Rightarrow> bool \<times> 's"
    and del :: "string \<Rightarrow> 's \<Rightarrow> bool \<times> 's"
    and look :: "'s \<Rightarrow> string \<Rightarrow> 'r option"
    and settled :: "'s \<Rightarrow> bool" +
  fixes reconcile :: "'i \<Rightarrow> Request \<Rightarrow> 's \<Rightarrow> string option \<times> 's"
    and want :: "'i \<Rightarrow> Request \<Rightarrow> 'r wanted"
  assumes on_gone: "want i req = Gone \<Longrightarrow> reconcile i req s = (None, snd (del (req_Name req) s))"
    and on_unreadable: "want i req = Unreadable e \<Longrightarrow> reconcile i req s = (Some e, s)"
    and on_refused: "want i req = Refused \<Longrightarrow> reconcile i req s = (None, s)"
    and on_wanted: "want i req = Wanted r \<Longrightarrow> reconcile i req s = (None, snd (upd (req_Name req) r True s))"
begin

lemma reconcile_look: "look (snd (reconcile i req s)) = apply_wanted (req_Name req) (want i req) (look s)"
  by (cases "want i req") (simp_all add: on_gone on_unreadable on_refused on_wanted look_upd look_del)

lemma reconcile_error: "fst (reconcile i req s) = (case want i req of Unreadable e \<Rightarrow> Some e | _ \<Rightarrow> None)"
  by (cases "want i req") (simp_all add: on_gone on_unreadable on_refused on_wanted)

lemma reconcile_settled: "settled s \<Longrightarrow> settled (snd (reconcile i req s))"
  by (cases "want i req")
    (simp_all add: on_gone on_unreadable on_refused on_wanted upd_keeps_settled del_keeps_settled)

text \<open>Reconciling is idempotent: a second run for an unchanged object does nothing.\<close>

lemma reconcile_again: "snd (reconcile i req (snd (reconcile i req s))) = snd (reconcile i req s)"
  by (cases "want i req")
    (simp_all add: on_gone on_unreadable on_refused on_wanted upd_again del_again)

text \<open>A run of reconciliations implements the abstract map.\<close>

lemma reconciles_look:
  "look (fold (\<lambda>(i, req) s. snd (reconcile i req s)) rs s) =
     fold (\<lambda>(i, req). apply_wanted (req_Name req) (want i req)) rs (look s)"
  by (induction rs arbitrary: s) (auto simp: reconcile_look)

lemma reconciles_settled:
  "settled s \<Longrightarrow> settled (fold (\<lambda>(i, req) s. snd (reconcile i req s)) rs s)"
  by (induction rs arbitrary: s) (auto simp: reconcile_settled)

end

text \<open>What a run of requests leaves under a key: the effect of the last decisive request for it.\<close>

fun decisive :: "'r wanted \<Rightarrow> bool" where
  "decisive (Wanted r) = True"
| "decisive Gone = True"
| "decisive _ = False"

lemma fold_apply_wanted:
  "fold (\<lambda>(i, req). apply_wanted (req_Name req) (want i req)) rs m k =
     (case find (\<lambda>(i, req). req_Name req = k \<and> decisive (want i req)) (rev rs) of
        None \<Rightarrow> m k
      | Some (i, req) \<Rightarrow> (case want i req of Wanted r \<Rightarrow> Some r | _ \<Rightarrow> None))"
proof (induction rs arbitrary: m)
  case (Cons x rs)
  obtain i req where x: "x = (i, req)" by fastforce
  have "apply_wanted (req_Name req) (want i req) m k =
      (if req_Name req = k \<and> decisive (want i req)
       then (case want i req of Wanted r \<Rightarrow> Some r | _ \<Rightarrow> None) else m k)"
    by (cases "want i req") auto
  with Cons show ?case by (auto simp: x find_snoc split: option.splits)
qed simp

end
