(* ===== verification/PublicReconciler.thy ===== *)
theory PublicReconciler
  imports ApiTypes Resources
begin

text \<open>
  The PublicResource reconciler (\<open>internal/controller/publicresource/controller.go\<close>). The client
  is a parameter: \<open>Get\<close> answers for the object of the request, \<open>GetSecret\<close> for its Secret.
  Reading the object back is the only thing that can fail; an invalid spec is logged and skipped.
\<close>

section \<open>Model\<close>

definition convertHeaders :: "PublicHeaderSpec slice \<Rightarrow> Header slice" where
  "convertHeaders headers =
     (if elems headers = [] then None
      else Some (map (\<lambda>h. \<lparr>hdr_Name = phs_Name h, hdr_Value = phs_Value h\<rparr>) (elems headers)))"

definition convertRules :: "PublicRuleSpec slice \<Rightarrow> Rule slice" where
  "convertRules rules =
     (if elems rules = [] then None
      else Some (map (\<lambda>r. \<lparr>rule_Action = prs_Action r, rule_Match = prs_Match r,
        rule_Value = prs_Value r, rule_Priority = prs_Priority r\<rparr>) (elems rules)))"

definition convertMaintenance :: "PublicMaintenanceSpec option \<Rightarrow> Maintenance option" where
  "convertMaintenance m =
     (case m of
        None \<Rightarrow> None
      | Some m \<Rightarrow> Some \<lparr>mnt_Enabled = pms_Enabled m, mnt_Type = pms_Type m, mnt_Title = pms_Title m,
          mnt_Message = pms_Message m, mnt_EstimatedTime = pms_EstimatedTime m\<rparr>)"

definition auth_from_spec :: "PublicAuthSpec option \<Rightarrow> Auth" where
  "auth_from_spec spec =
     (let auth = \<lparr>auth_Pincode = 0, auth_Password = [], auth_BasicAuth = None,
        auth_SSOEnabled = False, auth_SSORoles = None, auth_SSOUsers = None,
        auth_WhitelistUsers = None, auth_AutoLoginIDP = 0\<rparr>
      in case spec of
           None \<Rightarrow> auth
         | Some spec \<Rightarrow> auth\<lparr>auth_SSOEnabled := pas_SsoEnabled spec,
             auth_SSORoles := pas_SsoRoles spec, auth_SSOUsers := pas_SsoUsers spec,
             auth_WhitelistUsers := pas_WhitelistUsers spec,
             auth_AutoLoginIDP := pas_AutoLoginIdp spec\<rparr>)"

definition auth_add_secret :: "string gomap \<Rightarrow> Auth \<Rightarrow> Auth" where
  "auth_add_secret d auth =
     (let auth = (case map_of d ''pincode'' of
          None \<Rightarrow> auth
        | Some v \<Rightarrow> if v = [] then auth
            else case Atoi v of None \<Rightarrow> auth | Some n \<Rightarrow> auth\<lparr>auth_Pincode := n\<rparr>);
        auth = (case map_of d ''password'' of
          None \<Rightarrow> auth | Some v \<Rightarrow> auth\<lparr>auth_Password := v\<rparr>);
        baUser = idx (map_of d) ''basic-auth-user'';
        baPass = idx (map_of d) ''basic-auth-password''
      in if baUser \<noteq> [] \<or> baPass \<noteq> []
         then auth\<lparr>auth_BasicAuth := Some \<lparr>ba_User = baUser, ba_Password = baPass\<rparr>\<rparr>
         else auth)"

definition trivial_auth :: "Auth \<Rightarrow> bool" where
  "trivial_auth a \<longleftrightarrow>
     \<not> auth_SSOEnabled a \<and> elems (auth_SSORoles a) = [] \<and> elems (auth_SSOUsers a) = [] \<and>
     elems (auth_WhitelistUsers a) = [] \<and> auth_AutoLoginIDP a = 0 \<and> auth_Pincode a = 0 \<and>
     auth_Password a = [] \<and> auth_BasicAuth a = None"

definition public_buildAuth :: "PublicAuthSpec option \<Rightarrow> secret_data \<Rightarrow> Auth option" where
  "public_buildAuth spec secretData =
     (if spec = None \<and> (case secretData of None \<Rightarrow> True | Some d \<Rightarrow> d = []) then None
      else
        let auth = auth_from_spec spec;
          auth = (case secretData of None \<Rightarrow> auth | Some d \<Rightarrow> auth_add_secret d auth)
        in if trivial_auth auth then None else Some auth)"

definition convertHealthCheck :: "PublicHealthCheckSpec option \<Rightarrow> HealthCheck option" where
  "convertHealthCheck hc =
     (case hc of
        None \<Rightarrow> None
      | Some hc \<Rightarrow> Some
        \<lparr>hc_Hostname = phc_Hostname hc, hc_Port = phc_Port hc, hc_Enabled = phc_Enabled hc,
         hc_Path = phc_Path hc, hc_Scheme = phc_Scheme hc, hc_Mode = phc_Mode hc,
         hc_Interval = phc_Interval hc, hc_UnhealthyInterval = phc_UnhealthyInterval hc,
         hc_Timeout = phc_Timeout hc, hc_Headers = convertHeaders (phc_Headers hc),
         hc_FollowRedirects = phc_FollowRedirects hc, hc_Method = phc_Method hc,
         hc_Status = phc_Status hc\<rparr>)"

definition convertTarget :: "string \<Rightarrow> PublicTargetSpec \<Rightarrow> Target" where
  "convertTarget siteID t =
     \<lparr>tgt_Site = siteID, tgt_Hostname = pts_Hostname t, tgt_Enabled = pts_Enabled t,
      tgt_Method = pts_Method t, tgt_Port = pts_Port t, tgt_InternalPort = pts_InternalPort t,
      tgt_Path = pts_Path t, tgt_PathMatch = pts_PathMatch t, tgt_RewritePath = pts_RewritePath t,
      tgt_RewriteMatch = pts_RewriteMatch t, tgt_Priority = pts_Priority t,
      tgt_HealthCheck = convertHealthCheck (pts_Healthcheck t)\<rparr>"

text \<open>Never nil, even for an empty list.\<close>

definition convertTargets :: "PublicTargetSpec slice \<Rightarrow> string \<Rightarrow> Target slice" where
  "convertTargets targets siteID = Some (map (convertTarget siteID) (elems targets))"

definition buildResource :: "PublicResourceSpec \<Rightarrow> secret_data \<Rightarrow> string \<Rightarrow> Resource" where
  "buildResource spec secretData siteID =
     (let res = \<lparr>res_Name = pub_Name spec, res_Protocol = pub_Protocol spec,
          res_Enabled = pub_Enabled spec, res_SSL = pub_Ssl spec,
          res_FullDomain = pub_FullDomain spec, res_HostHeader = pub_HostHeader spec,
          res_TLSServerName = pub_TlsServerName spec, res_ProxyPort = pub_ProxyPort spec,
          res_Headers = convertHeaders (pub_Headers spec),
          res_Auth = public_buildAuth (pub_Auth spec) secretData,
          res_Maintenance = convertMaintenance (pub_Maintenance spec),
          res_Rules = convertRules (pub_Rules spec),
          res_Targets = convertTargets (pub_Targets spec) siteID\<rparr>
      in if res_TLSServerName res = [] \<and> res_FullDomain res \<noteq> []
         then res\<lparr>res_TLSServerName := res_FullDomain res\<rparr> else res)"

datatype public_error = FullDomainRequired | ProxyPortRequired string

definition public_validate :: "PublicResourceSpec \<Rightarrow> public_error option" where
  "public_validate spec =
     (if pub_Protocol spec = ''http'' then
        if pub_FullDomain spec = [] then Some FullDomainRequired else None
      else if pub_Protocol spec = ''tcp'' \<or> pub_Protocol spec = ''udp'' then
        if pub_ProxyPort spec = 0 then Some (ProxyPortRequired (pub_Protocol spec)) else None
      else None)"

type_synonym secret_client = "string \<Rightarrow> string \<Rightarrow> string + string gomap"

record PublicClient =
  pc_Get :: "Request \<Rightarrow> PublicResourceObject get_result"
  pc_GetSecret :: secret_client

definition public_resolveAuthSecret :: "secret_client \<Rightarrow> PublicResourceObject \<Rightarrow> secret_data" where
  "public_resolveAuthSecret GetSecret resource =
     (case pub_Auth (pro_Spec resource) of
        None \<Rightarrow> None
      | Some auth \<Rightarrow>
        if pas_AuthSecretRef auth = [] then None
        else case GetSecret (pro_Namespace resource) (pas_AuthSecretRef auth) of
          Inl err \<Rightarrow> None
        | Inr data \<Rightarrow> Some data)"

definition public_Reconcile ::
  "marshaller \<Rightarrow> string \<Rightarrow> PublicClient \<Rightarrow> Request \<Rightarrow> mstate \<Rightarrow> string option \<times> mstate" where
  "public_Reconcile marshal siteID client req s =
     (case pc_Get client req of
        NotFound \<Rightarrow> (None, snd (Remove marshal (req_Name req) s))
      | GetError err \<Rightarrow> (Some err, s)
      | Found resource \<Rightarrow>
        (case public_validate (pro_Spec resource) of
           Some err \<Rightarrow> (None, s)
         | None \<Rightarrow>
           let secretData = public_resolveAuthSecret (pc_GetSecret client) resource;
             res = buildResource (pro_Spec resource) secretData siteID
           in (None, snd (AddOrUpdate marshal (req_Name req) res True s))))"

definition public_SetupWithManager :: "completer \<Rightarrow> string option" where
  "public_SetupWithManager Complete = Complete \<lparr>cb_For = PublicResourceType, cb_Named = ''publicresource''\<rparr>"

section \<open>Specs\<close>

text \<open>
  A spec is refused exactly when it is an HTTP resource without a domain or a TCP or UDP
  resource without a proxy port.
\<close>

lemma public_validate_spec:
  "public_validate spec \<noteq> None \<longleftrightarrow>
     pub_Protocol spec = ''http'' \<and> pub_FullDomain spec = [] \<or>
     pub_Protocol spec \<in> {''tcp'', ''udp''} \<and> pub_ProxyPort spec = 0"
  by (auto simp: public_validate_def)

text \<open>The sensitive fields of an auth block as the Secret gives them.\<close>

definition pincode_of :: "string gomap \<Rightarrow> int" where
  "pincode_of d = (case Atoi (idx (map_of d) ''pincode'') of None \<Rightarrow> 0 | Some n \<Rightarrow> n)"

definition basic_auth_of :: "string gomap \<Rightarrow> BasicAuth option" where
  "basic_auth_of d =
     (let user = idx (map_of d) ''basic-auth-user''; pass = idx (map_of d) ''basic-auth-password''
      in if user = [] \<and> pass = [] then None else Some \<lparr>ba_User = user, ba_Password = pass\<rparr>)"

definition auth_fields :: "PublicAuthSpec option \<Rightarrow> string gomap \<Rightarrow> Auth" where
  "auth_fields spec d =
     \<lparr>auth_Pincode = pincode_of d, auth_Password = idx (map_of d) ''password'',
      auth_BasicAuth = basic_auth_of d,
      auth_SSOEnabled = (case spec of None \<Rightarrow> False | Some a \<Rightarrow> pas_SsoEnabled a),
      auth_SSORoles = Option.bind spec pas_SsoRoles, auth_SSOUsers = Option.bind spec pas_SsoUsers,
      auth_WhitelistUsers = Option.bind spec pas_WhitelistUsers,
      auth_AutoLoginIDP = (case spec of None \<Rightarrow> 0 | Some a \<Rightarrow> pas_AutoLoginIdp a)\<rparr>"

lemma auth_add_secret_fields:
  "auth_add_secret d (auth_from_spec spec) = auth_fields spec d"
proof -
  have pin: "(case map_of d ''pincode'' of None \<Rightarrow> a
        | Some v \<Rightarrow> if v = [] then a else case Atoi v of None \<Rightarrow> a | Some n \<Rightarrow> a\<lparr>auth_Pincode := n\<rparr>) =
      a\<lparr>auth_Pincode := pincode_of d\<rparr>" if "auth_Pincode a = 0" for a :: Auth
    using that by (auto simp: pincode_of_def idx_def split: option.splits)
  have pw: "(case map_of d ''password'' of None \<Rightarrow> a | Some v \<Rightarrow> a\<lparr>auth_Password := v\<rparr>) =
      a\<lparr>auth_Password := idx (map_of d) ''password''\<rparr>" if "auth_Password a = []" for a :: Auth
    using that by (auto simp: idx_def split: option.splits)
  show ?thesis
    by (cases spec)
      (auto simp: auth_add_secret_def auth_from_spec_def auth_fields_def basic_auth_of_def Let_def pin pw)
qed

lemma auth_from_spec_fields: "auth_from_spec spec = auth_fields spec []"
  by (cases spec)
    (simp_all add: auth_from_spec_def auth_fields_def pincode_of_def basic_auth_of_def)

text \<open>Nothing of the access control of a spec is set.\<close>

definition no_access_control :: "PublicAuthSpec option \<Rightarrow> bool" where
  "no_access_control spec \<longleftrightarrow>
     (case spec of
        None \<Rightarrow> True
      | Some a \<Rightarrow> \<not> pas_SsoEnabled a \<and> elems (pas_SsoRoles a) = [] \<and> elems (pas_SsoUsers a) = [] \<and>
          elems (pas_WhitelistUsers a) = [] \<and> pas_AutoLoginIdp a = 0)"

lemma trivial_auth_fields:
  "trivial_auth (auth_fields spec d) \<longleftrightarrow>
     no_access_control spec \<and> pincode_of d = 0 \<and>
     list_all (\<lambda>k. idx (map_of d) k = []) [''password'', ''basic-auth-user'', ''basic-auth-password'']"
  by (auto simp: trivial_auth_def auth_fields_def no_access_control_def basic_auth_of_def Let_def
      split: option.splits)

lemma no_access_control_None [simp]: "no_access_control None"
  by (simp add: no_access_control_def)

lemma public_buildAuth_fields:
  "public_buildAuth spec sd =
     (let a = auth_fields spec (case sd of None \<Rightarrow> [] | Some d \<Rightarrow> d)
      in if trivial_auth a then None else Some a)"
proof -
  have none: "trivial_auth (auth_fields None [])"
    by (simp add: trivial_auth_fields pincode_of_def)
  show ?thesis
  proof (cases sd)
    case None
    with none show ?thesis by (auto simp: public_buildAuth_def auth_from_spec_fields Let_def)
  next
    case (Some d)
    with none show ?thesis by (auto simp: public_buildAuth_def auth_add_secret_fields Let_def)
  qed
qed

text \<open>
  C29. A PublicResource is left without an auth block exactly when its spec sets no SSO, no roles,
  no users, no white list and no identity provider and its Secret (if one was read) has no password,
  no basic-auth user or password and a pincode that is absent, zero or not a number; otherwise the
  block has pincode, password and basic-auth of the Secret and everything else of the spec. The
  roles are passed on as they are, \<open>Admin\<close> included.
\<close>

theorem public_buildAuth_spec:
  "public_buildAuth spec sd =
     (let d = (case sd of None \<Rightarrow> [] | Some d \<Rightarrow> d);
        user = idx (map_of d) ''basic-auth-user''; pass = idx (map_of d) ''basic-auth-password'';
        password = idx (map_of d) ''password'';
        pincode = (case Atoi (idx (map_of d) ''pincode'') of None \<Rightarrow> 0 | Some n \<Rightarrow> n)
      in if (case spec of
               None \<Rightarrow> True
             | Some a \<Rightarrow> \<not> pas_SsoEnabled a \<and> elems (pas_SsoRoles a) = [] \<and> elems (pas_SsoUsers a) = [] \<and>
                 elems (pas_WhitelistUsers a) = [] \<and> pas_AutoLoginIdp a = 0) \<and>
             pincode = 0 \<and> password = [] \<and> user = [] \<and> pass = []
         then None
         else Some
           \<lparr>auth_Pincode = pincode, auth_Password = password,
            auth_BasicAuth = (if user = [] \<and> pass = [] then None
              else Some \<lparr>ba_User = user, ba_Password = pass\<rparr>),
            auth_SSOEnabled = (case spec of None \<Rightarrow> False | Some a \<Rightarrow> pas_SsoEnabled a),
            auth_SSORoles = Option.bind spec pas_SsoRoles, auth_SSOUsers = Option.bind spec pas_SsoUsers,
            auth_WhitelistUsers = Option.bind spec pas_WhitelistUsers,
            auth_AutoLoginIDP = (case spec of None \<Rightarrow> 0 | Some a \<Rightarrow> pas_AutoLoginIdp a)\<rparr>)"
  unfolding public_buildAuth_fields Let_def trivial_auth_fields no_access_control_def
  by (simp add: auth_fields_def pincode_of_def basic_auth_of_def Let_def)

text \<open>
  Reading a blueprint entry back as a spec, field by field. The auth block is not read back (it is
  a mixture of spec and Secret), so it is an argument.
\<close>

definition spec_of_header :: "Header \<Rightarrow> PublicHeaderSpec" where
  "spec_of_header h = \<lparr>phs_Name = hdr_Name h, phs_Value = hdr_Value h\<rparr>"

definition spec_of_rule :: "Rule \<Rightarrow> PublicRuleSpec" where
  "spec_of_rule r = \<lparr>prs_Action = rule_Action r, prs_Match = rule_Match r, prs_Value = rule_Value r,
     prs_Priority = rule_Priority r\<rparr>"

definition spec_of_maintenance :: "Maintenance \<Rightarrow> PublicMaintenanceSpec" where
  "spec_of_maintenance m = \<lparr>pms_Enabled = mnt_Enabled m, pms_Type = mnt_Type m, pms_Title = mnt_Title m,
     pms_Message = mnt_Message m, pms_EstimatedTime = mnt_EstimatedTime m\<rparr>"

definition spec_of_check :: "HealthCheck \<Rightarrow> PublicHealthCheckSpec" where
  "spec_of_check hc =
     \<lparr>phc_Hostname = hc_Hostname hc, phc_Port = hc_Port hc, phc_Enabled = hc_Enabled hc,
      phc_Path = hc_Path hc, phc_Scheme = hc_Scheme hc, phc_Mode = hc_Mode hc,
      phc_Interval = hc_Interval hc, phc_UnhealthyInterval = hc_UnhealthyInterval hc,
      phc_Timeout = hc_Timeout hc, phc_Headers = map_option (map spec_of_header) (hc_Headers hc),
      phc_FollowRedirects = hc_FollowRedirects hc, phc_Method = hc_Method hc,
      phc_Status = hc_Status hc\<rparr>"

definition spec_of_target :: "Target \<Rightarrow> PublicTargetSpec" where
  "spec_of_target t =
     \<lparr>pts_Hostname = tgt_Hostname t, pts_Port = tgt_Port t, pts_Method = tgt_Method t,
      pts_Enabled = tgt_Enabled t, pts_InternalPort = tgt_InternalPort t, pts_Path = tgt_Path t,
      pts_PathMatch = tgt_PathMatch t, pts_RewritePath = tgt_RewritePath t,
      pts_RewriteMatch = tgt_RewriteMatch t, pts_Priority = tgt_Priority t,
      pts_Healthcheck = map_option spec_of_check (tgt_HealthCheck t)\<rparr>"

definition spec_of_resource :: "PublicAuthSpec option \<Rightarrow> Resource \<Rightarrow> PublicResourceSpec" where
  "spec_of_resource auth r =
     \<lparr>pub_Name = res_Name r, pub_Protocol = res_Protocol r, pub_FullDomain = res_FullDomain r,
      pub_ProxyPort = res_ProxyPort r, pub_Enabled = res_Enabled r, pub_Ssl = res_SSL r,
      pub_HostHeader = res_HostHeader r, pub_TlsServerName = res_TLSServerName r,
      pub_Headers = map_option (map spec_of_header) (res_Headers r), pub_Auth = auth,
      pub_Maintenance = map_option spec_of_maintenance (res_Maintenance r),
      pub_Rules = map_option (map spec_of_rule) (res_Rules r),
      pub_Targets = map_option (map spec_of_target) (res_Targets r)\<rparr>"

text \<open>
  What the conversion does not tell apart: an empty list is a nil list (of targets, the other way
  round), and a missing TLS server name is the domain.
\<close>

definition nil_if_empty :: "'a slice \<Rightarrow> 'a slice" where
  "nil_if_empty s = (if elems s = [] then None else s)"

definition normal_target :: "PublicTargetSpec \<Rightarrow> PublicTargetSpec" where
  "normal_target t = t\<lparr>pts_Healthcheck :=
     map_option (\<lambda>hc. hc\<lparr>phc_Headers := nil_if_empty (phc_Headers hc)\<rparr>) (pts_Healthcheck t)\<rparr>"

definition normal_spec :: "PublicResourceSpec \<Rightarrow> PublicResourceSpec" where
  "normal_spec spec = spec
     \<lparr>pub_TlsServerName := (if pub_TlsServerName spec = [] then pub_FullDomain spec else pub_TlsServerName spec),
      pub_Headers := nil_if_empty (pub_Headers spec), pub_Rules := nil_if_empty (pub_Rules spec),
      pub_Targets := Some (map normal_target (elems (pub_Targets spec)))\<rparr>"

lemma header_roundtrip: "map_option (map spec_of_header) (convertHeaders hs) = nil_if_empty hs"
  by (cases hs) (auto simp: convertHeaders_def nil_if_empty_def spec_of_header_def comp_def intro: map_idI)

lemma rule_roundtrip: "map_option (map spec_of_rule) (convertRules rs) = nil_if_empty rs"
  by (cases rs) (auto simp: convertRules_def nil_if_empty_def spec_of_rule_def comp_def intro: map_idI)

lemma maintenance_roundtrip: "map_option spec_of_maintenance (convertMaintenance m) = m"
  by (cases m) (simp_all add: convertMaintenance_def spec_of_maintenance_def)

lemma check_roundtrip:
  "map_option spec_of_check (convertHealthCheck hc) =
     map_option (\<lambda>hc. hc\<lparr>phc_Headers := nil_if_empty (phc_Headers hc)\<rparr>) hc"
  by (cases hc) (simp_all add: convertHealthCheck_def spec_of_check_def header_roundtrip)

lemma target_roundtrip: "spec_of_target (convertTarget site t) = normal_target t"
  by (simp add: spec_of_target_def convertTarget_def normal_target_def check_roundtrip)

text \<open>
  C28. Nothing of a PublicResource is lost or altered on the way into the blueprint: reading its
  entry back gives the spec again, every field of every header, rule, target and health check, in
  order, up to three normalisations (an empty list of headers or rules becomes nil, a nil list of
  targets becomes empty, a missing TLS server name becomes the domain). This holds for every
  protocol, so rules and headers of a TCP or UDP resource are published too. Every target is on the
  site of this sidecar, and two specs that differ only by a normalisation give the same entry.
\<close>

theorem buildResource_roundtrip:
  "spec_of_resource (pub_Auth spec) (buildResource spec sd siteID) = normal_spec spec \<and>
   list_all (\<lambda>t. tgt_Site t = siteID) (elems (res_Targets (buildResource spec sd siteID))) \<and>
   buildResource (normal_spec spec) sd siteID = buildResource spec sd siteID"
proof -
  have 1: "spec_of_resource (pub_Auth spec) (buildResource spec sd siteID) = normal_spec spec"
    by (simp add: spec_of_resource_def buildResource_def normal_spec_def Let_def header_roundtrip
        rule_roundtrip maintenance_roundtrip convertTargets_def target_roundtrip)
  have 2: "list_all (\<lambda>t. tgt_Site t = siteID) (elems (res_Targets (buildResource spec sd siteID)))"
    by (simp add: buildResource_def convertTargets_def convertTarget_def Let_def list_all_iff)
  have nil: "elems (nil_if_empty xs) = elems xs" for xs :: "'c slice"
    by (simp add: nil_if_empty_def)
  have target: "convertTarget siteID (normal_target t) = convertTarget siteID t" for t
    by (simp add: convertTarget_def normal_target_def convertHealthCheck_def convertHeaders_def nil split: option.split)
  have 3: "buildResource (normal_spec spec) sd siteID = buildResource spec sd siteID"
    by (simp add: buildResource_def normal_spec_def Let_def convertHeaders_def convertRules_def
        convertTargets_def nil target)
  from 1 2 3 show ?thesis by simp
qed

section \<open>Reconciling\<close>

text \<open>What the cluster asks for.\<close>

definition public_want :: "string \<Rightarrow> PublicClient \<Rightarrow> Request \<Rightarrow> Resource wanted" where
  "public_want siteID client req =
     (case pc_Get client req of
        NotFound \<Rightarrow> Gone
      | GetError err \<Rightarrow> Unreadable err
      | Found obj \<Rightarrow>
        if public_validate (pro_Spec obj) \<noteq> None then Refused
        else Wanted (buildResource (pro_Spec obj)
          (public_resolveAuthSecret (pc_GetSecret client) obj) siteID))"

interpretation public_crd: crd_reconciler
  "AddOrUpdate marshal" "Remove marshal" "\<lambda>s. mgr_resources (fst s)" "settled marshal"
  "public_Reconcile marshal siteID" "public_want siteID" for marshal siteID
  by unfold_locales
    (auto simp: public_Reconcile_def public_want_def Let_def split: get_result.splits option.splits if_splits)

definition public_Reconciles ::
  "marshaller \<Rightarrow> string \<Rightarrow> (PublicClient \<times> Request) list \<Rightarrow> mstate \<Rightarrow> mstate" where
  "public_Reconciles marshal siteID rs s =
     fold (\<lambda>(client, req) s. snd (public_Reconcile marshal siteID client req s)) rs s"

text \<open>
  C26. Level-triggered reconciliation of PublicResources. After any sequence of requests, each
  seeing its own state of the cluster, the entry under a key is decided by the last request for
  that name that found the object gone (no entry) or valid (the entry built from its spec and
  Secret); requests that failed to read the object or found an invalid spec change nothing, so an
  object that becomes invalid keeps its last valid entry.
\<close>

theorem public_reconciles_refine:
  "mgr_resources (fst (public_Reconciles marshal siteID rs s)) k =
     (case find (\<lambda>(client, req). req_Name req = k \<and> decisive (public_want siteID client req)) (rev rs) of
        None \<Rightarrow> mgr_resources (fst s) k
      | Some (client, req) \<Rightarrow>
          (case public_want siteID client req of Wanted r \<Rightarrow> Some r | _ \<Rightarrow> None))"
  unfolding public_Reconciles_def public_crd.reconciles_look fold_apply_wanted ..

text \<open>
  C27. Reconciling a PublicResource returns an error, and so is retried, exactly when the object
  could not be read; a repeated reconciliation of an unchanged object does nothing at all, no
  write included.
\<close>

theorem public_reconcile_idempotent:
  "(fst (public_Reconcile marshal siteID client req s) \<noteq> None \<longleftrightarrow>
      (\<exists>e. pc_Get client req = GetError e)) \<and>
   (let s' = snd (public_Reconcile marshal siteID client req s)
    in snd (public_Reconcile marshal siteID client req s') = s')"
proof -
  have "fst (public_Reconcile marshal siteID client req s) \<noteq> None \<longleftrightarrow> (\<exists>e. pc_Get client req = GetError e)"
    by (auto simp: public_crd.reconcile_error public_want_def split: get_result.splits)
  then show ?thesis by (simp add: public_crd.reconcile_again Let_def)
qed

text \<open>
  C38. The namespace of a PublicResource is not part of its key: when an object of one namespace is
  deleted, the entry of an equally named object of another namespace disappears with it, although
  that object still exists.
\<close>

theorem public_namespaces_share_key:
  assumes "req_Name a = req_Name b" and "public_want siteID client a = Wanted r"
    and "public_want siteID client b = Gone"
  shows "mgr_resources (fst (public_Reconciles marshal siteID [(client, a)] s)) (req_Name a) = Some r \<and>
    mgr_resources (fst (public_Reconciles marshal siteID [(client, a), (client, b)] s)) (req_Name a) = None"
  using assms unfolding public_Reconciles_def public_crd.reconciles_look by simp

definition example_public_spec :: PublicResourceSpec where
  "example_public_spec =
     \<lparr>pub_Name = ''App'', pub_Protocol = ''http'', pub_FullDomain = ''app.example.com'',
      pub_ProxyPort = 0, pub_Enabled = None, pub_Ssl = True, pub_HostHeader = [],
      pub_TlsServerName = [], pub_Headers = None, pub_Auth = None, pub_Maintenance = None,
      pub_Rules = None,
      pub_Targets = Some [\<lparr>pts_Hostname = ''app.svc'', pts_Port = 80, pts_Method = ''http'',
        pts_Enabled = None, pts_InternalPort = 0, pts_Path = [], pts_PathMatch = [],
        pts_RewritePath = [], pts_RewriteMatch = [], pts_Priority = 0, pts_Healthcheck = None\<rparr>]\<rparr>"

text \<open>A cluster in which namespace \<open>a\<close> has a PublicResource named \<open>app\<close> and no other has.\<close>

definition example_public_client :: PublicClient where
  "example_public_client =
     \<lparr>pc_Get = (\<lambda>req. if req_Namespace req = ''a''
        then Found \<lparr>pro_Namespace = ''a'', pro_Spec = example_public_spec\<rparr> else NotFound),
      pc_GetSecret = (\<lambda>ns n. Inl ''not found'')\<rparr>"

theorem public_namespaces_share_key_witness:
  "let a = \<lparr>req_Namespace = ''a'', req_Name = ''app''\<rparr>; b = \<lparr>req_Namespace = ''b'', req_Name = ''app''\<rparr>;
     c = example_public_client; s = (NewManager ''f'', calm_world); y = (\<lambda>bp. Inr ''y'')
   in mgr_resources (fst (public_Reconciles y ''site'' [(c, a)] s)) ''app'' =
       Some (buildResource example_public_spec None ''site'') \<and>
     mgr_resources (fst (public_Reconciles y ''site'' [(c, a), (c, b)] s)) ''app'' = None"
proof -
  let ?a = "\<lparr>req_Namespace = ''a'', req_Name = ''app''\<rparr>" and ?b = "\<lparr>req_Namespace = ''b'', req_Name = ''app''\<rparr>"
  have 1: "req_Name ?a = req_Name ?b" by simp
  have 2: "public_want ''site'' example_public_client ?a =
      Wanted (buildResource example_public_spec None ''site'')"
    by (simp add: public_want_def example_public_client_def public_validate_def example_public_spec_def
        public_resolveAuthSecret_def)
  have 3: "public_want ''site'' example_public_client ?b = Gone"
    by (simp add: public_want_def example_public_client_def)
  from public_namespaces_share_key [OF 1 2 3, of "\<lambda>bp. Inr ''y''" "(NewManager ''f'', calm_world)"]
  show ?thesis by (simp add: Let_def)
qed

end
