(* ===== verification/GoNet.thy ===== *)
theory GoNet
  imports GoStrings
begin

text \<open>
  \<open>net.ParseCIDR\<close> and what it calls (\<open>netip.ParseAddr\<close>, \<open>dtoi\<close>), as far as the program
  uses them: whether a text is accepted. An address is known by its length in bits and its zone;
  \<^term>\<open>None\<close> is a non-nil error.
\<close>

section \<open>Model\<close>

text \<open>
  \<open>parseIPv4Fields\<close>: \<open>start\<close> holds at the beginning and after a dot, \<open>pos\<close> counts the dots,
  \<open>val\<close> and \<open>digLen\<close> describe the current octet.
\<close>

fun ipv4_fields :: "string \<Rightarrow> bool \<Rightarrow> int \<Rightarrow> int \<Rightarrow> int \<Rightarrow> bool" where
  "ipv4_fields [] start pos val digLen = (pos \<ge> 3)"
| "ipv4_fields (c # s) start pos val digLen =
     (if is_digit c then
        if digLen = 1 \<and> val = 0 then False
        else let val = val * 10 + digit_val c
          in if val > 255 then False else ipv4_fields s False pos val (digLen + 1)
      else if c = CHR ''.'' then
        if start \<or> s = [] then False
        else if pos = 3 then False
        else ipv4_fields s True (pos + 1) 0 0
      else False)"

definition parseIPv4 :: "string \<Rightarrow> bool" where
  "parseIPv4 s = ipv4_fields s True 0 0 0"

definition is_hex :: "char \<Rightarrow> bool" where
  "is_hex c =
     (let n = of_char c :: int
      in 48 \<le> n \<and> n \<le> 57 \<or> 97 \<le> n \<and> n \<le> 102 \<or> 65 \<le> n \<and> n \<le> 70)"

text \<open>The tests after the loop of \<open>parseIPv6\<close>: \<open>i\<close> bytes are filled, \<open>ell\<close> if an ellipsis was seen.\<close>

definition ipv6_finish :: "string \<Rightarrow> int \<Rightarrow> bool \<Rightarrow> bool" where
  "ipv6_finish s i ell = (s = [] \<and> (if i < 16 then ell else \<not> ell))"

text \<open>
  The loop of \<open>parseIPv6\<close>: a group of at most four hexadecimal digits (which never exceeds 16
  bits), then the end, an embedded IPv4 address, a colon or an ellipsis.
\<close>

function ipv6_loop :: "string \<Rightarrow> int \<Rightarrow> bool \<Rightarrow> bool" where
  "ipv6_loop s i ell =
     (if i \<ge> 16 then ipv6_finish s i ell
      else let digs = takeWhile is_hex s; rest = dropWhile is_hex s
        in if length digs > 4 then False
           else if digs = [] then False
           else case rest of
             [] \<Rightarrow> ipv6_finish [] (i + 2) ell
           | c # s1 \<Rightarrow>
             if c = CHR ''.'' then
               if \<not> ell \<and> i \<noteq> 12 then False
               else if i + 4 > 16 then False
               else parseIPv4 s \<and> ipv6_finish [] (i + 4) ell
             else if c \<noteq> CHR '':'' then False
             else case s1 of
               [] \<Rightarrow> False
             | d # s2 \<Rightarrow>
               if d = CHR '':'' then
                 if ell then False
                 else if s2 = [] then ipv6_finish [] (i + 2) True
                 else ipv6_loop s2 (i + 2) True
               else ipv6_loop s1 (i + 2) ell)"
  by pat_completeness auto
termination
proof (relation "measure (\<lambda>(s, i, ell). length s)")
  have len: "length t < length s" if "length t < length u" "u = dropWhile is_hex s" for s t u :: string
    using that length_dropWhile_le [of is_hex s] by simp
  fix s :: string and i :: int and ell x xa a list aa lista
  show "wf (measure (\<lambda>(s :: string, i :: int, ell :: bool). length s))" by simp
  show "((lista, i + 2, True), (s, i, ell)) \<in> measure (\<lambda>(s, i, ell). length s)"
    if d: "xa = dropWhile is_hex s" and x: "xa = a # list" "list = aa # lista"
    using len [OF _ d, of lista] by (simp add: x)
  show "((list, i + 2, ell), (s, i, ell)) \<in> measure (\<lambda>(s, i, ell). length s)"
    if d: "xa = dropWhile is_hex s" and x: "xa = a # list"
    using len [OF _ d, of list] by (simp add: x)
qed

declare ipv6_loop.simps [simp del]

definition cut_at :: "char \<Rightarrow> string \<Rightarrow> (string \<times> string) option" where
  "cut_at sep s =
     (case dropWhile (\<lambda>c. c \<noteq> sep) s of
        [] \<Rightarrow> None
      | _ # after \<Rightarrow> Some (takeWhile (\<lambda>c. c \<noteq> sep) s, after))"

text \<open>\<open>parseIPv6\<close>: the zone of an accepted address.\<close>

definition parseIPv6 :: "string \<Rightarrow> string option" where
  "parseIPv6 addr =
     (let (s, zone, bad) =
        (case cut_at (CHR ''%'') addr of
           None \<Rightarrow> (addr, [], False)
         | Some (s, zone) \<Rightarrow> (s, zone, zone = []))
      in if bad then None
         else if take 2 s = ''::'' then
           let s = drop 2 s in if s = [] \<or> ipv6_loop s 0 True then Some zone else None
         else if ipv6_loop s 0 False then Some zone else None)"

text \<open>\<open>netip.ParseAddr\<close>: the first dot, colon or percent sign decides; bit length and zone.\<close>

fun addr_kind :: "string \<Rightarrow> char option" where
  "addr_kind [] = None"
| "addr_kind (c # s) =
     (if c = CHR ''.'' \<or> c = CHR '':'' \<or> c = CHR ''%'' then Some c else addr_kind s)"

definition ParseAddr :: "string \<Rightarrow> (int \<times> string) option" where
  "ParseAddr s =
     (case addr_kind s of
        None \<Rightarrow> None
      | Some c \<Rightarrow>
        if c = CHR ''.'' then (if parseIPv4 s then Some (32, []) else None)
        else if c = CHR '':'' then map_option (Pair 128) (parseIPv6 s)
        else None)"

text \<open>\<open>dtoi\<close>: the number, how many bytes it took, and success.\<close>

fun dtoi_loop :: "string \<Rightarrow> int \<Rightarrow> int \<Rightarrow> int \<times> int \<times> bool" where
  "dtoi_loop [] n i = (n, i, i \<noteq> 0)"
| "dtoi_loop (c # s) n i =
     (if is_digit c then
        let n = n * 10 + digit_val c
        in if n \<ge> 0xFFFFFF then (0xFFFFFF, i, False) else dtoi_loop s n (i + 1)
      else (if i = 0 then 0 else n, i, i \<noteq> 0))"

definition ParseCIDR :: "string \<Rightarrow> bool" where
  "ParseCIDR s =
     (case cut_at (CHR ''/'') s of
        None \<Rightarrow> False
      | Some (addr, msk) \<Rightarrow>
        (case ParseAddr addr of
           None \<Rightarrow> False
         | Some (bits, zone) \<Rightarrow>
           if zone \<noteq> [] then False
           else case dtoi_loop msk 0 0 of
             (n, i, ok) \<Rightarrow> ok \<and> i = int (length msk) \<and> 0 \<le> n \<and> n \<le> bits))"

section \<open>Dotted addresses\<close>

definition octet :: "int \<Rightarrow> bool" where
  "octet a \<longleftrightarrow> 0 \<le> a \<and> a \<le> 255"

lemma digits_of_octet:
  assumes "octet a"
  obtains "a < 10" "digits_of a = [digit_char a]"
  | "10 \<le> a" "a < 100" "digits_of a = [digit_char (a div 10), digit_char (a mod 10)]"
  | "100 \<le> a" "digits_of a = [digit_char (a div 100), digit_char (a div 10 mod 10), digit_char (a mod 10)]"
proof -
  have two: "digits_of b = [digit_char (b div 10), digit_char (b mod 10)]" if "10 \<le> b" "b < 100" for b
    using that by (simp add: digits_of.simps [of b] digits_of.simps [of "b div 10"])
  consider "a < 10" | "10 \<le> a" "a < 100" | "100 \<le> a" by linarith
  then show thesis
  proof cases
    case 1
    then show thesis by (intro that(1)) (simp_all add: digits_of.simps)
  next
    case 2
    then show thesis by (intro that(2)) (simp_all add: two)
  next
    case 3
    with assms have "digits_of a = digits_of (a div 10) @ [digit_char (a mod 10)]"
      by (simp add: digits_of.simps [of a])
    also have "digits_of (a div 10) = [digit_char (a div 100), digit_char (a div 10 mod 10)]"
      using 3 assms zdiv_zmult2_eq [of 10 a 10] by (simp add: two octet_def)
    finally show thesis using 3 by (intro that(3)) simp_all
  qed
qed

lemma ipv4_octet:
  assumes "octet a"
  shows "ipv4_fields (digits_of a @ s) True pos 0 0 =
    ipv4_fields s False pos a (int (length (digits_of a)))"
  using assms
proof (cases rule: digits_of_octet)
  case 1
  with assms show ?thesis by (simp add: octet_def digit_char_props)
next
  case 2
  note d = digit_char_props [of "a div 10"] digit_char_props [of "a mod 10"]
  have "a div 10 \<noteq> 0" "a div 10 < 10" "0 \<le> a div 10" "a div 10 * 10 + a mod 10 = a" using 2 by auto
  with 2 show ?thesis by (simp add: d Let_def del: mult_div_mod_eq)
next
  case 3
  note d = digit_char_props [of "a div 100"] digit_char_props [of "a div 10 mod 10"]
    digit_char_props [of "a mod 10"]
  have h: "1 \<le> a div 100" "a div 100 \<le> 2" using 3 assms by (auto simp: octet_def)
  have t: "a div 100 * 10 + a div 10 mod 10 = a div 10"
    using zdiv_zmult2_eq [of 10 a 10] by (simp add: mult.commute)
  have u: "a div 10 * 10 + a mod 10 = a" by simp
  have "a div 10 \<noteq> 0" "a div 10 \<le> 25" "a \<le> 255" using 3 assms by (auto simp: octet_def)
  then show ?thesis
    using h unfolding 3(2) by (simp add: d t u Let_def)
qed

text \<open>The dotted form of an address.\<close>

definition dotted :: "int \<Rightarrow> int \<Rightarrow> int \<Rightarrow> int \<Rightarrow> string" where
  "dotted a b c d = digits_of a @ CHR ''.'' # digits_of b @ CHR ''.'' # digits_of c @ CHR ''.'' # digits_of d"

lemma parseIPv4_dotted:
  assumes "octet a" "octet b" "octet c" "octet d"
  shows "parseIPv4 (dotted a b c d)"
proof -
  have dot: "\<not> is_digit (CHR ''.'')" by code_simp
  have last: "ipv4_fields (digits_of d) True 3 0 0"
    using ipv4_octet [OF assms(4), of "[]" 3] by simp
  show ?thesis
    using assms by (simp add: parseIPv4_def dotted_def ipv4_octet dot last)
qed

lemma digits_of_set: "0 \<le> n \<Longrightarrow> c \<in> set (digits_of n) \<Longrightarrow> is_digit c"
  using digits_of_digits by (simp add: list_all_iff)

lemma addr_kind_digits: "list_all is_digit ds \<Longrightarrow> addr_kind (ds @ CHR ''.'' # s) = Some (CHR ''.'')"
proof (induction ds)
  case (Cons c ds)
  have "\<not> is_digit (CHR ''.'')" "\<not> is_digit (CHR '':'')" "\<not> is_digit (CHR ''%'')" by code_simp+
  with Cons show ?case by auto
qed simp

lemma cut_at_fresh: "sep \<notin> set p \<Longrightarrow> cut_at sep (p @ sep # s) = Some (p, s)"
  by (auto simp: cut_at_def takeWhile_append dropWhile_append)

lemma dtoi_digits:
  "list_all is_digit ds \<Longrightarrow> 0 \<le> n \<Longrightarrow> foldl (\<lambda>v c. 10 * v + digit_val c) n ds < 0xFFFFFF \<Longrightarrow> ds \<noteq> [] \<or> i > 0 \<Longrightarrow>
     0 \<le> i \<Longrightarrow>
     dtoi_loop ds n i = (foldl (\<lambda>v c. 10 * v + digit_val c) n ds, i + int (length ds), True)"
proof (induction ds arbitrary: n i)
  case (Cons c ds)
  have grow: "v \<le> foldl (\<lambda>v c. 10 * v + digit_val c) v ds" if "list_all is_digit ds" "0 \<le> v" for v ds
    using that
  proof (induction ds arbitrary: v)
    case (Cons c ds)
    have "0 \<le> digit_val c" using Cons.prems by (simp add: is_digit_def digit_val_def Let_def)
    with Cons.IH [of "10 * v + digit_val c"] Cons.prems show ?case by simp
  qed simp
  have c: "is_digit c" "0 \<le> digit_val c"
    using Cons.prems by (simp_all add: is_digit_def digit_val_def Let_def)
  have "10 * n + digit_val c < 0xFFFFFF"
    using grow [of ds "10 * n + digit_val c"] Cons.prems c by simp
  with Cons.IH [of "10 * n + digit_val c" "i + 1"] Cons.prems c show ?case
    by (simp add: mult.commute)
qed simp

lemma dtoi_digits_of:
  "0 \<le> n \<Longrightarrow> n < 0xFFFFFF \<Longrightarrow> dtoi_loop (digits_of n) 0 0 = (n, int (length (digits_of n)), True)"
  using dtoi_digits [of "digits_of n" 0 0] digits_of_digits [of n] digits_val_digits_of [of n]
  by (simp add: digits_val_def)

lemma dotted_chars:
  assumes "octet a" "octet b" "octet c" "octet d" and "x \<in> set (dotted a b c d)"
  shows "is_digit x \<or> x = CHR ''.''"
  using assms digits_of_set [of _ x] by (auto simp: dotted_def octet_def)

lemma ParseAddr_dotted:
  assumes "octet a" "octet b" "octet c" "octet d"
  shows "ParseAddr (dotted a b c d) = Some (32, [])"
proof -
  have "addr_kind (dotted a b c d) = Some (CHR ''.'')"
    unfolding dotted_def using assms(1) by (intro addr_kind_digits digits_of_digits) (simp add: octet_def)
  with parseIPv4_dotted [OF assms] show ?thesis by (simp add: ParseAddr_def)
qed

lemma ParseCIDR_dotted:
  assumes "octet a" "octet b" "octet c" "octet d" and "0 \<le> n" "n < 0xFFFFFF"
  shows "ParseCIDR (dotted a b c d @ CHR ''/'' # digits_of n) \<longleftrightarrow> n \<le> 32"
proof -
  have "\<not> is_digit (CHR ''/'')" by code_simp
  then have "CHR ''/'' \<notin> set (dotted a b c d)" using dotted_chars [OF assms(1-4)] by fastforce
  with assms(5,6) show ?thesis
    by (simp add: ParseCIDR_def cut_at_fresh ParseAddr_dotted [OF assms(1-4)] dtoi_digits_of)
qed

text \<open>Whatever is accepted has a slash.\<close>

lemma ParseCIDR_slash:
  assumes "ParseCIDR s"
  shows "CHR ''/'' \<in> set s"
proof (rule ccontr)
  assume "\<not> ?thesis"
  then have "dropWhile (\<lambda>c. c \<noteq> CHR ''/'') s = []" by auto
  then have "cut_at (CHR ''/'') s = None" unfolding cut_at_def by (simp only: list.case)
  with assms show False by (simp add: ParseCIDR_def)
qed

end
