(* ===== verification/PrivateReconciler.thy ===== *)
theory PrivateReconciler
  imports ApiTypes GoNet
begin

text \<open>
  The PrivateResource reconciler (\<open>internal/controller/privateresource/controller.go\<close>). The client
  is a parameter that answers for the object of the request.
\<close>

section \<open>Model\<close>

datatype private_error = InvalidCIDR string | AdminRole

definition private_validate :: "PrivateResourceSpec \<Rightarrow> private_error option" where
  "private_validate spec =
     (if pvs_Mode spec = ''cidr'' \<and> \<not> ParseCIDR (pvs_Destination spec)
      then Some (InvalidCIDR (pvs_Destination spec))
      else if ''Admin'' \<in> set (elems (pvs_Roles spec)) then Some AdminRole else None)"

definition private_resource :: "PrivateResourceSpec \<Rightarrow> string \<Rightarrow> PrivateResource" where
  "private_resource spec siteID =
     \<lparr>priv_Name = pvs_Name spec, priv_Mode = pvs_Mode spec, priv_Destination = pvs_Destination spec,
      priv_Site = siteID, priv_TCPPorts = pvs_TcpPorts spec, priv_UDPPorts = pvs_UdpPorts spec,
      priv_DisableICMP = pvs_DisableIcmp spec, priv_Alias = pvs_Alias spec,
      priv_Roles = pvs_Roles spec, priv_Users = pvs_Users spec, priv_Machines = pvs_Machines spec\<rparr>"

type_synonym private_client = "Request \<Rightarrow> PrivateResourceSpec get_result"

definition private_Reconcile ::
  "marshaller \<Rightarrow> string \<Rightarrow> private_client \<Rightarrow> Request \<Rightarrow> mstate \<Rightarrow> string option \<times> mstate" where
  "private_Reconcile marshal siteID Get req s =
     (case Get req of
        NotFound \<Rightarrow> (None, snd (RemovePrivate marshal (req_Name req) s))
      | GetError err \<Rightarrow> (Some err, s)
      | Found spec \<Rightarrow>
        (case private_validate spec of
           Some err \<Rightarrow> (None, s)
         | None \<Rightarrow>
           (None, snd (AddOrUpdatePrivate marshal (req_Name req) (private_resource spec siteID) True s))))"

definition private_SetupWithManager :: "completer \<Rightarrow> string option" where
  "private_SetupWithManager Complete = Complete \<lparr>cb_For = PrivateResourceType, cb_Named = ''privateresource''\<rparr>"

text \<open>There are no field indexes.\<close>

definition SetupIndexes :: "string option" where
  "SetupIndexes = None"

section \<open>Specs\<close>

text \<open>
  C32. A CIDR destination in dotted form is accepted exactly up to prefix length 32: for octets in
  0..255 written in decimal and any prefix length below 2^24 - 1, a spec without the role Admin is
  valid if and only if the prefix length is at most 32.
\<close>

theorem private_validate_dotted:
  assumes "octet a" "octet b" "octet c" "octet d" and "0 \<le> n" "n < 0xFFFFFF"
    and "pvs_Mode spec = ''cidr''" and "pvs_Destination spec = dotted a b c d @ CHR ''/'' # digits_of n"
    and "''Admin'' \<notin> set (elems (pvs_Roles spec))"
  shows "private_validate spec = None \<longleftrightarrow> n \<le> 32"
  using assms(7-9) ParseCIDR_dotted [OF assms(1-6)] by (simp add: private_validate_def)

definition example_private_spec :: PrivateResourceSpec where
  "example_private_spec =
     \<lparr>pvs_Name = ''LAN'', pvs_Mode = ''cidr'', pvs_Destination = ''10.42.0.0/16'', pvs_TcpPorts = ''*'',
      pvs_UdpPorts = ''*'', pvs_DisableIcmp = False, pvs_Alias = [], pvs_Roles = Some [''Member''],
      pvs_Users = None, pvs_Machines = None\<rparr>"

theorem private_validate_dotted_witness: "private_validate example_private_spec = None"
proof -
  have 1: "octet 10" "octet 42" "octet 0" "octet 0" by (simp_all add: octet_def)
  have 2: "(0 :: int) \<le> 16" "(16 :: int) < 0xFFFFFF" by simp_all
  have 3: "pvs_Destination example_private_spec = dotted 10 42 0 0 @ CHR ''/'' # digits_of 16" by code_simp
  have 4: "pvs_Mode example_private_spec = ''cidr''" "''Admin'' \<notin> set (elems (pvs_Roles example_private_spec))"
    by (simp_all add: example_private_spec_def)
  from private_validate_dotted [OF 1 2 4(1) 3 4(2)] show ?thesis by simp
qed

section \<open>Reconciling\<close>

definition private_want :: "string \<Rightarrow> private_client \<Rightarrow> Request \<Rightarrow> PrivateResource wanted" where
  "private_want siteID Get req =
     (case Get req of
        NotFound \<Rightarrow> Gone
      | GetError err \<Rightarrow> Unreadable err
      | Found spec \<Rightarrow>
        if private_validate spec \<noteq> None then Refused else Wanted (private_resource spec siteID))"

interpretation private_crd: crd_reconciler
  "AddOrUpdatePrivate marshal" "RemovePrivate marshal" "\<lambda>s. mgr_privateResources (fst s)"
  "settled marshal" "private_Reconcile marshal siteID" "private_want siteID" for marshal siteID
  by unfold_locales
    (auto simp: private_Reconcile_def private_want_def split: get_result.splits option.splits if_splits)

definition private_Reconciles ::
  "marshaller \<Rightarrow> string \<Rightarrow> (private_client \<times> Request) list \<Rightarrow> mstate \<Rightarrow> mstate" where
  "private_Reconciles marshal siteID rs s =
     fold (\<lambda>(Get, req) s. snd (private_Reconcile marshal siteID Get req s)) rs s"

text \<open>
  C30. Level-triggered reconciliation of PrivateResources: the entry under a key is decided by the
  last request for that name that found the object gone or valid; unreadable and invalid objects
  change nothing.
\<close>

theorem private_reconciles_refine:
  "mgr_privateResources (fst (private_Reconciles marshal siteID rs s)) k =
     (case find (\<lambda>(Get, req). req_Name req = k \<and> decisive (private_want siteID Get req)) (rev rs) of
        None \<Rightarrow> mgr_privateResources (fst s) k
      | Some (Get, req) \<Rightarrow>
          (case private_want siteID Get req of Wanted r \<Rightarrow> Some r | _ \<Rightarrow> None))"
  unfolding private_Reconciles_def private_crd.reconciles_look fold_apply_wanted ..

text \<open>What every private entry of the blueprint satisfies.\<close>

definition private_ok :: "string \<Rightarrow> PrivateResource \<Rightarrow> bool" where
  "private_ok siteID r \<longleftrightarrow>
     priv_Site r = siteID \<and> ''Admin'' \<notin> set (elems (priv_Roles r)) \<and>
     (priv_Mode r = ''cidr'' \<longrightarrow> ParseCIDR (priv_Destination r))"

definition all_private_ok :: "string \<Rightarrow> mstate \<Rightarrow> bool" where
  "all_private_ok siteID s \<longleftrightarrow> (\<forall>k r. mgr_privateResources (fst s) k = Some r \<longrightarrow> private_ok siteID r)"

lemma private_Reconcile_ok:
  assumes "all_private_ok siteID s"
  shows "all_private_ok siteID (snd (private_Reconcile marshal siteID Get req s))"
proof -
  have "private_ok siteID r" if "private_want siteID Get req = Wanted r" for r
    using that
    by (auto simp: private_want_def private_validate_def private_resource_def private_ok_def
        split: get_result.splits if_splits)
  with assms show ?thesis
    unfolding all_private_ok_def private_crd.reconcile_look
    by (cases "private_want siteID Get req") (auto split: if_splits)
qed

text \<open>
  C31. No reconciliation can put an unsafe private entry into the blueprint: whatever the specs in
  the cluster say, every private entry is on the site of this sidecar, never grants the role
  Admin, and in CIDR mode has a destination that parses as a CIDR range.
\<close>

theorem private_entries_safe:
  "all_private_ok siteID (private_Reconciles marshal siteID rs (NewManager f, w))"
proof -
  have "all_private_ok siteID (private_Reconciles marshal siteID rs s)" if "all_private_ok siteID s" for s
    using that unfolding private_Reconciles_def
    by (induction rs arbitrary: s) (simp_all add: split_def private_Reconcile_ok)
  moreover have "all_private_ok siteID (NewManager f, w)" by (simp add: all_private_ok_def NewManager_def)
  ultimately show ?thesis .
qed

end
