(* ===== verification/Interleaving.thy ===== *)
theory Interleaving
  imports Controller PublicReconciler PrivateReconciler
begin

text \<open>
  The goroutines of the program (\<open>cmd/root.go\<close>, \<open>internal/controller/controller.go\<close>). The mutex
  of the state manager makes each of its methods atomic; everything else interleaves. Each informer
  calls its controller's handlers one after the other; a handler reads the \<open>synced\<close> flag of its
  controller once and then calls the manager from its loops. The goroutine of each controller's \<open>Run\<close>
  forces a write and then sets the flag. The reconcilers call the manager once per request.
\<close>

section \<open>Interleaved operations on different keys\<close>

text \<open>The entry an operation is about: public or private, and its key.\<close>

fun op_target :: "mgr_op \<Rightarrow> (bool \<times> string) option" where
  "op_target (OpAddOrUpdate k r b) = Some (True, k)"
| "op_target (OpRemove k) = Some (True, k)"
| "op_target (OpAddOrUpdatePrivate k r b) = Some (False, k)"
| "op_target (OpRemovePrivate k) = Some (False, k)"
| "op_target OpForceWrite = None"

definition op_targets :: "mgr_op list \<Rightarrow> (bool \<times> string) list" where
  "op_targets ops = List.map_filter op_target ops"

lemma abs_op_commute:
  "op_target x \<noteq> op_target y \<or> op_target x = None \<Longrightarrow> abs_op x (abs_op y bp) = abs_op y (abs_op x bp)"
  by (cases x; cases y) (auto simp: fun_upd_twist)

lemma abs_op_fold_commute:
  "\<forall>y \<in> set ys. op_target x \<noteq> op_target y \<or> op_target x = None \<Longrightarrow>
     fold abs_op ys (abs_op x bp) = abs_op x (fold abs_op ys bp)"
proof (induction ys arbitrary: bp)
  case (Cons y ys)
  then have "abs_op y (abs_op x bp) = abs_op x (abs_op y bp)" by (intro abs_op_commute [symmetric]) auto
  with Cons show ?case by simp
qed simp

lemma op_targets_disjoint:
  assumes "set (op_targets xs) \<inter> set (op_targets ys) = {}" and "x \<in> set xs" and "y \<in> set ys"
  shows "op_target x \<noteq> op_target y \<or> op_target x = None"
proof (cases "op_target x")
  case (Some t)
  then have "t \<in> set (op_targets xs)" using assms(2) by (force simp: op_targets_def map_filter_def)
  with assms(1) have "t \<notin> set (op_targets ys)" by blast
  then have "op_target y \<noteq> Some t" using assms(3) by (force simp: op_targets_def map_filter_def)
  with Some show ?thesis by simp
qed simp

lemma shuffles_abs:
  "zs \<in> shuffles xs ys \<Longrightarrow> set (op_targets xs) \<inter> set (op_targets ys) = {} \<Longrightarrow>
     fold abs_op zs bp = fold abs_op ys (fold abs_op xs bp)"
proof (induction xs ys arbitrary: zs bp rule: shuffles.induct)
  case (3 x xs y ys)
  have sub: "set (op_targets xs) \<subseteq> set (op_targets (x # xs))" "set (op_targets ys) \<subseteq> set (op_targets (y # ys))"
    by (auto simp: op_targets_def map_filter_def)
  from "3.prems"(1) consider zs' where "zs = x # zs'" "zs' \<in> shuffles xs (y # ys)"
    | zs' where "zs = y # zs'" "zs' \<in> shuffles (x # xs) ys" by auto
  then show ?case
  proof cases
    case 1
    with "3.IH"(1) [of zs' "abs_op x bp"] "3.prems"(2) sub show ?thesis by auto
  next
    case 2
    have "\<forall>z \<in> set (x # xs). op_target y \<noteq> op_target z \<or> op_target y = None"
      using op_targets_disjoint [OF "3.prems"(2)] by (metis list.set_intros(1))
    then have "fold abs_op (x # xs) (abs_op y bp) = abs_op y (fold abs_op (x # xs) bp)"
      by (rule abs_op_fold_commute)
    with 2 "3.IH"(2) [of zs' "abs_op y bp"] "3.prems"(2) sub show ?thesis by auto
  qed
qed simp_all

lemma run_ops_abs: "blueprint_of (fst (run_ops marshal ops s)) = fold abs_op ops (blueprint_of (fst s))"
  by (induction ops arbitrary: s) (simp_all add: run_ops_Cons run_op_blueprint)

text \<open>
  C9. Concurrent components that own different keys do not interfere: for every interleaving of two
  sequences of operations without a common key, the entries in memory end up the same as if one
  sequence had run after the other.
\<close>

theorem interleaving_independent:
  assumes "zs \<in> shuffles xs ys" and "set (op_targets xs) \<inter> set (op_targets ys) = {}"
  shows "blueprint_of (fst (run_ops marshal zs s)) = blueprint_of (fst (run_ops marshal (xs @ ys) s))"
  using shuffles_abs [OF assms] by (simp add: run_ops_abs)

theorem interleaving_independent_witness:
  "let s = (NewManager ''f'', calm_world); y = (\<lambda>bp. Inr ''y''); r = OpAddOrUpdate ''a'' zero_Resource True;
     q = OpRemovePrivate ''a''; t = OpRemove ''b''
   in blueprint_of (fst (run_ops y [r, q, t] s)) = blueprint_of (fst (run_ops y ([r, t] @ [q]) s))"
proof -
  let ?r = "OpAddOrUpdate ''a'' zero_Resource True" and ?q = "OpRemovePrivate ''a''" and ?t = "OpRemove ''b''"
  have 1: "[?r, ?q, ?t] \<in> shuffles [?r, ?t] [?q]" by simp
  have 2: "set (op_targets [?r, ?t]) \<inter> set (op_targets [?q]) = {}"
    by (simp add: op_targets_def map_filter_def)
  show ?thesis
    using interleaving_independent [OF 1 2, of "\<lambda>bp. Inr ''y''" "(NewManager ''f'', calm_world)"]
    by (simp add: Let_def)
qed

section \<open>Threads\<close>

text \<open>
  Where a handler is: outside, in the loop of \<open>removeObject\<close>, in the loop of \<open>processObject\<close> over the
  old keys, or in its loop over the entries. The lists are what the range loops have still to visit.
\<close>

datatype pc =
  Idle
| Removing "string list"
| Stale "string list" "string list" entries "string list" bool
| Updating entries "string list" bool

text \<open>The part of a handler before its first call of the manager; it only concerns the controller.\<close>

definition begin_remove :: "string \<Rightarrow> 'u Controller \<Rightarrow> 'u Controller \<times> pc" where
  "begin_remove objKey c =
     (c\<lparr>ctl_resourceKeys := (ctl_resourceKeys c)(objKey := None)\<rparr>,
      Removing (case ctl_resourceKeys c objKey of None \<Rightarrow> [] | Some ks \<Rightarrow> ks))"

definition begin_process :: "Env \<Rightarrow> k8s_object \<Rightarrow> bool \<Rightarrow> 'u Controller \<Rightarrow> 'u Controller \<times> pc" where
  "begin_process env obj write c =
     (let objKey = object_key obj
      in if \<not> ShouldProcess (ctl_handler c) obj (ctl_cfg c) then begin_remove objKey c
         else
           let secretData = resolveAuthSecret env (ctl_cfg c) obj;
             es = BuildEntries (ctl_handler c) obj secretData (ctl_cfg c)
           in if es = [] then begin_remove objKey c
              else
                let newKeys = env_ord1 env (keys es);
                  oldKeys = (case ctl_resourceKeys c objKey of None \<Rightarrow> [] | Some ks \<Rightarrow> ks)
                in (c\<lparr>ctl_resourceKeys := (ctl_resourceKeys c)(objKey \<mapsto> newKeys)\<rparr>,
                    Stale newKeys oldKeys es (env_ord2 env (keys es)) write))"

fun begin_event :: "Env \<times> 'u event \<Rightarrow> 'u Controller \<Rightarrow> 'u Controller \<times> pc" where
  "begin_event (env, Added obj) c =
     (case toMetaObj c obj of Inl err \<Rightarrow> (c, Idle) | Inr m \<Rightarrow> begin_process env m (ctl_synced c) c)"
| "begin_event (env, Updated old new) c =
     (case toMetaObj c new of Inl err \<Rightarrow> (c, Idle) | Inr m \<Rightarrow> begin_process env m (ctl_synced c) c)"
| "begin_event (env, Deleted obj) c =
     (case toMetaObj c (case obj of DeletedFinalStateUnknown inner \<Rightarrow> inner | _ \<Rightarrow> obj) of
        Inl err \<Rightarrow> (c, Idle) | Inr m \<Rightarrow> begin_remove (object_key m) c)"

text \<open>One step of the loop a handler is in: one round, or leaving the loop.\<close>

fun advance :: "marshaller \<Rightarrow> pc \<Rightarrow> mstate \<Rightarrow> pc \<times> mstate" where
  "advance marshal Idle s = (Idle, s)"
| "advance marshal (Removing []) s = (Idle, s)"
| "advance marshal (Removing (key # ks)) s = (Removing ks, snd (Remove marshal key s))"
| "advance marshal (Stale newKeys [] es order write) s = (Updating es order write, s)"
| "advance marshal (Stale newKeys (old # olds) es order write) s =
     (Stale newKeys olds es order write, if old \<in> set newKeys then s else snd (Remove marshal old s))"
| "advance marshal (Updating es [] write) s = (Idle, s)"
| "advance marshal (Updating es (key # ks) write) s =
     (Updating es ks write,
      case map_of es key of None \<Rightarrow> s | Some resource \<Rightarrow> snd (AddOrUpdate marshal key resource write s))"

text \<open>The goroutine of \<open>Run\<close>: waiting for the cache, between the forced write and the flag, done.\<close>

datatype run_phase = WaitingForSync | ForceWritten | Running

record 'u Thread =
  th_ctl :: "'u Controller"
  th_pc :: pc
  th_phase :: run_phase

record 'u System =
  sy_threads :: "'u Thread list"
  sy_mgr :: mstate

definition init_system :: "'u ResourceDefinition list \<Rightarrow> Config \<Rightarrow> World \<Rightarrow> 'u System" where
  "init_system ds cfg w =
     \<lparr>sy_threads = map (\<lambda>d. \<lparr>th_ctl = New d cfg, th_pc = Idle, th_phase = WaitingForSync\<rparr>) ds,
      sy_mgr = (NewManager (cfg_Output cfg), w)\<rparr>"

text \<open>Who moves. Controllers are numbered.\<close>

datatype 'u label =
  Deliver nat "Env \<times> 'u event"
| Handler nat
| Force nat
| StoreSynced nat
| PublicReconcile PublicClient Request
| PrivateReconcile private_client Request

inductive sys_step :: "marshaller \<Rightarrow> string \<Rightarrow> 'u System \<Rightarrow> 'u label \<Rightarrow> 'u System \<Rightarrow> bool"
  for marshal site where
  Delivers: "i < length (sy_threads \<sigma>) \<Longrightarrow> sy_threads \<sigma> ! i = t \<Longrightarrow> th_pc t = Idle \<Longrightarrow>
    env_marshal (fst ev) = marshal \<Longrightarrow> begin_event ev (th_ctl t) = (c, p) \<Longrightarrow>
    sys_step marshal site \<sigma> (Deliver i ev) (\<sigma>\<lparr>sy_threads := (sy_threads \<sigma>)[i := t\<lparr>th_ctl := c, th_pc := p\<rparr>]\<rparr>)"
| Advances: "i < length (sy_threads \<sigma>) \<Longrightarrow> sy_threads \<sigma> ! i = t \<Longrightarrow> th_pc t \<noteq> Idle \<Longrightarrow>
    advance marshal (th_pc t) (sy_mgr \<sigma>) = (p, s) \<Longrightarrow>
    sys_step marshal site \<sigma> (Handler i) (\<sigma>\<lparr>sy_threads := (sy_threads \<sigma>)[i := t\<lparr>th_pc := p\<rparr>], sy_mgr := s\<rparr>)"
| Forces: "i < length (sy_threads \<sigma>) \<Longrightarrow> sy_threads \<sigma> ! i = t \<Longrightarrow> th_phase t = WaitingForSync \<Longrightarrow>
    sys_step marshal site \<sigma> (Force i)
      (\<sigma>\<lparr>sy_threads := (sy_threads \<sigma>)[i := t\<lparr>th_phase := ForceWritten\<rparr>], sy_mgr := ForceWrite marshal (sy_mgr \<sigma>)\<rparr>)"
| Stores: "i < length (sy_threads \<sigma>) \<Longrightarrow> sy_threads \<sigma> ! i = t \<Longrightarrow> th_phase t = ForceWritten \<Longrightarrow>
    sys_step marshal site \<sigma> (StoreSynced i)
      (\<sigma>\<lparr>sy_threads := (sy_threads \<sigma>)[i := t\<lparr>th_phase := Running, th_ctl := (th_ctl t)\<lparr>ctl_synced := True\<rparr>\<rparr>]\<rparr>)"
| ReconcilesPublic: "sys_step marshal site \<sigma> (PublicReconcile client req)
    (\<sigma>\<lparr>sy_mgr := snd (public_Reconcile marshal site client req (sy_mgr \<sigma>))\<rparr>)"
| ReconcilesPrivate: "sys_step marshal site \<sigma> (PrivateReconcile get req)
    (\<sigma>\<lparr>sy_mgr := snd (private_Reconcile marshal site get req (sy_mgr \<sigma>))\<rparr>)"

inductive_cases sys_stepE: "sys_step marshal site \<sigma> l \<sigma>'"
inductive_cases deliver_stepE: "sys_step marshal site \<sigma> (Deliver i ev) \<sigma>'"
inductive_cases handler_stepE: "sys_step marshal site \<sigma> (Handler i) \<sigma>'"

text \<open>A run: the labels in order.\<close>

inductive sys_run :: "marshaller \<Rightarrow> string \<Rightarrow> 'u System \<Rightarrow> 'u label list \<Rightarrow> 'u System \<Rightarrow> bool"
  for marshal site where
  Done: "sys_run marshal site \<sigma> [] \<sigma>"
| Step: "sys_step marshal site \<sigma> l \<sigma>1 \<Longrightarrow> sys_run marshal site \<sigma>1 ls \<sigma>' \<Longrightarrow> sys_run marshal site \<sigma> (l # ls) \<sigma>'"

inductive_cases sys_run_ConsE: "sys_run marshal site \<sigma> (l # ls) \<sigma>'"

section \<open>Undisturbed, a thread does what the handler does\<close>

text \<open>What the loops leave when nobody interferes.\<close>

fun finish :: "marshaller \<Rightarrow> pc \<Rightarrow> mstate \<Rightarrow> mstate" where
  "finish marshal Idle s = s"
| "finish marshal (Removing ks) s = remove_loop marshal ks s"
| "finish marshal (Stale newKeys olds es order write) s =
     update_loop marshal write es order (stale_loop marshal newKeys olds s)"
| "finish marshal (Updating es ks write) s = update_loop marshal write es ks s"

lemma finish_advance: "finish marshal (fst (advance marshal p s)) (snd (advance marshal p s)) = finish marshal p s"
  by (cases "(marshal, p, s)" rule: advance.cases) simp_all

lemma begin_remove_finish:
  "removeObject env oid (c, s) =
     (fst (begin_remove oid c), finish (env_marshal env) (snd (begin_remove oid c)) s)"
  by (simp add: removeObject_def begin_remove_def)

lemma begin_process_finish:
  "processObject env obj write (c, s) =
     (fst (begin_process env obj write c), finish (env_marshal env) (snd (begin_process env obj write c)) s)"
  by (simp add: processObject_def begin_process_def begin_remove_finish Let_def)

lemma begin_event_finish:
  "handle ev (c, s) = (fst (begin_event ev c), finish (env_marshal (fst ev)) (snd (begin_event ev c)) s)"
  by (cases "(ev, c)" rule: begin_event.cases)
    (simp_all add: onAdd_def onUpdate_def onDelete_def begin_process_finish begin_remove_finish Let_def split: sum.splits)

section \<open>Handlers come to an end\<close>

text \<open>The steps a handler has still to make, and what an event can cost.\<close>

fun work :: "pc \<Rightarrow> nat" where
  "work Idle = 0"
| "work (Removing ks) = Suc (length ks)"
| "work (Stale newKeys olds es order write) = length olds + length order + 2"
| "work (Updating es ks write) = Suc (length ks)"

definition event_cost :: "Env \<times> 'u event \<Rightarrow> 'u Controller \<Rightarrow> nat" where
  "event_cost ev c =
     (case event_effect (ctl_handler c) (ctl_cfg c) ev of
        None \<Rightarrow> 0
      | Some (oid, es) \<Rightarrow> length (owned c oid) + length es + 2)"

lemma work_0: "work p = 0 \<longleftrightarrow> p = Idle"
  by (cases p) simp_all

lemma work_advance: "p \<noteq> Idle \<Longrightarrow> Suc (work (fst (advance marshal p s))) = work p"
  by (cases "(marshal, p, s)" rule: advance.cases) simp_all

lemma range_order_length: "range_order ord \<Longrightarrow> length (ord ks) = length ks"
  unfolding range_order_def by (metis size_mset)

lemma work_begin_process:
  assumes "good_env env"
  shows "work (snd (begin_process env obj write c)) \<le>
    length (owned c (object_key obj)) + length (contribution (ctl_handler c) (ctl_cfg c) env obj) + 2"
  using assms
  by (simp add: begin_process_def begin_remove_def contribution_def owned_def good_env_def range_order_length
      keys_def Let_def)

lemma work_begin_event:
  assumes "good_env (fst ev)" and "ctl_convert c = def_ConvertFunc (ctl_handler c)"
  shows "work (snd (begin_event ev c)) \<le> event_cost ev c"
proof -
  have untomb: "(case x of DeletedFinalStateUnknown inner \<Rightarrow> inner | _ \<Rightarrow> x) = untomb x"
    for x :: "'a event_obj" by (cases x) simp_all
  show ?thesis
    using assms(1) toMetaObj_event [OF assms(2)] work_begin_process
    by (cases "(ev, c)" rule: begin_event.cases)
      (auto simp: event_cost_def untomb begin_remove_def owned_def split: sum.splits)
qed

text \<open>A step of anybody else leaves the place of a handler alone, its own step brings it forward.\<close>

lemma step_work:
  assumes "sys_step marshal site \<sigma> l \<sigma>'" and "i < length (sy_threads \<sigma>)" and "\<forall>ev. l \<noteq> Deliver i ev"
  shows "length (sy_threads \<sigma>') = length (sy_threads \<sigma>) \<and>
    work (th_pc (sy_threads \<sigma>' ! i)) + (if l = Handler i then 1 else 0) = work (th_pc (sy_threads \<sigma> ! i))"
  using assms(1)
proof cases
  case (Advances j t p s)
  then show ?thesis
    using work_advance [of "th_pc t" marshal "sy_mgr \<sigma>"] by (cases "j = i") auto
qed (use assms(2,3) in \<open>auto simp: nth_list_update\<close>)

lemma run_work:
  "sys_run marshal site \<sigma> ls \<sigma>' \<Longrightarrow> i < length (sy_threads \<sigma>) \<Longrightarrow> \<forall>ev. Deliver i ev \<notin> set ls \<Longrightarrow>
     length (sy_threads \<sigma>') = length (sy_threads \<sigma>) \<and>
     work (th_pc (sy_threads \<sigma>' ! i)) + count_list ls (Handler i) = work (th_pc (sy_threads \<sigma> ! i))"
proof (induction rule: sys_run.induct)
  case (Step \<sigma> l \<sigma>1 ls \<sigma>')
  have "\<forall>ev. l \<noteq> Deliver i ev" using Step.prems(2) by auto
  from step_work [OF Step.hyps(1) Step.prems(1) this] Step.prems Step.IH show ?case
    by (simp split: if_splits)
qed simp

text \<open>Alone, a handler goes through its own loops.\<close>

lemma run_alone:
  "sys_run marshal site \<sigma> ls \<sigma>' \<Longrightarrow> i < length (sy_threads \<sigma>) \<Longrightarrow> set ls \<subseteq> {Handler i} \<Longrightarrow>
     th_ctl (sy_threads \<sigma>' ! i) = th_ctl (sy_threads \<sigma> ! i) \<and>
     finish marshal (th_pc (sy_threads \<sigma>' ! i)) (sy_mgr \<sigma>') = finish marshal (th_pc (sy_threads \<sigma> ! i)) (sy_mgr \<sigma>)"
proof (induction rule: sys_run.induct)
  case (Step \<sigma> l \<sigma>1 ls \<sigma>')
  from Step.prems(2) have "l = Handler i" by simp
  with Step.hyps(1) have "sys_step marshal site \<sigma> (Handler i) \<sigma>1" by simp
  then have "th_ctl (sy_threads \<sigma>1 ! i) = th_ctl (sy_threads \<sigma> ! i) \<and> length (sy_threads \<sigma>1) = length (sy_threads \<sigma>) \<and>
      finish marshal (th_pc (sy_threads \<sigma>1 ! i)) (sy_mgr \<sigma>1) = finish marshal (th_pc (sy_threads \<sigma> ! i)) (sy_mgr \<sigma>)"
    using finish_advance [of marshal "th_pc (sy_threads \<sigma> ! i)" "sy_mgr \<sigma>"] Step.prems(1)
    by (auto elim!: handler_stepE)
  with Step show ?case by simp
qed simp

lemma handler_enabled:
  "i < length (sy_threads \<sigma>) \<Longrightarrow> th_pc (sy_threads \<sigma> ! i) \<noteq> Idle \<Longrightarrow> \<exists>\<sigma>'. sys_step marshal site \<sigma> (Handler i) \<sigma>'"
  using sys_step.Advances [OF _ refl] by (metis surj_pair)

text \<open>
  C11. Every handler ends, in every interleaving. Let a controller's handler start on an event and
  let anything happen until the next event is delivered to that controller: its own handler's
  steps, other handlers, \<open>Run\<close> goroutines and reconciliations in any order. Then the handler makes at
  most as many steps as its object has old keys and new entries, and two more; as long as it has
  not ended it can make its next step, whatever the others did; and if nobody interfered, it leaves
  the controller and the manager exactly as the handler as one operation does.
\<close>

theorem handler_terminates:
  assumes "range_order (env_ord1 (fst ev))" and "range_order (env_ord2 (fst ev))"
    and "i < length (sy_threads \<sigma>)" and "th_ctl (sy_threads \<sigma> ! i) = c"
    and "ctl_convert c = def_ConvertFunc (ctl_handler c)"
    and "sys_run marshal site \<sigma> (Deliver i ev # ls) \<sigma>'" and "\<forall>ev'. Deliver i ev' \<notin> set ls"
  shows "count_list ls (Handler i) \<le> event_cost ev c \<and>
    (th_pc (sy_threads \<sigma>' ! i) = Idle \<or> (\<exists>\<sigma>''. sys_step marshal site \<sigma>' (Handler i) \<sigma>'')) \<and>
    (set ls \<subseteq> {Handler i} \<and> th_pc (sy_threads \<sigma>' ! i) = Idle \<longrightarrow>
      (th_ctl (sy_threads \<sigma>' ! i), sy_mgr \<sigma>') = handle ev (c, sy_mgr \<sigma>))"
proof -
  from assms(6) obtain \<sigma>1 where step: "sys_step marshal site \<sigma> (Deliver i ev) \<sigma>1"
    and run: "sys_run marshal site \<sigma>1 ls \<sigma>'" by (rule sys_run_ConsE)
  from step assms(3,4) have s1: "length (sy_threads \<sigma>1) = length (sy_threads \<sigma>)" "sy_mgr \<sigma>1 = sy_mgr \<sigma>"
    "(th_ctl (sy_threads \<sigma>1 ! i), th_pc (sy_threads \<sigma>1 ! i)) = begin_event ev c" "env_marshal (fst ev) = marshal"
    by (auto elim!: deliver_stepE)
  then have "work (th_pc (sy_threads \<sigma>1 ! i)) \<le> event_cost ev c"
    using work_begin_event [of ev c] assms(1,2,5) by (metis good_env_def snd_conv)
  moreover have i: "i < length (sy_threads \<sigma>1)" using assms(3) s1(1) by simp
  moreover note run_work [OF run i assms(7)]
  moreover have "(th_ctl (sy_threads \<sigma>' ! i), sy_mgr \<sigma>') = handle ev (c, sy_mgr \<sigma>)"
    if "set ls \<subseteq> {Handler i}" "th_pc (sy_threads \<sigma>' ! i) = Idle"
    using run_alone [OF run i that(1)] that(2) s1 begin_event_finish [of ev c "sy_mgr \<sigma>"]
    by (metis finish.simps(1) fst_conv snd_conv)
  ultimately show ?thesis using handler_enabled [of i \<sigma>'] by auto
qed

section \<open>Runs by computation\<close>

text \<open>A label determines the step, so that runs can be computed.\<close>

fun sys_exec :: "marshaller \<Rightarrow> string \<Rightarrow> 'u System \<Rightarrow> 'u label \<Rightarrow> 'u System option" where
  "sys_exec marshal site \<sigma> (Deliver i ev) =
     (if i < length (sy_threads \<sigma>) \<and> th_pc (sy_threads \<sigma> ! i) = Idle \<and> env_marshal (fst ev) = marshal
      then let t = sy_threads \<sigma> ! i; (c, p) = begin_event ev (th_ctl t)
        in Some (\<sigma>\<lparr>sy_threads := (sy_threads \<sigma>)[i := t\<lparr>th_ctl := c, th_pc := p\<rparr>]\<rparr>)
      else None)"
| "sys_exec marshal site \<sigma> (Handler i) =
     (if i < length (sy_threads \<sigma>) \<and> th_pc (sy_threads \<sigma> ! i) \<noteq> Idle
      then let t = sy_threads \<sigma> ! i; (p, s) = advance marshal (th_pc t) (sy_mgr \<sigma>)
        in Some (\<sigma>\<lparr>sy_threads := (sy_threads \<sigma>)[i := t\<lparr>th_pc := p\<rparr>], sy_mgr := s\<rparr>)
      else None)"
| "sys_exec marshal site \<sigma> (Force i) =
     (if i < length (sy_threads \<sigma>) \<and> th_phase (sy_threads \<sigma> ! i) = WaitingForSync
      then Some (\<sigma>\<lparr>sy_threads := (sy_threads \<sigma>)[i := (sy_threads \<sigma> ! i)\<lparr>th_phase := ForceWritten\<rparr>],
        sy_mgr := ForceWrite marshal (sy_mgr \<sigma>)\<rparr>)
      else None)"
| "sys_exec marshal site \<sigma> (StoreSynced i) =
     (if i < length (sy_threads \<sigma>) \<and> th_phase (sy_threads \<sigma> ! i) = ForceWritten
      then let t = sy_threads \<sigma> ! i
        in Some (\<sigma>\<lparr>sy_threads := (sy_threads \<sigma>)[i := t\<lparr>th_phase := Running, th_ctl := (th_ctl t)\<lparr>ctl_synced := True\<rparr>\<rparr>]\<rparr>)
      else None)"
| "sys_exec marshal site \<sigma> (PublicReconcile client req) =
     Some (\<sigma>\<lparr>sy_mgr := snd (public_Reconcile marshal site client req (sy_mgr \<sigma>))\<rparr>)"
| "sys_exec marshal site \<sigma> (PrivateReconcile get req) =
     Some (\<sigma>\<lparr>sy_mgr := snd (private_Reconcile marshal site get req (sy_mgr \<sigma>))\<rparr>)"

fun sys_execs :: "marshaller \<Rightarrow> string \<Rightarrow> 'u System \<Rightarrow> 'u label list \<Rightarrow> 'u System option" where
  "sys_execs marshal site \<sigma> [] = Some \<sigma>"
| "sys_execs marshal site \<sigma> (l # ls) = Option.bind (sys_exec marshal site \<sigma> l) (\<lambda>\<sigma>. sys_execs marshal site \<sigma> ls)"

lemma sys_step_exec: "sys_step marshal site \<sigma> l \<sigma>' \<longleftrightarrow> sys_exec marshal site \<sigma> l = Some \<sigma>'"
proof
  show "sys_step marshal site \<sigma> l \<sigma>' \<Longrightarrow> sys_exec marshal site \<sigma> l = Some \<sigma>'"
    by (erule sys_stepE) (simp_all add: Let_def)
  show "sys_exec marshal site \<sigma> l = Some \<sigma>' \<Longrightarrow> sys_step marshal site \<sigma> l \<sigma>'"
    by (cases l) (auto simp: Let_def split: if_splits prod.splits intro: sys_step.intros)
qed

lemma sys_run_execs: "sys_execs marshal site \<sigma> ls = Some \<sigma>' \<Longrightarrow> sys_run marshal site \<sigma> ls \<sigma>'"
  by (induction ls arbitrary: \<sigma>) (auto simp: sys_step_exec [symmetric] bind_eq_Some_conv intro: sys_run.intros)

text \<open>A stand-in for the YAML package that tells whether the entry \<open>a-b\<close> is there.\<close>

definition tiny_marshal :: marshaller where
  "tiny_marshal bp = Inr (if bp_PublicResources bp ''a-b'' = None then ''{}'' else ''a-b'')"

definition race_event :: "Env \<times> HTTPRoute event" where
  "race_event =
     (example_env\<lparr>env_marshal := tiny_marshal\<rparr>, Added (AnUnstructured (example_route ''r'' ''a.b'')))"

lemma race_contribution:
  "contribution example_definition default_config (example_env\<lparr>env_marshal := tiny_marshal\<rparr>)
     (HTTPRouteObj (example_route n h)) =
   [(HostnameToKey h, BuildResource n h (Some Map.empty) None default_config)]"
  by (simp add: example_contribution [symmetric] contribution_def resolveAuthSecret_def Let_def)

text \<open>How a handler for the route gets on.\<close>

lemma race_yaml: "env_marshal (fst race_event) = tiny_marshal"
  by (simp add: race_event_def)

definition race_entries :: entries where
  "race_entries = [(''a-b'', BuildResource ''r'' ''a.b'' (Some Map.empty) None default_config)]"

lemma race_begin:
  assumes "c = (New example_definition default_config)\<lparr>ctl_synced := b\<rparr>"
  shows "begin_event race_event c = (c\<lparr>ctl_resourceKeys := [''web/r'' \<mapsto> [''a-b'']]\<rparr>, Stale [''a-b''] [] race_entries [''a-b''] b)"
proof -
  let ?obj = "HTTPRouteObj (example_route ''r'' ''a.b'')" and ?env = "example_env\<lparr>env_marshal := tiny_marshal\<rparr>"
  have key: "HostnameToKey ''a.b'' = ''a-b''" by code_simp
  have conv: "toMetaObj c (AnUnstructured u) = Inr (HTTPRouteObj u)" for u
    by (simp add: assms toMetaObj_def example_definition_def httproute_Definition_def CreateConvertFunc_def)
  have c: "ctl_handler c = example_definition" "ctl_cfg c = default_config" "ctl_resourceKeys c = Map.empty" "ctl_synced c = b"
    by (simp_all add: assms)
  from race_contribution [of "''r''" "''a.b''"] key
  have es: "ShouldProcess example_definition ?obj default_config"
    "BuildEntries example_definition ?obj (resolveAuthSecret ?env default_config ?obj) default_config = race_entries"
    by (auto simp: contribution_def race_entries_def split: if_splits)
  have oid: "object_key ?obj = ''web/r''" by (simp add: object_key_def example_route_def)
  have ne: "race_entries \<noteq> []" "keys race_entries = [''a-b'']" by (simp_all add: race_entries_def)
  show ?thesis
    using ne by (simp add: race_event_def conv begin_process_def c es oid Let_def) (simp add: example_env_def)
qed

theorem handler_terminates_witness:
  "\<exists>\<sigma>'. sys_run tiny_marshal ''home'' (init_system [example_definition, example_definition] default_config calm_world)
      [Deliver 1 race_event, Handler 1, Force 0, Handler 1, StoreSynced 0, Handler 1] \<sigma>' \<and>
     th_pc (sy_threads \<sigma>' ! 1) = Idle \<and> event_cost race_event (New example_definition default_config) \<ge> 3"
proof -
  let ?ls = "[Handler 1, Force 0, Handler 1, StoreSynced 0, Handler 1]"
  let ?\<sigma> = "init_system [example_definition, example_definition] default_config calm_world"
  let ?c = "New example_definition default_config"
  have c: "?c = ?c\<lparr>ctl_synced := False\<rparr>" by (simp add: New_def)
  obtain \<sigma>' where exec: "sys_execs tiny_marshal ''home'' ?\<sigma> (Deliver 1 race_event # ?ls) = Some \<sigma>'"
    "th_pc (sy_threads \<sigma>' ! 1) = Idle"
    by (simp add: init_system_def race_yaml race_begin [OF c] Let_def)
  have orders: "range_order (env_ord1 (fst race_event))" "range_order (env_ord2 (fst race_event))"
    using example_env_good by (simp_all add: race_event_def)
  have pre: "1 < length (sy_threads ?\<sigma>)" "th_ctl (sy_threads ?\<sigma> ! 1) = ?c"
    "ctl_convert ?c = def_ConvertFunc (ctl_handler ?c)" by (simp_all add: init_system_def)
  from handler_terminates [OF orders pre sys_run_execs [OF exec(1)]] exec sys_run_execs [OF exec(1)]
  show ?thesis by (intro exI [of _ \<sigma>']) simp
qed

section \<open>Steady state\<close>

fun pc_writes :: "pc \<Rightarrow> bool" where
  "pc_writes (Stale newKeys olds es order write) = write"
| "pc_writes (Updating es ks write) = write"
| "pc_writes _ = True"

text \<open>Every controller's flag is set, the handlers in progress started after that, the file is settled.\<close>

definition steady :: "marshaller \<Rightarrow> 'u System \<Rightarrow> bool" where
  "steady marshal \<sigma> \<longleftrightarrow>
     list_all (\<lambda>t. ctl_synced (th_ctl t) \<and> th_phase t = Running \<and> pc_writes (th_pc t)) (sy_threads \<sigma>) \<and>
     settled marshal (sy_mgr \<sigma>)"

lemma begin_event_writes:
  assumes "begin_event ev c = (c', p)"
  shows "ctl_synced c' = ctl_synced c" and "ctl_synced c \<Longrightarrow> pc_writes p"
  using assms
  by (cases "(ev, c)" rule: begin_event.cases;
      auto simp: begin_process_def begin_remove_def Let_def split: sum.splits if_splits)+

lemma advance_settled:
  assumes "advance marshal p s = (p', s')" and "pc_writes p" and "settled marshal s"
  shows "pc_writes p'" and "settled marshal s'"
  using assms
  by (cases "(marshal, p, s)" rule: advance.cases;
      auto simp: public_store.del_keeps_settled public_store.upd_keeps_settled split: option.splits)+

lemma steady_step: "sys_step marshal site \<sigma> l \<sigma>' \<Longrightarrow> steady marshal \<sigma> \<Longrightarrow> steady marshal \<sigma>'"
proof (induction rule: sys_step.induct)
  case (Delivers i \<sigma> t ev c p)
  with begin_event_writes [OF Delivers(5)] show ?case
    by (auto simp: steady_def list_all_length nth_list_update)
next
  case (Advances i \<sigma> t p s)
  then have "pc_writes (th_pc t)" "settled marshal (sy_mgr \<sigma>)" by (auto simp: steady_def list_all_length)
  with advance_settled [OF Advances(4)] Advances show ?case
    by (auto simp: steady_def list_all_length nth_list_update)
qed (auto simp: steady_def list_all_length nth_list_update public_crd.reconcile_settled
    private_crd.reconcile_settled ForceWrite_def)

lemma steady_run: "sys_run marshal site \<sigma> ls \<sigma>' \<Longrightarrow> steady marshal \<sigma> \<Longrightarrow> steady marshal \<sigma>'"
  by (induction rule: sys_run.induct) (auto intro: steady_step)

text \<open>
  C8. Steady state is permanent. Once every controller of the program is synced, the handlers in
  progress (if any) began after that and the file is settled, then in every further interleaving of
  the handlers of all controllers with reconciliations of custom resources and failures of the
  system the file holds the YAML text of the entries in memory or the last write failed and the
  failure is recorded, also in the middle of handlers.
\<close>

theorem steady_state_settled:
  assumes "sys_run marshal site \<sigma> ls \<sigma>'" and "steady marshal \<sigma>"
  shows "let s = sy_mgr \<sigma>' in
    mgr_lastWriteErr (fst s) \<noteq> None \<or>
    map_option Inr (w_files (snd s) (mgr_outputFile (fst s))) = Some (marshal (blueprint_of (fst s)))"
  using steady_run [OF assms]
  by (auto simp: steady_def settled_def in_sync_def write_failed_def Let_def split: sum.splits)

text \<open>Two controllers that have become ready, and then a route for one of them.\<close>

theorem steady_state_settled_witness:
  "\<exists>\<sigma> \<sigma>'. sys_run tiny_marshal ''home'' (init_system [example_definition, example_definition] default_config calm_world)
      [Force 1, Force 0, StoreSynced 0, StoreSynced 1] \<sigma> \<and>
     sys_run tiny_marshal ''home'' \<sigma> [Deliver 1 race_event, Handler 1, Handler 1] \<sigma>' \<and>
     w_files (snd (sy_mgr \<sigma>')) ''/etc/newt/blueprint.yaml'' = Some ''a-b''"
proof -
  let ?init = "init_system [example_definition, example_definition] default_config calm_world"
  let ?c = "(New example_definition default_config)\<lparr>ctl_synced := True\<rparr>"
  let ?t = "\<lparr>th_ctl = ?c, th_pc = Idle, th_phase = Running\<rparr>"
  let ?s = "ForceWrite tiny_marshal (ForceWrite tiny_marshal (NewManager ''/etc/newt/blueprint.yaml'', calm_world))"
  let ?\<sigma> = "\<lparr>sy_threads = [?t, ?t], sy_mgr = ?s\<rparr>"
  have out: "cfg_Output default_config = ''/etc/newt/blueprint.yaml''" by (simp add: default_config_def)
  have 1: "sys_execs tiny_marshal ''home'' ?init [Force 1, Force 0, StoreSynced 0, StoreSynced 1] = Some ?\<sigma>"
    by (simp add: init_system_def out Let_def)
  let ?r = "BuildResource ''r'' ''a.b'' (Some Map.empty) None default_config"
  obtain \<sigma>' where 2: "sys_execs tiny_marshal ''home'' ?\<sigma> [Deliver 1 race_event, Handler 1, Handler 1] = Some \<sigma>'"
    and mgr: "sy_mgr \<sigma>' = snd (AddOrUpdate tiny_marshal ''a-b'' ?r True ?s)"
    by (simp add: race_yaml race_begin [OF refl] race_entries_def Let_def)
  have st: "steady tiny_marshal ?\<sigma>" by (simp add: steady_def ForceWrite_def)
  have "mgr_lastWriteErr (fst (sy_mgr \<sigma>')) = None" "mgr_outputFile (fst (sy_mgr \<sigma>')) = ''/etc/newt/blueprint.yaml''"
    "tiny_marshal (blueprint_of (fst (sy_mgr \<sigma>'))) = Inr ''a-b''"
    unfolding mgr
    by (simp_all add: op_defs writeState_def os_WriteFile_def os_Rename_def put_files_def NewManager_def
        calm_world_def tiny_marshal_def blueprint_of_def)
  with steady_state_settled [OF sys_run_execs [OF 2] st]
  have "w_files (snd (sy_mgr \<sigma>')) ''/etc/newt/blueprint.yaml'' = Some ''a-b''" by (simp add: Let_def)
  with sys_run_execs [OF 1] sys_run_execs [OF 2] show ?thesis by blast
qed

section \<open>The start-up race\<close>

text \<open>
  C36. The start-up race: a handler that read the flag before it was set can perform its update
  after the forced write. There is a run of the program, without any failure of the operating
  system, that ends with the controller running and idle, an entry in memory and no error
  recorded, while the file does not have the entry.
\<close>

theorem startup_race:
  "\<exists>ls \<sigma>. sys_run tiny_marshal ''home'' (init_system [example_definition] default_config calm_world) ls \<sigma> \<and>
     list_all (\<lambda>t. th_phase t = Running \<and> th_pc t = Idle) (sy_threads \<sigma>) \<and>
     mgr_resources (fst (sy_mgr \<sigma>)) ''a-b'' \<noteq> None \<and> mgr_lastWriteErr (fst (sy_mgr \<sigma>)) = None \<and>
     w_files (snd (sy_mgr \<sigma>)) ''/etc/newt/blueprint.yaml'' = Some ''{}''"
proof -
  let ?ls = "[Deliver 0 race_event, Handler 0, Force 0, Handler 0, StoreSynced 0, Handler 0]"
  let ?\<sigma> = "init_system [example_definition] default_config calm_world"
  let ?c = "New example_definition default_config"
  let ?r = "BuildResource ''r'' ''a.b'' (Some Map.empty) None default_config"
  have c: "?c = ?c\<lparr>ctl_synced := False\<rparr>" by (simp add: New_def)
  have out: "cfg_Output default_config = ''/etc/newt/blueprint.yaml''" by (simp add: default_config_def)
  obtain \<sigma>' where exec: "sys_execs tiny_marshal ''home'' ?\<sigma> ?ls = Some \<sigma>'"
    and idle: "list_all (\<lambda>t. th_phase t = Running \<and> th_pc t = Idle) (sy_threads \<sigma>')"
    and mgr: "sy_mgr \<sigma>' = snd (AddOrUpdate tiny_marshal ''a-b'' ?r False
      (ForceWrite tiny_marshal (NewManager ''/etc/newt/blueprint.yaml'', calm_world)))"
    by (simp add: init_system_def race_yaml race_begin [OF c] race_entries_def out Let_def)
  have "mgr_resources (fst (sy_mgr \<sigma>')) ''a-b'' \<noteq> None" "mgr_lastWriteErr (fst (sy_mgr \<sigma>')) = None"
    "w_files (snd (sy_mgr \<sigma>')) ''/etc/newt/blueprint.yaml'' = Some ''{}''"
    unfolding mgr
    by (simp_all add: op_defs writeState_def os_WriteFile_def os_Rename_def put_files_def NewManager_def
        calm_world_def tiny_marshal_def blueprint_of_def)
  with sys_run_execs [OF exec] idle show ?thesis by blast
qed

end
