(* ===== verification/Flags.thy ===== *)
theory Flags
  imports Config
begin

text \<open>
  Command-line flags: Go's \<open>flag\<close> package as far as the program uses it (string, int and bool
  variables on the command line's flag set, which exits on error), with \<open>strconv.ParseBool\<close> and
  \<open>strconv.ParseInt\<close> of base 0, and \<open>config.Load\<close> on top of it.
\<close>

section \<open>Numbers and truth values\<close>

definition ParseBool :: "string \<Rightarrow> bool option" where
  "ParseBool s =
     (if s \<in> {''1'', ''t'', ''T'', ''true'', ''TRUE'', ''True''} then Some True
      else if s \<in> {''0'', ''f'', ''F'', ''false'', ''FALSE'', ''False''} then Some False
      else None)"

text \<open>The value of a digit or letter; the letters count from 10.\<close>

definition digit36 :: "char \<Rightarrow> int option" where
  "digit36 c =
     (let n = of_char c :: int
      in if 48 \<le> n \<and> n \<le> 57 then Some (n - 48)
         else if 97 \<le> n \<and> n \<le> 122 then Some (n - 87)
         else if 65 \<le> n \<and> n \<le> 90 then Some (n - 55) else None)"

fun is_letter :: "char \<Rightarrow> char \<Rightarrow> char \<Rightarrow> bool" where
  "is_letter c lower upper = (c = lower \<or> c = upper)"

text \<open>The digits of \<open>ParseUint\<close> in base 0 (underscores skipped); the bound is tested by the caller.\<close>

fun uint_digits :: "int \<Rightarrow> string \<Rightarrow> int \<Rightarrow> int option" where
  "uint_digits base [] n = Some n"
| "uint_digits base (c # s) n =
     (if c = CHR ''_'' then uint_digits base s n
      else case digit36 c of
        None \<Rightarrow> None
      | Some d \<Rightarrow> if d \<ge> base then None else uint_digits base s (n * base + d))"

datatype saw = SawStart | SawDigit | SawUnderscore | SawOther

fun underscore_loop :: "bool \<Rightarrow> string \<Rightarrow> saw \<Rightarrow> bool" where
  "underscore_loop hex [] saw = (saw \<noteq> SawUnderscore)"
| "underscore_loop hex (c # s) saw =
     (if is_digit c \<or> hex \<and> (case digit36 c of None \<Rightarrow> False | Some d \<Rightarrow> d < 16)
      then underscore_loop hex s SawDigit
      else if c = CHR ''_'' then saw = SawDigit \<and> underscore_loop hex s SawUnderscore
      else if saw = SawUnderscore then False else underscore_loop hex s SawOther)"

definition underscoreOK :: "string \<Rightarrow> bool" where
  "underscoreOK s =
     (case s of
        a # b # t \<Rightarrow>
          if a = CHR ''0'' \<and> (is_letter b (CHR ''b'') (CHR ''B'') \<or> is_letter b (CHR ''o'') (CHR ''O'') \<or>
            is_letter b (CHR ''x'') (CHR ''X''))
          then underscore_loop (is_letter b (CHR ''x'') (CHR ''X'')) t SawDigit
          else underscore_loop False s SawStart
      | _ \<Rightarrow> underscore_loop False s SawStart)"

text \<open>\<open>ParseUint(s, 0, 64)\<close> without the range test, and \<open>ParseInt(s, 0, 64)\<close>.\<close>

definition uint_base :: "string \<Rightarrow> int \<times> string" where
  "uint_base s =
     (case s of
        a # t \<Rightarrow>
          if a \<noteq> CHR ''0'' then (10, s)
          else (case t of
              b # c # u \<Rightarrow>
                if is_letter b (CHR ''b'') (CHR ''B'') then (2, c # u)
                else if is_letter b (CHR ''o'') (CHR ''O'') then (8, c # u)
                else if is_letter b (CHR ''x'') (CHR ''X'') then (16, c # u)
                else (8, t)
            | _ \<Rightarrow> (8, t))
      | [] \<Rightarrow> (10, []))"

definition ParseUint0 :: "string \<Rightarrow> int option" where
  "ParseUint0 s =
     (if s = [] then None
      else let (base, ds) = uint_base s
        in case uint_digits base ds 0 of
          None \<Rightarrow> None
        | Some n \<Rightarrow> if CHR ''_'' \<in> set ds \<and> \<not> underscoreOK s then None else Some n)"

definition ParseInt0 :: "string \<Rightarrow> int option" where
  "ParseInt0 s =
     (case s of
        [] \<Rightarrow> None
      | c # t \<Rightarrow>
        (let (neg, ds) =
           (if c = CHR ''+'' then (False, t) else if c = CHR ''-'' then (True, t) else (False, s))
         in case ParseUint0 ds of
              None \<Rightarrow> None
            | Some n \<Rightarrow> let v = (if neg then - n else n) in if int_fits v then Some v else None))"

section \<open>Flags\<close>

text \<open>A registered flag: how its value is stored into the configuration.\<close>

datatype 'c flag_var =
  StringVar "string \<Rightarrow> 'c \<Rightarrow> 'c" | IntVar "int \<Rightarrow> 'c \<Rightarrow> 'c" | BoolVar "bool \<Rightarrow> 'c \<Rightarrow> 'c"

fun flag_set :: "'c flag_var \<Rightarrow> string \<Rightarrow> 'c \<Rightarrow> 'c option" where
  "flag_set (StringVar f) v c = Some (f v c)"
| "flag_set (IntVar f) v c = map_option (\<lambda>i. f i c) (ParseInt0 v)"
| "flag_set (BoolVar f) v c = map_option (\<lambda>b. f b c) (ParseBool v)"

fun is_bool_flag :: "'c flag_var \<Rightarrow> bool" where
  "is_bool_flag (BoolVar f) = True"
| "is_bool_flag _ = False"

text \<open>The result of parsing: the values, or the exit code of the process (0 after \<open>-help\<close>, else 2).\<close>

datatype 'c parse_result = Parsed 'c | Exits int

text \<open>What an argument is: not a flag, the terminator, malformed, or a flag with or without a value.\<close>

datatype flag_arg = NotAFlag | Terminator | BadSyntax | FlagArg string "string option"

definition split_value :: "string \<Rightarrow> flag_arg" where
  "split_value name =
     (case name of
        [] \<Rightarrow> BadSyntax
      | c # t \<Rightarrow>
        if c = CHR ''-'' \<or> c = CHR ''='' then BadSyntax
        else case dropWhile (\<lambda>x. x \<noteq> CHR ''='') t of
          [] \<Rightarrow> FlagArg name None
        | _ # v \<Rightarrow> FlagArg (c # takeWhile (\<lambda>x. x \<noteq> CHR ''='') t) (Some v))"

definition classify_arg :: "string \<Rightarrow> flag_arg" where
  "classify_arg s =
     (case s of
        a # b # t \<Rightarrow>
          if a \<noteq> CHR ''-'' then NotAFlag
          else if b = CHR ''-'' then (if t = [] then Terminator else split_value t)
          else split_value (b # t)
      | _ \<Rightarrow> NotAFlag)"

fun parse_flags :: "(string \<times> 'c flag_var) list \<Rightarrow> string list \<Rightarrow> 'c \<Rightarrow> 'c parse_result" where
  "parse_flags flags [] c = Parsed c"
| "parse_flags flags (s # args) c =
     (case classify_arg s of
        NotAFlag \<Rightarrow> Parsed c
      | Terminator \<Rightarrow> Parsed c
      | BadSyntax \<Rightarrow> Exits 2
      | FlagArg name value \<Rightarrow>
        (case map_of flags name of
           None \<Rightarrow> if name = ''help'' \<or> name = ''h'' then Exits 0 else Exits 2
         | Some f \<Rightarrow>
           (case value of
              Some v \<Rightarrow> (case flag_set f v c of None \<Rightarrow> Exits 2 | Some c \<Rightarrow> parse_flags flags args c)
            | None \<Rightarrow>
              if is_bool_flag f
              then (case flag_set f ''true'' c of None \<Rightarrow> Exits 2 | Some c \<Rightarrow> parse_flags flags args c)
              else (case args of
                  [] \<Rightarrow> Exits 2
                | v # rest \<Rightarrow>
                  (case flag_set f v c of None \<Rightarrow> Exits 2 | Some c \<Rightarrow> parse_flags flags rest c)))))"

section \<open>Loading the configuration\<close>

text \<open>
  Other code registers flags on the same command line (the main program, libraries); they store
  into a value of their own, which is loaded beside the configuration.
\<close>

fun on_fst :: "'a flag_var \<Rightarrow> ('a \<times> 'b) flag_var" where
  "on_fst (StringVar f) = StringVar (\<lambda>v. apfst (f v))"
| "on_fst (IntVar f) = IntVar (\<lambda>v. apfst (f v))"
| "on_fst (BoolVar f) = BoolVar (\<lambda>v. apfst (f v))"

fun on_snd :: "'b flag_var \<Rightarrow> ('a \<times> 'b) flag_var" where
  "on_snd (StringVar f) = StringVar (\<lambda>v. apsnd (f v))"
| "on_snd (IntVar f) = IntVar (\<lambda>v. apsnd (f v))"
| "on_snd (BoolVar f) = BoolVar (\<lambda>v. apsnd (f v))"

definition config_flags :: "(string \<times> Config flag_var) list" where
  "config_flags =
     [(''gateway-name'', StringVar (\<lambda>v c. c\<lparr>cfg_GatewayName := v\<rparr>)),
      (''gateway-namespace'', StringVar (\<lambda>v c. c\<lparr>cfg_GatewayNamespace := v\<rparr>)),
      (''namespace'', StringVar (\<lambda>v c. c\<lparr>cfg_Namespace := v\<rparr>)),
      (''output'', StringVar (\<lambda>v c. c\<lparr>cfg_Output := v\<rparr>)),
      (''site-id'', StringVar (\<lambda>v c. c\<lparr>cfg_SiteID := v\<rparr>)),
      (''target-hostname'', StringVar (\<lambda>v c. c\<lparr>cfg_TargetHostname := v\<rparr>)),
      (''target-port'', IntVar (\<lambda>v c. c\<lparr>cfg_TargetPort := v\<rparr>)),
      (''target-method'', StringVar (\<lambda>v c. c\<lparr>cfg_TargetMethod := v\<rparr>)),
      (''deny-countries'', StringVar (\<lambda>v c. c\<lparr>cfg_DenyCountries := v\<rparr>)),
      (''ssl'', BoolVar (\<lambda>v c. c\<lparr>cfg_SSL := v\<rparr>)),
      (''annotation-prefix'', StringVar (\<lambda>v c. c\<lparr>cfg_AnnotationPrefix := v\<rparr>)),
      (''enable-service'', BoolVar (\<lambda>v c. c\<lparr>cfg_EnableService := v\<rparr>)),
      (''auto-service'', BoolVar (\<lambda>v c. c\<lparr>cfg_AutoService := v\<rparr>)),
      (''all-ports'', BoolVar (\<lambda>v c. c\<lparr>cfg_AllPorts := v\<rparr>)),
      (''auth-sso-roles'', StringVar (\<lambda>v c. c\<lparr>cfg_AuthSSORoles := v\<rparr>)),
      (''auth-sso-users'', StringVar (\<lambda>v c. c\<lparr>cfg_AuthSSOUsers := v\<rparr>)),
      (''auth-sso-idp'', IntVar (\<lambda>v c. c\<lparr>cfg_AuthSSOIDP := v\<rparr>)),
      (''auth-whitelist-users'', StringVar (\<lambda>v c. c\<lparr>cfg_AuthWhitelistUsers := v\<rparr>)),
      (''health-port'', IntVar (\<lambda>v c. c\<lparr>cfg_HealthPort := v\<rparr>))]"

definition all_flags :: "(string \<times> 'o flag_var) list \<Rightarrow> (string \<times> (Config \<times> 'o) flag_var) list" where
  "all_flags others = map (map_prod id on_fst) config_flags @ map (map_prod id on_snd) others"

datatype 'c load_result = Loaded 'c | LoadFails string | LoadExits int

definition Load ::
  "env_parser \<Rightarrow> (string \<times> 'o flag_var) list \<Rightarrow> string list \<Rightarrow> 'o \<Rightarrow> (Config \<times> 'o) load_result" where
  "Load env_Parse others args opts =
     (case newConfig env_Parse of
        Inl err \<Rightarrow> LoadFails err
      | Inr cfg \<Rightarrow>
        (case parse_flags (all_flags others) args (cfg, opts) of
           Parsed c \<Rightarrow> Loaded c
         | Exits n \<Rightarrow> LoadExits n))"

section \<open>Which value wins\<close>

lemma split_value_assign:
  assumes "CHR ''='' \<notin> set name" and "name \<noteq> []" and "hd name \<noteq> CHR ''-''"
  shows "split_value (name @ CHR ''='' # v) = FlagArg name (Some v)"
proof (cases name)
  case (Cons c t)
  then have "takeWhile (\<lambda>x. x \<noteq> CHR ''='') (t @ CHR ''='' # v) = t"
    "dropWhile (\<lambda>x. x \<noteq> CHR ''='') (t @ CHR ''='' # v) = CHR ''='' # v"
    using assms by (auto simp: takeWhile_append dropWhile_append)
  with Cons assms show ?thesis by (auto simp: split_value_def)
qed (use assms in simp)

text \<open>\<open>--name=value\<close>, and the assignments of a command line made of such arguments.\<close>

definition assign_arg :: "string \<times> string \<Rightarrow> string" where
  "assign_arg nv = ''--'' @ fst nv @ CHR ''='' # snd nv"

fun assign_all :: "(string \<times> 'c flag_var) list \<Rightarrow> (string \<times> string) list \<Rightarrow> 'c \<Rightarrow> 'c option" where
  "assign_all flags [] c = Some c"
| "assign_all flags ((n, v) # nvs) c =
     Option.bind (map_of flags n) (\<lambda>f. Option.bind (flag_set f v c) (assign_all flags nvs))"

definition plain_name :: "string \<Rightarrow> bool" where
  "plain_name n \<longleftrightarrow> n \<noteq> [] \<and> hd n \<noteq> CHR ''-'' \<and> CHR ''='' \<notin> set n"

lemma parse_assign:
  assumes "list_all (\<lambda>(n, v). plain_name n \<and> n \<in> set (map fst flags)) nvs"
  shows "parse_flags flags (map assign_arg nvs) c =
    (case assign_all flags nvs c of Some c \<Rightarrow> Parsed c | None \<Rightarrow> Exits 2)"
  using assms
proof (induction nvs arbitrary: c)
  case (Cons nv nvs)
  obtain n v where nv: "nv = (n, v)" by fastforce
  with Cons.prems have plain: "plain_name n" and "n \<in> fst ` set flags" by auto
  then obtain f where f: "map_of flags n = Some f"
    by (metis domD dom_map_of_conv_image_fst)
  have "classify_arg (assign_arg nv) = FlagArg n (Some v)"
    using plain split_value_assign [of n v]
    by (simp add: nv assign_arg_def classify_arg_def plain_name_def)
  with Cons f show ?case by (simp add: nv split: option.splits)
qed simp

lemma config_flags_plain: "list_all (\<lambda>(n, f). plain_name n) config_flags"
  by code_simp

lemma map_of_on_fst: "map_of (map (map_prod id on_fst) fs) n = map_option on_fst (map_of fs n)"
  by (induction fs) auto

lemma all_flags_config:
  "n \<in> set (map fst config_flags) \<Longrightarrow>
     map_of (all_flags others) n = map_option on_fst (map_of config_flags n)"
  by (auto simp: all_flags_def map_add_def map_of_on_fst map_of_eq_None_iff split: option.splits)

lemma assign_all_config:
  "list_all (\<lambda>(n, v). n \<in> set (map fst config_flags)) nvs \<Longrightarrow>
     assign_all (all_flags others) nvs (cfg, opts) =
       map_option (\<lambda>cfg. (cfg, opts)) (assign_all config_flags nvs cfg)"
proof (induction nvs arbitrary: cfg)
  case (Cons nv nvs)
  obtain n v where nv: "nv = (n, v)" by fastforce
  have lift: "flag_set (on_fst f) v (cfg, opts) = map_option (\<lambda>cfg. (cfg, opts)) (flag_set f v cfg)" for f
    by (cases f) (simp_all add: option.map_comp comp_def)
  show ?case
  proof (cases "map_of config_flags n")
    case None
    with Cons.prems show ?thesis by (auto simp: nv map_of_eq_None_iff)
  next
    case (Some f)
    with Cons show ?thesis
      by (cases "flag_set f v cfg") (simp_all add: nv all_flags_config lift)
  qed
qed simp

section \<open>What each flag is for\<close>

text \<open>
  The settings as the documentation has them: which field of the configuration a flag sets, and of
  which type it is. The table reads fields; the program's table of flags writes them.
\<close>

datatype setting =
  StringSetting "Config \<Rightarrow> string" | IntSetting "Config \<Rightarrow> int" | BoolSetting "Config \<Rightarrow> bool"

definition settings :: "(string \<times> setting) list" where
  "settings =
     [(''gateway-name'', StringSetting cfg_GatewayName), (''gateway-namespace'', StringSetting cfg_GatewayNamespace),
      (''namespace'', StringSetting cfg_Namespace), (''output'', StringSetting cfg_Output),
      (''site-id'', StringSetting cfg_SiteID), (''target-hostname'', StringSetting cfg_TargetHostname),
      (''target-port'', IntSetting cfg_TargetPort), (''target-method'', StringSetting cfg_TargetMethod),
      (''deny-countries'', StringSetting cfg_DenyCountries), (''ssl'', BoolSetting cfg_SSL),
      (''annotation-prefix'', StringSetting cfg_AnnotationPrefix), (''enable-service'', BoolSetting cfg_EnableService),
      (''auto-service'', BoolSetting cfg_AutoService), (''all-ports'', BoolSetting cfg_AllPorts),
      (''auth-sso-roles'', StringSetting cfg_AuthSSORoles), (''auth-sso-users'', StringSetting cfg_AuthSSOUsers),
      (''auth-sso-idp'', IntSetting cfg_AuthSSOIDP), (''auth-whitelist-users'', StringSetting cfg_AuthWhitelistUsers),
      (''health-port'', IntSetting cfg_HealthPort)]"

fun is_value :: "setting \<Rightarrow> string \<Rightarrow> bool" where
  "is_value (StringSetting get) v = True"
| "is_value (IntSetting get) v = (ParseInt0 v \<noteq> None)"
| "is_value (BoolSetting get) v = (ParseBool v \<noteq> None)"

fun has_value :: "setting \<Rightarrow> Config \<Rightarrow> string \<Rightarrow> bool" where
  "has_value (StringSetting get) cfg v = (get cfg = v)"
| "has_value (IntSetting get) cfg v = (ParseInt0 v = Some (get cfg))"
| "has_value (BoolSetting get) cfg v = (ParseBool v = Some (get cfg))"

fun same_value :: "setting \<Rightarrow> Config \<Rightarrow> Config \<Rightarrow> bool" where
  "same_value (StringSetting get) cfg cfg' = (get cfg = get cfg')"
| "same_value (IntSetting get) cfg cfg' = (get cfg = get cfg')"
| "same_value (BoolSetting get) cfg cfg' = (get cfg = get cfg')"

lemma same_value_trans:
  "same_value st a b \<Longrightarrow> same_value st b c \<Longrightarrow> same_value st a c"
  "has_value st b v \<Longrightarrow> same_value st b c \<Longrightarrow> has_value st c v"
  by (cases st; simp)+

text \<open>Each flag sets its own field and no other.\<close>

definition sets_only :: "string \<Rightarrow> setting \<Rightarrow> bool" where
  "sets_only n st \<longleftrightarrow>
     (\<exists>f. map_of config_flags n = Some f \<and>
       (\<forall>v c. case flag_set f v c of
          None \<Rightarrow> \<not> is_value st v
        | Some c' \<Rightarrow> is_value st v \<and> has_value st c' v \<and>
            list_all (\<lambda>(m, st'). m = n \<or> same_value st' c c') settings))"

lemma settings_set: "list_all (\<lambda>(n, st). sets_only n st) settings"
  unfolding settings_def
  by (simp add: sets_only_def config_flags_def settings_def split: option.splits)

lemma settings_names: "fst ` set settings = set (map fst config_flags)" "distinct (map fst settings)"
  by (simp add: settings_def config_flags_def) (simp add: settings_def)

lemma assign_all_settings:
  assumes "list_all (\<lambda>(n, v). n \<in> fst ` set settings) nvs"
  shows "case assign_all config_flags nvs c of
      None \<Rightarrow> \<exists>n v st. (n, v) \<in> set nvs \<and> (n, st) \<in> set settings \<and> \<not> is_value st v
    | Some c' \<Rightarrow> (\<forall>n v st. (n, v) \<in> set nvs \<and> (n, st) \<in> set settings \<longrightarrow> is_value st v) \<and>
        (\<forall>(n, st) \<in> set settings.
          case map_of (rev nvs) n of Some v \<Rightarrow> has_value st c' v | None \<Rightarrow> same_value st c c')"
  using assms
proof (induction nvs arbitrary: c)
  case Nil
  have "same_value st c c" for st by (cases st) simp_all
  then show ?case by auto
next
  case (Cons nv nvs)
  obtain n v where nv: "nv = (n, v)" by fastforce
  with Cons.prems obtain st where st: "(n, st) \<in> set settings" by auto
  have unique: "st' = st" if "(n, st') \<in> set settings" for st'
    using that st settings_names(2) by (metis map_of_is_SomeI option.inject)
  from settings_set st have "sets_only n st" by (auto simp: list_all_iff)
  then obtain f where f: "map_of config_flags n = Some f"
    and set: "\<And>v c. case flag_set f v c of None \<Rightarrow> \<not> is_value st v
      | Some c' \<Rightarrow> is_value st v \<and> has_value st c' v \<and> list_all (\<lambda>(m, st'). m = n \<or> same_value st' c c') settings"
    by (auto simp: sets_only_def)
  show ?case
  proof (cases "flag_set f v c")
    case None
    with set [of v c] st f show ?thesis by (auto simp: nv)
  next
    case (Some c1)
    with set [of v c] have 1: "is_value st v" "has_value st c1 v"
      "\<And>m st'. (m, st') \<in> set settings \<Longrightarrow> m = n \<or> same_value st' c c1" by (auto simp: list_all_iff)
    from Cons have IH: "case assign_all config_flags nvs c1 of
        None \<Rightarrow> \<exists>n v st. (n, v) \<in> set nvs \<and> (n, st) \<in> set settings \<and> \<not> is_value st v
      | Some c' \<Rightarrow> (\<forall>n v st. (n, v) \<in> set nvs \<and> (n, st) \<in> set settings \<longrightarrow> is_value st v) \<and>
          (\<forall>(n, st) \<in> set settings.
            case map_of (rev nvs) n of Some v \<Rightarrow> has_value st c' v | None \<Rightarrow> same_value st c1 c')" by simp
    show ?thesis
    proof (cases "assign_all config_flags nvs c1")
      case None
      with IH f Some show ?thesis by (auto simp: nv)
    next
      case (Some c')
      with IH have rest: "\<And>n v st. (n, v) \<in> set nvs \<Longrightarrow> (n, st) \<in> set settings \<Longrightarrow> is_value st v"
        "\<And>m st'. (m, st') \<in> set settings \<Longrightarrow>
          case map_of (rev nvs) m of Some v \<Rightarrow> has_value st' c' v | None \<Rightarrow> same_value st' c1 c'" by auto
      have "case map_of (rev (nv # nvs)) m of Some v \<Rightarrow> has_value st' c' v | None \<Rightarrow> same_value st' c c'"
        if m: "(m, st') \<in> set settings" for m st'
        using rest(2) [OF m] 1(2) 1(3) [OF m] unique m
        by (auto simp: nv map_add_def split: option.splits intro: same_value_trans)
      then show ?thesis using Some \<open>flag_set f v c = Some c1\<close> f rest(1) 1(1) unique by (auto simp: nv)
    qed
  qed
qed

text \<open>
  C34. Every setting can be given on the command line and overrides the environment, which overrides
  the defaults. When the environment is readable and the arguments have the form \<open>--name=value\<close>
  with names of settings, then: if some value does not parse, the process exits with code 2;
  otherwise each of the nineteen settings has, in its own field of the loaded configuration, the
  last value given for it, or what the environment (over the defaults) gave if none was given.
\<close>

theorem Load_precedence:
  assumes "env_Parse default_config = Inr cfg" and "list_all (\<lambda>(n, v). n \<in> fst ` set settings) nvs"
  shows "if \<exists>n v st. (n, v) \<in> set nvs \<and> (n, st) \<in> set settings \<and> \<not> is_value st v
    then Load env_Parse others (map assign_arg nvs) opts = LoadExits 2
    else \<exists>cfg'. Load env_Parse others (map assign_arg nvs) opts = Loaded (cfg', opts) \<and>
      (\<forall>(n, st) \<in> set settings.
        case map_of (rev nvs) n of Some v \<Rightarrow> has_value st cfg' v | None \<Rightarrow> same_value st cfg cfg')"
proof -
  have names: "list_all (\<lambda>(n, v). n \<in> set (map fst config_flags)) nvs"
    using assms(2) settings_names(1) by simp
  then have "list_all (\<lambda>(n, v). plain_name n \<and> n \<in> set (map fst (all_flags others))) nvs"
    using config_flags_plain by (auto simp: list_all_iff all_flags_def image_iff) fastforce+
  from parse_assign [OF this, of "(cfg, opts)"] assign_all_config [OF names, of others cfg opts] assms(1)
  have load: "Load env_Parse others (map assign_arg nvs) opts =
      (case assign_all config_flags nvs cfg of Some cfg' \<Rightarrow> Loaded (cfg', opts) | None \<Rightarrow> LoadExits 2)"
    by (cases "assign_all config_flags nvs cfg") (simp_all add: Load_def newConfig_def)
  show ?thesis
  proof (cases "assign_all config_flags nvs cfg")
    case None
    with assign_all_settings [OF assms(2), of cfg] load show ?thesis by simp
  next
    case (Some cfg')
    with assign_all_settings [OF assms(2), of cfg] load show ?thesis by auto
  qed
qed

theorem Load_precedence_witness:
  "\<exists>cfg'. Load (\<lambda>c. Inr (c\<lparr>cfg_SiteID := ''env'', cfg_TargetPort := 80\<rparr>)) ([] :: (string \<times> unit flag_var) list)
     [''--site-id=a'', ''--target-hostname=gw'', ''--ssl=F'', ''--site-id=b''] () = Loaded (cfg', ()) \<and>
   cfg_SiteID cfg' = ''b'' \<and> cfg_TargetHostname cfg' = ''gw'' \<and> cfg_TargetPort cfg' = 80 \<and> \<not> cfg_SSL cfg' \<and>
   cfg_Output cfg' = ''/etc/newt/blueprint.yaml''"
proof -
  let ?env = "\<lambda>c. Inr (c\<lparr>cfg_SiteID := ''env'', cfg_TargetPort := 80\<rparr>) :: string + Config"
  let ?cfg = "default_config\<lparr>cfg_SiteID := ''env'', cfg_TargetPort := 80\<rparr>"
  let ?nvs = "[(''site-id'', ''a''), (''target-hostname'', ''gw''), (''ssl'', ''F''), (''site-id'', ''b'')]"
  have 1: "?env default_config = Inr ?cfg" by simp
  have 2: "list_all (\<lambda>(n, v). n \<in> fst ` set settings) ?nvs" by (simp add: settings_def)
  have 3: "\<not> (\<exists>n v st. (n, v) \<in> set ?nvs \<and> (n, st) \<in> set settings \<and> \<not> is_value st v)"
    by (auto simp: settings_def ParseBool_def)
  obtain cfg' where load: "Load ?env ([] :: (string \<times> unit flag_var) list) (map assign_arg ?nvs) () = Loaded (cfg', ())"
    and vals: "\<forall>(n, st) \<in> set settings. case map_of (rev ?nvs) n of Some v \<Rightarrow> has_value st cfg' v | None \<Rightarrow> same_value st ?cfg cfg'"
    using Load_precedence [of ?env ?cfg ?nvs "[] :: (string \<times> unit flag_var) list" "()", OF 1 2] 3 by (auto simp only: if_False)
  from vals have "cfg_SiteID cfg' = ''b'' \<and> cfg_TargetHostname cfg' = ''gw'' \<and> cfg_TargetPort cfg' = 80 \<and> \<not> cfg_SSL cfg' \<and>
      cfg_Output cfg' = ''/etc/newt/blueprint.yaml''"
    by (simp add: settings_def ParseBool_def default_config_def)
  with load show ?thesis by (simp add: assign_arg_def)
qed

end
