(* ===== verification/Startup.thy ===== *)
theory Startup
  imports Controller Flags PublicReconciler PrivateReconciler
begin

text \<open>
  The main program (\<open>cmd/root.go\<close>): flags, configuration, clients, controllers, the
  controller-runtime manager. Everything the libraries answer is in the record \<open>StartEnv\<close>; an
  error is the text of a non-nil error. The result is the exit code or what is running.
\<close>

section \<open>Model\<close>

record MainOptions =
  mo_metricsAddr :: string
  mo_enableLeaderElection :: bool
  mo_secureMetrics :: bool
  mo_enableHTTP2 :: bool
  mo_metricsServiceName :: string
  mo_certSecretName :: string
  mo_logLevel :: string

definition default_options :: MainOptions where
  "default_options =
     \<lparr>mo_metricsAddr = ''0'', mo_enableLeaderElection = False, mo_secureMetrics = False,
      mo_enableHTTP2 = False, mo_metricsServiceName = ''newt-sidecar-metrics-service'',
      mo_certSecretName = ''newt-sidecar-metrics-cert'', mo_logLevel = ''info''\<rparr>"

definition main_flags :: "(string \<times> MainOptions flag_var) list" where
  "main_flags =
     [(''metrics-bind-address'', StringVar (\<lambda>v m. m\<lparr>mo_metricsAddr := v\<rparr>)),
      (''leader-elect'', BoolVar (\<lambda>v m. m\<lparr>mo_enableLeaderElection := v\<rparr>)),
      (''metrics-secure'', BoolVar (\<lambda>v m. m\<lparr>mo_secureMetrics := v\<rparr>)),
      (''enable-http2'', BoolVar (\<lambda>v m. m\<lparr>mo_enableHTTP2 := v\<rparr>)),
      (''metrics-service-name'', StringVar (\<lambda>v m. m\<lparr>mo_metricsServiceName := v\<rparr>)),
      (''cert-secret-name'', StringVar (\<lambda>v m. m\<lparr>mo_certSecretName := v\<rparr>)),
      (''log-level'', StringVar (\<lambda>v m. m\<lparr>mo_logLevel := v\<rparr>))]"

text \<open>
  What is outside: the environment, the arguments, flags of libraries (which store into a value of
  type \<open>'o\<close>), the answers of the Kubernetes libraries, and which caches sync.
\<close>

record 'o StartEnv =
  st_env_Parse :: env_parser
  st_args :: "string list"
  st_lib_flags :: "(string \<times> 'o flag_var) list"
  st_lib_opts :: 'o
  st_KUBERNETES_SERVICE_HOST :: string
  st_CONTROLLER_NAMESPACE :: string
  st_InClusterConfig :: "string option"
  st_ClientConfig :: "string option"
  st_dynamic_NewForConfig :: "string option"
  st_kubernetes_NewForConfig :: "string option"
  st_WaitForCacheSync :: "GroupVersionResource \<Rightarrow> bool"
  st_ctrl_NewManager :: "string option"
  st_AddRotator :: "string option"
  st_ServerResourcesForGroupVersion :: "string \<Rightarrow> string option"
  st_Complete :: completer
  st_clientgoscheme :: "string option"
  st_AddToScheme :: "string \<Rightarrow> api_type list \<Rightarrow> string option"

record MetricsOptions =
  mx_BindAddress :: string
  mx_SecureServing :: bool
  mx_disableHTTP2 :: bool
  mx_authFilter :: bool

record CertRotator =
  cr_Namespace :: string
  cr_SecretName :: string
  cr_DNSName :: string
  cr_ExtraDNSNames :: "string list"

text \<open>What the informers are created with: the resync period in nanoseconds and the namespace.\<close>

record InformerFactory =
  if_Resync :: int
  if_Namespace :: string

record 'u Sidecar =
  sc_cfg :: Config
  sc_manager :: Manager
  sc_health :: "int option"
  sc_factory :: InformerFactory
  sc_controllers :: "'u Controller list"
  sc_development :: bool
  sc_metrics :: MetricsOptions
  sc_leaderElection :: bool
  sc_rotator :: "CertRotator option"
  sc_crds :: bool

datatype 'u main_result = ExitsWith int | Starts "'u Sidecar"

definition getKubeConfig :: "'o StartEnv \<Rightarrow> string option" where
  "getKubeConfig e =
     (if st_KUBERNETES_SERVICE_HOST e \<noteq> []
      then map_option (\<lambda>err. ''in-cluster config: '' @ err) (st_InClusterConfig e)
      else map_option (\<lambda>err. ''kubeconfig: '' @ err) (st_ClientConfig e))"

definition crdInstalled :: "'o StartEnv \<Rightarrow> string \<Rightarrow> bool" where
  "crdInstalled e groupVersion = (st_ServerResourcesForGroupVersion e groupVersion = None)"

definition main_controllers :: "'u converter \<Rightarrow> Config \<Rightarrow> 'u Controller list" where
  "main_controllers conv cfg =
     (if cfg_GatewayName cfg \<noteq> [] then [New (httproute_Definition conv) cfg] else []) @
     (if cfg_EnableService cfg \<or> cfg_AutoService cfg then [New (service_Definition conv) cfg] else [])"

definition metrics_options :: "MainOptions \<Rightarrow> MetricsOptions" where
  "metrics_options opts =
     \<lparr>mx_BindAddress = mo_metricsAddr opts, mx_SecureServing = mo_secureMetrics opts,
      mx_disableHTTP2 = (\<not> mo_enableHTTP2 opts), mx_authFilter = mo_secureMetrics opts\<rparr>"

definition cert_rotator :: "'o StartEnv \<Rightarrow> MainOptions \<Rightarrow> CertRotator option" where
  "cert_rotator e opts =
     (if mo_secureMetrics opts then
        let ns = (if st_CONTROLLER_NAMESPACE e = [] then ''default'' else st_CONTROLLER_NAMESPACE e)
        in Some \<lparr>cr_Namespace = ns, cr_SecretName = mo_certSecretName opts,
             cr_DNSName = mo_metricsServiceName opts @ ''.'' @ ns @ ''.svc'',
             cr_ExtraDNSNames = [mo_metricsServiceName opts @ ''.'' @ ns @ ''.svc.cluster.local'']\<rparr>
      else None)"

text \<open>The part of \<open>main\<close> after the configuration is loaded and found valid.\<close>

definition main_start :: "'u converter \<Rightarrow> 'o StartEnv \<Rightarrow> Config \<Rightarrow> MainOptions \<Rightarrow> 'u main_result" where
  "main_start conv e cfg opts =
     (if getKubeConfig e \<noteq> None then ExitsWith 1
      else if st_dynamic_NewForConfig e \<noteq> None then ExitsWith 1
      else if st_kubernetes_NewForConfig e \<noteq> None then ExitsWith 1
      else
        let stateManager = NewManager (cfg_Output cfg);
          health = (if cfg_HealthPort cfg \<noteq> 0 then Some (cfg_HealthPort cfg) else None);
          factory = \<lparr>if_Resync = 5 * 60 * 1000000000, if_Namespace = cfg_Namespace cfg\<rparr>;
          controllers = main_controllers conv cfg
        in if \<not> list_all (\<lambda>c. st_WaitForCacheSync e (ctl_gvr c)) controllers then ExitsWith 1
           else if st_ctrl_NewManager e \<noteq> None then ExitsWith 1
           else if mo_secureMetrics opts \<and> st_AddRotator e \<noteq> None then ExitsWith 1
           else if crdInstalled e GroupVersion \<and> private_SetupWithManager (st_Complete e) \<noteq> None then ExitsWith 1
           else if crdInstalled e GroupVersion \<and> public_SetupWithManager (st_Complete e) \<noteq> None then ExitsWith 1
           else Starts
             \<lparr>sc_cfg = cfg, sc_manager = stateManager, sc_health = health, sc_factory = factory,
              sc_controllers = controllers, sc_development = (ToLower (mo_logLevel opts) = ''debug''),
              sc_metrics = metrics_options opts, sc_leaderElection = mo_enableLeaderElection opts,
              sc_rotator = cert_rotator e opts, sc_crds = crdInstalled e GroupVersion\<rparr>)"

definition main :: "'u converter \<Rightarrow> 'o StartEnv \<Rightarrow> 'u main_result" where
  "main conv e =
     (let others = map (map_prod id on_fst) main_flags @ map (map_prod id on_snd) (st_lib_flags e)
      in case Load (st_env_Parse e) others (st_args e) (default_options, st_lib_opts e) of
           LoadFails err \<Rightarrow> ExitsWith 1
         | LoadExits n \<Rightarrow> ExitsWith n
         | Loaded (cfg, opts, lib) \<Rightarrow>
           if Validate cfg \<noteq> None then ExitsWith 1 else main_start conv e cfg opts)"

text \<open>
  The initialisation before \<open>main\<close>: an error while the types are added to the scheme is a panic,
  which ends the process with code 2.
\<close>

definition init_scheme :: "'o StartEnv \<Rightarrow> string option" where
  "init_scheme e =
     (case st_clientgoscheme e of
        Some err \<Rightarrow> Some err
      | None \<Rightarrow> st_AddToScheme e GroupVersion SchemeBuilder)"

definition program :: "'u converter \<Rightarrow> 'o StartEnv \<Rightarrow> 'u main_result" where
  "program conv e = (if init_scheme e \<noteq> None then ExitsWith 2 else main conv e)"

text \<open>The final \<open>select\<close>: a signal ends the process normally, an error of a controller with code 1.\<close>

datatype end_cause = SignalReceived | ControllerFailed string

fun main_exit :: "end_cause \<Rightarrow> int" where
  "main_exit SignalReceived = 0"
| "main_exit (ControllerFailed err) = 1"

section \<open>What is running\<close>

lemma main_Starts:
  assumes "main conv e = Starts p"
  shows "Validate (sc_cfg p) = None" "sc_controllers p = main_controllers conv (sc_cfg p)"
    "sc_manager p = NewManager (cfg_Output (sc_cfg p))"
    "list_all (\<lambda>c. st_WaitForCacheSync e (ctl_gvr c)) (sc_controllers p)"
    "sc_crds p = crdInstalled e GroupVersion"
    "mx_authFilter (sc_metrics p) = mx_SecureServing (sc_metrics p)"
  using assms
  by (auto simp: main_def main_start_def Let_def metrics_options_def
      split: load_result.splits if_splits)

lemma program_Starts: "program conv e = Starts p \<Longrightarrow> main conv e = Starts p \<and> init_scheme e = None"
  by (simp add: program_def split: if_splits)

text \<open>
  C33. A sidecar that starts is fit to run: it has a site, at least one controller, an HTTPRoute
  controller exactly when a gateway is configured (and then a target host name) and a Service
  controller exactly when Services are enabled; every cache is synced, every controller uses the
  loaded configuration and starts unsynced and without keys, the state manager is empty and
  writes to the configured file, and secure metrics are always authenticated.
\<close>

theorem main_starts_fit:
  assumes "main conv e = Starts p"
  shows "let cfg = sc_cfg p in
    cfg_SiteID cfg \<noteq> [] \<and> sc_controllers p \<noteq> [] \<and>
    map GVRString (sc_controllers p) =
      (if cfg_GatewayName cfg \<noteq> [] then [''httproutes''] else []) @
      (if cfg_EnableService cfg \<or> cfg_AutoService cfg then [''services''] else []) \<and>
    (''httproutes'' \<in> set (map GVRString (sc_controllers p)) \<longrightarrow> cfg_TargetHostname cfg \<noteq> []) \<and>
    list_all (\<lambda>c. st_WaitForCacheSync e (ctl_gvr c) \<and> ctl_cfg c = cfg \<and> \<not> ctl_synced c \<and>
      ctl_resourceKeys c = Map.empty) (sc_controllers p) \<and>
    sc_manager p = NewManager (cfg_Output cfg) \<and>
    mx_authFilter (sc_metrics p) = mx_SecureServing (sc_metrics p)"
  using main_Starts [OF assms]
  by (auto simp: Let_def Validate_None main_controllers_def GVRString_def New_def
      httproute_Definition_def service_Definition_def split: if_splits)

definition example_start :: "unit StartEnv" where
  "example_start =
     \<lparr>st_env_Parse = Inr, st_args = [''--site-id'', ''home'', ''--auto-service''],
      st_lib_flags = [], st_lib_opts = (), st_KUBERNETES_SERVICE_HOST = ''10.0.0.1'',
      st_CONTROLLER_NAMESPACE = [], st_InClusterConfig = None, st_ClientConfig = None,
      st_dynamic_NewForConfig = None, st_kubernetes_NewForConfig = None,
      st_WaitForCacheSync = (\<lambda>_. True), st_ctrl_NewManager = None, st_AddRotator = None,
      st_ServerResourcesForGroupVersion = (\<lambda>_. Some ''not found''), st_Complete = (\<lambda>_. None),
      st_clientgoscheme = None, st_AddToScheme = (\<lambda>_ _. None)\<rparr>"

theorem main_starts_fit_witness:
  "\<exists>p. main (\<lambda>t (u :: unit). Inl []) example_start = Starts p \<and>
     map GVRString (sc_controllers p) = [''services''] \<and> cfg_SiteID (sc_cfg p) = ''home''"
proof -
  let ?cfg = "default_config\<lparr>cfg_SiteID := ''home'', cfg_AutoService := True\<rparr>"
  obtain p where p: "main (\<lambda>t (u :: unit). Inl []) example_start = Starts p" "sc_cfg p = ?cfg"
    by (simp add: main_def example_start_def Load_def newConfig_def classify_arg_def split_value_def
        all_flags_def config_flags_def ParseBool_def Validate_def default_config_def main_start_def
        getKubeConfig_def crdInstalled_def Let_def list_all_iff)
  with main_starts_fit [OF p(1)] show ?thesis
    by (intro exI [of _ p]) (simp add: Let_def default_config_def)
qed

end
