(* ===== verification/Program.thy ===== *)
theory Program
  imports PublicReconciler PrivateReconciler Startup
begin

text \<open>
  The whole program as it runs after \<open>main\<close> (\<open>cmd/root.go\<close>): the informer controllers, the
  reconcilers of the custom resources and the state manager they share, at the level of whole
  actions.
\<close>

section \<open>Actions\<close>

text \<open>
  The program reacts by one of four actions: the \<open>Run\<close> of a controller passes its cache sync,
  a handler of one of the controllers runs, or a custom resource is reconciled (if the custom
  resources are installed). Controllers are numbered in the order in which \<open>main\<close> creates them.
\<close>

datatype 'u action =
  RunController nat Env
| InformerEvent nat "Env \<times> 'u event"
| PublicRequest PublicClient Request
| PrivateRequest private_client Request

type_synonym 'u pstate = "'u Controller list \<times> mstate"

definition on_controller :: "nat \<Rightarrow> ('u cstate \<Rightarrow> 'u cstate) \<Rightarrow> 'u pstate \<Rightarrow> 'u pstate" where
  "on_controller i f ps =
     (let (cs, s) = ps in if i < length cs then let (c, s) = f (cs ! i, s) in (cs[i := c], s) else ps)"

fun act :: "marshaller \<Rightarrow> 'u Sidecar \<Rightarrow> 'u action \<Rightarrow> 'u pstate \<Rightarrow> 'u pstate" where
  "act marshal p (RunController i env) ps = on_controller i (\<lambda>cs. snd (Run env True cs)) ps"
| "act marshal p (InformerEvent i ev) ps = on_controller i (handle ev) ps"
| "act marshal p (PublicRequest client req) (cs, s) =
     (cs, if sc_crds p then snd (public_Reconcile marshal (cfg_SiteID (sc_cfg p)) client req s) else s)"
| "act marshal p (PrivateRequest client req) (cs, s) =
     (cs, if sc_crds p then snd (private_Reconcile marshal (cfg_SiteID (sc_cfg p)) client req s) else s)"

definition run_sidecar :: "marshaller \<Rightarrow> 'u Sidecar \<Rightarrow> World \<Rightarrow> 'u action list \<Rightarrow> 'u pstate" where
  "run_sidecar marshal p w acts = fold (act marshal p) acts (sc_controllers p, (sc_manager p, w))"

lemma on_controller_eq:
  "on_controller i f (cs, s) =
     (if i < length cs then (cs[i := fst (f (cs ! i, s))], snd (f (cs ! i, s))) else (cs, s))"
  by (simp add: on_controller_def split_def Let_def)

text \<open>An invariant of the program: one of each controller together with one of the shared state.\<close>

lemma run_sidecar_invariant:
  assumes step: "\<And>a ps. a \<in> set acts \<Longrightarrow> P ps \<Longrightarrow> P (act marshal p a ps)"
    and init: "P (sc_controllers p, (sc_manager p, w))"
  shows "P (run_sidecar marshal p w acts)"
proof -
  have "P (fold (act marshal p) acts ps)" if "P ps" for ps
    using that step by (induction acts arbitrary: ps) simp_all
  with init show ?thesis by (simp add: run_sidecar_def)
qed

lemma list_all_update: "list_all P cs \<Longrightarrow> P c \<Longrightarrow> list_all P (cs[i := c])"
  by (auto simp: list_all_iff dest: set_update_subset_insert [THEN subsetD])

lemma list_all_at: "list_all P cs \<Longrightarrow> i < length cs \<Longrightarrow> P (cs ! i)"
  by (simp add: list_all_length)

text \<open>The orders that the loops of an action take are orders of its map.\<close>

fun good_action :: "'u action \<Rightarrow> bool" where
  "good_action (RunController i env) \<longleftrightarrow> good_env env"
| "good_action (InformerEvent i (env, e)) \<longleftrightarrow> good_env env"
| "good_action _ \<longleftrightarrow> True"

text \<open>Which action does what to which entries.\<close>

lemma Run_keeps [simp]:
  "mgr_resources (fst (snd (snd (Run env b (c, s))))) = mgr_resources (fst s)"
  "mgr_privateResources (fst (snd (snd (Run env b (c, s))))) = mgr_privateResources (fst s)"
  "ctl_handler (fst (snd (Run env b (c, s)))) = ctl_handler c"
  "ctl_cfg (fst (snd (Run env b (c, s)))) = ctl_cfg c"
  "ctl_convert (fst (snd (Run env b (c, s)))) = ctl_convert c"
  "ctl_resourceKeys (fst (snd (Run env b (c, s)))) = ctl_resourceKeys c"
  by (simp_all add: Run_def ForceWrite_def store_simps)

lemma Remove_private: "mgr_privateResources (fst (snd (Remove marshal k s))) = mgr_privateResources (fst s)"
  by (auto simp: op_defs store_simps split: prod.splits)

lemma AddOrUpdate_private:
  "mgr_privateResources (fst (snd (AddOrUpdate marshal k r b s))) = mgr_privateResources (fst s)"
  by (auto simp: op_defs store_simps split: prod.splits)

lemma loops_private:
  "mgr_privateResources (fst (remove_loop marshal ks s)) = mgr_privateResources (fst s)"
  "mgr_privateResources (fst (update_loop marshal b es ks s)) = mgr_privateResources (fst s)"
  by (induction ks arbitrary: s) (simp_all add: Remove_private AddOrUpdate_private split: option.splits)

lemma handle_private: "mgr_privateResources (fst (snd (handle ev (c, s)))) = mgr_privateResources (fst s)"
  by (cases rule: handle_cases [of ev c s])
    (simp_all add: processObject_eq removeObject_eq loops_private Let_def)

lemma public_Reconcile_private:
  "mgr_privateResources (fst (snd (public_Reconcile marshal site client req s))) = mgr_privateResources (fst s)"
  by (auto simp: public_Reconcile_def Remove_private AddOrUpdate_private split: get_result.splits option.splits)

lemma private_Reconcile_public:
  "mgr_resources (fst (snd (private_Reconcile marshal site get req s))) = mgr_resources (fst s)"
  by (auto simp: private_Reconcile_def op_defs store_simps split: get_result.splits option.splits prod.splits)

section \<open>What the cluster asks for\<close>

text \<open>
  Who stands behind a public entry: an object seen by one of the controllers, or a PublicResource
  by its namespace and name. Behind a private entry stands a PrivateResource, by namespace and name.
\<close>

datatype owner = ObjectOf nat string | CustomResource string string

definition custom :: "Request \<Rightarrow> owner" where
  "custom req = CustomResource (req_Namespace req) (req_Name req)"

type_synonym private_view = "string \<times> string \<rightharpoonup> PrivateResource"

text \<open>The definition and configuration of each controller.\<close>

type_synonym 'u specs = "('u ResourceDefinition \<times> Config) list"

definition specs_of :: "'u Sidecar \<Rightarrow> 'u specs" where
  "specs_of p = map (\<lambda>c. (ctl_handler c, ctl_cfg c)) (sc_controllers p)"

fun abs_act :: "'u Sidecar \<Rightarrow> 'u action \<Rightarrow> (owner \<rightharpoonup> entries) \<Rightarrow> (owner \<rightharpoonup> entries)" where
  "abs_act p (InformerEvent i ev) V =
     (if i < length (specs_of p)
      then case event_effect (fst (specs_of p ! i)) (snd (specs_of p ! i)) ev of
             None \<Rightarrow> V
           | Some (oid, es) \<Rightarrow> V(ObjectOf i oid := non_empty_entries es)
      else V)"
| "abs_act p (PublicRequest client req) V =
     (if sc_crds p
      then case public_want (cfg_SiteID (sc_cfg p)) client req of
             Gone \<Rightarrow> V(custom req := None)
           | Wanted r \<Rightarrow> V(custom req \<mapsto> [(req_Name req, r)])
           | _ \<Rightarrow> V
      else V)"
| "abs_act p _ V = V"

fun abs_private :: "'u Sidecar \<Rightarrow> 'u action \<Rightarrow> private_view \<Rightarrow> private_view" where
  "abs_private p (PrivateRequest client req) P =
     (if sc_crds p
      then case private_want (cfg_SiteID (sc_cfg p)) client req of
             Gone \<Rightarrow> P((req_Namespace req, req_Name req) := None)
           | Wanted r \<Rightarrow> P((req_Namespace req, req_Name req) \<mapsto> r)
           | _ \<Rightarrow> P
      else P)"
| "abs_private p _ P = P"

text \<open>
  Collisions: two owners claim the same key, or a custom resource is reconciled whose name is a key
  that somebody else holds, be it a route, a Service or an equally named resource of another
  namespace (its absence alone would remove that entry).
\<close>

fun trespasses :: "'u action \<Rightarrow> (owner \<rightharpoonup> entries) \<Rightarrow> private_view \<Rightarrow> bool" where
  "trespasses (PublicRequest client req) V P \<longleftrightarrow> (\<exists>who. who \<noteq> custom req \<and> req_Name req \<in> view_keys V who)"
| "trespasses (PrivateRequest client req) V P \<longleftrightarrow> (\<exists>ns. ns \<noteq> req_Namespace req \<and> P (ns, req_Name req) \<noteq> None)"
| "trespasses _ V P \<longleftrightarrow> False"

fun no_collisions :: "'u Sidecar \<Rightarrow> 'u action list \<Rightarrow> (owner \<rightharpoonup> entries) \<Rightarrow> private_view \<Rightarrow> bool" where
  "no_collisions p [] V P = separated V Map.empty"
| "no_collisions p (a # acts) V P =
     (separated V Map.empty \<and> \<not> trespasses a V P \<and> no_collisions p acts (abs_act p a V) (abs_private p a P))"

definition in_line :: "'u Sidecar \<Rightarrow> (owner \<rightharpoonup> entries) \<Rightarrow> 'u pstate \<Rightarrow> bool" where
  "in_line p V ps \<longleftrightarrow>
     length (fst ps) = length (specs_of p) \<and>
     (\<forall>i < length (specs_of p).
        records_view (fst (specs_of p ! i)) (snd (specs_of p ! i)) (\<lambda>oid. V (ObjectOf i oid)) (fst ps ! i)) \<and>
     (\<forall>ns n. view_keys V (CustomResource ns n) \<subseteq> {n}) \<and>
     represents V Map.empty (mgr_resources (fst (snd ps)))"

lemma no_collisions_now: "no_collisions p acts V P \<Longrightarrow> separated V Map.empty"
  by (cases acts) simp_all

lemma records_view_Run: "records_view d cfg v c \<Longrightarrow> records_view d cfg v (fst (snd (Run env b (c, s))))"
  by (simp add: records_view_def owned_def)

text \<open>Replacing the entries of an object of one controller leaves the views of the others alone.\<close>

lemma event_in_line:
  assumes line: "in_line p V (cs, s)" and env: "good_env (fst ev)"
    and sep: "separated V Map.empty" and sep': "separated (abs_act p (InformerEvent i ev) V) Map.empty"
  shows "in_line p (abs_act p (InformerEvent i ev) V) (on_controller i (handle ev) (cs, s))"
proof (cases "i < length (specs_of p)")
  case False
  with line show ?thesis by (simp add: on_controller_eq in_line_def)
next
  case True
  obtain d cfg where dc: "specs_of p ! i = (d, cfg)" by fastforce
  note l = line [unfolded in_line_def fst_conv snd_conv]
  from l True dc have rec: "records_view d cfg (\<lambda>oid. V (ObjectOf i oid)) (cs ! i)" by force
  from l have rep: "represents V Map.empty (mgr_resources (fst s))" by blast
  note new = handle_records [OF env rec, of s]
  show ?thesis
  proof (cases "event_effect d cfg ev")
    case None
    with handle_effect [OF env, of "cs ! i" s] rec have "handle ev (cs ! i, s) = (cs ! i, s)"
      by (simp add: records_view_def)
    with None dc line show ?thesis by (simp add: on_controller_eq list_update_id)
  next
    case (Some x)
    then obtain oid es where eff: "event_effect d cfg ev = Some (oid, es)" by (cases x) simp
    let ?V = "V(ObjectOf i oid := non_empty_entries es)"
    have V: "abs_act p (InformerEvent i ev) V = ?V" using True dc eff by simp
    have "represents ?V Map.empty (mgr_resources (fst (snd (handle ev (cs ! i, s)))))"
      using handle_represents [OF env, of d cfg V "ObjectOf i" "cs ! i" oid es Map.empty s] rec eff rep sep sep' V
      by simp
    moreover have "records_view (fst (specs_of p ! j)) (snd (specs_of p ! j)) (\<lambda>oid. ?V (ObjectOf j oid))
        (cs[i := fst (handle ev (cs ! i, s))] ! j)" if "j < length (specs_of p)" for j
    proof (cases "j = i")
      case True
      have "(\<lambda>oid'. ?V (ObjectOf i oid')) = abs_handle d cfg ev (\<lambda>oid. V (ObjectOf i oid))"
        by (simp add: abs_handle_def eff fun_eq_iff)
      with True new dc l that show ?thesis by simp
    qed (use l that in simp)
    moreover have "view_keys ?V (CustomResource ns n) = view_keys V (CustomResource ns n)" for ns n
      by (simp add: view_keys_def)
    ultimately show ?thesis using l True V by (simp add: in_line_def on_controller_eq)
  qed
qed

lemma represents_key:
  "represents V Map.empty rs \<Longrightarrow> rs k = Some r \<Longrightarrow> \<exists>w. k \<in> view_keys V w"
  unfolding represents_def view_keys_def by (metis map_of_in_keys option.case(2) option.distinct(1))

lemma public_in_line:
  assumes line: "in_line p V (cs, s)" and crds: "sc_crds p" and own: "\<not> trespasses (PublicRequest client req) V P"
    and sep: "separated V Map.empty" and sep': "separated (abs_act p (PublicRequest client req) V) Map.empty"
  shows "in_line p (abs_act p (PublicRequest client req) V)
    (cs, snd (public_Reconcile marshal (cfg_SiteID (sc_cfg p)) client req s))"
proof -
  let ?k = "req_Name req" and ?rs = "mgr_resources (fst s)"
  let ?n = "custom req"
  note l = line [unfolded in_line_def fst_conv snd_conv]
  from l have rep: "represents V Map.empty ?rs" and keys: "\<And>ns m. view_keys V (CustomResource ns m) \<subseteq> {m}" by blast+
  have absent: "?rs ?k = None" if "?k \<notin> view_keys V ?n"
  proof (rule ccontr)
    assume "?rs ?k \<noteq> None"
    then obtain w where w: "?k \<in> view_keys V w" using represents_key [OF rep] by blast
    with that own show False by (cases "w = ?n") auto
  qed
  have replaced: "in_line p (V(?n := non_empty_entries es)) (cs, s')"
    if "mgr_resources (fst s') = ?rs(?k := map_of es ?k)" "set (keys es) \<subseteq> {?k}"
      "separated (V(?n := non_empty_entries es)) Map.empty" for es s'
  proof -
    have "map_of es k = None" if "k \<noteq> ?k" for k using that \<open>set (keys es) \<subseteq> {?k}\<close> by (auto simp: set_keys)
    then have "?rs |` (- view_keys V ?n) ++ map_of es = ?rs(?k := map_of es ?k)"
      using keys [of "req_Namespace req" ?k, folded custom_def] absent
      by (auto simp: fun_eq_iff restrict_map_def map_add_def split: option.splits)
    with represents_replace [OF rep sep that(3) refl] that(1)
    have "represents (V(?n := non_empty_entries es)) Map.empty (mgr_resources (fst s'))" by simp
    with l that(2) show ?thesis by (simp add: in_line_def records_view_def view_keys_def non_empty_entries_def custom_def)
  qed
  show ?thesis
  proof (cases "public_want (cfg_SiteID (sc_cfg p)) client req")
    case Gone
    with replaced [of _ "[]"] sep' crds show ?thesis
      by (simp add: non_empty_entries_def public_crd.reconcile_look)
  next
    case (Wanted r)
    with replaced [of _ "[(?k, r)]"] sep' crds show ?thesis
      by (simp add: non_empty_entries_def public_crd.reconcile_look)
  qed (use line crds in \<open>simp_all add: in_line_def public_crd.reconcile_look\<close>)
qed

lemma act_in_line:
  assumes line: "in_line p V ps" and good: "good_action a" and own: "\<not> trespasses a V P"
    and sep: "separated V Map.empty" and sep': "separated (abs_act p a V) Map.empty"
  shows "in_line p (abs_act p a V) (act marshal p a ps)"
proof -
  obtain cs s where ps: "ps = (cs, s)" by (cases ps)
  show ?thesis
  proof (cases a)
    case (RunController i env)
    with line show ?thesis
      by (auto simp: ps on_controller_eq in_line_def nth_list_update records_view_Run)
  next
    case (InformerEvent i ev)
    with event_in_line [of p V cs s ev i] line good sep sep' show ?thesis by (cases ev) (simp add: ps)
  next
    case (PublicRequest client req)
    with public_in_line [of p V cs s client req P marshal] line own sep sep' show ?thesis
      by (cases "sc_crds p") (simp_all add: ps)
  next
    case (PrivateRequest client req)
    with line show ?thesis by (simp add: ps in_line_def private_Reconcile_public)
  qed
qed

lemma acts_in_line:
  "list_all good_action acts \<Longrightarrow> no_collisions p acts V P \<Longrightarrow> in_line p V ps \<Longrightarrow>
     in_line p (fold (abs_act p) acts V) (fold (act marshal p) acts ps)"
proof (induction acts arbitrary: V P ps)
  case (Cons a acts)
  then have "in_line p (abs_act p a V) (act marshal p a ps)"
    by (intro act_in_line) (auto dest: no_collisions_now)
  with Cons.prems Cons.IH [of "abs_act p a V" "abs_private p a P"] show ?case by simp
qed simp

text \<open>Private entries: each name has at most one owner, whose entry it is.\<close>

definition private_in_line :: "private_view \<Rightarrow> (string \<rightharpoonup> PrivateResource) \<Rightarrow> bool" where
  "private_in_line P m \<longleftrightarrow>
     (\<forall>k r. m k = Some r \<longleftrightarrow> (\<exists>ns. P (ns, k) = Some r)) \<and>
     (\<forall>k ns ns'. P (ns, k) \<noteq> None \<and> P (ns', k) \<noteq> None \<longrightarrow> ns = ns')"

lemma private_replace:
  assumes line: "private_in_line P m" and free: "\<forall>ns'. ns' \<noteq> ns \<longrightarrow> P (ns', k) = None"
  shows "private_in_line (P((ns, k) := x)) (m(k := x))"
  unfolding private_in_line_def
proof (intro conjI allI impI)
  fix k' r
  show "(m(k := x)) k' = Some r \<longleftrightarrow> (\<exists>ns'. (P((ns, k) := x)) (ns', k') = Some r)"
    using line free by (cases "k' = k") (auto simp: private_in_line_def)
next
  fix k' ns1 ns2
  assume "(P((ns, k) := x)) (ns1, k') \<noteq> None \<and> (P((ns, k) := x)) (ns2, k') \<noteq> None"
  with line free show "ns1 = ns2" unfolding private_in_line_def by (auto split: if_splits)
qed

lemma act_private:
  assumes "private_in_line P (mgr_privateResources (fst (snd ps)))" and "\<not> trespasses a V P"
  shows "private_in_line (abs_private p a P) (mgr_privateResources (fst (snd (act marshal p a ps))))"
proof -
  obtain cs s where ps: "ps = (cs, s)" by (cases ps)
  show ?thesis
  proof (cases a)
    case (PrivateRequest client req)
    with assms private_replace [of P "mgr_privateResources (fst s)" "req_Namespace req" "req_Name req"]
    show ?thesis
      by (cases "private_want (cfg_SiteID (sc_cfg p)) client req") (auto simp: ps private_crd.reconcile_look)
  qed (use assms(1) in \<open>simp_all add: ps on_controller_eq handle_private public_Reconcile_private\<close>)
qed

lemma acts_private:
  "no_collisions p acts V P \<Longrightarrow> private_in_line P (mgr_privateResources (fst (snd ps))) \<Longrightarrow>
     private_in_line (fold (abs_private p) acts P) (mgr_privateResources (fst (snd (fold (act marshal p) acts ps))))"
proof (induction acts arbitrary: V P ps)
  case (Cons a acts)
  then have "no_collisions p acts (abs_act p a V) (abs_private p a P)" by simp
  from Cons.IH [OF this] act_private [of P ps a V p marshal] Cons.prems show ?case by simp
qed simp

text \<open>Small views, for the examples.\<close>

lemma separated_one: "separated Map.empty Map.empty" "separated [v \<mapsto> es] Map.empty"
  by (auto simp: separated_def split: if_splits)

lemma separated_two:
  "set (keys es) \<inter> set (keys es') = {} \<Longrightarrow> separated [v \<mapsto> es, w \<mapsto> es'] Map.empty"
  by (auto simp: separated_def split: if_splits)

lemma main_in_line:
  assumes "main conv e = Starts p"
  shows "in_line p Map.empty (sc_controllers p, (sc_manager p, w))"
  by (auto simp: in_line_def specs_of_def main_Starts(2,3) [OF assms] main_controllers_def NewManager_def
      represents_def records_view_def view_keys_def less_Suc_eq)

section \<open>Every entry\<close>

text \<open>What holds of every entry of the blueprint.\<close>

definition public_ok :: "string \<Rightarrow> Resource \<Rightarrow> bool" where
  "public_ok site r \<longleftrightarrow> res_Targets r \<noteq> None \<and> list_all (\<lambda>t. tgt_Site t = site) (elems (res_Targets r))"

definition blueprint_ok :: "string \<Rightarrow> mstate \<Rightarrow> bool" where
  "blueprint_ok site s \<longleftrightarrow>
     (\<forall>r \<in> ran (mgr_resources (fst s)). public_ok site r) \<and> all_private_ok site s"

definition known_controller :: "'u converter \<Rightarrow> Config \<Rightarrow> 'u Controller \<Rightarrow> bool" where
  "known_controller conv cfg c \<longleftrightarrow>
     ctl_cfg c = cfg \<and> ctl_handler c \<in> {httproute_Definition conv, service_Definition conv}"

lemma on_site_public_ok: "on_site cfg r \<Longrightarrow> public_ok (cfg_SiteID cfg) r"
  by (auto simp: on_site_def public_ok_def)

lemma contribution_ok:
  assumes "known_controller conv cfg c" and "map_of (contribution (ctl_handler c) (ctl_cfg c) env obj) k = Some r"
  shows "public_ok (cfg_SiteID cfg) r"
  using assms
  by (intro on_site_public_ok)
    (auto simp: known_controller_def contribution_def split: if_splits
      intro: httproute_handler.entries_on_site service_handler.entries_on_site)

lemma ran_remove_loop: "ran (mgr_resources (fst (remove_loop marshal ks s))) \<subseteq> ran (mgr_resources (fst s))"
  unfolding remove_loop_fold by (rule public_store.ran_dels)

lemma ran_update_loop:
  "ran (mgr_resources (fst (update_loop marshal b es ks s))) \<subseteq> ran (mgr_resources (fst s)) \<union> ran (map_of es)"
proof -
  have "snd ` set (List.map_filter (\<lambda>k. map_option (Pair k) (map_of es k)) ks) \<subseteq> ran (map_of es)"
    by (auto simp: map_filter_def ran_def)
  then show ?thesis
    unfolding update_loop_fold using public_store.ran_upds by (meson Un_mono order_refl order_trans)
qed

lemma removeObject_blueprint_ok: "blueprint_ok site s \<Longrightarrow> blueprint_ok site (snd (removeObject env oid (c, s)))"
  using ran_remove_loop by (fastforce simp: blueprint_ok_def removeObject_eq all_private_ok_def loops_private)

lemma processObject_blueprint_ok:
  assumes "known_controller conv cfg c" and "blueprint_ok (cfg_SiteID cfg) s"
  shows "blueprint_ok (cfg_SiteID cfg) (snd (processObject env obj b (c, s)))"
proof (cases "contribution (ctl_handler c) (ctl_cfg c) env obj = []")
  case True
  with assms show ?thesis by (simp add: processObject_eq Let_def removeObject_blueprint_ok)
next
  case False
  let ?es = "contribution (ctl_handler c) (ctl_cfg c) env obj"
  have new: "\<forall>r \<in> ran (map_of ?es). public_ok (cfg_SiteID cfg) r"
    using contribution_ok [OF assms(1)] by (auto simp: ran_def)
  define ks where "ks = filter (\<lambda>k. k \<notin> set (env_ord1 env (keys ?es))) (owned c (object_key obj))"
  have s': "snd (processObject env obj b (c, s)) =
      update_loop (env_marshal env) b ?es (env_ord2 env (keys ?es)) (remove_loop (env_marshal env) ks s)"
    using False by (simp add: processObject_eq Let_def ks_def)
  have "ran (mgr_resources (fst (snd (processObject env obj b (c, s))))) \<subseteq>
      ran (mgr_resources (fst s)) \<union> ran (map_of ?es)"
    unfolding s' using ran_update_loop ran_remove_loop by (meson Un_mono order_refl order_trans)
  with new assms(2) show ?thesis
    unfolding s' by (auto simp: blueprint_ok_def all_private_ok_def loops_private)
qed

lemma handle_blueprint_ok:
  assumes "known_controller conv cfg c" and "blueprint_ok (cfg_SiteID cfg) s"
  shows "blueprint_ok (cfg_SiteID cfg) (snd (handle ev (c, s)))" "known_controller conv cfg (fst (handle ev (c, s)))"
  using assms
  by (cases rule: handle_cases [of ev c s];
      simp add: processObject_blueprint_ok [OF assms] removeObject_blueprint_ok known_controller_def)+

lemma reconcile_blueprint_ok:
  assumes "blueprint_ok site s"
  shows "blueprint_ok site (snd (public_Reconcile marshal site client req s))"
    "blueprint_ok site (snd (private_Reconcile marshal site get req s))"
proof -
  have pub: "public_ok site (buildResource spec sd site)" for spec sd
    by (simp add: public_ok_def buildResource_def convertTargets_def convertTarget_def Let_def list_all_iff)
  have "\<forall>r \<in> ran (apply_wanted (req_Name req) (public_want site client req) (mgr_resources (fst s))). public_ok site r"
    using assms pub unfolding blueprint_ok_def
    by (cases "public_want site client req")
      (auto simp: ran_def public_want_def split: if_splits get_result.splits)
  with assms show "blueprint_ok site (snd (public_Reconcile marshal site client req s))"
    by (simp add: blueprint_ok_def all_private_ok_def public_crd.reconcile_look public_Reconcile_private)
  show "blueprint_ok site (snd (private_Reconcile marshal site get req s))"
    using assms private_Reconcile_ok [of site s] by (simp add: blueprint_ok_def private_Reconcile_public)
qed

definition sidecar_ok :: "'u converter \<Rightarrow> 'u Sidecar \<Rightarrow> 'u pstate \<Rightarrow> bool" where
  "sidecar_ok conv p ps \<longleftrightarrow>
     list_all (known_controller conv (sc_cfg p)) (fst ps) \<and> blueprint_ok (cfg_SiteID (sc_cfg p)) (snd ps)"

lemma act_ok:
  assumes "sidecar_ok conv p ps"
  shows "sidecar_ok conv p (act marshal p a ps)"
proof -
  obtain cs s where ps: "ps = (cs, s)" by (cases ps)
  note ok = assms [unfolded ps sidecar_ok_def fst_conv snd_conv]
  show ?thesis
  proof (cases a)
    case (RunController i env)
    with ok show ?thesis
      by (auto simp: ps sidecar_ok_def on_controller_eq known_controller_def blueprint_ok_def all_private_ok_def
          list_all_length nth_list_update)
  next
    case (InformerEvent i ev)
    with ok handle_blueprint_ok [of conv "sc_cfg p" "cs ! i" s ev] show ?thesis
      by (auto simp: ps sidecar_ok_def on_controller_eq list_all_at intro!: list_all_update)
  qed (use ok in \<open>simp_all add: ps sidecar_ok_def reconcile_blueprint_ok\<close>)
qed

lemma main_ok: "main conv e = Starts p \<Longrightarrow> sidecar_ok conv p (sc_controllers p, (sc_manager p, w))"
  by (simp add: sidecar_ok_def main_Starts(2,3) main_controllers_def known_controller_def blueprint_ok_def
      all_private_ok_def NewManager_def)

lemma run_sidecar_ok: "main conv e = Starts p \<Longrightarrow> sidecar_ok conv p (run_sidecar marshal p w acts)"
  by (rule run_sidecar_invariant [where P = "sidecar_ok conv p"]) (simp_all add: act_ok main_ok)

section \<open>What the controllers record\<close>

text \<open>The keys recorded for an object are at least one and all different.\<close>

definition wf_keys :: "'u Controller \<Rightarrow> bool" where
  "wf_keys c \<longleftrightarrow> (\<forall>oid ks. ctl_resourceKeys c oid = Some ks \<longrightarrow> ks \<noteq> [] \<and> distinct ks)"

lemma contribution_wf: "known_controller conv cfg c \<Longrightarrow> wf_gomap (contribution (ctl_handler c) (ctl_cfg c) env obj)"
  by (auto simp: known_controller_def contribution_def httproute_handler.entries_wf service_handler.entries_wf)

lemma handle_wf_keys:
  assumes "known_controller conv cfg c" and "good_env (fst ev)" and "wf_keys c"
  shows "wf_keys (fst (handle ev (c, s)))"
proof -
  have new: "env_ord1 (fst ev) (keys es) \<noteq> [] \<and> distinct (env_ord1 (fst ev) (keys es))"
    if "wf_gomap es" "es \<noteq> []" for es :: entries
    using that assms(2) range_order_set [of "env_ord1 (fst ev)" "keys es"]
    by (cases es) (auto simp: good_env_def range_order_distinct wf_gomap_def)
  show ?thesis
    using assms(3) new [OF contribution_wf [OF assms(1)]]
    by (cases rule: handle_cases [of ev c s])
      (auto simp: wf_keys_def processObject_eq removeObject_eq Let_def)
qed

lemma act_wf_keys:
  assumes "sidecar_ok conv p ps" and "good_action a" and "list_all wf_keys (fst ps)"
  shows "list_all wf_keys (fst (act marshal p a ps))"
proof -
  obtain cs s where ps: "ps = (cs, s)" by (cases ps)
  show ?thesis
  proof (cases a)
    case (RunController i env)
    then show ?thesis
      using assms(3) by (auto simp: ps on_controller_eq list_all_length nth_list_update wf_keys_def)
  next
    case (InformerEvent i ev)
    then show ?thesis
      using assms handle_wf_keys [of conv "sc_cfg p" "cs ! i" ev s]
      by (cases ev) (auto simp: ps on_controller_eq sidecar_ok_def list_all_at intro!: list_all_update)
  qed (use assms(3) in \<open>simp_all add: ps\<close>)
qed

lemma run_wf_keys:
  assumes "main conv e = Starts p" and "list_all good_action acts"
  shows "list_all wf_keys (fst (run_sidecar marshal p w acts))"
proof -
  have init: "list_all wf_keys (sc_controllers p)"
    by (simp add: main_Starts(2) [OF assms(1)] main_controllers_def wf_keys_def)
  have "sidecar_ok conv p (run_sidecar marshal p w acts) \<and> list_all wf_keys (fst (run_sidecar marshal p w acts))"
    by (rule run_sidecar_invariant [where P = "\<lambda>ps. sidecar_ok conv p ps \<and> list_all wf_keys (fst ps)"])
      (use assms init in \<open>simp_all add: act_ok act_wf_keys [of conv p] main_ok list_all_iff [of good_action]\<close>)
  then show ?thesis ..
qed

section \<open>The file\<close>

text \<open>The actions of one program use one YAML package.\<close>

fun uses_yaml :: "marshaller \<Rightarrow> 'u action \<Rightarrow> bool" where
  "uses_yaml marshal (RunController i env) \<longleftrightarrow> env_marshal env = marshal"
| "uses_yaml marshal (InformerEvent i (env, e)) \<longleftrightarrow> env_marshal env = marshal"
| "uses_yaml marshal _ \<longleftrightarrow> True"

fun runs :: "'u action \<Rightarrow> nat option" where
  "runs (RunController i env) = Some i"
| "runs _ = None"

text \<open>As soon as all controllers are synced the file is settled.\<close>

definition settled_when_synced :: "marshaller \<Rightarrow> 'u pstate \<Rightarrow> bool" where
  "settled_when_synced marshal ps \<longleftrightarrow> (list_all ctl_synced (fst ps) \<longrightarrow> settled marshal (snd ps))"

lemma synced_before:
  assumes "list_all ctl_synced (cs[i := c])" and "ctl_synced c = ctl_synced (cs ! i)"
  shows "list_all ctl_synced cs"
  using assms unfolding list_all_length length_list_update by (metis nth_list_update_eq nth_list_update_neq)

lemma act_settled:
  assumes "settled_when_synced marshal ps" and "uses_yaml marshal a"
  shows "settled_when_synced marshal (act marshal p a ps)"
proof -
  obtain cs s where ps: "ps = (cs, s)" by (cases ps)
  show ?thesis
  proof (cases a)
    case (RunController i env)
    with assms show ?thesis
      by (auto simp: ps settled_when_synced_def on_controller_eq Run_def ForceWrite_def)
  next
    case (InformerEvent i ev)
    with assms handle_settled [of "(cs ! i, s)" ev] show ?thesis
      by (cases ev) (auto simp: ps settled_when_synced_def on_controller_eq list_all_at dest!: synced_before)
  qed (use assms in \<open>auto simp: ps settled_when_synced_def public_crd.reconcile_settled private_crd.reconcile_settled\<close>)
qed

text \<open>A controller that has passed its cache sync stays synced.\<close>

lemma act_synced:
  "length (fst (act marshal p a ps)) = length (fst ps)"
  "i < length (fst ps) \<Longrightarrow> ctl_synced (fst ps ! i) \<or> runs a = Some i \<Longrightarrow> ctl_synced (fst (act marshal p a ps) ! i)"
proof -
  obtain cs s where ps: "ps = (cs, s)" by (cases ps)
  show "length (fst (act marshal p a ps)) = length (fst ps)"
    by (cases a) (simp_all add: ps on_controller_eq)
  show "i < length (fst ps) \<Longrightarrow> ctl_synced (fst ps ! i) \<or> runs a = Some i \<Longrightarrow> ctl_synced (fst (act marshal p a ps) ! i)"
    by (cases a) (auto simp: ps on_controller_eq Run_def nth_list_update)
qed

lemma acts_synced:
  "i < length (fst ps) \<Longrightarrow> ctl_synced (fst ps ! i) \<or> Some i \<in> runs ` set acts \<Longrightarrow>
     ctl_synced (fst (fold (act marshal p) acts ps) ! i)"
proof (induction acts arbitrary: ps)
  case (Cons a acts)
  have "ctl_synced (fst (act marshal p a ps) ! i) \<or> Some i \<in> runs ` set acts"
    using Cons.prems act_synced(2) [of i ps a marshal p] by auto
  with Cons.prems Cons.IH [of "act marshal p a ps"] show ?case by (simp add: act_synced(1))
qed simp

lemma acts_length: "length (fst (fold (act marshal p) acts ps)) = length (fst ps)"
  by (induction acts arbitrary: ps) (simp_all add: act_synced)

lemma run_settled:
  assumes start: "main conv e = Starts p" and yaml: "list_all (uses_yaml marshal) acts"
    and ran: "\<forall>i < length (sc_controllers p). Some i \<in> runs ` set acts"
  shows "settled marshal (snd (run_sidecar marshal p w acts))"
proof -
  have "settled_when_synced marshal (sc_controllers p, (sc_manager p, w))"
    using main_Starts(1) [OF start]
    by (auto simp: settled_when_synced_def main_Starts(2) [OF start] main_controllers_def Validate_None)
  then have "settled_when_synced marshal (run_sidecar marshal p w acts)"
    by (rule run_sidecar_invariant [rotated]) (use yaml in \<open>auto simp: act_settled list_all_iff\<close>)
  moreover have "list_all ctl_synced (fst (run_sidecar marshal p w acts))"
    using ran by (simp add: list_all_length run_sidecar_def acts_length acts_synced)
  ultimately show ?thesis by (simp add: settled_when_synced_def)
qed

end
