(* ===== verification/GoHeap.thy ===== *)
theory GoHeap
  imports Prelude
begin

text \<open>
  A store for pointers and slices, for code whose point is what is shared in memory. A heap is the
  list of the cells allocated so far, an address is an index into it, and allocation appends. A
  pointer is an address or nil; a slice is a window of the array in a cell, or nil. Reading an
  address that was never allocated gives an unspecified value, which no Go program can observe.
\<close>

section \<open>Cells\<close>

type_synonym addr = nat
type_synonym 'c heap = "'c list"

datatype slice_ref = NilSlice | SliceAt addr nat nat \<comment> \<open>array, offset, length\<close>

definition fetch :: "'c heap \<Rightarrow> addr \<Rightarrow> 'c option" where
  "fetch h a = (if a < length h then Some (h ! a) else None)"

definition alloc :: "'c \<Rightarrow> 'c heap \<Rightarrow> addr \<times> 'c heap" where
  "alloc c h = (length h, h @ [c])"

definition window :: "nat \<Rightarrow> nat \<Rightarrow> 'a list \<Rightarrow> 'a list" where
  "window off n xs = take n (drop off xs)"

text \<open>Two heaps that agree on some allocated addresses.\<close>

definition agree :: "addr list \<Rightarrow> 'c heap \<Rightarrow> 'c heap \<Rightarrow> bool" where
  "agree as h h' \<longleftrightarrow> (\<forall>a \<in> set as. a < length h \<and> a < length h' \<and> h' ! a = h ! a)"

definition live :: "'c heap \<Rightarrow> addr list \<Rightarrow> bool" where
  "live h as \<longleftrightarrow> (\<forall>a \<in> set as. a < length h)"

lemma agree_simps [simp]:
  "agree [] h h'" "agree (a # as) h h' \<longleftrightarrow> a < length h \<and> a < length h' \<and> h' ! a = h ! a \<and> agree as h h'"
  "agree (as @ bs) h h' \<longleftrightarrow> agree as h h' \<and> agree bs h h'"
  by (auto simp: agree_def)

lemma live_simps [simp]:
  "live h []" "live h (a # as) \<longleftrightarrow> a < length h \<and> live h as"
  "live h (as @ bs) \<longleftrightarrow> live h as \<and> live h bs"
  by (auto simp: live_def)

lemma agree_append: "live h as \<Longrightarrow> agree as h (h @ new)"
  by (auto simp: agree_def live_def nth_append)

lemma live_append: "live h as \<Longrightarrow> live (h @ new) as"
  by (auto simp: live_def)

lemma agree_fetch: "agree as h h' \<Longrightarrow> a \<in> set as \<Longrightarrow> fetch h' a = fetch h a"
  by (simp add: agree_def fetch_def)

lemma agree_update: "live h as \<Longrightarrow> b \<notin> set as \<Longrightarrow> agree as h (h[b := c])"
  by (auto simp: agree_def live_def intro!: nth_list_update_neq)

section \<open>The deep-copy contract\<close>

text \<open>
  What it means to copy deeply a value that reaches other cells. \<open>copy\<close> allocates and never
  writes to existing cells; \<open>load\<close> is the value a pointer structure stands for; \<open>reach\<close> lists the
  cells it depends on. A copy stands for the same value and reaches new cells only.
\<close>

locale deep_copier =
  fixes copy :: "'c heap \<Rightarrow> 'a \<Rightarrow> 'a \<times> 'c heap"
    and load :: "'c heap \<Rightarrow> 'a \<Rightarrow> 'v"
    and reach :: "'c heap \<Rightarrow> 'a \<Rightarrow> addr list"
  assumes extends: "\<exists>new. snd (copy h x) = h @ new"
    and frame: "agree (reach h x) h h' \<Longrightarrow> load h' x = load h x \<and> reach h' x = reach h x"
    and copy_load: "live h (reach h x) \<Longrightarrow> load (snd (copy h x)) (fst (copy h x)) = load h x"
    and copy_fresh: "live h (reach h x) \<Longrightarrow>
      set (reach (snd (copy h x)) (fst (copy h x))) \<subseteq> {length h..<length (snd (copy h x))}"
begin

lemma frame_append:
  "live h (reach h x) \<Longrightarrow> load (h @ new) x = load h x \<and> reach (h @ new) x = reach h x"
  by (rule frame) (rule agree_append)

lemma copy_live: "live h (reach h x) \<Longrightarrow> live (snd (copy h x)) (reach (snd (copy h x)) (fst (copy h x)))"
  using copy_fresh [of h x] by (auto simp: live_def)

lemma original_after_copy:
  "live h (reach h x) \<Longrightarrow> load (snd (copy h x)) x = load h x \<and> reach (snd (copy h x)) x = reach h x"
  using extends [of h x] frame_append [of h x] by auto

text \<open>Writing to a cell of the copy does not change the original, nor the other way round.\<close>

lemma independent:
  assumes "live h (reach h x)"
  defines "x' \<equiv> fst (copy h x)" and "h' \<equiv> snd (copy h x)"
  shows "a \<in> set (reach h' x') \<Longrightarrow> load (h'[a := c]) x = load h x"
    and "a \<in> set (reach h' x) \<Longrightarrow> load (h'[a := c]) x' = load h x"
proof -
  have fresh: "set (reach h' x') \<subseteq> {length h..<length h'}"
    using copy_fresh [OF assms(1)] by (simp add: x'_def h'_def)
  have old: "load h' x = load h x" "reach h' x = reach h x" "live h' (reach h' x)"
    using original_after_copy [OF assms(1)] extends [of h x] assms(1) live_append
    by (fastforce simp: h'_def)+
  have "a < length h" if "a \<in> set (reach h' x)" for a
    using that assms(1) old(2) by (simp add: live_def)
  then have dis: "set (reach h' x) \<inter> set (reach h' x') = {}" using fresh by fastforce
  have copy: "load h' x' = load h x" "live h' (reach h' x')"
    using copy_load [OF assms(1)] copy_live [OF assms(1)] by (simp_all add: x'_def h'_def)
  show "load (h'[a := c]) x = load h x" if "a \<in> set (reach h' x')"
  proof -
    have "a \<notin> set (reach h' x)" using that dis by blast
    then show ?thesis using frame [OF agree_update [OF old(3)]] old(1) by metis
  qed
  show "load (h'[a := c]) x' = load h x" if "a \<in> set (reach h' x)"
  proof -
    have "a \<notin> set (reach h' x')" using that dis by blast
    then show ?thesis using frame [OF agree_update [OF copy(2)]] copy(1) by metis
  qed
qed

end

section \<open>Building copiers\<close>

text \<open>Values without pointers.\<close>

definition copy_plain :: "'c heap \<Rightarrow> 'a \<Rightarrow> 'a \<times> 'c heap" where
  "copy_plain h x = (x, h)"

lemma deep_copier_plain: "deep_copier copy_plain (\<lambda>h x. x) (\<lambda>h x. [])"
  by unfold_locales (simp_all add: copy_plain_def)

text \<open>Two values, one after the other.\<close>

definition copy_pair ::
  "('c heap \<Rightarrow> 'a \<Rightarrow> 'a \<times> 'c heap) \<Rightarrow> ('c heap \<Rightarrow> 'b \<Rightarrow> 'b \<times> 'c heap) \<Rightarrow> 'c heap \<Rightarrow> 'a \<times> 'b \<Rightarrow> ('a \<times> 'b) \<times> 'c heap" where
  "copy_pair f g h xy =
     (let (x, h) = f h (fst xy); (y, h) = g h (snd xy) in ((x, y), h))"

lemma deep_copier_pair:
  assumes "deep_copier f lf rf" and "deep_copier g lg rg"
  shows "deep_copier (copy_pair f g) (\<lambda>h xy. (lf h (fst xy), lg h (snd xy)))
    (\<lambda>h xy. rf h (fst xy) @ rg h (snd xy))"
proof -
  note A = assms(1) and B = assms(2)
  have step: "\<exists>x1 n1 y1 n2. f h (fst xy) = (x1, h @ n1) \<and> g (h @ n1) (snd xy) = (y1, (h @ n1) @ n2)" for h xy
    using deep_copier.extends [OF A, of h "fst xy"]
    by (metis deep_copier.extends [OF B] prod.collapse)
  show ?thesis
  proof
    fix h h' and xy :: "'b \<times> 'd"
    obtain x1 n1 y1 n2 where fx: "f h (fst xy) = (x1, h @ n1)" and gy: "g (h @ n1) (snd xy) = (y1, (h @ n1) @ n2)"
      using step by blast
    have c: "copy_pair f g h xy = ((x1, y1), (h @ n1) @ n2)" by (simp add: copy_pair_def fx gy)
    show "\<exists>new. snd (copy_pair f g h xy) = h @ new" by (simp add: c)
    show "agree (rf h (fst xy) @ rg h (snd xy)) h h' \<Longrightarrow>
        (lf h' (fst xy), lg h' (snd xy)) = (lf h (fst xy), lg h (snd xy)) \<and>
        rf h' (fst xy) @ rg h' (snd xy) = rf h (fst xy) @ rg h (snd xy)"
      using deep_copier.frame [OF A, of h "fst xy" h'] deep_copier.frame [OF B, of h "snd xy" h'] by simp
    assume live: "live h (rf h (fst xy) @ rg h (snd xy))"
    then have lx: "live h (rf h (fst xy))" and ly: "live h (rg h (snd xy))" by simp_all
    note ry = deep_copier.frame_append [OF B ly, of n1]
    from ly ry have ly': "live (h @ n1) (rg (h @ n1) (snd xy))" by (simp add: live_append)
    have x: "lf (h @ n1) x1 = lf h (fst xy)" "live (h @ n1) (rf (h @ n1) x1)"
      "set (rf (h @ n1) x1) \<subseteq> {length h..<length (h @ n1)}"
      using deep_copier.copy_load [OF A lx] deep_copier.copy_live [OF A lx] deep_copier.copy_fresh [OF A lx]
      by (simp_all add: fx)
    have y: "lg ((h @ n1) @ n2) y1 = lg h (snd xy)"
      "set (rg ((h @ n1) @ n2) y1) \<subseteq> {length (h @ n1)..<length ((h @ n1) @ n2)}"
      using deep_copier.copy_load [OF B ly'] deep_copier.copy_fresh [OF B ly'] ry by (simp_all add: gy)
    have x2: "lf ((h @ n1) @ n2) x1 = lf h (fst xy)" "rf ((h @ n1) @ n2) x1 = rf (h @ n1) x1"
      using deep_copier.frame_append [OF A x(2), of n2] x(1) by simp_all
    show "(lf (snd (copy_pair f g h xy)) (fst (fst (copy_pair f g h xy))),
        lg (snd (copy_pair f g h xy)) (snd (fst (copy_pair f g h xy)))) = (lf h (fst xy), lg h (snd xy))"
      using x2 y by (simp add: c del: append_assoc)
    show "set (rf (snd (copy_pair f g h xy)) (fst (fst (copy_pair f g h xy))) @
        rg (snd (copy_pair f g h xy)) (snd (fst (copy_pair f g h xy))))
        \<subseteq> {length h..<length (snd (copy_pair f g h xy))}"
      unfolding c fst_conv snd_conv set_append x2 using x(3) y(2) by auto
  qed
qed

text \<open>
  A struct with pointers in it: \<open>get\<close> takes them out, \<open>put\<close> stores new ones, \<open>build\<close> makes the value
  from the other fields and the values behind the pointers.
\<close>

lemma deep_copier_struct:
  assumes c: "deep_copier f l r" and copy: "\<And>h x. copy h x = apfst (put x) (f h (get x))"
    and get: "\<And>x y. get (put x y) = y" and build: "\<And>x y. build (put x y) = build x"
  shows "deep_copier copy (\<lambda>h x. build x (l h (get x))) (\<lambda>h x. r h (get x))"
  by unfold_locales
    (use deep_copier.extends [OF c] deep_copier.frame [OF c] deep_copier.copy_load [OF c]
      deep_copier.copy_fresh [OF c] in \<open>simp_all add: copy get build\<close>)

text \<open>The elements of a list, in order.\<close>

fun copy_list :: "('c heap \<Rightarrow> 'a \<Rightarrow> 'a \<times> 'c heap) \<Rightarrow> 'c heap \<Rightarrow> 'a list \<Rightarrow> 'a list \<times> 'c heap" where
  "copy_list f h [] = ([], h)"
| "copy_list f h (x # xs) =
     (let (x, h) = f h x; (xs, h) = copy_list f h xs in (x # xs, h))"

lemma copy_list_length: "length (fst (copy_list f h xs)) = length xs"
  by (induction xs arbitrary: h) (simp_all add: split_def Let_def)

lemma deep_copier_list:
  assumes c: "deep_copier f l r"
  shows "deep_copier (copy_list f) (\<lambda>h. map (l h)) (\<lambda>h xs. concat (map (r h) xs))"
proof
  text \<open>One element and the rest of the list are a pair.\<close>
  have pair: "copy_list f h (x # xs) = apfst (\<lambda>(x, xs). x # xs) (copy_pair f (copy_list f) h (x, xs))" for h x xs
    by (simp add: copy_pair_def split_def Let_def)
  fix h h' :: "'a heap" and xs
  show ext: "\<exists>new. snd (copy_list f h xs) = h @ new" for h xs
  proof (induction xs arbitrary: h)
    case (Cons x xs)
    obtain x1 n1 where fx: "f h x = (x1, h @ n1)"
      using deep_copier.extends [OF c, of h x] by (metis prod.collapse)
    with Cons.IH [of "h @ n1"] show ?case by (auto simp: split_def Let_def)
  qed simp
  show frame: "map (l h') xs = map (l h) xs \<and> concat (map (r h') xs) = concat (map (r h) xs)"
    if "agree (concat (map (r h) xs)) h h'" for h h' xs
    using that
  proof (induction xs)
    case (Cons x xs)
    then show ?case using deep_copier.frame [OF c, of h x h'] by simp
  qed simp
  have main: "live h (concat (map (r h) xs)) \<Longrightarrow>
      map (l (snd (copy_list f h xs))) (fst (copy_list f h xs)) = map (l h) xs \<and>
      set (concat (map (r (snd (copy_list f h xs))) (fst (copy_list f h xs))))
        \<subseteq> {length h..<length (snd (copy_list f h xs))}" for h xs
  proof (induction xs arbitrary: h)
    case (Cons x xs)
    from Cons.prems have lx: "live h (r h x)" and lxs: "live h (concat (map (r h) xs))" by simp_all
    obtain x1 n1 where fx: "f h x = (x1, h @ n1)"
      using deep_copier.extends [OF c, of h x] by (metis prod.collapse)
    obtain xs1 n2 where fxs: "copy_list f (h @ n1) xs = (xs1, (h @ n1) @ n2)"
      using ext [of "h @ n1" xs] by (metis prod.collapse)
    have x: "l (h @ n1) x1 = l h x" "live (h @ n1) (r (h @ n1) x1)"
      "set (r (h @ n1) x1) \<subseteq> {length h..<length (h @ n1)}"
      using deep_copier.copy_load [OF c lx] deep_copier.copy_live [OF c lx] deep_copier.copy_fresh [OF c lx]
      by (simp_all add: fx)
    have fr: "map (l (h @ n1)) xs = map (l h) xs" "concat (map (r (h @ n1)) xs) = concat (map (r h) xs)"
      using frame [OF agree_append [OF lxs], of n1] by simp_all
    have "live (h @ n1) (concat (map (r (h @ n1)) xs))" unfolding fr(2) by (rule live_append) (rule lxs)
    from Cons.IH [OF this] fr(1)
    have xs: "map (l ((h @ n1) @ n2)) xs1 = map (l h) xs"
      "set (concat (map (r ((h @ n1) @ n2)) xs1)) \<subseteq> {length (h @ n1)..<length ((h @ n1) @ n2)}"
      by (simp_all add: fxs)
    have x2: "l ((h @ n1) @ n2) x1 = l h x" "r ((h @ n1) @ n2) x1 = r (h @ n1) x1"
      using deep_copier.frame_append [OF c x(2), of n2] x(1) by simp_all
    have cp: "copy_list f h (x # xs) = (x1 # xs1, (h @ n1) @ n2)" by (simp add: fx fxs)
    show ?case
    proof
      show "map (l (snd (copy_list f h (x # xs)))) (fst (copy_list f h (x # xs))) = map (l h) (x # xs)"
        unfolding cp fst_conv snd_conv list.map x2 xs ..
      show "set (concat (map (r (snd (copy_list f h (x # xs)))) (fst (copy_list f h (x # xs)))))
          \<subseteq> {length h..<length (snd (copy_list f h (x # xs)))}"
        unfolding cp fst_conv snd_conv list.map concat.simps set_append x2 using x(3) xs(2) by auto
    qed
  qed simp
  show "map (l (snd (copy_list f h xs))) (fst (copy_list f h xs)) = map (l h) xs"
    if "live h (concat (map (r h) xs))" using main [OF that] by blast
  show "set (concat (map (r (snd (copy_list f h xs))) (fst (copy_list f h xs))))
      \<subseteq> {length h..<length (snd (copy_list f h xs))}"
    if "live h (concat (map (r h) xs))" using main [OF that] by blast
qed

section \<open>Pointers and slices\<close>

text \<open>How values of one type are kept in cells.\<close>

locale cell_kind =
  fixes mk :: "'a \<Rightarrow> 'c" and rd :: "'c option \<Rightarrow> 'a"
  assumes rd_mk: "rd (Some (mk x)) = x"

text \<open>A pointer: nil stays nil; otherwise a new cell for a copy of the value (\<open>new\<close>, then copy into).\<close>

definition copy_ptr ::
  "('a \<Rightarrow> 'c) \<Rightarrow> ('c option \<Rightarrow> 'a) \<Rightarrow> ('c heap \<Rightarrow> 'a \<Rightarrow> 'a \<times> 'c heap) \<Rightarrow>
    'c heap \<Rightarrow> addr option \<Rightarrow> addr option \<times> 'c heap" where
  "copy_ptr mk rd f h p =
     (case p of
        None \<Rightarrow> (None, h)
      | Some a \<Rightarrow>
        (let (v, h) = f h (rd (fetch h a)); (b, h) = alloc (mk v) h in (Some b, h)))"

definition load_ptr :: "('c option \<Rightarrow> 'a) \<Rightarrow> ('c heap \<Rightarrow> 'a \<Rightarrow> 'v) \<Rightarrow> 'c heap \<Rightarrow> addr option \<Rightarrow> 'v option" where
  "load_ptr rd l h p = map_option (\<lambda>a. l h (rd (fetch h a))) p"

definition reach_ptr ::
  "('c option \<Rightarrow> 'a) \<Rightarrow> ('c heap \<Rightarrow> 'a \<Rightarrow> addr list) \<Rightarrow> 'c heap \<Rightarrow> addr option \<Rightarrow> addr list" where
  "reach_ptr rd r h p = (case p of None \<Rightarrow> [] | Some a \<Rightarrow> a # r h (rd (fetch h a)))"

text \<open>A slice: nil stays nil; otherwise a new array for copies of the elements of the window.\<close>

definition copy_slice ::
  "('a list \<Rightarrow> 'c) \<Rightarrow> ('c option \<Rightarrow> 'a list) \<Rightarrow> ('c heap \<Rightarrow> 'a \<Rightarrow> 'a \<times> 'c heap) \<Rightarrow>
    'c heap \<Rightarrow> slice_ref \<Rightarrow> slice_ref \<times> 'c heap" where
  "copy_slice mk rd f h p =
     (case p of
        NilSlice \<Rightarrow> (NilSlice, h)
      | SliceAt a off n \<Rightarrow>
        (let (vs, h) = copy_list f h (window off n (rd (fetch h a))); (b, h) = alloc (mk vs) h
         in (SliceAt b 0 n, h)))"

definition load_slice ::
  "('c option \<Rightarrow> 'a list) \<Rightarrow> ('c heap \<Rightarrow> 'a \<Rightarrow> 'v) \<Rightarrow> 'c heap \<Rightarrow> slice_ref \<Rightarrow> 'v slice" where
  "load_slice rd l h p =
     (case p of
        NilSlice \<Rightarrow> None
      | SliceAt a off n \<Rightarrow> Some (map (l h) (window off n (rd (fetch h a)))))"

definition reach_slice ::
  "('c option \<Rightarrow> 'a list) \<Rightarrow> ('c heap \<Rightarrow> 'a \<Rightarrow> addr list) \<Rightarrow> 'c heap \<Rightarrow> slice_ref \<Rightarrow> addr list" where
  "reach_slice rd r h p =
     (case p of
        NilSlice \<Rightarrow> []
      | SliceAt a off n \<Rightarrow> a # concat (map (r h) (window off n (rd (fetch h a)))))"

lemma fetch_alloc: "fetch (h @ [c]) (length h) = Some c"
  by (simp add: fetch_def)

lemma window_self: "length xs \<le> n \<Longrightarrow> window 0 n xs = xs"
  by (simp add: window_def)

text \<open>A copy that is put into a new cell.\<close>

lemma copy_then_alloc:
  assumes c: "deep_copier f l r" and live: "live h (r h x)"
  obtains v n where "f h x = (v, h @ n)" "l ((h @ n) @ [y]) v = l h x"
    "set (r ((h @ n) @ [y]) v) \<subseteq> {length h..<length (h @ n)}"
proof -
  obtain v n where v: "f h x = (v, h @ n)"
    using deep_copier.extends [OF c, of h x] by (metis prod.collapse)
  have "l (h @ n) v = l h x" "live (h @ n) (r (h @ n) v)" "set (r (h @ n) v) \<subseteq> {length h..<length (h @ n)}"
    using deep_copier.copy_load [OF c live] deep_copier.copy_live [OF c live] deep_copier.copy_fresh [OF c live]
    by (simp_all add: v)
  then show thesis using deep_copier.frame_append [OF c, of "h @ n" v "[y]"] by (intro that [OF v]) simp_all
qed

lemma deep_copier_ptr:
  assumes c: "deep_copier f l r" and k: "cell_kind mk rd"
  shows "deep_copier (copy_ptr mk rd f) (load_ptr rd l) (reach_ptr rd r)"
proof
  fix h h' and p :: "addr option"
  let ?c = "copy_ptr mk rd f h p"
  have ext: "\<exists>v new. f h x = (v, h @ new)" for h x
    using deep_copier.extends [OF c, of h x] by (metis prod.collapse)
  show "\<exists>new. snd ?c = h @ new"
    using ext by (cases p) (auto simp: copy_ptr_def alloc_def split_def Let_def, metis snd_conv append_assoc)
  show "agree (reach_ptr rd r h p) h h' \<Longrightarrow>
      load_ptr rd l h' p = load_ptr rd l h p \<and> reach_ptr rd r h' p = reach_ptr rd r h p"
    by (cases p)
      (use deep_copier.frame [OF c] in \<open>auto simp: load_ptr_def reach_ptr_def fetch_def\<close>)
  have main: "load_ptr rd l (snd ?c) (fst ?c) = load_ptr rd l h p \<and>
      set (reach_ptr rd r (snd ?c) (fst ?c)) \<subseteq> {length h..<length (snd ?c)}"
    if live: "live h (reach_ptr rd r h p)"
  proof (cases p)
    case (Some a)
    let ?x = "rd (fetch h a)"
    from live Some have "live h (r h ?x)" by (simp add: reach_ptr_def)
    from copy_then_alloc [OF c this, of "mk (fst (f h ?x))"]
    obtain v n where v: "f h ?x = (v, h @ n)" "l ((h @ n) @ [mk v]) v = l h ?x"
      "set (r ((h @ n) @ [mk v]) v) \<subseteq> {length h..<length (h @ n)}"
      by (metis fst_conv)
    have cp: "?c = (Some (length (h @ n)), (h @ n) @ [mk v])"
      by (simp add: copy_ptr_def Some v(1) alloc_def)
    have rd: "rd (fetch ((h @ n) @ [mk v]) (length (h @ n))) = v"
      unfolding fetch_alloc by (rule cell_kind.rd_mk [OF k])
    show ?thesis
      unfolding cp fst_conv snd_conv load_ptr_def reach_ptr_def option.map option.case rd v(2)
      using v(3) Some by auto
  qed (simp add: copy_ptr_def load_ptr_def reach_ptr_def)
  show "live h (reach_ptr rd r h p) \<Longrightarrow> load_ptr rd l (snd ?c) (fst ?c) = load_ptr rd l h p"
    using main by blast
  show "live h (reach_ptr rd r h p) \<Longrightarrow>
      set (reach_ptr rd r (snd ?c) (fst ?c)) \<subseteq> {length h..<length (snd ?c)}"
    using main by blast
qed

lemma deep_copier_slice:
  assumes f: "deep_copier f l r" and k: "cell_kind mk rd"
  shows "deep_copier (copy_slice mk rd f) (load_slice rd l) (reach_slice rd r)"
proof
  fix h h' and p :: slice_ref
  let ?c = "copy_slice mk rd f h p"
  note c = deep_copier_list [OF f]
  have ext: "\<exists>v new. copy_list f h x = (v, h @ new)" for h x
    using deep_copier.extends [OF c, of h x] by (metis prod.collapse)
  show "\<exists>new. snd ?c = h @ new"
    using ext by (cases p) (auto simp: copy_slice_def alloc_def split_def Let_def, metis snd_conv append_assoc)
  show "load_slice rd l h' p = load_slice rd l h p \<and> reach_slice rd r h' p = reach_slice rd r h p"
    if "agree (reach_slice rd r h p) h h'"
  proof (cases p)
    case (SliceAt a off n)
    with that have "fetch h' a = fetch h a" by (simp add: reach_slice_def fetch_def)
    moreover from that SliceAt have "agree (concat (map (r h) (window off n (rd (fetch h a))))) h h'"
      by (simp add: reach_slice_def)
    ultimately show ?thesis
      using deep_copier.frame [OF c, of h "window off n (rd (fetch h a))" h'] SliceAt
      by (simp add: load_slice_def reach_slice_def)
  qed (simp add: load_slice_def reach_slice_def)
  have main: "load_slice rd l (snd ?c) (fst ?c) = load_slice rd l h p \<and>
      set (reach_slice rd r (snd ?c) (fst ?c)) \<subseteq> {length h..<length (snd ?c)}"
    if live: "live h (reach_slice rd r h p)"
  proof (cases p)
    case (SliceAt a off m)
    let ?x = "window off m (rd (fetch h a))"
    from live SliceAt have "live h (concat (map (r h) ?x))" by (simp add: reach_slice_def)
    from copy_then_alloc [OF c this, of "mk (fst (copy_list f h ?x))"]
    obtain v n where v: "copy_list f h ?x = (v, h @ n)" "map (l ((h @ n) @ [mk v])) v = map (l h) ?x"
      "set (concat (map (r ((h @ n) @ [mk v])) v)) \<subseteq> {length h..<length (h @ n)}"
      by (metis fst_conv)
    have "length v \<le> m" using copy_list_length [of f h ?x] v(1) by (simp add: window_def)
    moreover have cp: "?c = (SliceAt (length (h @ n)) 0 m, (h @ n) @ [mk v])"
      by (simp add: copy_slice_def SliceAt v(1) alloc_def)
    moreover have "rd (fetch ((h @ n) @ [mk v]) (length (h @ n))) = v"
      unfolding fetch_alloc by (rule cell_kind.rd_mk [OF k])
    ultimately have w: "window 0 m (rd (fetch ((h @ n) @ [mk v]) (length (h @ n)))) = v"
      by (simp only: window_self)
    show ?thesis
      unfolding cp fst_conv snd_conv load_slice_def reach_slice_def slice_ref.case w v(2)
      using v(3) SliceAt by auto
  qed (simp add: copy_slice_def load_slice_def reach_slice_def)
  show "live h (reach_slice rd r h p) \<Longrightarrow> load_slice rd l (snd ?c) (fst ?c) = load_slice rd l h p"
    using main by blast
  show "live h (reach_slice rd r h p) \<Longrightarrow>
      set (reach_slice rd r (snd ?c) (fst ?c)) \<subseteq> {length h..<length (snd ?c)}"
    using main by blast
qed

end
