(* ===== verification/DeepCopy.thy ===== *)
theory DeepCopy
  imports ApiTypes GoHeap
begin

text \<open>
  The deep-copy functions of the custom resource types (\<open>api/v1alpha1/zz_generated.deepcopy.go\<close>) on
  a heap. \<open>DeepCopyInto\<close> returns what it stores into \<open>*out\<close>; the cell of an object that
  \<open>new\<close> or \<open>make\<close> creates is allocated once its content is known. The functions for the metadata
  belong to the Kubernetes library and are parameters.
\<close>

section \<open>Memory\<close>

type_synonym auth_p = "slice_ref auth_spec"
type_synonym health_p = "(addr option, slice_ref) health_check_spec"
type_synonym target_p = "(addr option, addr option) target_spec"
type_synonym public_spec_p =
  "(addr option, slice_ref, addr option, addr option, slice_ref, slice_ref) public_spec"
type_synonym private_spec_p = "slice_ref private_spec"

record TypeMeta =
  tm_Kind :: string
  tm_APIVersion :: string

record ('m, 's) api_object =
  ao_TypeMeta :: TypeMeta
  ao_ObjectMeta :: 'm
  ao_Spec :: 's

record ('l, 'items) api_list =
  al_TypeMeta :: TypeMeta
  al_ListMeta :: 'l
  al_Items :: 'items

type_synonym 'm private_object = "('m, private_spec_p) api_object"
type_synonym 'l private_list = "('l, slice_ref) api_list"

text \<open>What a cell can hold; \<open>LibraryCell\<close> is for what the library allocates for metadata.\<close>

datatype ('m, 'l, 'x) cell =
  BoolCell bool
| StringsCell "string list"
| HeadersCell "PublicHeaderSpec list"
| RulesCell "PublicRuleSpec list"
| TargetsCell "target_p list"
| HeaderCell PublicHeaderSpec
| RuleCell PublicRuleSpec
| MaintenanceCell PublicMaintenanceSpec
| AuthCell auth_p
| HealthCheckCell health_p
| TargetCell target_p
| PublicSpecCell public_spec_p
| PrivateSpecCell private_spec_p
| PublicCell "('m, public_spec_p) api_object"
| PrivateCell "'m private_object"
| PublicItemsCell "('m, public_spec_p) api_object list"
| PrivateItemsCell "'m private_object list"
| PublicListCell "('l, slice_ref) api_list"
| PrivateListCell "'l private_list"
| LibraryCell 'x

text \<open>Reading a cell of a given type; a pointer of Go's type system never reads another kind.\<close>

fun rd_bool :: "('m, 'l, 'x) cell option \<Rightarrow> bool" where
  "rd_bool (Some (BoolCell v)) = v"
| "rd_bool _ = undefined"

fun rd_strings :: "('m, 'l, 'x) cell option \<Rightarrow> string list" where
  "rd_strings (Some (StringsCell v)) = v"
| "rd_strings _ = undefined"

fun rd_headers :: "('m, 'l, 'x) cell option \<Rightarrow> PublicHeaderSpec list" where
  "rd_headers (Some (HeadersCell v)) = v"
| "rd_headers _ = undefined"

fun rd_rules :: "('m, 'l, 'x) cell option \<Rightarrow> PublicRuleSpec list" where
  "rd_rules (Some (RulesCell v)) = v"
| "rd_rules _ = undefined"

fun rd_targets :: "('m, 'l, 'x) cell option \<Rightarrow> target_p list" where
  "rd_targets (Some (TargetsCell v)) = v"
| "rd_targets _ = undefined"

fun rd_header :: "('m, 'l, 'x) cell option \<Rightarrow> PublicHeaderSpec" where
  "rd_header (Some (HeaderCell v)) = v"
| "rd_header _ = undefined"

fun rd_rule :: "('m, 'l, 'x) cell option \<Rightarrow> PublicRuleSpec" where
  "rd_rule (Some (RuleCell v)) = v"
| "rd_rule _ = undefined"

fun rd_maintenance :: "('m, 'l, 'x) cell option \<Rightarrow> PublicMaintenanceSpec" where
  "rd_maintenance (Some (MaintenanceCell v)) = v"
| "rd_maintenance _ = undefined"

fun rd_auth :: "('m, 'l, 'x) cell option \<Rightarrow> auth_p" where
  "rd_auth (Some (AuthCell v)) = v"
| "rd_auth _ = undefined"

fun rd_health :: "('m, 'l, 'x) cell option \<Rightarrow> health_p" where
  "rd_health (Some (HealthCheckCell v)) = v"
| "rd_health _ = undefined"

fun rd_target :: "('m, 'l, 'x) cell option \<Rightarrow> target_p" where
  "rd_target (Some (TargetCell v)) = v"
| "rd_target _ = undefined"

fun rd_public_spec :: "('m, 'l, 'x) cell option \<Rightarrow> public_spec_p" where
  "rd_public_spec (Some (PublicSpecCell v)) = v"
| "rd_public_spec _ = undefined"

fun rd_private_spec :: "('m, 'l, 'x) cell option \<Rightarrow> private_spec_p" where
  "rd_private_spec (Some (PrivateSpecCell v)) = v"
| "rd_private_spec _ = undefined"

fun rd_public :: "('m, 'l, 'x) cell option \<Rightarrow> ('m, public_spec_p) api_object" where
  "rd_public (Some (PublicCell v)) = v"
| "rd_public _ = undefined"

fun rd_private :: "('m, 'l, 'x) cell option \<Rightarrow> ('m, private_spec_p) api_object" where
  "rd_private (Some (PrivateCell v)) = v"
| "rd_private _ = undefined"

fun rd_public_items :: "('m, 'l, 'x) cell option \<Rightarrow> ('m, public_spec_p) api_object list" where
  "rd_public_items (Some (PublicItemsCell v)) = v"
| "rd_public_items _ = undefined"

fun rd_private_items :: "('m, 'l, 'x) cell option \<Rightarrow> ('m, private_spec_p) api_object list" where
  "rd_private_items (Some (PrivateItemsCell v)) = v"
| "rd_private_items _ = undefined"

fun rd_public_list :: "('m, 'l, 'x) cell option \<Rightarrow> ('l, slice_ref) api_list" where
  "rd_public_list (Some (PublicListCell v)) = v"
| "rd_public_list _ = undefined"

fun rd_private_list :: "('m, 'l, 'x) cell option \<Rightarrow> ('l, slice_ref) api_list" where
  "rd_private_list (Some (PrivateListCell v)) = v"
| "rd_private_list _ = undefined"

interpretation bool_kind: cell_kind BoolCell rd_bool
  by unfold_locales simp

interpretation strings_kind: cell_kind StringsCell rd_strings
  by unfold_locales simp

interpretation headers_kind: cell_kind HeadersCell rd_headers
  by unfold_locales simp

interpretation rules_kind: cell_kind RulesCell rd_rules
  by unfold_locales simp

interpretation targets_kind: cell_kind TargetsCell rd_targets
  by unfold_locales simp

interpretation header_kind: cell_kind HeaderCell rd_header
  by unfold_locales simp

interpretation rule_kind: cell_kind RuleCell rd_rule
  by unfold_locales simp

interpretation maintenance_kind: cell_kind MaintenanceCell rd_maintenance
  by unfold_locales simp

interpretation auth_kind: cell_kind AuthCell rd_auth
  by unfold_locales simp

interpretation health_kind: cell_kind HealthCheckCell rd_health
  by unfold_locales simp

interpretation target_kind: cell_kind TargetCell rd_target
  by unfold_locales simp

interpretation public_spec_kind: cell_kind PublicSpecCell rd_public_spec
  by unfold_locales simp

interpretation private_spec_kind: cell_kind PrivateSpecCell rd_private_spec
  by unfold_locales simp

interpretation public_kind: cell_kind PublicCell rd_public
  by unfold_locales simp

interpretation private_kind: cell_kind PrivateCell rd_private
  by unfold_locales simp

interpretation public_items_kind: cell_kind PublicItemsCell rd_public_items
  by unfold_locales simp

interpretation private_items_kind: cell_kind PrivateItemsCell rd_private_items
  by unfold_locales simp

interpretation public_list_kind: cell_kind PublicListCell rd_public_list
  by unfold_locales simp

interpretation private_list_kind: cell_kind PrivateListCell rd_private_list
  by unfold_locales simp

section \<open>Copying\<close>

text \<open>The fields: a copied pointer to a flag, and copied slices of strings, headers and rules.\<close>

abbreviation copy_flag :: "('m, 'l, 'x) cell heap \<Rightarrow> addr option \<Rightarrow> addr option \<times> ('m, 'l, 'x) cell heap" where
  "copy_flag \<equiv> copy_ptr BoolCell rd_bool copy_plain"

abbreviation copy_strings :: "('m, 'l, 'x) cell heap \<Rightarrow> slice_ref \<Rightarrow> slice_ref \<times> ('m, 'l, 'x) cell heap" where
  "copy_strings \<equiv> copy_slice StringsCell rd_strings copy_plain"

abbreviation copy_headers :: "('m, 'l, 'x) cell heap \<Rightarrow> slice_ref \<Rightarrow> slice_ref \<times> ('m, 'l, 'x) cell heap" where
  "copy_headers \<equiv> copy_slice HeadersCell rd_headers copy_plain"

abbreviation copy_rules :: "('m, 'l, 'x) cell heap \<Rightarrow> slice_ref \<Rightarrow> slice_ref \<times> ('m, 'l, 'x) cell heap" where
  "copy_rules \<equiv> copy_slice RulesCell rd_rules copy_plain"

definition PublicHeaderSpec_DeepCopyInto ::
  "('m, 'l, 'x) cell heap \<Rightarrow> PublicHeaderSpec \<Rightarrow> PublicHeaderSpec \<times> ('m, 'l, 'x) cell heap" where
  "PublicHeaderSpec_DeepCopyInto h x = (x, h)"

definition PublicRuleSpec_DeepCopyInto ::
  "('m, 'l, 'x) cell heap \<Rightarrow> PublicRuleSpec \<Rightarrow> PublicRuleSpec \<times> ('m, 'l, 'x) cell heap" where
  "PublicRuleSpec_DeepCopyInto h x = (x, h)"

definition PublicMaintenanceSpec_DeepCopyInto ::
  "('m, 'l, 'x) cell heap \<Rightarrow> PublicMaintenanceSpec \<Rightarrow> PublicMaintenanceSpec \<times> ('m, 'l, 'x) cell heap" where
  "PublicMaintenanceSpec_DeepCopyInto h x = (x, h)"

definition PublicAuthSpec_DeepCopyInto ::
  "('m, 'l, 'x) cell heap \<Rightarrow> auth_p \<Rightarrow> auth_p \<times> ('m, 'l, 'x) cell heap" where
  "PublicAuthSpec_DeepCopyInto h x =
     (let (roles, h) = copy_strings h (pas_SsoRoles x);
        (users, h) = copy_strings h (pas_SsoUsers x);
        (whitelist, h) = copy_strings h (pas_WhitelistUsers x)
      in (x\<lparr>pas_SsoRoles := roles, pas_SsoUsers := users, pas_WhitelistUsers := whitelist\<rparr>, h))"

definition PublicHealthCheckSpec_DeepCopyInto ::
  "('m, 'l, 'x) cell heap \<Rightarrow> health_p \<Rightarrow> health_p \<times> ('m, 'l, 'x) cell heap" where
  "PublicHealthCheckSpec_DeepCopyInto h x =
     (let (enabled, h) = copy_flag h (phc_Enabled x);
        (headers, h) = copy_headers h (phc_Headers x);
        (follow, h) = copy_flag h (phc_FollowRedirects x)
      in (x\<lparr>phc_Enabled := enabled, phc_Headers := headers, phc_FollowRedirects := follow\<rparr>, h))"

definition PublicTargetSpec_DeepCopyInto ::
  "('m, 'l, 'x) cell heap \<Rightarrow> target_p \<Rightarrow> target_p \<times> ('m, 'l, 'x) cell heap" where
  "PublicTargetSpec_DeepCopyInto h x =
     (let (enabled, h) = copy_flag h (pts_Enabled x);
        (check, h) = copy_ptr HealthCheckCell rd_health PublicHealthCheckSpec_DeepCopyInto h (pts_Healthcheck x)
      in (x\<lparr>pts_Enabled := enabled, pts_Healthcheck := check\<rparr>, h))"

definition PublicResourceSpec_DeepCopyInto ::
  "('m, 'l, 'x) cell heap \<Rightarrow> public_spec_p \<Rightarrow> public_spec_p \<times> ('m, 'l, 'x) cell heap" where
  "PublicResourceSpec_DeepCopyInto h x =
     (let (enabled, h) = copy_flag h (pub_Enabled x);
        (headers, h) = copy_headers h (pub_Headers x);
        (auth, h) = copy_ptr AuthCell rd_auth PublicAuthSpec_DeepCopyInto h (pub_Auth x);
        (maint, h) = copy_ptr MaintenanceCell rd_maintenance copy_plain h (pub_Maintenance x);
        (rules, h) = copy_rules h (pub_Rules x);
        (targets, h) = copy_slice TargetsCell rd_targets PublicTargetSpec_DeepCopyInto h (pub_Targets x)
      in (x\<lparr>pub_Enabled := enabled, pub_Headers := headers, pub_Auth := auth,
            pub_Maintenance := maint, pub_Rules := rules, pub_Targets := targets\<rparr>, h))"

definition PrivateResourceSpec_DeepCopyInto ::
  "('m, 'l, 'x) cell heap \<Rightarrow> private_spec_p \<Rightarrow> private_spec_p \<times> ('m, 'l, 'x) cell heap" where
  "PrivateResourceSpec_DeepCopyInto h x =
     (let (roles, h) = copy_strings h (pvs_Roles x);
        (users, h) = copy_strings h (pvs_Users x);
        (machines, h) = copy_strings h (pvs_Machines x)
      in (x\<lparr>pvs_Roles := roles, pvs_Users := users, pvs_Machines := machines\<rparr>, h))"

text \<open>The library's copies of metadata.\<close>

type_synonym ('m, 'l, 'x) meta_copy = "('m, 'l, 'x) cell heap \<Rightarrow> 'm \<Rightarrow> 'm \<times> ('m, 'l, 'x) cell heap"
type_synonym ('m, 'l, 'x) list_meta_copy = "('m, 'l, 'x) cell heap \<Rightarrow> 'l \<Rightarrow> 'l \<times> ('m, 'l, 'x) cell heap"

definition PublicResource_DeepCopyInto ::
  "('m, 'l, 'x) meta_copy \<Rightarrow> ('m, 'l, 'x) cell heap \<Rightarrow> ('m, public_spec_p) api_object \<Rightarrow>
    ('m, public_spec_p) api_object \<times> ('m, 'l, 'x) cell heap" where
  "PublicResource_DeepCopyInto ObjectMeta_DeepCopyInto h x =
     (let (meta, h) = ObjectMeta_DeepCopyInto h (ao_ObjectMeta x);
        (spec, h) = PublicResourceSpec_DeepCopyInto h (ao_Spec x)
      in (x\<lparr>ao_ObjectMeta := meta, ao_Spec := spec\<rparr>, h))"

definition PrivateResource_DeepCopyInto ::
  "('m, 'l, 'x) meta_copy \<Rightarrow> ('m, 'l, 'x) cell heap \<Rightarrow> 'm private_object \<Rightarrow>
    'm private_object \<times> ('m, 'l, 'x) cell heap" where
  "PrivateResource_DeepCopyInto ObjectMeta_DeepCopyInto h x =
     (let (meta, h) = ObjectMeta_DeepCopyInto h (ao_ObjectMeta x);
        (spec, h) = PrivateResourceSpec_DeepCopyInto h (ao_Spec x)
      in (x\<lparr>ao_ObjectMeta := meta, ao_Spec := spec\<rparr>, h))"

definition PublicResourceList_DeepCopyInto ::
  "('m, 'l, 'x) meta_copy \<Rightarrow> ('m, 'l, 'x) list_meta_copy \<Rightarrow> ('m, 'l, 'x) cell heap \<Rightarrow> ('l, slice_ref) api_list \<Rightarrow>
    ('l, slice_ref) api_list \<times> ('m, 'l, 'x) cell heap" where
  "PublicResourceList_DeepCopyInto ObjectMeta_DeepCopyInto ListMeta_DeepCopyInto h x =
     (let (meta, h) = ListMeta_DeepCopyInto h (al_ListMeta x);
        (items, h) = copy_slice PublicItemsCell rd_public_items
          (PublicResource_DeepCopyInto ObjectMeta_DeepCopyInto) h (al_Items x)
      in (x\<lparr>al_ListMeta := meta, al_Items := items\<rparr>, h))"

definition PrivateResourceList_DeepCopyInto ::
  "('m, 'l, 'x) meta_copy \<Rightarrow> ('m, 'l, 'x) list_meta_copy \<Rightarrow> ('m, 'l, 'x) cell heap \<Rightarrow> 'l private_list \<Rightarrow>
    'l private_list \<times> ('m, 'l, 'x) cell heap" where
  "PrivateResourceList_DeepCopyInto ObjectMeta_DeepCopyInto ListMeta_DeepCopyInto h x =
     (let (meta, h) = ListMeta_DeepCopyInto h (al_ListMeta x);
        (items, h) = copy_slice PrivateItemsCell rd_private_items
          (PrivateResource_DeepCopyInto ObjectMeta_DeepCopyInto) h (al_Items x)
      in (x\<lparr>al_ListMeta := meta, al_Items := items\<rparr>, h))"

text \<open>\<open>DeepCopy\<close> on pointers: nil for nil, otherwise \<open>new\<close> and \<open>DeepCopyInto\<close>.\<close>

definition PublicHeaderSpec_DeepCopy where
  "PublicHeaderSpec_DeepCopy = copy_ptr HeaderCell rd_header PublicHeaderSpec_DeepCopyInto"

definition PublicRuleSpec_DeepCopy where
  "PublicRuleSpec_DeepCopy = copy_ptr RuleCell rd_rule PublicRuleSpec_DeepCopyInto"

definition PublicMaintenanceSpec_DeepCopy where
  "PublicMaintenanceSpec_DeepCopy =
     copy_ptr MaintenanceCell rd_maintenance PublicMaintenanceSpec_DeepCopyInto"

definition PublicAuthSpec_DeepCopy where
  "PublicAuthSpec_DeepCopy = copy_ptr AuthCell rd_auth PublicAuthSpec_DeepCopyInto"

definition PublicHealthCheckSpec_DeepCopy where
  "PublicHealthCheckSpec_DeepCopy = copy_ptr HealthCheckCell rd_health PublicHealthCheckSpec_DeepCopyInto"

definition PublicTargetSpec_DeepCopy where
  "PublicTargetSpec_DeepCopy = copy_ptr TargetCell rd_target PublicTargetSpec_DeepCopyInto"

definition PublicResourceSpec_DeepCopy where
  "PublicResourceSpec_DeepCopy = copy_ptr PublicSpecCell rd_public_spec PublicResourceSpec_DeepCopyInto"

definition PrivateResourceSpec_DeepCopy where
  "PrivateResourceSpec_DeepCopy = copy_ptr PrivateSpecCell rd_private_spec PrivateResourceSpec_DeepCopyInto"

definition PublicResource_DeepCopy where
  "PublicResource_DeepCopy mc = copy_ptr PublicCell rd_public (PublicResource_DeepCopyInto mc)"

definition PrivateResource_DeepCopy where
  "PrivateResource_DeepCopy mc = copy_ptr PrivateCell rd_private (PrivateResource_DeepCopyInto mc)"

definition PublicResourceList_DeepCopy where
  "PublicResourceList_DeepCopy mc lc =
     copy_ptr PublicListCell rd_public_list (PublicResourceList_DeepCopyInto mc lc)"

definition PrivateResourceList_DeepCopy where
  "PrivateResourceList_DeepCopy mc lc =
     copy_ptr PrivateListCell rd_private_list (PrivateResourceList_DeepCopyInto mc lc)"

text \<open>\<open>DeepCopyObject\<close> wraps the pointer into an interface value, which is nil for nil.\<close>

datatype runtime_object =
  PublicObject addr | PrivateObject addr | PublicListObject addr | PrivateListObject addr

definition PublicResource_DeepCopyObject where
  "PublicResource_DeepCopyObject mc h p = apfst (map_option PublicObject) (PublicResource_DeepCopy mc h p)"

definition PrivateResource_DeepCopyObject where
  "PrivateResource_DeepCopyObject mc h p = apfst (map_option PrivateObject) (PrivateResource_DeepCopy mc h p)"

definition PublicResourceList_DeepCopyObject where
  "PublicResourceList_DeepCopyObject mc lc h p =
     apfst (map_option PublicListObject) (PublicResourceList_DeepCopy mc lc h p)"

definition PrivateResourceList_DeepCopyObject where
  "PrivateResourceList_DeepCopyObject mc lc h p =
     apfst (map_option PrivateListObject) (PrivateResourceList_DeepCopy mc lc h p)"

section \<open>The values in memory\<close>

abbreviation load_flag where "load_flag \<equiv> load_ptr rd_bool (\<lambda>h x. x)"
abbreviation load_strings where "load_strings \<equiv> load_slice rd_strings (\<lambda>h x. x)"
abbreviation load_headers where "load_headers \<equiv> load_slice rd_headers (\<lambda>h x. x)"
abbreviation load_rules where "load_rules \<equiv> load_slice rd_rules (\<lambda>h x. x)"
abbreviation reach_flag where "reach_flag \<equiv> reach_ptr rd_bool (\<lambda>h x. [])"
abbreviation reach_strings where "reach_strings \<equiv> reach_slice rd_strings (\<lambda>h x. [])"
abbreviation reach_headers where "reach_headers \<equiv> reach_slice rd_headers (\<lambda>h x. [])"
abbreviation reach_rules where "reach_rules \<equiv> reach_slice rd_rules (\<lambda>h x. [])"

definition load_auth :: "('m, 'l, 'x) cell heap \<Rightarrow> auth_p \<Rightarrow> PublicAuthSpec" where
  "load_auth h x =
     \<lparr>pas_SsoEnabled = pas_SsoEnabled x, pas_SsoRoles = load_strings h (pas_SsoRoles x),
      pas_SsoUsers = load_strings h (pas_SsoUsers x),
      pas_WhitelistUsers = load_strings h (pas_WhitelistUsers x),
      pas_AutoLoginIdp = pas_AutoLoginIdp x, pas_AuthSecretRef = pas_AuthSecretRef x\<rparr>"

definition reach_auth :: "('m, 'l, 'x) cell heap \<Rightarrow> auth_p \<Rightarrow> addr list" where
  "reach_auth h x =
     reach_strings h (pas_SsoRoles x) @ reach_strings h (pas_SsoUsers x) @
     reach_strings h (pas_WhitelistUsers x)"

definition load_health :: "('m, 'l, 'x) cell heap \<Rightarrow> health_p \<Rightarrow> PublicHealthCheckSpec" where
  "load_health h x =
     \<lparr>phc_Hostname = phc_Hostname x, phc_Port = phc_Port x, phc_Enabled = load_flag h (phc_Enabled x),
      phc_Path = phc_Path x, phc_Scheme = phc_Scheme x, phc_Mode = phc_Mode x,
      phc_Interval = phc_Interval x, phc_UnhealthyInterval = phc_UnhealthyInterval x,
      phc_Timeout = phc_Timeout x, phc_Headers = load_headers h (phc_Headers x),
      phc_FollowRedirects = load_flag h (phc_FollowRedirects x), phc_Method = phc_Method x,
      phc_Status = phc_Status x\<rparr>"

definition reach_health :: "('m, 'l, 'x) cell heap \<Rightarrow> health_p \<Rightarrow> addr list" where
  "reach_health h x =
     reach_flag h (phc_Enabled x) @ reach_headers h (phc_Headers x) @ reach_flag h (phc_FollowRedirects x)"

definition load_target :: "('m, 'l, 'x) cell heap \<Rightarrow> target_p \<Rightarrow> PublicTargetSpec" where
  "load_target h x =
     \<lparr>pts_Hostname = pts_Hostname x, pts_Port = pts_Port x, pts_Method = pts_Method x,
      pts_Enabled = load_flag h (pts_Enabled x), pts_InternalPort = pts_InternalPort x,
      pts_Path = pts_Path x, pts_PathMatch = pts_PathMatch x, pts_RewritePath = pts_RewritePath x,
      pts_RewriteMatch = pts_RewriteMatch x, pts_Priority = pts_Priority x,
      pts_Healthcheck = load_ptr rd_health load_health h (pts_Healthcheck x)\<rparr>"

definition reach_target :: "('m, 'l, 'x) cell heap \<Rightarrow> target_p \<Rightarrow> addr list" where
  "reach_target h x =
     reach_flag h (pts_Enabled x) @ reach_ptr rd_health reach_health h (pts_Healthcheck x)"

definition load_public_spec :: "('m, 'l, 'x) cell heap \<Rightarrow> public_spec_p \<Rightarrow> PublicResourceSpec" where
  "load_public_spec h x =
     \<lparr>pub_Name = pub_Name x, pub_Protocol = pub_Protocol x, pub_FullDomain = pub_FullDomain x,
      pub_ProxyPort = pub_ProxyPort x, pub_Enabled = load_flag h (pub_Enabled x), pub_Ssl = pub_Ssl x,
      pub_HostHeader = pub_HostHeader x, pub_TlsServerName = pub_TlsServerName x,
      pub_Headers = load_headers h (pub_Headers x), pub_Auth = load_ptr rd_auth load_auth h (pub_Auth x),
      pub_Maintenance = load_ptr rd_maintenance (\<lambda>h x. x) h (pub_Maintenance x),
      pub_Rules = load_rules h (pub_Rules x), pub_Targets = load_slice rd_targets load_target h (pub_Targets x)\<rparr>"

definition reach_public_spec :: "('m, 'l, 'x) cell heap \<Rightarrow> public_spec_p \<Rightarrow> addr list" where
  "reach_public_spec h x =
     reach_flag h (pub_Enabled x) @ reach_headers h (pub_Headers x) @
     reach_ptr rd_auth reach_auth h (pub_Auth x) @
     reach_ptr rd_maintenance (\<lambda>h x. []) h (pub_Maintenance x) @
     reach_rules h (pub_Rules x) @ reach_slice rd_targets reach_target h (pub_Targets x)"

definition load_private_spec :: "('m, 'l, 'x) cell heap \<Rightarrow> private_spec_p \<Rightarrow> PrivateResourceSpec" where
  "load_private_spec h x =
     \<lparr>pvs_Name = pvs_Name x, pvs_Mode = pvs_Mode x, pvs_Destination = pvs_Destination x,
      pvs_TcpPorts = pvs_TcpPorts x, pvs_UdpPorts = pvs_UdpPorts x, pvs_DisableIcmp = pvs_DisableIcmp x,
      pvs_Alias = pvs_Alias x, pvs_Roles = load_strings h (pvs_Roles x),
      pvs_Users = load_strings h (pvs_Users x), pvs_Machines = load_strings h (pvs_Machines x)\<rparr>"

definition reach_private_spec :: "('m, 'l, 'x) cell heap \<Rightarrow> private_spec_p \<Rightarrow> addr list" where
  "reach_private_spec h x =
     reach_strings h (pvs_Roles x) @ reach_strings h (pvs_Users x) @ reach_strings h (pvs_Machines x)"

text \<open>Objects and lists; \<open>ml\<close>, \<open>mr\<close> (and \<open>ll\<close>, \<open>lr\<close>) load and reach the metadata.\<close>

definition load_object :: "('h \<Rightarrow> 'm \<Rightarrow> 'mv) \<Rightarrow> ('h \<Rightarrow> 's \<Rightarrow> 'sv) \<Rightarrow> 'h \<Rightarrow> ('m, 's) api_object \<Rightarrow> ('mv, 'sv) api_object" where
  "load_object ml sl h x =
     \<lparr>ao_TypeMeta = ao_TypeMeta x, ao_ObjectMeta = ml h (ao_ObjectMeta x), ao_Spec = sl h (ao_Spec x)\<rparr>"

definition reach_object :: "('h \<Rightarrow> 'm \<Rightarrow> addr list) \<Rightarrow> ('h \<Rightarrow> 's \<Rightarrow> addr list) \<Rightarrow> 'h \<Rightarrow> ('m, 's) api_object \<Rightarrow> addr list" where
  "reach_object mr sr h x = mr h (ao_ObjectMeta x) @ sr h (ao_Spec x)"

definition load_list :: "('h \<Rightarrow> 'l \<Rightarrow> 'lv) \<Rightarrow> ('h \<Rightarrow> 'i \<Rightarrow> 'iv) \<Rightarrow> 'h \<Rightarrow> ('l, 'i) api_list \<Rightarrow> ('lv, 'iv) api_list" where
  "load_list ll il h x =
     \<lparr>al_TypeMeta = al_TypeMeta x, al_ListMeta = ll h (al_ListMeta x), al_Items = il h (al_Items x)\<rparr>"

definition reach_list :: "('h \<Rightarrow> 'l \<Rightarrow> addr list) \<Rightarrow> ('h \<Rightarrow> 'i \<Rightarrow> addr list) \<Rightarrow> 'h \<Rightarrow> ('l, 'i) api_list \<Rightarrow> addr list" where
  "reach_list lr ir h x = lr h (al_ListMeta x) @ ir h (al_Items x)"

section \<open>Every function copies deeply\<close>

lemmas flag_copier = deep_copier_ptr [OF deep_copier_plain bool_kind.cell_kind_axioms]
  and strings_copier = deep_copier_slice [OF deep_copier_plain strings_kind.cell_kind_axioms]
  and headers_copier = deep_copier_slice [OF deep_copier_plain headers_kind.cell_kind_axioms]
  and rules_copier = deep_copier_slice [OF deep_copier_plain rules_kind.cell_kind_axioms]
  and maintenance_copier = deep_copier_ptr [OF deep_copier_plain maintenance_kind.cell_kind_axioms]

lemmas into_simps = copy_pair_def Let_def split_def apfst_def map_prod_def

lemma auth_copier: "deep_copier PublicAuthSpec_DeepCopyInto load_auth reach_auth"
  using deep_copier_struct [OF deep_copier_pair [OF strings_copier deep_copier_pair [OF strings_copier strings_copier]],
    where copy = "PublicAuthSpec_DeepCopyInto"
      and get = "\<lambda>x. (pas_SsoRoles x, pas_SsoUsers x, pas_WhitelistUsers x)"
      and put = "\<lambda>x (a, b, c). x\<lparr>pas_SsoRoles := a, pas_SsoUsers := b, pas_WhitelistUsers := c\<rparr>"
      and build = "\<lambda>x (a, b, c). \<lparr>pas_SsoEnabled = pas_SsoEnabled x, pas_SsoRoles = a, pas_SsoUsers = b, pas_WhitelistUsers = c, pas_AutoLoginIdp = pas_AutoLoginIdp x, pas_AuthSecretRef = pas_AuthSecretRef x\<rparr>"]
  by (simp add: PublicAuthSpec_DeepCopyInto_def into_simps load_auth_def [abs_def] reach_auth_def [abs_def])

lemma health_copier: "deep_copier PublicHealthCheckSpec_DeepCopyInto load_health reach_health"
  using deep_copier_struct [OF deep_copier_pair [OF flag_copier deep_copier_pair [OF headers_copier flag_copier]],
    where copy = "PublicHealthCheckSpec_DeepCopyInto"
      and get = "\<lambda>x. (phc_Enabled x, phc_Headers x, phc_FollowRedirects x)"
      and put = "\<lambda>x (a, b, c). x\<lparr>phc_Enabled := a, phc_Headers := b, phc_FollowRedirects := c\<rparr>"
      and build = "\<lambda>x (a, b, c). \<lparr>phc_Hostname = phc_Hostname x, phc_Port = phc_Port x, phc_Enabled = a, phc_Path = phc_Path x, phc_Scheme = phc_Scheme x, phc_Mode = phc_Mode x, phc_Interval = phc_Interval x, phc_UnhealthyInterval = phc_UnhealthyInterval x, phc_Timeout = phc_Timeout x, phc_Headers = b, phc_FollowRedirects = c, phc_Method = phc_Method x, phc_Status = phc_Status x\<rparr>"]
  by (simp add: PublicHealthCheckSpec_DeepCopyInto_def into_simps load_health_def [abs_def] reach_health_def [abs_def])

lemmas health_ptr_copier = deep_copier_ptr [OF health_copier health_kind.cell_kind_axioms]
  and auth_ptr_copier = deep_copier_ptr [OF auth_copier auth_kind.cell_kind_axioms]

lemma target_copier: "deep_copier PublicTargetSpec_DeepCopyInto load_target reach_target"
  using deep_copier_struct [OF deep_copier_pair [OF flag_copier health_ptr_copier],
    where copy = "PublicTargetSpec_DeepCopyInto"
      and get = "\<lambda>x. (pts_Enabled x, pts_Healthcheck x)"
      and put = "\<lambda>x (a, b). x\<lparr>pts_Enabled := a, pts_Healthcheck := b\<rparr>"
      and build = "\<lambda>x (a, b). \<lparr>pts_Hostname = pts_Hostname x, pts_Port = pts_Port x, pts_Method = pts_Method x, pts_Enabled = a, pts_InternalPort = pts_InternalPort x, pts_Path = pts_Path x, pts_PathMatch = pts_PathMatch x, pts_RewritePath = pts_RewritePath x, pts_RewriteMatch = pts_RewriteMatch x, pts_Priority = pts_Priority x, pts_Healthcheck = b\<rparr>"]
  by (simp add: PublicTargetSpec_DeepCopyInto_def into_simps load_target_def [abs_def] reach_target_def [abs_def])

lemmas targets_copier = deep_copier_slice [OF target_copier targets_kind.cell_kind_axioms]

lemma public_spec_copier: "deep_copier PublicResourceSpec_DeepCopyInto load_public_spec reach_public_spec"
  using deep_copier_struct [OF deep_copier_pair [OF flag_copier deep_copier_pair [OF headers_copier deep_copier_pair [OF auth_ptr_copier deep_copier_pair [OF maintenance_copier deep_copier_pair [OF rules_copier targets_copier]]]]],
    where copy = "PublicResourceSpec_DeepCopyInto"
      and get = "\<lambda>x. (pub_Enabled x, pub_Headers x, pub_Auth x, pub_Maintenance x, pub_Rules x, pub_Targets x)"
      and put = "\<lambda>x (a, b, c, d, e, f). x\<lparr>pub_Enabled := a, pub_Headers := b, pub_Auth := c, pub_Maintenance := d, pub_Rules := e, pub_Targets := f\<rparr>"
      and build = "\<lambda>x (a, b, c, d, e, f). \<lparr>pub_Name = pub_Name x, pub_Protocol = pub_Protocol x, pub_FullDomain = pub_FullDomain x, pub_ProxyPort = pub_ProxyPort x, pub_Enabled = a, pub_Ssl = pub_Ssl x, pub_HostHeader = pub_HostHeader x, pub_TlsServerName = pub_TlsServerName x, pub_Headers = b, pub_Auth = c, pub_Maintenance = d, pub_Rules = e, pub_Targets = f\<rparr>"]
  by (simp add: PublicResourceSpec_DeepCopyInto_def into_simps load_public_spec_def [abs_def] reach_public_spec_def [abs_def])

lemma private_spec_copier: "deep_copier PrivateResourceSpec_DeepCopyInto load_private_spec reach_private_spec"
  using deep_copier_struct [OF deep_copier_pair [OF strings_copier deep_copier_pair [OF strings_copier strings_copier]],
    where copy = "PrivateResourceSpec_DeepCopyInto"
      and get = "\<lambda>x. (pvs_Roles x, pvs_Users x, pvs_Machines x)"
      and put = "\<lambda>x (a, b, c). x\<lparr>pvs_Roles := a, pvs_Users := b, pvs_Machines := c\<rparr>"
      and build = "\<lambda>x (a, b, c). \<lparr>pvs_Name = pvs_Name x, pvs_Mode = pvs_Mode x, pvs_Destination = pvs_Destination x, pvs_TcpPorts = pvs_TcpPorts x, pvs_UdpPorts = pvs_UdpPorts x, pvs_DisableIcmp = pvs_DisableIcmp x, pvs_Alias = pvs_Alias x, pvs_Roles = a, pvs_Users = b, pvs_Machines = c\<rparr>"]
  by (simp add: PrivateResourceSpec_DeepCopyInto_def into_simps load_private_spec_def [abs_def] reach_private_spec_def [abs_def])

lemma public_copier:
  assumes "deep_copier mc ml mr"
  shows "deep_copier (PublicResource_DeepCopyInto mc) (load_object ml load_public_spec) (reach_object mr reach_public_spec)"
  using deep_copier_struct [OF deep_copier_pair [OF assms public_spec_copier],
    where copy = "(PublicResource_DeepCopyInto mc)"
      and get = "\<lambda>x. (ao_ObjectMeta x, ao_Spec x)"
      and put = "\<lambda>x (a, b). x\<lparr>ao_ObjectMeta := a, ao_Spec := b\<rparr>"
      and build = "\<lambda>x (a, b). \<lparr>ao_TypeMeta = ao_TypeMeta x, ao_ObjectMeta = a, ao_Spec = b\<rparr>"]
  by (simp add: PublicResource_DeepCopyInto_def into_simps load_object_def [abs_def] reach_object_def [abs_def])

lemmas public_items_copier = deep_copier_slice [OF public_copier public_items_kind.cell_kind_axioms]

lemma public_list_copier:
  assumes "deep_copier mc ml mr" and "deep_copier lc ll lr"
  shows "deep_copier (PublicResourceList_DeepCopyInto mc lc) (load_list ll (load_slice rd_public_items (load_object ml load_public_spec))) 
    (reach_list lr (reach_slice rd_public_items (reach_object mr reach_public_spec)))"
  using deep_copier_struct [OF deep_copier_pair [OF assms(2) public_items_copier [OF assms(1)]],
    where copy = "(PublicResourceList_DeepCopyInto mc lc)"
      and get = "\<lambda>x. (al_ListMeta x, al_Items x)"
      and put = "\<lambda>x (a, b). x\<lparr>al_ListMeta := a, al_Items := b\<rparr>"
      and build = "\<lambda>x (a, b). \<lparr>al_TypeMeta = al_TypeMeta x, al_ListMeta = a, al_Items = b\<rparr>"]
  by (simp add: PublicResourceList_DeepCopyInto_def into_simps load_list_def [abs_def] reach_list_def [abs_def])

lemma private_copier:
  assumes "deep_copier mc ml mr"
  shows "deep_copier (PrivateResource_DeepCopyInto mc) (load_object ml load_private_spec) (reach_object mr reach_private_spec)"
  using deep_copier_struct [OF deep_copier_pair [OF assms private_spec_copier],
    where copy = "(PrivateResource_DeepCopyInto mc)"
      and get = "\<lambda>x. (ao_ObjectMeta x, ao_Spec x)"
      and put = "\<lambda>x (a, b). x\<lparr>ao_ObjectMeta := a, ao_Spec := b\<rparr>"
      and build = "\<lambda>x (a, b). \<lparr>ao_TypeMeta = ao_TypeMeta x, ao_ObjectMeta = a, ao_Spec = b\<rparr>"]
  by (simp add: PrivateResource_DeepCopyInto_def into_simps load_object_def [abs_def] reach_object_def [abs_def])

lemmas private_items_copier = deep_copier_slice [OF private_copier private_items_kind.cell_kind_axioms]

lemma private_list_copier:
  assumes "deep_copier mc ml mr" and "deep_copier lc ll lr"
  shows "deep_copier (PrivateResourceList_DeepCopyInto mc lc) (load_list ll (load_slice rd_private_items (load_object ml load_private_spec))) 
    (reach_list lr (reach_slice rd_private_items (reach_object mr reach_private_spec)))"
  using deep_copier_struct [OF deep_copier_pair [OF assms(2) private_items_copier [OF assms(1)]],
    where copy = "(PrivateResourceList_DeepCopyInto mc lc)"
      and get = "\<lambda>x. (al_ListMeta x, al_Items x)"
      and put = "\<lambda>x (a, b). x\<lparr>al_ListMeta := a, al_Items := b\<rparr>"
      and build = "\<lambda>x (a, b). \<lparr>al_TypeMeta = al_TypeMeta x, al_ListMeta = a, al_Items = b\<rparr>"]
  by (simp add: PrivateResourceList_DeepCopyInto_def into_simps load_list_def [abs_def] reach_list_def [abs_def])

text \<open>The contract holds for the functions on spec structs as they are.\<close>

interpretation auth_copy: deep_copier PublicAuthSpec_DeepCopyInto load_auth reach_auth
  by (rule auth_copier)

interpretation health_copy: deep_copier PublicHealthCheckSpec_DeepCopyInto load_health reach_health
  by (rule health_copier)

interpretation target_copy: deep_copier PublicTargetSpec_DeepCopyInto load_target reach_target
  by (rule target_copier)

interpretation public_spec_copy: deep_copier PublicResourceSpec_DeepCopyInto load_public_spec reach_public_spec
  by (rule public_spec_copier)

interpretation private_spec_copy: deep_copier PrivateResourceSpec_DeepCopyInto load_private_spec reach_private_spec
  by (rule private_spec_copier)

text \<open>And for the functions on pointers.\<close>

lemma plain_into:
  "PublicHeaderSpec_DeepCopyInto = copy_plain" "PublicRuleSpec_DeepCopyInto = copy_plain"
  "PublicMaintenanceSpec_DeepCopyInto = copy_plain"
  by (simp_all add: fun_eq_iff copy_plain_def PublicHeaderSpec_DeepCopyInto_def
      PublicRuleSpec_DeepCopyInto_def PublicMaintenanceSpec_DeepCopyInto_def)

lemma spec_pointer_copiers:
  "deep_copier PublicHeaderSpec_DeepCopy (load_ptr rd_header (\<lambda>h x. x)) (reach_ptr rd_header (\<lambda>h x. []))"
  "deep_copier PublicRuleSpec_DeepCopy (load_ptr rd_rule (\<lambda>h x. x)) (reach_ptr rd_rule (\<lambda>h x. []))"
  "deep_copier PublicMaintenanceSpec_DeepCopy (load_ptr rd_maintenance (\<lambda>h x. x)) (reach_ptr rd_maintenance (\<lambda>h x. []))"
  "deep_copier PublicAuthSpec_DeepCopy (load_ptr rd_auth load_auth) (reach_ptr rd_auth reach_auth)"
  "deep_copier PublicHealthCheckSpec_DeepCopy (load_ptr rd_health load_health) (reach_ptr rd_health reach_health)"
  "deep_copier PublicTargetSpec_DeepCopy (load_ptr rd_target load_target) (reach_ptr rd_target reach_target)"
  "deep_copier PublicResourceSpec_DeepCopy (load_ptr rd_public_spec load_public_spec) (reach_ptr rd_public_spec reach_public_spec)"
  "deep_copier PrivateResourceSpec_DeepCopy (load_ptr rd_private_spec load_private_spec) (reach_ptr rd_private_spec reach_private_spec)"
  unfolding PublicHeaderSpec_DeepCopy_def PublicRuleSpec_DeepCopy_def PublicMaintenanceSpec_DeepCopy_def
    PublicAuthSpec_DeepCopy_def PublicHealthCheckSpec_DeepCopy_def PublicTargetSpec_DeepCopy_def
    PublicResourceSpec_DeepCopy_def PrivateResourceSpec_DeepCopy_def plain_into
  by (intro deep_copier_ptr deep_copier_plain auth_copier health_copier target_copier public_spec_copier
      private_spec_copier cell_kind.intro; simp)+

section \<open>Lists of objects\<close>

text \<open>
  A deep copy seen from outside: it stands for the same value, and no later write through the copy
  can be seen through the original, nor the other way round.
\<close>

definition copies_deeply ::
  "('c heap \<Rightarrow> 'a \<Rightarrow> 'a \<times> 'c heap) \<Rightarrow> ('c heap \<Rightarrow> 'a \<Rightarrow> 'v) \<Rightarrow> ('c heap \<Rightarrow> 'a \<Rightarrow> addr list) \<Rightarrow> 'c heap \<Rightarrow> 'a \<Rightarrow> bool" where
  "copies_deeply copy load reach h x \<longleftrightarrow>
     (let (x', h') = copy h x
      in load h' x' = load h x \<and> load h' x = load h x \<and>
         (\<forall>c. \<forall>a \<in> set (reach h' x'). load (h'[a := c]) x = load h x) \<and>
         (\<forall>c. \<forall>a \<in> set (reach h' x). load (h'[a := c]) x' = load h x))"

lemma deep_copier_copies:
  assumes c: "deep_copier copy load reach" and live: "live h (reach h x)"
  shows "copies_deeply copy load reach h x"
  using deep_copier.copy_load [OF c live] deep_copier.original_after_copy [OF c live]
    deep_copier.independent [OF c live]
  by (simp add: copies_deeply_def split_def Let_def)

definition load_public_lists where
  "load_public_lists ml ll = load_ptr rd_public_list (load_list ll (load_slice rd_public_items (load_object ml load_public_spec)))"

definition reach_public_lists where
  "reach_public_lists mr lr = reach_ptr rd_public_list (reach_list lr (reach_slice rd_public_items (reach_object mr reach_public_spec)))"

definition load_private_lists where
  "load_private_lists ml ll = load_ptr rd_private_list (load_list ll (load_slice rd_private_items (load_object ml load_private_spec)))"

definition reach_private_lists where
  "reach_private_lists mr lr = reach_ptr rd_private_list (reach_list lr (reach_slice rd_private_items (reach_object mr reach_private_spec)))"

lemmas list_pointer_copiers =
  deep_copier_ptr [OF public_list_copier public_list_kind.cell_kind_axioms,
    folded PublicResourceList_DeepCopy_def load_public_lists_def reach_public_lists_def]
  deep_copier_ptr [OF private_list_copier private_list_kind.cell_kind_axioms,
    folded PrivateResourceList_DeepCopy_def load_private_lists_def reach_private_lists_def]

text \<open>A list with one object that has an auth block with two roles and one target with a flag.\<close>

definition example_heap :: "(string, string, unit) cell heap" where
  "example_heap =
     [BoolCell True,
      StringsCell [''member'', ''guest'', ''Admin''],
      AuthCell \<lparr>pas_SsoEnabled = True, pas_SsoRoles = SliceAt 1 0 2, pas_SsoUsers = NilSlice,
        pas_WhitelistUsers = NilSlice, pas_AutoLoginIdp = 0, pas_AuthSecretRef = []\<rparr>,
      TargetsCell
        [\<lparr>pts_Hostname = ''web'', pts_Port = 80, pts_Method = ''http'', pts_Enabled = Some 0,
          pts_InternalPort = 0, pts_Path = [], pts_PathMatch = [], pts_RewritePath = [],
          pts_RewriteMatch = [], pts_Priority = 0, pts_Healthcheck = None\<rparr>],
      PublicItemsCell
        [\<lparr>ao_TypeMeta = \<lparr>tm_Kind = ''PublicResource'', tm_APIVersion = ''v1alpha1''\<rparr>, ao_ObjectMeta = ''web'',
          ao_Spec = \<lparr>pub_Name = ''web'', pub_Protocol = ''http'', pub_FullDomain = ''web.org'',
            pub_ProxyPort = 0, pub_Enabled = Some 0, pub_Ssl = True, pub_HostHeader = [],
            pub_TlsServerName = [], pub_Headers = NilSlice, pub_Auth = Some 2, pub_Maintenance = None,
            pub_Rules = NilSlice, pub_Targets = SliceAt 3 0 1\<rparr>\<rparr>],
      PublicListCell \<lparr>al_TypeMeta = \<lparr>tm_Kind = ''PublicResourceList'', tm_APIVersion = ''v1alpha1''\<rparr>,
        al_ListMeta = ''7'', al_Items = SliceAt 4 0 1\<rparr>]"

text \<open>
  C10. The generated copies of resource lists are deep, down to the last pointer of the last target:
  provided the library copies metadata deeply, the copy of a list stands for the same value, and
  neither writing to any cell reachable from the copy changes the original nor the other way
  round. Nil is copied to nil.
\<close>

theorem lists_copied_deeply:
  assumes "deep_copier mc ml mr" and "deep_copier lc ll lr"
    and "live h (reach_public_lists mr lr h p)" and "live h (reach_private_lists mr lr h q)"
  shows "copies_deeply (PublicResourceList_DeepCopy mc lc) (load_public_lists ml ll) (reach_public_lists mr lr) h p \<and>
    copies_deeply (PrivateResourceList_DeepCopy mc lc) (load_private_lists ml ll) (reach_private_lists mr lr) h q \<and>
    fst (PublicResourceList_DeepCopyObject mc lc h None) = None \<and>
    fst (PrivateResourceList_DeepCopyObject mc lc h None) = None"
  using deep_copier_copies [OF list_pointer_copiers(1) [OF assms(1,2)] assms(3)]
    deep_copier_copies [OF list_pointer_copiers(2) [OF assms(1,2)] assms(4)]
  by (simp add: PublicResourceList_DeepCopyObject_def PublicResourceList_DeepCopy_def
      PrivateResourceList_DeepCopyObject_def PrivateResourceList_DeepCopy_def copy_ptr_def)

theorem lists_copied_deeply_witness:
  "live example_heap (reach_public_lists (\<lambda>h x. []) (\<lambda>h x. []) example_heap (Some 5)) \<and>
   copies_deeply (PublicResourceList_DeepCopy copy_plain copy_plain)
     (load_public_lists (\<lambda>h x. x) (\<lambda>h x. x)) (reach_public_lists (\<lambda>h x. []) (\<lambda>h x. [])) example_heap (Some 5)"
proof -
  have live: "live example_heap (reach_public_lists (\<lambda>h x. []) (\<lambda>h x. []) example_heap (Some 5))"
    by (simp add: reach_public_lists_def reach_ptr_def reach_slice_def reach_list_def reach_object_def
        reach_public_spec_def reach_auth_def reach_target_def window_def fetch_def example_heap_def)
  have "live example_heap (reach_private_lists (\<lambda>h x. []) (\<lambda>h x. []) example_heap None)"
    by (simp add: reach_private_lists_def reach_ptr_def)
  from lists_copied_deeply [OF deep_copier_plain deep_copier_plain live this] live show ?thesis by simp
qed

end
