(* ===== verification/Spec2Isabelle.thy ===== *)
theory Spec2Isabelle
  imports Health Interleaving Program DeepCopy
begin

text \<open>
  \<^bold>\<open>newt-sidecar: a verification of the blueprint sidecar\<close>

  \<^bold>\<open>The program.\<close> The sidecar watches a Kubernetes cluster and keeps a YAML file, the blueprint, in
  line with it. HTTPRoutes and Services are watched by informer controllers
  (\<open>internal/controller/controller.go\<close>) that turn objects into blueprint entries through a resource
  definition (\<open>internal/resources\<close>, \<open>internal/resources/httproute\<close>, \<open>internal/resources/service\<close>) and
  the builders of \<open>internal/blueprint/blueprint.go\<close>. The custom resources PublicResource and
  PrivateResource (\<open>api/v1alpha1\<close>) are reconciled by
  \<open>internal/controller/publicresource\<close> and \<open>internal/controller/privateresource\<close>. All of them share
  the state manager (\<open>internal/state/manager.go\<close>), which holds the entries and writes the file;
  \<open>internal/health/health.go\<close> serves its health. \<open>internal/config/config.go\<close> and \<open>cmd/root.go\<close>
  load the configuration and start everything.

  \<^bold>\<open>The theories, in the order of their imports.\<close>
  \<^item> \<open>Prelude\<close>: Go slices (nil and empty kept apart, as \<open>reflect.DeepEqual\<close> does), Go maps, the order
    of a range loop over a map as an argument, and the lemmas on overwriting loops.
  \<^item> \<open>GoStrings\<close>, \<open>GoJson\<close>, \<open>GoNet\<close>: the functions of the Go library that the program calls, as
    executable definitions: trimming, splitting, \<open>Itoa\<close> and \<open>Atoi\<close> at 64 bits with their round
    trip; \<open>json.Unmarshal\<close> into the three struct types the program decodes; \<open>net.ParseCIDR\<close>.
  \<^item> \<open>Config\<close>, \<open>Flags\<close>: the configuration, its defaults and validation; the \<open>flag\<close> package and
    \<open>config.Load\<close>. Shown: command line over environment over defaults,
    for each setting in its own field.
  \<^item> \<open>Blueprint\<close>: the blueprint structs as records and every builder of \<open>blueprint.go\<close>. Shown: the
    exact rules of a resource, the ranges of annotation values, that SSO is opt-in per resource,
    that secrets come from the Secret only, the round trip of
    comma-separated settings, when keys collide, and that two documented health check members are
    ignored.
  \<^item> \<open>StateManager\<close>: the manager as a record, its methods as functions on the manager and a world in
    which each system call can fail; the locale \<open>resource_store\<close> is the contract the controllers
    rely on, interpreted for the public and for the private entries. Shown: refinement of a pair of
    maps under every behaviour of the system, and that no torn file is ever visible. Its lemmas say that
    writing operations leave the file current or the failure recorded and that unchanged entries
    cause no write.
  \<^item> \<open>Health\<close>: the endpoints; the locale \<open>write_health\<close>, interpreted by the manager. Shown: readiness
    is lost in a quiet cluster.
  \<^item> \<open>Resources\<close>, \<open>HTTPRouteResource\<close>, \<open>ServiceResource\<close>: objects, definitions, the handler and the two
    definitions; the locale \<open>resource_handler\<close> is the handler interface, interpreted for both. Port
    numbers are 32-bit words as in the Kubernetes API. Shown: which objects are taken, which entries
    they get, which port of a Service is exposed and when two ports share a key.
  \<^item> \<open>Controller\<close>: the informer controller. Shown: the exact effect of processing an object in every
    loop order, that a run of events implements the view of the cluster when keys do not collide,
    that resyncs are silent, that a Secret that cannot be read or holds an unusable pincode leaves a
    route open, and that a shared key is lost when one of its owners goes.
  \<^item> \<open>ApiTypes\<close>, \<open>PublicReconciler\<close>, \<open>PrivateReconciler\<close>: the custom resource types, conversions,
    validation and reconcilers; the locale \<open>crd_reconciler\<close> extends \<open>resource_store\<close> and is
    interpreted for both reconcilers. The spec structs take the representation of their pointers and
    slices as type parameters. Shown: level-triggered refinement, idempotence, which specs are
    refused, that a public spec can be read back from its entry, when it has no auth block, safety of
    private entries.
  \<^item> \<open>GoHeap\<close>, \<open>DeepCopy\<close>: a heap with pointers and slices; the locale \<open>deep_copier\<close> is the contract of
    a deep copy, kept by pairs, structs, lists, pointers and slices of deep copiers; the functions of
    \<open>api/v1alpha1/zz_generated.deepcopy.go\<close>, for which it is interpreted. Shown: a copied list stands
    for the same value and shares no memory with the original.
  \<^item> \<open>Interleaving\<close>: the goroutines. Each controller is a thread with a place in its handler's loops
    (\<open>pc\<close>) and in \<open>Run\<close>; a labelled step relation interleaves any number of them with the reconcilers,
    one manager call at a time. Undisturbed, a thread does what the handler of \<open>Controller\<close> does.
    Shown: independence of components with different keys, steady state, that every handler ends
    within a bound in every interleaving, the start-up race.
  \<^item> \<open>Startup\<close>: initialisation and \<open>main\<close> up to the point where everything runs. Shown: a started
    sidecar is fit to run.
  \<^item> \<open>Program\<close>: the running program at the level of whole actions, with its abstract specification:
    who (by namespace and name) asks for which public and private entries.
  \<^item> this theory: the whole program. Shown: every entry is fit for the site; without key collisions
    the entries are exactly what the cluster asks for; the file is current once all controllers are
    synced; the controllers' records keep their shape.

  \<^bold>\<open>Conventions.\<close> Records carry the field names of the structs behind a prefix. Pointers are options.
  Go's \<open>int\<close> is \<^typ>\<open>int\<close>, with the 64-bit range written out where a number is parsed. Errors are
  values of \<open>option\<close> or sum types. Maps that are ranged over are association lists with distinct keys,
  and the order of each range loop is an argument; theorems hold for every order that visits each
  key once. Loops are structural recursions or functions with a termination measure; no fuel is used.

  \<^bold>\<open>Parameters.\<close> The YAML package (\<open>marshal\<close>), the environment reader, the conversion from unstructured
  objects, Kubernetes clients and the libraries called by \<open>main\<close> are arguments of the definitions;
  nothing is assumed of them except where a theorem says so.

  \<^bold>\<open>Not modelled.\<close> Log output; contexts and cancellation; the listening socket and HTTP server; the
  informer machinery, work queues, metrics server, scheme and certificate rotation of the Kubernetes
  libraries, apart from what they are given and what they answer; the schema checks of the API server.
  Of the source files only imports, comments, kubebuilder markers and struct tags are left: they
  direct code generators and have no behaviour of their own. Manifests, build files and tests hold no
  program logic.
\<close>


section \<open>The whole program\<close>

text \<open>
  C1. The blueprint is always fit for the site. From the start of the program on, whatever the
  cluster contains, in whatever order handlers and reconciliations run and whatever the operating
  system does, every public entry has a target list with every target on the configured site
  (which is not empty), and every private entry is on that site, never grants the role Admin and
  in CIDR mode has a destination that parses.
\<close>

theorem blueprint_always_ok:
  assumes "main conv e = Starts p"
  shows "cfg_SiteID (sc_cfg p) \<noteq> [] \<and>
    blueprint_ok (cfg_SiteID (sc_cfg p)) (snd (run_sidecar marshal p w acts))"
  using main_Starts(1) [OF assms] run_sidecar_ok [OF assms, of marshal w acts]
  by (simp add: Validate_None sidecar_ok_def)

text \<open>A sidecar for Services that starts, and what it runs with.\<close>

lemma example_starts:
  obtains p where "main (\<lambda>t u. Inr (ServiceObj u)) example_start = Starts p"
    "sc_cfg p = default_config\<lparr>cfg_SiteID := ''home'', cfg_AutoService := True\<rparr>" "\<not> sc_crds p"
    "sc_controllers p = [New (service_Definition (\<lambda>t u. Inr (ServiceObj u))) (sc_cfg p)]"
    "sc_manager p = NewManager ''/etc/newt/blueprint.yaml''"
proof -
  obtain p where p: "main (\<lambda>t u. Inr (ServiceObj u)) example_start = Starts p"
    "sc_cfg p = default_config\<lparr>cfg_SiteID := ''home'', cfg_AutoService := True\<rparr>"
    by (simp add: main_def example_start_def Load_def newConfig_def classify_arg_def split_value_def
        all_flags_def config_flags_def ParseBool_def Validate_def default_config_def main_start_def
        getKubeConfig_def crdInstalled_def Let_def list_all_iff)
  moreover have "\<not> sc_crds p"
    by (simp add: main_Starts(5) [OF p(1)] crdInstalled_def example_start_def)
  moreover have "sc_controllers p = [New (service_Definition (\<lambda>t u. Inr (ServiceObj u))) (sc_cfg p)]"
    by (simp add: main_Starts(2) [OF p(1)] main_controllers_def p(2) default_config_def)
  moreover have "sc_manager p = NewManager ''/etc/newt/blueprint.yaml''"
    by (simp add: main_Starts(3) [OF p(1)] p(2) default_config_def)
  ultimately show thesis by (rule that)
qed

theorem blueprint_always_ok_witness:
  "\<exists>p. main (\<lambda>t u. Inr (ServiceObj u)) example_start = Starts p \<and>
     blueprint_ok ''home'' (snd (run_sidecar (\<lambda>bp. Inr ''y'') p calm_world
       [InformerEvent 0 (example_env, Added (AnUnstructured example_service))]))"
proof -
  obtain p where p: "main (\<lambda>t u. Inr (ServiceObj u)) example_start = Starts p"
    "sc_cfg p = default_config\<lparr>cfg_SiteID := ''home'', cfg_AutoService := True\<rparr>"
    by (rule example_starts)
  from blueprint_always_ok [OF p(1)] p show ?thesis by (intro exI [of _ p]) simp
qed

text \<open>
  C2. The program implements what the cluster asks for. Start the program and let it perform any
  sequence of actions without collisions: no two owners ever claim the same public key, and no
  custom resource is reconciled whose name is a key held by another owner, be it a route, a Service
  or an equally named resource of another namespace. Owners are routes and Services by controller,
  namespace and name, and custom resources by namespace and name; each asks for the entries it had
  when it was last seen (a custom resource that cannot be read or whose spec is refused for the
  entry it had before). Then the public and the private entries are exactly those the owners ask for,
  in every order of the actions and under every behaviour of the operating system.
\<close>

theorem sidecar_tracks_cluster:
  assumes "main conv e = Starts p" and "list_all good_action acts"
    and "no_collisions p acts Map.empty Map.empty"
  shows "let V = fold (abs_act p) acts Map.empty; P = fold (abs_private p) acts Map.empty;
      m = fst (snd (run_sidecar marshal p w acts)) in
    (\<forall>k r. mgr_resources m k = Some r \<longleftrightarrow> (\<exists>who es. V who = Some es \<and> map_of es k = Some r)) \<and>
    (\<forall>k r. mgr_privateResources m k = Some r \<longleftrightarrow> (\<exists>ns. P (ns, k) = Some r))"
proof -
  let ?ps = "(sc_controllers p, (sc_manager p, w))"
  have init: "private_in_line Map.empty (mgr_privateResources (fst (snd ?ps)))"
    by (simp add: private_in_line_def main_Starts(3) [OF assms(1)] NewManager_def)
  from acts_in_line [OF assms(2,3) main_in_line [OF assms(1)], of marshal] acts_private [OF assms(3) init, of marshal]
  show ?thesis by (simp add: in_line_def private_in_line_def represents_def run_sidecar_def Let_def)
qed

text \<open>The same sidecar in a cluster where the custom resources are installed.\<close>

definition example_crd_start :: "unit StartEnv" where
  "example_crd_start = example_start\<lparr>st_ServerResourcesForGroupVersion := (\<lambda>_. None)\<rparr>"

theorem sidecar_tracks_cluster_witness:
  "\<exists>p. main (\<lambda>t u. Inr (ServiceObj u)) example_crd_start = Starts p \<and>
     (let m = fst (snd (run_sidecar (\<lambda>bp. Inr ''y'') p calm_world
       [RunController 0 example_env,
        PublicRequest example_public_client \<lparr>req_Namespace = ''a'', req_Name = ''app''\<rparr>,
        PrivateRequest (\<lambda>_. Found example_private_spec) \<lparr>req_Namespace = ''b'', req_Name = ''app''\<rparr>,
        InformerEvent 0 (example_env, Added (AnUnstructured example_service))]))
      in mgr_resources m ''app'' = Some (buildResource example_public_spec None ''home'') \<and>
        mgr_resources m ''games-mc-25565-tcp'' \<noteq> None \<and> mgr_resources m ''other'' = None \<and>
        mgr_privateResources m ''app'' = Some (private_resource example_private_spec ''home''))"
proof -
  let ?conv = "\<lambda>t u. Inr (ServiceObj u)" and ?cfg = "default_config\<lparr>cfg_SiteID := ''home'', cfg_AutoService := True\<rparr>"
  let ?req = "\<lparr>req_Namespace = ''a'', req_Name = ''app''\<rparr>"
  define es where "es = contribution (service_Definition ?conv) ?cfg example_env (ServiceObj example_service)"
  let ?preq = "\<lparr>req_Namespace = ''b'', req_Name = ''app''\<rparr>" and ?get = "\<lambda>_. Found example_private_spec"
  let ?acts = "[RunController 0 example_env, PublicRequest example_public_client ?req, PrivateRequest ?get ?preq,
    InformerEvent 0 (example_env, Added (AnUnstructured example_service))]"
  obtain p where p: "main ?conv example_crd_start = Starts p" "sc_cfg p = ?cfg"
    by (simp add: main_def example_crd_start_def example_start_def Load_def newConfig_def classify_arg_def
        split_value_def all_flags_def config_flags_def ParseBool_def Validate_def default_config_def
        main_start_def getKubeConfig_def crdInstalled_def private_SetupWithManager_def
        public_SetupWithManager_def Let_def list_all_iff)
  have crds: "sc_crds p"
    by (simp add: main_Starts(5) [OF p(1)] crdInstalled_def example_crd_start_def)
  have specs: "specs_of p = [(service_Definition ?conv, ?cfg)]"
    by (simp add: specs_of_def main_Starts(2) [OF p(1)] main_controllers_def p(2)) (simp add: default_config_def)
  have keys: "keys es = [''games-mc-25565-tcp'', ''games-mc-25565-udp'']" unfolding es_def by code_simp
  then have es: "non_empty_entries es = Some es" by (auto simp: non_empty_entries_def)
  have ev: "event_effect (service_Definition ?conv) ?cfg (example_env, Added (AnUnstructured example_service)) =
      Some (''games/mc'', es)"
    by (simp add: service_Definition_def CreateConvertFunc_def object_key_def example_service_def es_def)
  let ?r = "buildResource example_public_spec None ''home''"
  have want: "public_want ''home'' example_public_client ?req = Wanted ?r"
    by (simp add: public_want_def example_public_client_def public_validate_def example_public_spec_def
        public_resolveAuthSecret_def)
  have good: "list_all good_action ?acts" by (simp add: good_env_def example_env_good)
  have ok: "private_validate example_private_spec = None" by code_simp
  let ?V1 = "[CustomResource ''a'' ''app'' \<mapsto> [(''app'', ?r)]]"
  let ?P = "[(''b'', ''app'') \<mapsto> private_resource example_private_spec ''home'']"
  let ?V2 = "?V1(ObjectOf 0 ''games/mc'' \<mapsto> es)"
  have step: "abs_act p (PublicRequest example_public_client ?req) Map.empty = ?V1"
    "abs_act p (InformerEvent 0 (example_env, Added (AnUnstructured example_service))) ?V1 = ?V2"
    by (simp_all add: specs ev p(2) want crds es custom_def del: event_effect.simps)
  have pstep: "abs_private p (PrivateRequest ?get ?preq) Map.empty = ?P"
    by (simp add: crds p(2) private_want_def ok)
  have sep: "no_collisions p ?acts Map.empty Map.empty"
    using separated_two [of "[(''app'', ?r)]" es "CustomResource ''a'' ''app''" "ObjectOf 0 ''games/mc''"]
    by (simp add: step pstep keys separated_one view_keys_def custom_def del: abs_act.simps(1,2) abs_private.simps(1))
  have V: "fold (abs_act p) ?acts Map.empty = [CustomResource ''a'' ''app'' \<mapsto> [(''app'', ?r)], ObjectOf 0 ''games/mc'' \<mapsto> es]"
    by (simp add: step del: abs_act.simps(1,2))
  have P: "fold (abs_private p) ?acts Map.empty = ?P"
    by (simp add: pstep del: abs_private.simps(1))
  have other: "map_of es k = None" if "k \<notin> {''games-mc-25565-tcp'', ''games-mc-25565-udp''}" for k
    using that map_of_in_keys [of k es] by (simp add: keys)
  obtain r' where tcp: "map_of es ''games-mc-25565-tcp'' = Some r'"
    using map_of_in_keys [of "''games-mc-25565-tcp''" es] by (auto simp: keys)
  define m where "m = fst (snd (run_sidecar (\<lambda>bp. Inr ''y'') p calm_world ?acts))"
  have m: "mgr_resources m k = Some r \<longleftrightarrow> k = ''app'' \<and> r = ?r \<or> map_of es k = Some r" for k r
    using sidecar_tracks_cluster [OF p(1) good sep, of "\<lambda>bp. Inr ''y''" calm_world]
    unfolding V P Let_def m_def by (auto split: if_splits)
  have priv: "mgr_privateResources m ''app'' = Some (private_resource example_private_spec ''home'')"
    using sidecar_tracks_cluster [OF p(1) good sep, of "\<lambda>bp. Inr ''y''" calm_world]
    unfolding V P Let_def m_def by auto
  have "mgr_resources m ''app'' = Some ?r" "mgr_resources m ''games-mc-25565-tcp'' = Some r'"
    "mgr_resources m ''other'' = None"
    using m tcp other [of "''other''"] by (auto intro: option.exhaust [of "mgr_resources m ''other''"])
  with p(1) priv show ?thesis unfolding Let_def m_def by (intro exI [of _ p]) simp
qed

text \<open>
  C3. The file is current. Take actions as wholes (a handler that straddles the sync of its
  controller is the subject of the start-up race). In every run in which each controller has passed
  its cache sync, at the end the file holds the YAML text of the entries in memory, or the last
  write failed and the failure is recorded; this covers everything that happened before and between
  the syncs, and every later event and reconciliation.
\<close>

theorem sidecar_file_current:
  assumes "main conv e = Starts p" and "list_all (uses_yaml marshal) acts"
    and "\<forall>i < length (sc_controllers p). Some i \<in> runs ` set acts"
  shows "let (m, w') = snd (run_sidecar marshal p w acts) in
    mgr_lastWriteErr m \<noteq> None \<or> map_option Inr (w_files w' (mgr_outputFile m)) = Some (marshal (blueprint_of m))"
  using run_settled [OF assms, of w]
  by (auto simp: settled_def in_sync_def write_failed_def Let_def split: sum.splits prod.splits)

theorem sidecar_file_current_witness:
  "\<exists>p. main (\<lambda>t u. Inr (ServiceObj u)) example_start = Starts p \<and>
     (let (m, w') = snd (run_sidecar (\<lambda>bp. Inr ''y'') p calm_world
        [InformerEvent 0 (example_env, Added (AnUnstructured example_service)), RunController 0 example_env])
      in mgr_lastWriteErr m \<noteq> None \<or> map_option Inr (w_files w' (mgr_outputFile m)) = Some (Inr ''y'' :: string + string))"
proof -
  obtain p where p: "main (\<lambda>t u. Inr (ServiceObj u)) example_start = Starts p"
    "sc_controllers p = [New (service_Definition (\<lambda>t u. Inr (ServiceObj u))) (sc_cfg p)]"
    by (rule example_starts)
  let ?acts = "[InformerEvent 0 (example_env, Added (AnUnstructured example_service)), RunController 0 example_env]"
  have 1: "list_all (uses_yaml (\<lambda>bp. Inr ''y'')) ?acts" by (simp add: example_env_def)
  have 2: "\<forall>i < length (sc_controllers p). Some i \<in> runs ` set ?acts" by (simp add: p(2))
  from sidecar_file_current [OF p(1) 1 2, of calm_world] p(1) show ?thesis by blast
qed

text \<open>
  C12. The controllers' records keep their shape: in every run of the program there are as many
  controllers as at the start, each keeps the loaded configuration, and the keys it records for an
  object are at least one and pairwise different, so that no loop over them works on a key twice.
\<close>

theorem controllers_well_formed:
  assumes "main conv e = Starts p" and "list_all good_action acts"
  shows "let cs = fst (run_sidecar marshal p w acts) in
    length cs = length (sc_controllers p) \<and>
    list_all (\<lambda>c. ctl_cfg c = sc_cfg p \<and> wf_keys c) cs"
  using run_wf_keys [OF assms, of marshal w] run_sidecar_ok [OF assms(1), of marshal w acts]
  by (auto simp: sidecar_ok_def known_controller_def list_all_iff run_sidecar_def acts_length Let_def)

theorem controllers_well_formed_witness:
  "\<exists>p. main (\<lambda>t u. Inr (ServiceObj u)) example_start = Starts p \<and>
     list_all wf_keys (fst (run_sidecar (\<lambda>bp. Inr ''y'') p calm_world
       [RunController 0 example_env, InformerEvent 0 (example_env, Added (AnUnstructured example_service))]))"
proof -
  obtain p where p: "main (\<lambda>t u. Inr (ServiceObj u)) example_start = Starts p"
    by (rule example_starts)
  let ?acts = "[RunController 0 example_env, InformerEvent 0 (example_env, Added (AnUnstructured example_service))]"
  have "list_all good_action ?acts" by (simp add: good_env_def example_env_good)
  from controllers_well_formed [OF p this] p show ?thesis by (auto simp: Let_def list_all_iff)
qed

end
